(* ===== verification/Julius_Prelude.thy ===== *)
theory Julius_Prelude
  imports Main "HOL-Library.Multiset"
begin

text \<open>
  The part of Python and of the pygame event interface that every component of Julius OS
  uses, and the lemmas the component theories share.

  \<^item> Exceptions are values of \<open>py_error\<close>; a method that may raise returns
    \<open>py_error + 'a\<close> (\<open>Inl\<close> for the exception).
  \<^item> Python integers are \<open>int\<close>; list indexing, \<open>pop\<close>, \<open>remove\<close> and slicing follow
    Python: negative indices count from the end, an index out of range raises, a slice
    is clamped.
  \<^item> Strings are \<open>string\<close>; a character is one of the 256 code points of Latin-1.
  \<^item> A pygame event is a value of \<open>event\<close>; keys are symbolic.
\<close>

named_theorems py_simps
named_theorems nav_simps

subsection \<open>Exceptions\<close>

datatype py_error =
    IndexError | KeyError | ValueError | NameError | AttributeError
  | ZeroDivisionError | TypeError | OverflowError | OSError string

type_synonym 'a res = "py_error + 'a"

definition res_bind :: "'a res \<Rightarrow> ('a \<Rightarrow> 'b res) \<Rightarrow> 'b res" where
  "res_bind m f = (case m of Inl e \<Rightarrow> Inl e | Inr x \<Rightarrow> f x)"

definition is_ok :: "'a res \<Rightarrow> bool" where
  "is_ok m = (case m of Inl _ \<Rightarrow> False | Inr _ \<Rightarrow> True)"

subsection \<open>Lists\<close>

definition py_index :: "nat \<Rightarrow> int \<Rightarrow> nat option" where
  "py_index n i =
     (let j = (if i < 0 then int n + i else i)
      in if 0 \<le> j \<and> j < int n then Some (nat j) else None)"

definition py_get :: "'a list \<Rightarrow> int \<Rightarrow> 'a res" where
  "py_get xs i = (case py_index (length xs) i of None \<Rightarrow> Inl IndexError | Some k \<Rightarrow> Inr (xs ! k))"

definition py_set :: "'a list \<Rightarrow> int \<Rightarrow> 'a \<Rightarrow> 'a list res" where
  "py_set xs i v =
     (case py_index (length xs) i of None \<Rightarrow> Inl IndexError | Some k \<Rightarrow> Inr (xs[k := v]))"

definition del_nth :: "'a list \<Rightarrow> nat \<Rightarrow> 'a list" where
  "del_nth xs k = take k xs @ drop (Suc k) xs"

definition py_pop :: "'a list \<Rightarrow> int \<Rightarrow> 'a list res" where
  "py_pop xs i =
     (case py_index (length xs) i of None \<Rightarrow> Inl IndexError | Some k \<Rightarrow> Inr (del_nth xs k))"

definition py_remove :: "'a list \<Rightarrow> 'a \<Rightarrow> 'a list res" where
  "py_remove xs x = (if x \<in> set xs then Inr (remove1 x xs) else Inl ValueError)"

definition py_insert :: "'a list \<Rightarrow> nat \<Rightarrow> 'a \<Rightarrow> 'a list" where
  "py_insert xs k x = take k xs @ x # drop k xs"

text \<open>The slice \<open>xs[a:b]\<close>.\<close>

definition py_clamp :: "nat \<Rightarrow> int \<Rightarrow> nat" where
  "py_clamp n i = nat (if i < 0 then max 0 (int n + i) else min (int n) i)"

definition py_slice :: "'a list \<Rightarrow> int \<Rightarrow> int \<Rightarrow> 'a list" where
  "py_slice xs a b =
     take (py_clamp (length xs) b - py_clamp (length xs) a) (drop (py_clamp (length xs) a) xs)"

text \<open>The slice \<open>xs[-n:]\<close> for a positive \<open>n\<close>.\<close>

definition last_n :: "nat \<Rightarrow> 'a list \<Rightarrow> 'a list" where
  "last_n n xs = drop (length xs - n) xs"

text \<open>\<open>enumerate(xs)\<close>.\<close>

definition enum :: "'a list \<Rightarrow> (nat \<times> 'a) list" where
  "enum xs = zip [0..<length xs] xs"

subsection \<open>Strings\<close>

definition py_lower_char :: "char \<Rightarrow> char" where
  "py_lower_char c =
     (let n = (of_char c :: nat)
      in if (65 \<le> n \<and> n \<le> 90) \<or> (192 \<le> n \<and> n \<le> 222 \<and> n \<noteq> 215) then char_of (n + 32) else c)"

definition py_lower :: "string \<Rightarrow> string" where
  "py_lower s = map py_lower_char s"

text \<open>\<open>str.upper\<close> on a text of ASCII characters.\<close>

definition py_upper_ascii :: "string \<Rightarrow> string" where
  "py_upper_ascii s = map (\<lambda>c. if 97 \<le> (of_char c :: nat) \<and> (of_char c :: nat) \<le> 122 then char_of ((of_char c :: nat) - 32) else c) s"

definition py_isprintable_char :: "char \<Rightarrow> bool" where
  "py_isprintable_char c =
     (let n = (of_char c :: nat) in (32 \<le> n \<and> n \<le> 126) \<or> (161 \<le> n \<and> n \<noteq> 173))"

definition py_isprintable :: "string \<Rightarrow> bool" where
  "py_isprintable s = list_all py_isprintable_char s"

definition py_isspace_char :: "char \<Rightarrow> bool" where
  "py_isspace_char c =
     (let n = (of_char c :: nat) in (9 \<le> n \<and> n \<le> 13) \<or> (28 \<le> n \<and> n \<le> 32) \<or> n = 133 \<or> n = 160)"

definition py_lstrip :: "string \<Rightarrow> string" where
  "py_lstrip s = dropWhile py_isspace_char s"

definition py_strip :: "string \<Rightarrow> string" where
  "py_strip s = rev (py_lstrip (rev (py_lstrip s)))"

text \<open>\<open>needle in hay\<close> on strings.\<close>

fun py_prefix :: "'a list \<Rightarrow> 'a list \<Rightarrow> bool" where
  "py_prefix [] ys = True"
| "py_prefix (x # xs) [] = False"
| "py_prefix (x # xs) (y # ys) = (x = y \<and> py_prefix xs ys)"

fun py_in :: "'a list \<Rightarrow> 'a list \<Rightarrow> bool" where
  "py_in xs [] = (xs = [])"
| "py_in xs (y # ys) = (py_prefix xs (y # ys) \<or> py_in xs ys)"

text \<open>\<open>s.split(sep)\<close> for a one-character separator: never empty.\<close>

fun py_split :: "'a \<Rightarrow> 'a list \<Rightarrow> 'a list list" where
  "py_split sep [] = [[]]"
| "py_split sep (c # cs) =
     (if c = sep then [] # py_split sep cs
      else (case py_split sep cs of [] \<Rightarrow> [[c]] | w # ws \<Rightarrow> (c # w) # ws))"

text \<open>\<open>s.split(sep)\<close> for a longer separator.\<close>

function py_split_on :: "string \<Rightarrow> string \<Rightarrow> string list" where
  "py_split_on sep [] = [[]]"
| "py_split_on sep (c # cs) =
     (if sep \<noteq> [] \<and> py_prefix sep (c # cs) then [] # py_split_on sep (drop (length sep - 1) cs)
      else (case py_split_on sep cs of [] \<Rightarrow> [[c]] | w # ws \<Rightarrow> (c # w) # ws))"
  by pat_completeness auto

termination py_split_on
  by (relation "measure (\<lambda>(_, s). length s)") auto

text \<open>\<open>str.split()\<close>: the words between white space.\<close>

fun py_words_acc :: "string \<Rightarrow> string \<Rightarrow> string list" where
  "py_words_acc w [] = (if w = [] then [] else [w])"
| "py_words_acc w (c # cs) =
     (if py_isspace_char c then (if w = [] then [] else [w]) @ py_words_acc [] cs else py_words_acc (w @ [c]) cs)"

definition py_words :: "string \<Rightarrow> string list" where
  "py_words s = py_words_acc [] s"

text \<open>\<open>sep.join(ws)\<close> for a one-character separator.\<close>

fun py_join :: "'a \<Rightarrow> 'a list list \<Rightarrow> 'a list" where
  "py_join sep [] = []"
| "py_join sep [w] = w"
| "py_join sep (w # ws) = w @ sep # py_join sep ws"

text \<open>
  Reading a text file: \<open>open(path)\<close> turns \<open>\r\n\<close> and \<open>\r\<close> into \<open>\n\<close>; iterating over the file
  gives its lines with their line ends.
\<close>

abbreviation newline_char :: char where
  "newline_char \<equiv> CHR 0x0A"

abbreviation cr_char :: char where
  "cr_char \<equiv> CHR 0x0D"

fun universal_newlines :: "string \<Rightarrow> string" where
  "universal_newlines [] = []"
| "universal_newlines [c] = [if c = cr_char then newline_char else c]"
| "universal_newlines (c # d # ds) =
     (if c = cr_char then newline_char # (if d = newline_char then universal_newlines ds else universal_newlines (d # ds))
      else c # universal_newlines (d # ds))"

fun py_lines_acc :: "string \<Rightarrow> string \<Rightarrow> string list" where
  "py_lines_acc acc [] = (if acc = [] then [] else [acc])"
| "py_lines_acc acc (c # cs) =
     (if c = newline_char then (acc @ [c]) # py_lines_acc [] cs else py_lines_acc (acc @ [c]) cs)"

definition file_lines :: "string \<Rightarrow> string list" where
  "file_lines content = py_lines_acc [] (universal_newlines content)"

subsection \<open>Screen geometry\<close>

type_synonym pos = "int \<times> int"
type_synonym rect = "int \<times> int \<times> int \<times> int"

text \<open>The inclusive test the system panels write out: \<open>rx<=x<=rx+rw and ry<=y<=ry+rh\<close>.\<close>

fun in_rect :: "rect \<Rightarrow> pos \<Rightarrow> bool" where
  "in_rect (rx, ry, rw, rh) (x, y) = (rx \<le> x \<and> x \<le> rx + rw \<and> ry \<le> y \<and> y \<le> ry + rh)"

text \<open>\<open>pygame.Rect(x, y, w, h).collidepoint(pos)\<close>: the right and bottom edges are outside.\<close>

fun collidepoint :: "rect \<Rightarrow> pos \<Rightarrow> bool" where
  "collidepoint (rx, ry, rw, rh) (x, y) = (rx \<le> x \<and> x < rx + rw \<and> ry \<le> y \<and> y < ry + rh)"

subsection \<open>Events\<close>

datatype key =
    K_ESCAPE | K_RETURN | K_BACKSPACE | K_UP | K_DOWN | K_LEFT | K_RIGHT
  | K_letter char | K_other nat

abbreviation "K_a \<equiv> K_letter CHR ''a''"
abbreviation "K_c \<equiv> K_letter CHR ''c''"
abbreviation "K_d \<equiv> K_letter CHR ''d''"
abbreviation "K_e \<equiv> K_letter CHR ''e''"
abbreviation "K_f \<equiv> K_letter CHR ''f''"
abbreviation "K_h \<equiv> K_letter CHR ''h''"
abbreviation "K_k \<equiv> K_letter CHR ''k''"
abbreviation "K_l \<equiv> K_letter CHR ''l''"
abbreviation "K_m \<equiv> K_letter CHR ''m''"
abbreviation "K_n \<equiv> K_letter CHR ''n''"
abbreviation "K_p \<equiv> K_letter CHR ''p''"
abbreviation "K_r \<equiv> K_letter CHR ''r''"
abbreviation "K_s \<equiv> K_letter CHR ''s''"
abbreviation "K_t \<equiv> K_letter CHR ''t''"
abbreviation "K_u \<equiv> K_letter CHR ''u''"
abbreviation "K_v \<equiv> K_letter CHR ''v''"
abbreviation "K_x \<equiv> K_letter CHR ''x''"
abbreviation "K_1 \<equiv> K_letter CHR ''1''"
abbreviation "K_2 \<equiv> K_letter CHR ''2''"

text \<open>
  \<open>KeyDown key unicode ctrl\<close>: the key, \<open>event.unicode\<close>, and whether
  \<open>pygame.key.get_mods() & KMOD_CTRL\<close> holds. \<open>MouseMotion pos pressed\<close>: the position and
  \<open>pygame.mouse.get_pressed()[0]\<close>.
\<close>

datatype event =
    Quit
  | MouseDown pos
  | MouseUp pos
  | MouseMotion pos bool
  | MouseWheel int
  | KeyDown key string bool

subsection \<open>What a screen shows\<close>

text \<open>
  The drawing calls of the application screens: \<open>screen.fill\<close>, a rendered text with its
  position, a line, a filled rectangle, a circle and \<open>pygame.display.flip\<close>. Colours are the module
  constants of the source.
\<close>

datatype colour = BG | TEXT | ACCENT | GREEN | DIM | RED | YELLOW | CURSOR | FOLDER | RGB int int int

datatype draw_cmd =
    Fill colour
  | DText string colour pos
  | DLine colour pos pos
  | DRect colour rect
  | DCircle colour pos int
  | Flip

text \<open>The heading every application screen starts with.\<close>

definition app_header :: "string \<Rightarrow> draw_cmd list" where
  "app_header t = [Fill BG, DText t ACCENT (8, 8), DLine ACCENT (0, 24) (240, 24)]"

text \<open>The hint line and the flip every application screen ends with.\<close>

definition app_footer :: "string \<Rightarrow> draw_cmd list" where
  "app_footer h = [DText h DIM (8, 228), Flip]"

text \<open>The highlight of the selected row.\<close>

definition highlight :: "int \<Rightarrow> int \<Rightarrow> draw_cmd" where
  "highlight y h = DRect (RGB 20 40 70) (4, y - 1, 232, h)"

definition is_highlight :: "draw_cmd \<Rightarrow> bool" where
  "is_highlight c = (case c of DRect col _ \<Rightarrow> col = RGB 20 40 70 | _ \<Rightarrow> False)"

text \<open>The texts a list of drawing calls shows.\<close>

definition texts :: "draw_cmd list \<Rightarrow> string list" where
  "texts cs = List.map_filter (\<lambda>c. case c of DText t _ _ \<Rightarrow> Some t | _ \<Rightarrow> None) cs"

text \<open>
  Rows: entry \<open>i\<close> of the window \<open>xs[scroll:scroll+win]\<close> is drawn by \<open>f idx y x\<close> with its
  index \<open>idx = i + scroll\<close> in the whole list and its vertical position \<open>y = y0 + i*dy\<close>.
\<close>

definition draw_rows ::
    "int \<Rightarrow> int \<Rightarrow> int \<Rightarrow> int \<Rightarrow> (int \<Rightarrow> int \<Rightarrow> 'a \<Rightarrow> draw_cmd list) \<Rightarrow> 'a list \<Rightarrow> draw_cmd list" where
  "draw_rows scroll win y0 dy f xs =
     concat (map (\<lambda>(i, x). f (int i + scroll) (y0 + int i * dy) x)
                 (enum (py_slice xs scroll (scroll + win))))"

text \<open>
  \<open>screen.blit(name, pos)\<close> with a local or global name: \<open>scope\<close> lists the rendered texts bound at
  that point, and a name that is not bound raises \<open>NameError\<close>.
\<close>

definition blit_name :: "(string \<times> string \<times> colour) list \<Rightarrow> string \<Rightarrow> pos \<Rightarrow> draw_cmd list res" where
  "blit_name scope x p = (case map_of scope x of None \<Rightarrow> Inl NameError | Some (t, col) \<Rightarrow> Inr [DText t col p])"

text \<open>The rounded rectangle the larger applications draw with their method \<open>rr\<close>.\<close>

definition rr :: "colour \<Rightarrow> rect \<Rightarrow> int \<Rightarrow> draw_cmd list" where
  "rr col rct radius =
     (case rct of (x, y, w, h) \<Rightarrow>
        (let r = min (min radius (w div 2)) (h div 2)
         in [DRect col (x + r, y, w - 2 * r, h), DRect col (x, y + r, w, h - 2 * r)]
            @ map (\<lambda>c. DCircle col c r) [(x + r, y + r), (x + w - r, y + r), (x + r, y + h - r), (x + w - r, y + h - r)]))"

text \<open>The sizes of rendered texts, for the drawing code that centres them: a value of the fonts.\<close>

record text_sizes =
  sz_big :: "string \<Rightarrow> int"
  sz_med :: "string \<Rightarrow> int"
  sz_font :: "string \<Rightarrow> int"
  sz_height :: "string \<Rightarrow> int"

text \<open>\<open>str(n)\<close> for an integer.\<close>

fun py_digits :: "nat \<Rightarrow> string" where
  "py_digits n = (if n < 10 then [char_of (48 + n)] else py_digits (n div 10) @ [char_of (48 + n mod 10)])"

declare py_digits.simps [simp del]

definition py_str_int :: "int \<Rightarrow> string" where
  "py_str_int i = (if i < 0 then CHR ''-'' # py_digits (nat (- i)) else py_digits (nat i))"

text \<open>Running a handler over a list of events; the first exception stops the run.\<close>

fun run_events :: "('s \<Rightarrow> 'e \<Rightarrow> 's res) \<Rightarrow> 's \<Rightarrow> 'e list \<Rightarrow> 's res" where
  "run_events step s [] = Inr s"
| "run_events step s (e # es) = res_bind (step s e) (\<lambda>s'. run_events step s' es)"

text \<open>The events of typing a text on keys that no screen gives a meaning of their own.\<close>

definition type_text :: "string \<Rightarrow> event list" where
  "type_text t = map (\<lambda>c. KeyDown (K_other 0) [c] False) t"

definition press :: "key \<Rightarrow> event" where
  "press k = KeyDown k [] False"

subsection \<open>The list cursor\<close>

text \<open>
  The cursor code that the list screens share: a selected row and the first row of a
  window of \<open>win\<close> rows over \<open>n\<close> entries.
\<close>

definition nav_down :: "int \<Rightarrow> int \<Rightarrow> int \<times> int \<Rightarrow> int \<times> int" where
  "nav_down win n c =
     (let sel = fst c; scr = snd c;
          sel' = (if sel < n - 1 then sel + 1 else sel);
          scr' = (if sel' \<ge> scr + win then scr + 1 else scr)
      in (sel', scr'))"

definition nav_up :: "int \<times> int \<Rightarrow> int \<times> int" where
  "nav_up c =
     (let sel = fst c; scr = snd c;
          sel' = (if sel > 0 then sel - 1 else sel);
          scr' = (if sel' < scr then scr - 1 else scr)
      in (sel', scr'))"

definition sel_ok :: "int \<Rightarrow> int \<Rightarrow> bool" where
  "sel_ok n sel \<longleftrightarrow> 0 \<le> sel \<and> (sel < n \<or> sel = 0)"

definition cursor_ok :: "int \<Rightarrow> int \<Rightarrow> int \<times> int \<Rightarrow> bool" where
  "cursor_ok win n c \<longleftrightarrow> sel_ok n (fst c) \<and> 0 \<le> snd c \<and> fst c < snd c + win"

definition cursor_visible :: "int \<Rightarrow> int \<times> int \<Rightarrow> bool" where
  "cursor_visible win c \<longleftrightarrow> snd c \<le> fst c \<and> fst c < snd c + win"

subsection \<open>Lemmas on exceptions\<close>

lemma res_bind_simps [simp, py_simps]:
  "res_bind (Inl e) f = Inl e"
  "res_bind (Inr x) f = f x"
  by (simp_all add: res_bind_def)

lemma map_sum_Inr_iff: "map_sum f g x = Inr y \<longleftrightarrow> (\<exists>z. x = Inr z \<and> y = g z)"
  by (cases x) auto

lemma res_bind_Inr_iff: "res_bind m f = Inr y \<longleftrightarrow> (\<exists>x. m = Inr x \<and> f x = Inr y)"
  by (cases m) simp_all

lemma res_bind_Inl_iff:
  "res_bind m f = Inl e \<longleftrightarrow> m = Inl e \<or> (\<exists>x. m = Inr x \<and> f x = Inl e)"
  by (cases m) simp_all

lemma is_ok_simps [simp]: "is_ok (Inr x)" "\<not> is_ok (Inl e)"
  by (simp_all add: is_ok_def)

lemma is_ok_iff: "is_ok m \<longleftrightarrow> (\<exists>x. m = Inr x)"
  by (cases m) simp_all

lemma run_events_append:
  "run_events step s (es @ fs) = res_bind (run_events step s es) (\<lambda>s'. run_events step s' fs)"
proof (induction es arbitrary: s)
  case Nil
  then show ?case by simp
next
  case (Cons e es)
  then show ?case by (cases "step s e") simp_all
qed

text \<open>Typing a text into a field that appends \<open>event.unicode\<close>.\<close>

lemma run_type_text:
  assumes "\<And>s c. P s \<Longrightarrow> step s (KeyDown (K_other 0) [c] False) = Inr (app s [c])"
    and "\<And>s u. P s \<Longrightarrow> P (app s u)"
    and "\<And>s u v. P s \<Longrightarrow> app (app s u) v = app s (u @ v)"
    and "\<And>s. P s \<Longrightarrow> app s [] = s"
  shows "P s \<Longrightarrow> run_events step s (type_text t) = Inr (app s t)"
proof (induction t arbitrary: s)
  case Nil
  then show ?case using assms(4) by (simp add: type_text_def)
next
  case (Cons c t)
  have "P (app s [c])" using Cons.prems by (rule assms(2))
  from Cons.IH [OF this] assms(1,3) [OF Cons.prems] show ?case
    by (simp add: type_text_def)
qed

subsection \<open>Lemmas on lists\<close>

lemma py_index_nonneg: "0 \<le> i \<Longrightarrow> i < int n \<Longrightarrow> py_index n i = Some (nat i)"
  by (simp add: py_index_def)

lemma py_index_None_iff: "py_index n i = None \<longleftrightarrow> i < - int n \<or> int n \<le> i"
  by (auto simp: py_index_def Let_def)

lemma py_index_SomeD: "py_index n i = Some k \<Longrightarrow> k < n"
  by (auto simp: py_index_def Let_def split: if_splits)

lemma py_get_ok [py_simps]: "0 \<le> i \<Longrightarrow> i < int (length xs) \<Longrightarrow> py_get xs i = Inr (xs ! nat i)"
  by (simp add: py_get_def py_index_nonneg)

lemma py_set_ok [py_simps]: "0 \<le> i \<Longrightarrow> i < int (length xs) \<Longrightarrow> py_set xs i v = Inr (xs[nat i := v])"
  by (simp add: py_set_def py_index_nonneg)

lemma py_pop_ok [py_simps]: "0 \<le> i \<Longrightarrow> i < int (length xs) \<Longrightarrow> py_pop xs i = Inr (del_nth xs (nat i))"
  by (simp add: py_pop_def py_index_nonneg)

lemma py_get_out [py_simps]: "int (length xs) \<le> i \<Longrightarrow> py_get xs i = Inl IndexError"
  by (simp add: py_get_def py_index_def)

lemma py_get_mem: "py_get xs i = Inr x \<Longrightarrow> x \<in> set xs"
  by (auto simp: py_get_def dest: py_index_SomeD split: option.splits)

lemma length_del_nth [simp]: "k < length xs \<Longrightarrow> length (del_nth xs k) = length xs - 1"
  by (simp add: del_nth_def)

lemma del_nth_Nil [simp]: "del_nth [] k = []"
  by (simp add: del_nth_def)

lemma set_del_nth_subset: "set (del_nth xs k) \<subseteq> set xs"
  by (auto simp: del_nth_def dest: in_set_takeD in_set_dropD)

lemma mset_del_nth: "k < length xs \<Longrightarrow> add_mset (xs ! k) (mset (del_nth xs k)) = mset xs"
proof -
  assume k: "k < length xs"
  have "mset xs = mset (take k xs @ xs ! k # drop (Suc k) xs)"
    using id_take_nth_drop [OF k] by simp
  then show ?thesis by (simp add: del_nth_def)
qed

lemma filter_update_len:
  "k < length xs \<Longrightarrow> P (xs ! k) \<Longrightarrow> \<not> P y \<Longrightarrow>
     length (filter P xs) = Suc (length (filter P (xs[k := y])))"
proof -
  assume a: "k < length xs" "P (xs ! k)" "\<not> P y"
  have "xs = take k xs @ xs ! k # drop (Suc k) xs" using a(1) by (rule id_take_nth_drop)
  then have "length (filter P xs) = length (filter P (take k xs @ xs ! k # drop (Suc k) xs))" by simp
  with a show ?thesis by (simp add: upd_conv_take_nth_drop)
qed

lemma filter_update_len_same:
  "k < length xs \<Longrightarrow> \<not> P (xs ! k) \<Longrightarrow> \<not> P y \<Longrightarrow>
     length (filter P (xs[k := y])) = length (filter P xs)"
proof -
  assume a: "k < length xs" "\<not> P (xs ! k)" "\<not> P y"
  have "xs = take k xs @ xs ! k # drop (Suc k) xs" using a(1) by (rule id_take_nth_drop)
  then have "length (filter P xs) = length (filter P (take k xs @ xs ! k # drop (Suc k) xs))" by simp
  with a show ?thesis by (simp add: upd_conv_take_nth_drop)
qed

lemma filter_del_nth:
  "k < length xs \<Longrightarrow> \<not> P (xs ! k) \<Longrightarrow> filter P (del_nth xs k) = filter P xs"
proof -
  assume a: "k < length xs" "\<not> P (xs ! k)"
  have "filter P xs = filter P (take k xs @ xs ! k # drop (Suc k) xs)"
    using id_take_nth_drop [OF a(1)] by simp
  with a show ?thesis by (simp add: del_nth_def)
qed

lemma length_py_insert [simp]: "length (py_insert xs k x) = Suc (length xs)"
  by (simp add: py_insert_def)

lemma py_slice_zero: "py_slice xs 0 (int k) = take k xs"
  by (auto simp: py_slice_def py_clamp_def min_def)

lemma length_enum [simp]: "length (enum xs) = length xs"
  by (simp add: enum_def)

lemma nth_enum [simp]: "i < length xs \<Longrightarrow> enum xs ! i = (i, xs ! i)"
  by (simp add: enum_def)

lemma set_enum_iff: "(i, x) \<in> set (enum xs) \<longleftrightarrow> i < length xs \<and> xs ! i = x"
  by (auto simp: in_set_conv_nth)

subsection \<open>Lemmas on strings\<close>

lemma py_split_not_Nil [simp]: "py_split sep cs \<noteq> []"
  by (induction cs) (auto split: list.splits)

lemma length_py_split: "0 < length (py_split sep cs)"
  by simp

lemma py_split_no_sep: "sep \<notin> set w \<Longrightarrow> py_split sep w = [w]"
  by (induction w) auto

lemma py_split_append_sep:
  "sep \<notin> set w \<Longrightarrow> py_split sep (w @ sep # cs) = w # py_split sep cs"
  by (induction w) auto

lemma py_split_join:
  "ws \<noteq> [] \<Longrightarrow> \<forall>w\<in>set ws. sep \<notin> set w \<Longrightarrow> py_split sep (py_join sep ws) = ws"
  by (induction sep ws rule: py_join.induct) (auto simp: py_split_no_sep py_split_append_sep)

lemma py_join_Cons: "ws \<noteq> [] \<Longrightarrow> py_join sep (w # ws) = w @ sep # py_join sep ws"
  by (cases ws) simp_all

lemma py_join_split: "py_join sep (py_split sep cs) = cs"
proof (induction cs)
  case Nil
  then show ?case by simp
next
  case (Cons c cs)
  obtain w ws where w: "py_split sep cs = w # ws"
    by (cases "py_split sep cs") simp_all
  from Cons.IH w show ?case
    by (cases ws) (auto simp: py_join_Cons)
qed

lemma py_prefix_append: "py_prefix xs (xs @ ys)"
  by (induction xs) auto

lemma py_prefix_iff: "py_prefix xs ys \<longleftrightarrow> (\<exists>zs. ys = xs @ zs)"
  by (induction xs ys rule: py_prefix.induct) auto

lemma py_in_iff: "py_in xs ys \<longleftrightarrow> (\<exists>as bs. ys = as @ xs @ bs)"
proof (induction ys)
  case Nil
  then show ?case by auto
next
  case (Cons y ys)
  have "(\<exists>as bs. y # ys = as @ xs @ bs) \<longleftrightarrow>
      (\<exists>bs. y # ys = xs @ bs) \<or> (\<exists>as bs. ys = as @ xs @ bs)" (is "?L \<longleftrightarrow> ?R")
  proof
    assume ?L
    then obtain as bs where eq: "y # ys = as @ xs @ bs" by blast
    then show ?R by (cases as) auto
  next
    assume ?R
    then show ?L by (metis append_Cons append_Nil)
  qed
  with Cons.IH show ?case by (simp add: py_prefix_iff)
qed

lemma py_in_set: "py_in xs ys \<Longrightarrow> set xs \<subseteq> set ys"
  by (auto simp: py_in_iff)

lemma py_strip_pad:
  assumes "cs \<noteq> []" "\<not> py_isspace_char (hd cs)" "\<not> py_isspace_char (last cs)" "\<forall>c\<in>set ws. py_isspace_char c"
  shows "py_strip (cs @ ws) = cs"
proof -
  have l: "py_lstrip (cs @ ws) = cs @ ws" using assms(1,2) by (cases cs) (simp_all add: py_lstrip_def)
  have "py_lstrip (rev (cs @ ws)) = dropWhile py_isspace_char (rev ws @ rev cs)" by (simp add: py_lstrip_def)
  also have "\<dots> = dropWhile py_isspace_char (rev cs)" by (rule dropWhile_append2) (use assms(4) in simp)
  also have "\<dots> = rev cs"
  proof -
    obtain x xs where r: "cs = xs @ [x]" using assms(1) by (cases cs rule: rev_cases) auto
    with assms(3) show ?thesis by simp
  qed
  finally show ?thesis by (simp add: py_strip_def l)
qed

text \<open>A word: not empty and free of white space.\<close>

definition is_word :: "string \<Rightarrow> bool" where
  "is_word w \<longleftrightarrow> w \<noteq> [] \<and> (\<forall>c\<in>set w. \<not> py_isspace_char c)"

lemma py_words_acc_word:
  "\<forall>c\<in>set w. \<not> py_isspace_char c \<Longrightarrow> py_words_acc acc (w @ cs) = py_words_acc (acc @ w) cs"
  by (induction w arbitrary: acc) auto

lemma py_words_join:
  "\<forall>w\<in>set ws. is_word w \<Longrightarrow> py_words (py_join (CHR '' '') ws) = ws"
proof (induction ws)
  case Nil
  then show ?case by (simp add: py_words_def)
next
  case (Cons w ws)
  then have w: "w \<noteq> []" "\<forall>c\<in>set w. \<not> py_isspace_char c" by (simp_all add: is_word_def)
  have sp: "py_isspace_char (CHR '' '')" by (simp add: py_isspace_char_def)
  show ?case
  proof (cases "ws = []")
    case True
    with w py_words_acc_word [OF w(2), of "[]" "[]"] show ?thesis by (simp add: py_words_def)
  next
    case False
    with Cons w sp py_words_acc_word [OF w(2), of "[]" "CHR '' '' # py_join (CHR '' '') ws"] show ?thesis
      by (simp add: py_words_def py_join_Cons)
  qed
qed

lemma py_words_acc_space: "py_isspace_char c \<Longrightarrow> py_words_acc acc (s @ [c]) = py_words_acc acc s"
  by (induction acc s rule: py_words_acc.induct) simp_all

lemma py_words_newline: "py_words (s @ [newline_char]) = py_words s"
  by (simp add: py_words_def py_words_acc_space py_isspace_char_def)

lemma universal_newlines_id: "cr_char \<notin> set cs \<Longrightarrow> universal_newlines cs = cs"
  by (induction cs rule: universal_newlines.induct) auto

lemma py_lines_acc_line:
  "newline_char \<notin> set w \<Longrightarrow> py_lines_acc acc (w @ newline_char # cs) = (acc @ w @ [newline_char]) # py_lines_acc [] cs"
  by (induction w arbitrary: acc) auto

lemma py_in_Nil [simp]: "py_in [] ys"
  by (cases ys) simp_all

text \<open>Decimal numerals determine their number.\<close>

definition num_val :: "string \<Rightarrow> nat" where
  "num_val t = foldl (\<lambda>n c. 10 * n + (of_char c - 48)) 0 t"

lemma py_digits_ne [simp]: "py_digits n \<noteq> []"
  by (subst py_digits.simps) simp

lemma num_val_digits: "num_val (py_digits n) = n"
proof (induction n rule: py_digits.induct)
  case (1 n)
  have d: "(of_char (char_of (48 + k :: nat)) :: nat) = 48 + k" if "k < 10" for k
    using that by (simp add: of_char_of)
  show ?case
  proof (cases "n < 10")
    case True
    then have "py_digits n = [char_of (48 + n)]" by (subst py_digits.simps) (rule if_P)
    with d [OF True] show ?thesis by (simp add: num_val_def)
  next
    case False
    then have "py_digits n = py_digits (n div 10) @ [char_of (48 + n mod 10)]" by (subst py_digits.simps) (rule if_not_P)
    moreover have "num_val (py_digits (n div 10)) = n div 10" using 1 False .
    ultimately show ?thesis using d [of "n mod 10"] by (simp add: num_val_def)
  qed
qed

subsection \<open>Lemmas on the list cursor\<close>

lemma nav_down_sel [nav_simps]: "fst (nav_down win n c) = (if fst c < n - 1 then fst c + 1 else fst c)"
  by (simp add: nav_down_def Let_def)

lemma nav_up_sel [nav_simps]: "fst (nav_up c) = (if fst c > 0 then fst c - 1 else fst c)"
  by (simp add: nav_up_def Let_def)

lemma nav_up_scroll_nonneg: "0 \<le> fst c \<Longrightarrow> 0 \<le> snd c \<Longrightarrow> 0 \<le> snd (nav_up c)"
  by (auto simp: nav_up_def Let_def)

lemma nav_down_scroll_nonneg: "0 \<le> snd c \<Longrightarrow> 0 \<le> snd (nav_down win n c)"
  by (auto simp: nav_down_def Let_def)

lemma sel_ok_zero [simp]: "sel_ok n 0"
  by (simp add: sel_ok_def)

lemma sel_ok_nav_down: "sel_ok n sel \<Longrightarrow> sel_ok n (fst (nav_down win n (sel, scr)))"
  by (auto simp: sel_ok_def nav_simps)

lemma sel_ok_nav_up: "sel_ok n sel \<Longrightarrow> sel_ok n (fst (nav_up (sel, scr)))"
  by (auto simp: sel_ok_def nav_simps)

lemma sel_ok_delete: "sel_ok n sel \<Longrightarrow> 0 < n \<Longrightarrow> sel_ok (n - 1) (max 0 (sel - 1))"
  by (auto simp: sel_ok_def)

lemma py_pop_sel:
  assumes "sel_ok (int (length xs)) sel" "xs \<noteq> []"
  shows "\<exists>ys. py_pop xs sel = Inr ys \<and> ys = del_nth xs (nat sel) \<and> int (length ys) = int (length xs) - 1
    \<and> sel_ok (int (length ys)) (max 0 (sel - 1))"
proof -
  have sel: "0 \<le> sel" "sel < int (length xs)" using assms by (auto simp: sel_ok_def)
  then have "int (length (del_nth xs (nat sel))) = int (length xs) - 1" using assms(2) by (cases xs) auto
  with sel sel_ok_delete [OF assms(1)] assms(2) show ?thesis by (simp add: py_simps)
qed

lemma sel_ok_grow: "sel_ok n sel \<Longrightarrow> n \<le> m \<Longrightarrow> sel_ok m sel"
  by (auto simp: sel_ok_def)

lemma cursor_ok_nav_down: "0 < win \<Longrightarrow> cursor_ok win n c \<Longrightarrow> cursor_ok win n (nav_down win n c)"
  by (auto simp: cursor_ok_def sel_ok_def nav_down_def Let_def)

lemma cursor_ok_nav_up: "0 < win \<Longrightarrow> cursor_ok win n c \<Longrightarrow> cursor_ok win n (nav_up c)"
  by (auto simp: cursor_ok_def sel_ok_def nav_up_def Let_def)

lemma cursor_ok_delete:
  "0 < win \<Longrightarrow> cursor_ok win n (sel, scr) \<Longrightarrow> 0 < n \<Longrightarrow> cursor_ok win (n - 1) (max 0 (sel - 1), scr)"
  by (auto simp: cursor_ok_def sel_ok_def)

lemma cursor_ok_grow: "cursor_ok win n c \<Longrightarrow> n \<le> m \<Longrightarrow> cursor_ok win m c"
  by (auto simp: cursor_ok_def intro: sel_ok_grow)

lemma cursor_ok_start [simp]: "0 < win \<Longrightarrow> cursor_ok win n (0, 0)"
  by (simp add: cursor_ok_def)

lemma cursor_visible_nav_down:
  "0 < win \<Longrightarrow> cursor_visible win c \<Longrightarrow> cursor_visible win (nav_down win n c)"
  by (auto simp: cursor_visible_def nav_down_def Let_def)

lemma cursor_visible_nav_up:
  "0 < win \<Longrightarrow> cursor_visible win c \<Longrightarrow> cursor_visible win (nav_up c)"
  by (auto simp: cursor_visible_def nav_up_def Let_def)

subsection \<open>The contract of an application screen\<close>

text \<open>
  A program whose steps keep an invariant, though a step may raise: so does a run, and a run
  that raises does so in a single step from a state that satisfies the invariant.
\<close>

locale stepping_app =
  fixes step :: "'s \<Rightarrow> 'e \<Rightarrow> 's res"
    and invar :: "'s \<Rightarrow> bool"
  assumes step_invar: "invar s \<Longrightarrow> step s e = Inr s' \<Longrightarrow> invar s'"
begin

lemma run_invar: "invar s \<Longrightarrow> run_events step s es = Inr s' \<Longrightarrow> invar s'"
proof (induction es arbitrary: s)
  case Nil
  then show ?case by simp
next
  case (Cons e es)
  from Cons.prems(2) obtain s1 where "step s e = Inr s1" "run_events step s1 es = Inr s'"
    by (cases "step s e") auto
  with Cons.IH [of s1] step_invar [OF Cons.prems(1)] show ?case by blast
qed

lemma run_raises:
  "invar s \<Longrightarrow> run_events step s es = Inl x \<Longrightarrow> \<exists>t e. e \<in> set es \<and> invar t \<and> step t e = Inl x"
proof (induction es arbitrary: s)
  case Nil
  then show ?case by simp
next
  case (Cons e es)
  show ?case
  proof (cases "step s e")
    case (Inl y)
    with Cons.prems show ?thesis by auto
  next
    case (Inr s1)
    with Cons.prems have "run_events step s1 es = Inl x" by simp
    with Cons.IH [of s1] step_invar [OF Cons.prems(1) Inr] show ?thesis by auto
  qed
qed

end

text \<open>
  Launchers call \<open>handle_input\<close> of an application for each event. What they rely on is
  that a handler started in a good state neither raises nor leaves the good states.
\<close>

locale event_app =
  fixes step :: "'s \<Rightarrow> 'e \<Rightarrow> 's res"
    and invar :: "'s \<Rightarrow> bool"
  assumes step_ok: "invar s \<Longrightarrow> \<exists>s'. step s e = Inr s' \<and> invar s'"
begin

lemma step_not_Inl: "invar s \<Longrightarrow> step s e \<noteq> Inl x"
  using step_ok [of s e] by auto

lemma run_ok: "invar s \<Longrightarrow> \<exists>s'. run_events step s es = Inr s' \<and> invar s'"
proof (induction es arbitrary: s)
  case Nil
  then show ?case by simp
next
  case (Cons e es)
  from step_ok [OF Cons.prems] obtain s1 where "step s e = Inr s1" "invar s1" by blast
  with Cons.IH [of s1] show ?case by simp
qed

end

text \<open>A program that never raises is one whose steps keep the invariant.\<close>

sublocale event_app \<subseteq> stepping_app step invar
proof
  show "invar s'" if "invar s" "step s e = Inr s'" for s e s'
    using step_ok [OF that(1), of e] that(2) by auto
qed

end
