(* ===== verification/Ui_Config.thy ===== *)
theory Ui_Config
  imports Julius_Prelude
begin

text \<open>
  The settings store of the main interface (\<^verbatim>\<open>src/src/julius_ui.py\<close>): the configuration
  dictionary and its file, the settings page (\<open>draw_settings\<close>, \<open>handle_settings_tap\<close>), and the
  effects the interface has on the world outside it.
\<close>

subsection \<open>Configuration values\<close>

datatype cval = VBool bool | VInt int | VStr string

type_synonym config = "string \<rightharpoonup> cval"

definition truthy :: "cval \<Rightarrow> bool" where
  "truthy v = (case v of VBool b \<Rightarrow> b | VInt i \<Rightarrow> i \<noteq> 0 | VStr s \<Rightarrow> s \<noteq> [])"

definition cfg_get :: "config \<Rightarrow> string \<Rightarrow> cval \<Rightarrow> cval" where
  "cfg_get c k d = (case c k of None \<Rightarrow> d | Some v \<Rightarrow> v)"

definition py_str :: "cval \<Rightarrow> string" where
  "py_str v = (case v of VBool b \<Rightarrow> (if b then ''True'' else ''False'') | VInt i \<Rightarrow> py_str_int i | VStr s \<Rightarrow> s)"

definition W :: int where "W = 320"
definition H :: int where "H = 480"

definition DEFAULT_SETTINGS :: config where
  "DEFAULT_SETTINGS = map_of
     [(''wifi'', VBool True), (''bluetooth'', VBool True), (''brightness'', VInt 100),
      (''volume'', VInt 80), (''airplane'', VBool False), (''dark_mode'', VBool True),
      (''notifications'', VBool True), (''fingerprint'', VBool True),
      (''ota_enabled'', VBool True), (''hotspot'', VBool False), (''admin_device'', VStr ''''),
      (''device_name'', VStr ''Julius''), (''version'', VStr ''Julius OS v1.3'')]"

definition load_settings :: "config option \<Rightarrow> config" where
  "load_settings f = (case f of Some c \<Rightarrow> c | None \<Rightarrow> DEFAULT_SETTINGS)"

subsection \<open>Effects\<close>

text \<open>
  What a step of the interface does beyond its own state: \<open>save_settings\<close>, starting a
  program, a vibration (named by the pattern method of \<open>HapticFeedback\<close>), an event handed to
  the current application, a notification to the push service, a request to the WiFi
  service, and \<open>sys.exit\<close>.
\<close>

datatype effect =
    SaveSettings config
  | Popen string
  | Vibrate string
  | AppInput string event
  | SendNotification string string string
  | WifiConnect string string
  | WifiDisconnect
  | SysExit

subsection \<open>The settings page\<close>

datatype item_type = IText | IInfo | IToggle | ISlider

record setting_item =
  item_key :: string
  item_label :: string
  item_type :: item_type

record setting_section =
  sec_title :: string
  sec_items :: "setting_item list"

definition mk_item :: "string \<Rightarrow> string \<Rightarrow> item_type \<Rightarrow> setting_item" where
  "mk_item k l t = \<lparr>item_key = k, item_label = l, item_type = t\<rparr>"

definition SETTINGS_SECTIONS :: "setting_section list" where
  "SETTINGS_SECTIONS =
     [\<lparr>sec_title = ''Device'', sec_items =
         [mk_item ''device_name'' ''Device Name'' IText, mk_item ''version'' ''Version'' IInfo]\<rparr>,
      \<lparr>sec_title = ''Wireless'', sec_items =
         [mk_item ''wifi'' ''WiFi'' IToggle, mk_item ''bluetooth'' ''Bluetooth'' IToggle,
          mk_item ''hotspot'' ''Hotspot'' IToggle, mk_item ''airplane'' ''Airplane Mode'' IToggle]\<rparr>,
      \<lparr>sec_title = ''Security'', sec_items =
         [mk_item ''fingerprint'' ''Fingerprint'' IToggle,
          mk_item ''notifications'' ''Notifications'' IToggle]\<rparr>,
      \<lparr>sec_title = ''Display'', sec_items =
         [mk_item ''brightness'' ''Brightness'' ISlider, mk_item ''dark_mode'' ''Dark Mode'' IToggle]\<rparr>,
      \<lparr>sec_title = ''Sound'', sec_items = [mk_item ''volume'' ''Volume'' ISlider]\<rparr>,
      \<lparr>sec_title = ''Updates'', sec_items =
         [mk_item ''ota_enabled'' ''OTA Updates'' IToggle,
          mk_item ''admin_device'' ''Admin Device'' IText]\<rparr>]"

type_synonym flat_item = "int \<times> setting_item"

text \<open>The walk of \<open>draw_settings\<close> down the page: each row with its vertical position.\<close>

fun layout_items :: "int \<Rightarrow> setting_item list \<Rightarrow> flat_item list \<times> int" where
  "layout_items y [] = ([], y)"
| "layout_items y (it # its) = (let (fl, y') = layout_items (y + 44) its in ((y, it) # fl, y'))"

fun layout_sections :: "int \<Rightarrow> setting_section list \<Rightarrow> flat_item list" where
  "layout_sections y [] = []"
| "layout_sections y (sec # secs) =
     (let (fl, y') = layout_items (y + 22) (sec_items sec)
      in fl @ layout_sections (y' + 8) secs)"

definition settings_items :: "int \<Rightarrow> flat_item list" where
  "settings_items settings_scroll = layout_sections (70 - settings_scroll) SETTINGS_SECTIONS"

definition row_drawn :: "int \<Rightarrow> bool" where
  "row_drawn y \<longleftrightarrow> 36 < y \<and> y < H - 60"

text \<open>
  What a drawn row shows: the state of a toggle, the filled width of a slider, or the first
  eighteen characters of a text. A slider computes \<open>int(80*val/100)\<close>, which raises
  \<open>TypeError\<close> when the value is a string (as the default \<open>""\<close> of a missing key is).
\<close>

datatype row_view = ToggleRow bool | SliderRow int | TextRow string

definition trunc_div :: "int \<Rightarrow> int \<Rightarrow> int" where
  "trunc_div a b = sgn a * sgn b * (\<bar>a\<bar> div \<bar>b\<bar>)"

definition draw_row :: "config \<Rightarrow> setting_item \<Rightarrow> row_view res" where
  "draw_row c it =
     (let v = cfg_get c (item_key it) (VStr [])
      in case item_type it of
           IToggle \<Rightarrow> Inr (ToggleRow (truthy v))
         | ISlider \<Rightarrow>
             (case v of
                VInt i \<Rightarrow> Inr (SliderRow (trunc_div (80 * i) 100))
              | VBool b \<Rightarrow> Inr (SliderRow (trunc_div (80 * (if b then 1 else 0)) 100))
              | VStr _ \<Rightarrow> Inl TypeError)
         | _ \<Rightarrow> Inr (TextRow (take 18 (py_str v))))"

fun draw_settings_rows :: "config \<Rightarrow> flat_item list \<Rightarrow> (int \<times> row_view) list res" where
  "draw_settings_rows c [] = Inr []"
| "draw_settings_rows c ((y, it) # fl) =
     (if row_drawn y then
        res_bind (draw_row c it) (\<lambda>r. res_bind (draw_settings_rows c fl) (\<lambda>rs. Inr ((y, r) # rs)))
      else draw_settings_rows c fl)"

text \<open>\<open>draw_settings\<close> returns the rows (the new \<open>items_flat_cache\<close>), or raises.\<close>

definition draw_settings :: "config \<Rightarrow> int \<Rightarrow> flat_item list res" where
  "draw_settings c settings_scroll =
     res_bind (draw_settings_rows c (settings_items settings_scroll))
       (\<lambda>_. Inr (settings_items settings_scroll))"

text \<open>
  \<open>int(rel/bw*100)\<close> for \<open>0 \<le> rel \<le> bw\<close>, and \<open>int((x-16)/(W-32)*100)\<close> in the control
  centre: the exact percentage, rounded down.
\<close>

definition slider_pct :: "int \<Rightarrow> int \<Rightarrow> int" where
  "slider_pct rel bw = rel * 100 div bw"

definition settings_slider :: "int \<Rightarrow> int" where
  "settings_slider x = (let bx = W - 100; bw = 80; rel = max 0 (min (x - bx) bw) in slider_pct rel bw)"

definition tap_item :: "bool \<Rightarrow> pos \<Rightarrow> setting_item \<Rightarrow> config \<Rightarrow> config \<times> effect list" where
  "tap_item bridge p it c =
     (let k = item_key it
      in case item_type it of
           IToggle \<Rightarrow>
             (let v = \<not> truthy (cfg_get c k (VBool False)); c' = c(k \<mapsto> VBool v)
              in (c', SaveSettings c' #
                      (if k = ''wifi'' \<and> bridge
                       then [if v then WifiConnect [] [] else WifiDisconnect] else [])))
         | ISlider \<Rightarrow>
             (let c' = c(k \<mapsto> VInt (settings_slider (fst p))) in (c', [SaveSettings c']))
         | _ \<Rightarrow> (c, []))"

definition row_hit :: "pos \<Rightarrow> int \<Rightarrow> bool" where
  "row_hit p iy \<longleftrightarrow> iy < snd p \<and> snd p < iy + 40"

fun handle_settings_tap ::
    "bool \<Rightarrow> pos \<Rightarrow> flat_item list \<Rightarrow> config \<Rightarrow> config \<times> effect list" where
  "handle_settings_tap bridge p [] c = (c, [])"
| "handle_settings_tap bridge p ((iy, it) # fl) c =
     (if row_hit p iy then
        (let (c1, e1) = tap_item bridge p it c; (c2, e2) = handle_settings_tap bridge p fl c1
         in (c2, e1 @ e2))
      else handle_settings_tap bridge p fl c)"

subsection \<open>Lemmas on the store\<close>

lemma cfg_get_upd [simp]: "cfg_get (c(k \<mapsto> v)) k' d = (if k' = k then v else cfg_get c k' d)"
  by (simp add: cfg_get_def)

lemma truthy_VBool [simp]: "truthy (VBool b) = b"
  by (simp add: truthy_def)

lemma slider_pct_range: "0 < bw \<Longrightarrow> 0 \<le> rel \<Longrightarrow> rel \<le> bw \<Longrightarrow> 0 \<le> slider_pct rel bw \<and> slider_pct rel bw \<le> 100"
proof -
  assume a: "0 < bw" "0 \<le> rel" "rel \<le> bw"
  then have "rel * 100 div bw \<le> bw * 100 div bw" by (intro zdiv_mono1) auto
  with a show ?thesis by (auto simp: slider_pct_def pos_imp_zdiv_nonneg_iff)
qed

lemma settings_slider_range: "0 \<le> settings_slider x \<and> settings_slider x \<le> 100"
  unfolding settings_slider_def Let_def by (rule slider_pct_range) auto

text \<open>The rows of the page: thirteen positions, each at least 44 pixels below the one before.\<close>

lemma settings_items_rows:
  "map (\<lambda>(y, it). (y + s, item_key it)) (settings_items s) =
     [(92, ''device_name''), (136, ''version''), (210, ''wifi''), (254, ''bluetooth''),
      (298, ''hotspot''), (342, ''airplane''), (416, ''fingerprint''), (460, ''notifications''),
      (534, ''brightness''), (578, ''dark_mode''), (652, ''volume''), (726, ''ota_enabled''),
      (770, ''admin_device'')]"
  by (simp add: settings_items_def SETTINGS_SECTIONS_def mk_item_def)

fun spaced :: "flat_item list \<Rightarrow> bool" where
  "spaced [] = True"
| "spaced ((y, it) # fl) = (list_all (\<lambda>(y', it'). y + 44 \<le> y') fl \<and> spaced fl)"

lemma settings_items_spaced: "spaced (settings_items s)"
  by (simp add: settings_items_def SETTINGS_SECTIONS_def mk_item_def)

lemma tap_no_hit:
  "list_all (\<lambda>(y, it). \<not> row_hit p y) fl \<Longrightarrow> handle_settings_tap br p fl c = (c, [])"
  by (induction fl) auto

lemma handle_settings_tap_spaced:
  "spaced fl \<Longrightarrow> handle_settings_tap br p fl c =
     (case find (\<lambda>(y, it). row_hit p y) fl of None \<Rightarrow> (c, []) | Some (y, it) \<Rightarrow> tap_item br p it c)"
proof (induction br p fl c rule: handle_settings_tap.induct)
  case (1 br p c)
  then show ?case by simp
next
  case (2 br p iy it fl c)
  show ?case
  proof (cases "row_hit p iy")
    case True
    with 2(3) have "list_all (\<lambda>(y, it). \<not> row_hit p y) fl"
      by (auto simp: row_hit_def list_all_iff)
    with True show ?thesis by (simp add: tap_no_hit split: prod.splits)
  next
    case False
    with 2 show ?thesis by simp
  qed
qed

end
