(* ===== verification/Control_Center.thy ===== *)
theory Control_Center
  imports Ui_Config
begin

text \<open>
  The control centre (\<^verbatim>\<open>src/src/system/control_center.py\<close>). It shares the configuration
  dictionary with the interface, so its operations take the configuration and return it.
  \<open>draw\<close> is modelled by what it writes (\<open>y_offset\<close>, \<open>toggle_rects\<close>) and by where it puts
  the toggles and the sliders.
\<close>

datatype cc_action = ToggleWifi | ToggleBt | ToggleAirplane | ToggleHotspot | NoAction

record control_center =
  cc_brightness :: cval
  cc_volume :: cval
  cc_visible :: bool
  cc_y_offset :: int
  cc_toggle_rects :: "(rect \<times> cc_action) list option"

definition cc_init :: "config \<Rightarrow> control_center" where
  "cc_init c =
     \<lparr>cc_brightness = cfg_get c ''brightness'' (VInt 80), cc_volume = cfg_get c ''volume'' (VInt 70),
      cc_visible = False, cc_y_offset = H, cc_toggle_rects = None\<rparr>"

definition cc_show :: "control_center \<Rightarrow> control_center" where
  "cc_show s = s\<lparr>cc_visible := True, cc_y_offset := H\<rparr>"

definition cc_hide :: "control_center \<Rightarrow> control_center" where
  "cc_hide s = s\<lparr>cc_visible := False\<rparr>"

definition toggle_wifi :: "config \<Rightarrow> config \<times> effect list" where
  "toggle_wifi c =
     (let v = \<not> truthy (cfg_get c ''wifi'' (VBool True)); c' = c(''wifi'' \<mapsto> VBool v)
      in (c', [SaveSettings c', Popen (if v then ''julius_wifi_enable'' else ''julius_wifi_disable'')]))"

definition toggle_bt :: "config \<Rightarrow> config \<times> effect list" where
  "toggle_bt c =
     (let c' = c(''bluetooth'' \<mapsto> VBool (\<not> truthy (cfg_get c ''bluetooth'' (VBool True))))
      in (c', [SaveSettings c']))"

definition toggle_airplane :: "config \<Rightarrow> config \<times> effect list" where
  "toggle_airplane c =
     (let v = \<not> truthy (cfg_get c ''airplane'' (VBool False));
          c1 = c(''airplane'' \<mapsto> VBool v);
          c' = (if v then c1(''wifi'' \<mapsto> VBool False, ''bluetooth'' \<mapsto> VBool False) else c1)
      in (c', [SaveSettings c']))"

definition toggle_hotspot :: "config \<Rightarrow> config \<times> effect list" where
  "toggle_hotspot c =
     (let c' = c(''hotspot'' \<mapsto> VBool (\<not> truthy (cfg_get c ''hotspot'' (VBool False))))
      in (c', [SaveSettings c']))"

definition cc_perform :: "cc_action \<Rightarrow> config \<Rightarrow> config \<times> effect list" where
  "cc_perform a c =
     (case a of
        ToggleWifi \<Rightarrow> toggle_wifi c
      | ToggleBt \<Rightarrow> toggle_bt c
      | ToggleAirplane \<Rightarrow> toggle_airplane c
      | ToggleHotspot \<Rightarrow> toggle_hotspot c
      | NoAction \<Rightarrow> (c, []))"

subsection \<open>Drawing\<close>

definition cc_anim :: "control_center \<Rightarrow> control_center" where
  "cc_anim s = (if cc_y_offset s > 0 then s\<lparr>cc_y_offset := max 0 (cc_y_offset s - 30)\<rparr> else s)"

definition cc_panel_y :: "control_center \<Rightarrow> int" where
  "cc_panel_y s = H - 320 + cc_y_offset s"

text \<open>The toggle buttons: two rows of four, 64 pixels wide, \<open>tpad\<close> apart.\<close>

definition cc_row :: "int \<Rightarrow> cc_action list \<Rightarrow> (rect \<times> cc_action) list" where
  "cc_row y acts =
     (let tsz = 64; tpad = (W - tsz * 4) div 5
      in map (\<lambda>(i, a). ((tpad + int i * (tsz + tpad), y, tsz, tsz), a)) (enum acts))"

definition cc_rects :: "int \<Rightarrow> (rect \<times> cc_action) list" where
  "cc_rects py =
     (let ty = py + 52; ty2 = ty + 64 + 10
      in cc_row ty [ToggleWifi, ToggleBt, ToggleAirplane, ToggleHotspot]
         @ cc_row ty2 [NoAction, NoAction, NoAction, NoAction])"

text \<open>Where the two sliders are drawn: \<open>draw_slider(16, sy1, W-32, 16, ...)\<close> and 44 below.\<close>

definition cc_drawn_sliders :: "control_center \<Rightarrow> rect \<times> rect" where
  "cc_drawn_sliders s =
     (let ty = cc_panel_y s + 52; ty2 = ty + 64 + 10; sy1 = ty2 + 64 + 24
      in ((16, sy1, W - 32, 16), (16, sy1 + 44, W - 32, 16)))"

text \<open>
  \<open>draw_slider\<close> computes \<open>int((w-8) * val/100)\<close>; a string value, which only a settings file
  edited by hand can put there, raises \<open>TypeError\<close>.
\<close>

definition numeric :: "cval \<Rightarrow> bool" where
  "numeric v = (case v of VStr _ \<Rightarrow> False | _ \<Rightarrow> True)"

definition cc_draw :: "control_center \<Rightarrow> control_center res" where
  "cc_draw s =
     (if \<not> cc_visible s then Inr s
      else if numeric (cc_brightness s) \<and> numeric (cc_volume s) then
        (let s1 = cc_anim s in Inr (s1\<lparr>cc_toggle_rects := Some (cc_rects (cc_panel_y s1))\<rparr>))
      else Inl TypeError)"

subsection \<open>Touch\<close>

definition cc_slider :: "int \<Rightarrow> int" where
  "cc_slider x = max 0 (min 100 (slider_pct (x - 16) (W - 32)))"

definition cc_touch_sy1 :: int where
  "cc_touch_sy1 = (H - 320) + 52 + 64 * 2 + 10 * 2 + 24"

type_synonym cc_result = "bool \<times> config \<times> control_center \<times> effect list"

definition cc_touch_sliders :: "config \<Rightarrow> control_center \<Rightarrow> pos \<Rightarrow> cc_result" where
  "cc_touch_sliders c s p =
     (if 16 \<le> fst p \<and> fst p \<le> W - 16 \<and> cc_touch_sy1 \<le> snd p \<and> snd p \<le> cc_touch_sy1 + 16 then
        (let v = VInt (cc_slider (fst p)); c' = c(''brightness'' \<mapsto> v)
         in (True, c', s\<lparr>cc_brightness := v\<rparr>, [SaveSettings c']))
      else if 16 \<le> fst p \<and> fst p \<le> W - 16 \<and> cc_touch_sy1 + 44 \<le> snd p \<and> snd p \<le> cc_touch_sy1 + 60 then
        (let v = VInt (cc_slider (fst p)); c' = c(''volume'' \<mapsto> v)
         in (True, c', s\<lparr>cc_volume := v\<rparr>, [SaveSettings c']))
      else (True, c, s, []))"

text \<open>\<open>self.toggle_rects\<close> exists only once \<open>draw\<close> has run; before that reading it raises.\<close>

definition cc_handle_touch :: "config \<Rightarrow> control_center \<Rightarrow> pos \<Rightarrow> cc_result res" where
  "cc_handle_touch c s p =
     (if \<not> cc_visible s then Inr (False, c, s, [])
      else if snd p < H - 320 then Inr (True, c, cc_hide s, [])
      else (case cc_toggle_rects s of
              None \<Rightarrow> Inl AttributeError
            | Some rs \<Rightarrow>
                (case find (\<lambda>(r, a). in_rect r p) rs of
                   Some (r, a) \<Rightarrow> (let (c', es) = cc_perform a c in Inr (True, c', s, es))
                 | None \<Rightarrow> Inr (cc_touch_sliders c s p))))"

subsection \<open>Lemmas\<close>

lemma cc_slider_range: "0 \<le> cc_slider x \<and> cc_slider x \<le> 100"
  by (simp add: cc_slider_def)

lemma cc_draw_visible: "cc_draw s = Inr s' \<Longrightarrow> cc_visible s' = cc_visible s"
  by (auto simp: cc_draw_def cc_anim_def Let_def split: if_splits)

lemma cc_draw_rects: "cc_visible s \<Longrightarrow> cc_draw s = Inr s' \<Longrightarrow> cc_toggle_rects s' \<noteq> None"
  by (auto simp: cc_draw_def Let_def split: if_splits)

lemma cc_handle_touch_ok:
  "(cc_visible s \<longrightarrow> cc_toggle_rects s \<noteq> None) \<Longrightarrow> is_ok (cc_handle_touch c s p)"
  by (auto simp: cc_handle_touch_def split: option.splits prod.splits)

lemma cc_handle_touch_rects:
  "cc_handle_touch c s p = Inr (b, c', s', es) \<Longrightarrow> cc_toggle_rects s' = cc_toggle_rects s"
  by (auto simp: cc_handle_touch_def cc_hide_def cc_touch_sliders_def Let_def
      split: option.splits prod.splits if_splits)

end
