(* ===== verification/Graphics.thy ===== *)
theory Graphics
  imports Complex_Main Julius_Prelude
begin

text \<open>
  The pygame drawing calls of the main interface, its system panels and the boot screens, with
  the values the source passes: colours as tuples, pen widths, corner radii, transparency and
  fonts. A list of \<open>gfx\<close> is what a method draws, in its order. \<open>gfx_ok\<close> says that a call does
  not raise (pygame refuses a colour component outside 0 to 255, a polyline of one point and a
  surface of negative size); \<open>gfx_in\<close> that what is drawn has its geometry inside a rectangle.
\<close>

named_theorems gfx_simps

subsection \<open>Colours, fonts and calls\<close>

text \<open>A colour is a tuple of three or four integers; \<open>(*c, a)\<close> appends one.\<close>

type_synonym rgba = "int list"

definition with_alpha :: "rgba \<Rightarrow> int \<Rightarrow> rgba" where
  "with_alpha c a = c @ [a]"

definition colour_ok :: "rgba \<Rightarrow> bool" where
  "colour_ok c \<longleftrightarrow> length c \<in> {3, 4} \<and> (\<forall>v\<in>set c. 0 \<le> v \<and> v \<le> 255)"

text \<open>\<open>pygame.font.SysFont(name, size, bold)\<close>.\<close>

datatype font = SysFont (font_name: string) (font_size: int) (font_bold: bool)

text \<open>The fonts of the main interface, which it also hands to the panels.\<close>

definition font_small :: font where "font_small = SysFont ''helvetica'' 11 False"
definition font_body :: font where "font_body = SysFont ''helvetica'' 13 False"
definition font_title :: font where "font_title = SysFont ''helvetica'' 20 True"

text \<open>The size in pixels of a text rendered in a font: a value of the fonts installed.\<close>

type_synonym metrics = "font \<Rightarrow> string \<Rightarrow> int \<times> int"

abbreviation (input) "get_width tm f t \<equiv> fst (tm f t)"
abbreviation (input) "get_height tm f t \<equiv> snd (tm f t)"

definition metrics_ok :: "metrics \<Rightarrow> bool" where
  "metrics_ok tm \<longleftrightarrow> (\<forall>f t. 0 \<le> get_width tm f t \<and> 0 \<le> get_height tm f t)"

text \<open>
  The calls. \<open>GRect\<close> and \<open>GCircle\<close> have the pen width last but one and last (0 fills), \<open>GArc\<close> its
  two angles as multiples of \<open>math.pi\<close>. \<open>GText\<close> is a rendered text blitted, with the value of
  \<open>set_alpha\<close> if it is called. \<open>GBlit\<close> is a surface of a given size, drawn apart and blitted;
  \<open>GImage\<close> a picture kept under a name and scaled to a size.
\<close>

datatype gfx =
    GFill rgba
  | GRect rgba rect int int
  | GCircle rgba pos int int
  | GLine rgba pos pos int
  | GLines rgba bool "pos list" int
  | GPolygon rgba "pos list" int
  | GArc rgba rect rat rat int
  | GText font string rgba "int option" pos
  | GBlit "int \<times> int" "int option" "gfx list" pos
  | GImage string "int \<times> int" pos
  | GFlip

text \<open>\<open>int(x)\<close> of a float: towards zero.\<close>

definition trunc :: "rat \<Rightarrow> int" where
  "trunc x = (if x < 0 then - \<lfloor>- x\<rfloor> else \<lfloor>x\<rfloor>)"

text \<open>
  The cosine and the sine of an angle in degrees as \<open>math.cos(math.radians(a))\<close> and its like give
  them; what the drawing relies on is that they are at most one.
\<close>

type_synonym trig = "int \<Rightarrow> rat \<times> rat"

definition trig_ok :: "trig \<Rightarrow> bool" where
  "trig_ok trig \<longleftrightarrow> (\<forall>ang. \<bar>fst (trig ang)\<bar> \<le> 1 \<and> \<bar>snd (trig ang)\<bar> \<le> 1)"

text \<open>The function \<open>rr\<close>, of which the interface and every panel has a copy.\<close>

definition round_rect :: "rgba \<Rightarrow> rect \<Rightarrow> int \<Rightarrow> gfx list" where
  "round_rect col rct radius =
     (case rct of (x, y, w, h) \<Rightarrow>
        (let r = min (min radius (w div 2)) (h div 2)
         in [GRect col (x + r, y, w - 2 * r, h) 0 0, GRect col (x, y + r, w, h - 2 * r) 0 0]
            @ map (\<lambda>c. GCircle col c r 0) [(x + r, y + r), (x + w - r, y + r), (x + r, y + h - r), (x + w - r, y + h - r)]))"

text \<open>A text at a position, and one centred on a vertical line: \<open>x - t.get_width()//2\<close>.\<close>

definition text_at :: "font \<Rightarrow> string \<Rightarrow> rgba \<Rightarrow> pos \<Rightarrow> gfx" where
  "text_at f t col p = GText f t col None p"

definition text_centred :: "metrics \<Rightarrow> font \<Rightarrow> string \<Rightarrow> rgba \<Rightarrow> int \<Rightarrow> int \<Rightarrow> gfx" where
  "text_centred tm f t col cx y = GText f t col None (cx - get_width tm f t div 2, y)"

text \<open>A text centred on a point.\<close>

definition text_middle :: "metrics \<Rightarrow> font \<Rightarrow> string \<Rightarrow> rgba \<Rightarrow> int \<Rightarrow> int \<Rightarrow> gfx" where
  "text_middle tm f t col cx cy = GText f t col None (cx - get_width tm f t div 2, cy - get_height tm f t div 2)"

subsection \<open>Calls that do not raise\<close>

fun gfx_ok :: "gfx \<Rightarrow> bool" where
  "gfx_ok (GFill c) = colour_ok c"
| "gfx_ok (GRect c _ _ _) = colour_ok c"
| "gfx_ok (GCircle c _ _ _) = colour_ok c"
| "gfx_ok (GLine c _ _ _) = colour_ok c"
| "gfx_ok (GLines c _ ps _) = (colour_ok c \<and> 2 \<le> length ps)"
| "gfx_ok (GPolygon c ps _) = (colour_ok c \<and> 3 \<le> length ps)"
| "gfx_ok (GArc c _ _ _ _) = colour_ok c"
| "gfx_ok (GText _ _ c _ _) = colour_ok c"
| "gfx_ok (GBlit (w, h) _ cs _) = (0 \<le> w \<and> 0 \<le> h \<and> list_all gfx_ok cs)"
| "gfx_ok (GImage _ (w, h) _) = (0 \<le> w \<and> 0 \<le> h)"
| "gfx_ok GFlip = True"

subsection \<open>Geometry\<close>

definition pos_in :: "rect \<Rightarrow> pos \<Rightarrow> bool" where
  "pos_in r p = (case r of (x, y, w, h) \<Rightarrow> x \<le> fst p \<and> fst p \<le> x + w \<and> y \<le> snd p \<and> snd p \<le> y + h)"

definition rect_in :: "rect \<Rightarrow> rect \<Rightarrow> bool" where
  "rect_in r q = (case q of (a, b, c, d) \<Rightarrow> pos_in r (a, b) \<and> pos_in r (a + c, b + d))"

definition shift_rect :: "rect \<Rightarrow> pos \<Rightarrow> rect" where
  "shift_rect r p = (case r of (x, y, w, h) \<Rightarrow> (x - fst p, y - snd p, w, h))"

text \<open>
  The geometry of a call lies in a rectangle: corners, end points, a circle with its radius, a
  text with its size. The commands of a surface count where they land on the screen.
\<close>

fun gfx_in :: "metrics \<Rightarrow> rect \<Rightarrow> gfx \<Rightarrow> bool" where
  "gfx_in tm r (GFill c) = False"
| "gfx_in tm r (GRect c q _ _) = rect_in r q"
| "gfx_in tm r (GCircle c p n _) = rect_in r (fst p - n, snd p - n, 2 * n, 2 * n)"
| "gfx_in tm r (GLine c p q _) = (pos_in r p \<and> pos_in r q)"
| "gfx_in tm r (GLines c _ ps _) = list_all (pos_in r) ps"
| "gfx_in tm r (GPolygon c ps _) = list_all (pos_in r) ps"
| "gfx_in tm r (GArc c q _ _ _) = rect_in r q"
| "gfx_in tm r (GText f t c _ p) = rect_in r (fst p, snd p, get_width tm f t, get_height tm f t)"
| "gfx_in tm r (GBlit _ _ cs p) = list_all (gfx_in tm (shift_rect r p)) cs"
| "gfx_in tm r (GImage _ (w, h) p) = rect_in r (fst p, snd p, w, h)"
| "gfx_in tm r GFlip = False"

text \<open>Laws of the calls, used by the screens.\<close>

lemma colour_ok_alpha: "colour_ok c \<Longrightarrow> length c = 3 \<Longrightarrow> 0 \<le> a \<Longrightarrow> a \<le> 255 \<Longrightarrow> colour_ok (with_alpha c a)"
  by (auto simp: colour_ok_def with_alpha_def)

lemma list_all_concat: "list_all P (concat xss) \<longleftrightarrow> (\<forall>xs\<in>set xss. list_all P xs)"
  by (auto simp: list_all_iff)

lemma list_all_map: "list_all P (map f xs) \<longleftrightarrow> (\<forall>x\<in>set xs. P (f x))"
  by (simp add: list_all_iff)

lemma colour_ok_rgb [gfx_simps]:
  "colour_ok [r, g, b] \<longleftrightarrow> 0 \<le> r \<and> r \<le> 255 \<and> 0 \<le> g \<and> g \<le> 255 \<and> 0 \<le> b \<and> b \<le> 255"
  "colour_ok [r, g, b, a] \<longleftrightarrow> colour_ok [r, g, b] \<and> 0 \<le> a \<and> a \<le> 255"
  by (auto simp: colour_ok_def)

lemma round_rect_ok: "colour_ok c \<Longrightarrow> list_all gfx_ok (round_rect c q n)"
  by (cases q) (simp add: round_rect_def Let_def)

text \<open>A rounded rectangle stays in its rectangle, whatever the radius asked for.\<close>

lemma round_rect_in:
  assumes "rect_in r (x, y, w, h)" "0 \<le> w" "0 \<le> h" "0 \<le> n"
  shows "list_all (gfx_in tm r) (round_rect c (x, y, w, h) n)"
proof -
  obtain a b d e where r: "r = (a, b, d, e)" by (cases r)
  define m where "m = min (min n (w div 2)) (h div 2)"
  have "0 \<le> m" "2 * m \<le> w" "2 * m \<le> h" using assms(2-4) by (auto simp: m_def min_def)
  then show ?thesis using assms(1)
    by (simp add: round_rect_def Let_def m_def [symmetric] r rect_in_def pos_in_def)
qed

lemma text_ok [gfx_simps]:
  "gfx_ok (text_at f t c p) = colour_ok c" "gfx_ok (text_centred tm f t c cx y) = colour_ok c"
  "gfx_ok (text_middle tm f t c cx cy) = colour_ok c"
  by (simp_all add: text_at_def text_centred_def text_middle_def)

text \<open>A text no larger than a tile stays in the tile when it is centred on its middle.\<close>

lemma text_middle_in:
  assumes "get_width tm f t \<le> sz" "get_height tm f t \<le> sz" "metrics_ok tm"
  shows "gfx_in tm (x, y, sz, sz) (text_middle tm f t c (x + sz div 2) (y + sz div 2))"
proof -
  have "0 \<le> get_width tm f t" "0 \<le> get_height tm f t" using assms(3) by (simp_all add: metrics_ok_def)
  with assms(1,2) show ?thesis by (simp add: text_middle_def rect_in_def pos_in_def split_beta) (intro conjI; linarith)
qed

lemma trunc_le:
  assumes "\<bar>c\<bar> \<le> 1" "0 \<le> (k :: int)"
  shows "\<bar>trunc (c * of_int k)\<bar> \<le> k"
proof -
  have "\<bar>c\<bar> * of_int k \<le> 1 * of_int k" using assms by (intro mult_right_mono) auto
  then have "\<bar>c * of_int k\<bar> \<le> of_int k" using assms(2) by (simp add: abs_mult)
  then show ?thesis by (auto simp: trunc_def abs_le_iff) linarith+
qed

lemma trunc_of_int [simp]: "trunc (of_int k) = k"
  by (simp add: trunc_def)

lemma trunc_bounds: "0 \<le> x \<Longrightarrow> x \<le> of_int k \<Longrightarrow> 0 \<le> trunc x \<and> trunc x \<le> k"
  by (simp add: trunc_def) (metis floor_mono floor_of_int)

end
