(* ===== verification/Notification_Center.thy ===== *)
theory Notification_Center
  imports Ui_Config Graphics
begin

text \<open>
  The notification centre (\<^verbatim>\<open>src/src/system/notification_center.py\<close>): the stored
  notifications, the panel, its touch zones and its drawing, including the scroll indicator.
\<close>

record notif =
  nt_app :: string
  nt_title :: string
  nt_body :: string
  nt_time :: string
  nt_color :: "int list"
  nt_read :: bool

text \<open>The notification file is absent, not readable as JSON, or holds a list.\<close>

datatype notif_file = NoFile | CorruptFile | NotifFile "notif list"

record notif_center =
  nc_visible :: bool
  nc_y_offset :: int
  nc_notifs :: "notif list"
  nc_scroll :: int
  nc_clear_rect :: "rect option"
  nc_rects :: "rect option list option"
  nc_file :: notif_file

definition demo_notifs :: "string \<Rightarrow> notif list" where
  "demo_notifs now =
     [\<lparr>nt_app = ''Julius OS'', nt_title = ''System Ready'', nt_body = ''All services running'',
       nt_time = now, nt_color = [48, 209, 88], nt_read = False\<rparr>,
      \<lparr>nt_app = ''WiFi'', nt_title = ''Connected'', nt_body = ''Connected to home network'',
       nt_time = now, nt_color = [10, 132, 255], nt_read = False\<rparr>,
      \<lparr>nt_app = ''OTA'', nt_title = ''Up to date'', nt_body = ''Julius OS v1.0 is current'',
       nt_time = now, nt_color = [255, 159, 10], nt_read = True\<rparr>]"

definition nc_load :: "string \<Rightarrow> notif_file \<Rightarrow> notif list" where
  "nc_load now f =
     (case f of NoFile \<Rightarrow> demo_notifs now | CorruptFile \<Rightarrow> [] | NotifFile ns \<Rightarrow> ns)"

definition nc_init :: "string \<Rightarrow> notif_file \<Rightarrow> notif_center" where
  "nc_init now f =
     \<lparr>nc_visible = False, nc_y_offset = - H, nc_notifs = nc_load now f, nc_scroll = 0,
      nc_clear_rect = None, nc_rects = None, nc_file = f\<rparr>"

definition nc_save :: "notif_center \<Rightarrow> notif_center" where
  "nc_save s = s\<lparr>nc_file := NotifFile (nc_notifs s)\<rparr>"

definition nc_add :: "string \<Rightarrow> string \<Rightarrow> string \<Rightarrow> string \<Rightarrow> int list option \<Rightarrow> notif_center \<Rightarrow> notif_center" where
  "nc_add now app title body color s =
     (let n = \<lparr>nt_app = app, nt_title = title, nt_body = body, nt_time = now,
               nt_color = (case color of Some (c # cs) \<Rightarrow> c # cs | _ \<Rightarrow> [10, 132, 255]), nt_read = False\<rparr>;
          ns = n # nc_notifs s;
          ns' = (if length ns > 50 then take 50 ns else ns)
      in nc_save (s\<lparr>nc_notifs := ns'\<rparr>))"

definition nc_clear_all :: "notif_center \<Rightarrow> notif_center" where
  "nc_clear_all s = nc_save (s\<lparr>nc_notifs := []\<rparr>)"

definition nc_mark_read :: "int \<Rightarrow> notif_center \<Rightarrow> notif_center" where
  "nc_mark_read idx s =
     (if 0 \<le> idx \<and> idx < int (length (nc_notifs s)) then
        nc_save (s\<lparr>nc_notifs := (nc_notifs s)[nat idx := (nc_notifs s ! nat idx)\<lparr>nt_read := True\<rparr>]\<rparr>)
      else s)"

definition nc_show :: "notif_center \<Rightarrow> notif_center" where
  "nc_show s = s\<lparr>nc_visible := True, nc_y_offset := - 300\<rparr>"

definition nc_hide :: "notif_center \<Rightarrow> notif_center" where
  "nc_hide s = s\<lparr>nc_visible := False\<rparr>"

definition unread_count :: "notif_center \<Rightarrow> nat" where
  "unread_count s = length (filter (\<lambda>n. \<not> nt_read n) (nc_notifs s))"

subsection \<open>Drawing\<close>

definition nc_panel_h :: "notif_center \<Rightarrow> int" where
  "nc_panel_h s = min 360 (80 + int (length (nc_notifs s)) * 72)"

definition nc_anim :: "notif_center \<Rightarrow> notif_center" where
  "nc_anim s = (if nc_y_offset s < 0 then s\<lparr>nc_y_offset := min 0 (nc_y_offset s + 25)\<rparr> else s)"

text \<open>One entry per notification, \<open>None\<close> where the row lies outside the panel.\<close>

definition nc_row_rects :: "notif_center \<Rightarrow> rect option list" where
  "nc_row_rects s =
     (let py = nc_y_offset s + 36; ph = nc_panel_h s; y0 = py + 44 - nc_scroll s
      in map (\<lambda>i. let y = y0 + 72 * int i
                  in if y + 66 < py + 40 \<or> y > py + ph then None else Some (8, y, W - 16, 66))
             [0..<length (nc_notifs s)])"

text \<open>
  A row in sight is drawn with its colour and with \<open>(*col, alpha)\<close>, which pygame refuses unless the
  colour is a triple of bytes. The scroll indicator divides by \<open>len(self.notifs)*72-panel_h\<close>. The
  width \<open>cw\<close> of the rendered word \<open>Clear\<close> comes from the font.
\<close>

definition nt_colour_ok :: "notif \<Rightarrow> bool" where
  "nt_colour_ok n \<longleftrightarrow> length (nt_color n) = 3 \<and> colour_ok (nt_color n)"

definition nc_bad_row :: "notif_center \<Rightarrow> bool" where
  "nc_bad_row s \<longleftrightarrow> list_ex (\<lambda>(r, n). r \<noteq> None \<and> \<not> nt_colour_ok n) (zip (nc_row_rects s) (nc_notifs s))"

definition nc_draw :: "int \<Rightarrow> notif_center \<Rightarrow> notif_center res" where
  "nc_draw cw s =
     (if \<not> nc_visible s then Inr s
      else
        (let s1 = nc_anim s; py = nc_y_offset s1 + 36;
             s2 = s1\<lparr>nc_clear_rect := Some (W - cw - 20, py + 12, cw + 8, 24)\<rparr>
         in if nc_notifs s2 = [] then Inr s2
            else if nc_bad_row s2 then Inl ValueError
            else (let s3 = s2\<lparr>nc_rects := Some (nc_row_rects s2)\<rparr>
                  in if length (nc_notifs s3) > 4
                        \<and> int (length (nc_notifs s3)) * 72 - nc_panel_h s3 = 0
                     then Inl ZeroDivisionError else Inr s3)))"

subsection \<open>Touch\<close>

fun first_hit :: "pos \<Rightarrow> int \<Rightarrow> rect option list \<Rightarrow> int option" where
  "first_hit p i [] = None"
| "first_hit p i (r # rs) =
     (case r of
        Some q \<Rightarrow> (if in_rect q p then Some i else first_hit p (i + 1) rs)
      | None \<Rightarrow> first_hit p (i + 1) rs)"

definition nc_handle_touch :: "notif_center \<Rightarrow> pos \<Rightarrow> bool \<times> notif_center" where
  "nc_handle_touch s p =
     (if \<not> nc_visible s then (False, s)
      else if snd p > nc_y_offset s + 36 + nc_panel_h s then (True, nc_hide s)
      else if (case nc_clear_rect s of Some r \<Rightarrow> in_rect r p | None \<Rightarrow> False) then (True, nc_clear_all s)
      else (case nc_rects s of
              None \<Rightarrow> (True, s)
            | Some rs \<Rightarrow> (case first_hit p 0 rs of
                             Some i \<Rightarrow> (True, nc_mark_read i s)
                           | None \<Rightarrow> (True, s))))"

subsection \<open>Lemmas\<close>

definition nc_ok :: "notif_center \<Rightarrow> bool" where
  "nc_ok s \<longleftrightarrow> length (nc_notifs s) \<le> 50"

lemma nc_notifs_simps [simp]:
  "nc_notifs (nc_save s) = nc_notifs s" "nc_notifs (nc_show s) = nc_notifs s"
  "nc_notifs (nc_hide s) = nc_notifs s" "nc_notifs (nc_anim s) = nc_notifs s"
  "nc_notifs (nc_clear_all s) = []" "nc_visible (nc_anim s) = nc_visible s"
  by (simp_all add: nc_save_def nc_show_def nc_hide_def nc_anim_def nc_clear_all_def)

lemma nc_add_bound: "nc_ok (nc_add now a t b c s)"
  by (simp add: nc_ok_def nc_add_def Let_def)

lemma length_nc_mark_read [simp]: "length (nc_notifs (nc_mark_read i s)) = length (nc_notifs s)"
  by (simp add: nc_mark_read_def)

lemma nc_handle_touch_length:
  "length (nc_notifs (snd (nc_handle_touch s p))) \<le> length (nc_notifs s)"
  by (auto simp: nc_handle_touch_def split: option.splits)

lemma nc_panel_h_many: "4 < length (nc_notifs s) \<Longrightarrow> nc_panel_h s = 360"
  by (simp add: nc_panel_h_def)

definition notifs_sound :: "notif list \<Rightarrow> bool" where
  "notifs_sound ns \<longleftrightarrow> length ns \<noteq> 5 \<and> list_all nt_colour_ok ns"

lemma nc_bad_row_colours: "list_all nt_colour_ok (nc_notifs s) \<Longrightarrow> \<not> nc_bad_row s"
  by (auto simp: nc_bad_row_def list_ex_iff list_all_iff dest: set_zip_rightD)

lemma nc_draw_sound: "notifs_sound (nc_notifs s) \<Longrightarrow> \<exists>s'. nc_draw cw s = Inr s' \<and> nc_notifs s' = nc_notifs s"
  using nc_bad_row_colours [of "(nc_anim s)\<lparr>nc_clear_rect := Some (W - cw - 20, nc_y_offset (nc_anim s) + 36 + 12, cw + 8, 24)\<rparr>"]
  by (auto simp: nc_draw_def Let_def nc_panel_h_def notifs_sound_def)

lemma nc_mark_read_colours: "list_all nt_colour_ok (nc_notifs s) \<Longrightarrow> list_all nt_colour_ok (nc_notifs (nc_mark_read i s))"
  by (auto simp: nc_mark_read_def list_all_length nt_colour_ok_def nth_list_update)

lemma nc_touch_sound: "notifs_sound (nc_notifs s) \<Longrightarrow> notifs_sound (nc_notifs (snd (nc_handle_touch s p)))"
  using nc_mark_read_colours by (auto simp: nc_handle_touch_def notifs_sound_def split: option.splits)

lemma demo_notifs_sound: "notifs_sound (demo_notifs now)"
  by (simp add: notifs_sound_def demo_notifs_def nt_colour_ok_def gfx_simps)

subsection \<open>Properties\<close>

text \<open>
  With valid colours, drawing the notification panel raises exactly when the panel is shown and
  there are exactly five notifications: the scroll indicator then divides by zero. No other
  number of notifications makes it raise.
\<close>

theorem nc_draw_raises_five:
  assumes "list_all nt_colour_ok (nc_notifs s)"
  shows "(\<exists>e. nc_draw cw s = Inl e) \<longleftrightarrow> nc_visible s \<and> length (nc_notifs s) = 5"
  using nc_bad_row_colours [of "(nc_anim s)\<lparr>nc_clear_rect := Some (W - cw - 20, nc_y_offset (nc_anim s) + 36 + 12, cw + 8, 24)\<rparr>"] assms
  by (auto simp: nc_draw_def Let_def nc_panel_h_def split: if_splits)

text \<open>
  Adding a notification puts it first, unread, keeps the other notifications in order,
  drops only what lies beyond the fiftieth, and saves the result.
\<close>

theorem nc_add_spec:
  "let s' = nc_add now a t b c s
   in \<exists>n. nt_app n = a \<and> nt_title n = t \<and> nt_body n = b \<and> \<not> nt_read n
        \<and> nc_notifs s' = take 50 (n # nc_notifs s) \<and> nc_file s' = NotifFile (nc_notifs s')
        \<and> length (nc_notifs s') \<le> 50"
  by (auto simp: nc_add_def nc_save_def Let_def)

text \<open>
  Marking a notification as read lowers the unread count by one if it was unread, and
  changes nothing otherwise; an index outside the list changes nothing.
\<close>

theorem nc_mark_read_unread_count:
  "unread_count (nc_mark_read i s) =
     (if 0 \<le> i \<and> i < int (length (nc_notifs s)) \<and> \<not> nt_read (nc_notifs s ! nat i)
      then unread_count s - 1 else unread_count s)"
proof (cases "0 \<le> i \<and> i < int (length (nc_notifs s))")
  case True
  then have k: "nat i < length (nc_notifs s)" by linarith
  note upd = filter_update_len [OF k, where P = "\<lambda>n. \<not> nt_read n" and y = "(nc_notifs s ! nat i)\<lparr>nt_read := True\<rparr>"]
  note same = filter_update_len_same [OF k, where P = "\<lambda>n. \<not> nt_read n" and y = "(nc_notifs s ! nat i)\<lparr>nt_read := True\<rparr>"]
  show ?thesis using True upd same by (simp add: unread_count_def nc_mark_read_def)
next
  case False
  then show ?thesis by (auto simp: nc_mark_read_def)
qed

end
