(* ===== verification/Spotlight.thy ===== *)
theory Spotlight
  imports Ui_Config
begin

text \<open>
  Spotlight search (\<^verbatim>\<open>src/src/system/spotlight.py\<close>): the query, the results of \<open>search\<close>, the
  rectangles \<open>draw\<close> leaves behind, and the key and touch handlers. The applications are given
  by their names.
\<close>

datatype result_type = RApp | RCommand | RSetting

record sp_entry =
  res_type :: result_type
  res_name :: string
  res_desc :: string

record spotlight =
  sp_visible :: bool
  sp_query :: string
  sp_results :: "sp_entry list"
  sp_selected :: int
  sp_rects :: "(rect \<times> sp_entry) list option"

definition sp_init :: spotlight where
  "sp_init = \<lparr>sp_visible = False, sp_query = [], sp_results = [], sp_selected = 0, sp_rects = None\<rparr>"

definition sp_show :: "spotlight \<Rightarrow> spotlight" where
  "sp_show s = s\<lparr>sp_visible := True, sp_query := [], sp_results := []\<rparr>"

definition sp_hide :: "spotlight \<Rightarrow> spotlight" where
  "sp_hide s = s\<lparr>sp_visible := False, sp_query := []\<rparr>"

definition sp_cmds :: "string list" where
  "sp_cmds = [''nmap'', ''ping'', ''curl'', ''python3'', ''ls'', ''cat'', ''ps'', ''df'']"

definition app_result :: "string \<Rightarrow> sp_entry" where
  "app_result n = \<lparr>res_type = RApp, res_name = n, res_desc = ''Julius OS App''\<rparr>"

definition cmd_result :: "string \<Rightarrow> sp_entry" where
  "cmd_result n = \<lparr>res_type = RCommand, res_name = n, res_desc = ''Terminal Command''\<rparr>"

definition sp_matches :: "string list \<Rightarrow> string \<Rightarrow> sp_entry list" where
  "sp_matches apps q =
     (let ql = py_lower q
      in map app_result (filter (\<lambda>n. py_in ql (py_lower n)) apps)
         @ map cmd_result (filter (py_in ql) sp_cmds)
         @ (if ql \<in> {''wifi'', ''network'', ''ip''}
            then [\<lparr>res_type = RSetting, res_name = ''WiFi Settings'', res_desc = ''Network Configuration''\<rparr>] else [])
         @ (if ql \<in> {''bt'', ''bluetooth''}
            then [\<lparr>res_type = RSetting, res_name = ''Bluetooth'', res_desc = ''Bluetooth Settings''\<rparr>] else []))"

definition sp_search :: "string list \<Rightarrow> string \<Rightarrow> spotlight \<Rightarrow> spotlight" where
  "sp_search apps q s =
     s\<lparr>sp_query := q, sp_results := (if q = [] then [] else sp_matches apps q)\<rparr>"

text \<open>\<open>draw\<close> returns before it rebuilds \<open>result_rects\<close> when there are no results.\<close>

definition sp_row_rects :: "sp_entry list \<Rightarrow> (rect \<times> sp_entry) list" where
  "sp_row_rects rs = map (\<lambda>(i, r). ((12, 106 + 52 * int i, W - 24, 46), r)) (enum (take 8 rs))"

definition sp_draw :: "spotlight \<Rightarrow> spotlight" where
  "sp_draw s =
     (if \<not> sp_visible s \<or> sp_results s = [] then s
      else s\<lparr>sp_rects := Some (sp_row_rects (sp_results s))\<rparr>)"

datatype sp_answer = SpNone | SpHide | SpResult sp_entry

definition sp_handle_key ::
    "string list \<Rightarrow> spotlight \<Rightarrow> key \<Rightarrow> string \<Rightarrow> (sp_answer \<times> spotlight) res" where
  "sp_handle_key apps s k u =
     (if \<not> sp_visible s then Inr (SpNone, s)
      else if k = K_ESCAPE then Inr (SpHide, sp_hide s)
      else if k = K_BACKSPACE then Inr (SpNone, sp_search apps (butlast (sp_query s)) s)
      else if k = K_RETURN then
        (if sp_results s \<noteq> [] \<and> sp_selected s < int (length (sp_results s)) then
           res_bind (py_get (sp_results s) (sp_selected s)) (\<lambda>r. Inr (SpResult r, s))
         else Inr (SpNone, s))
      else if k = K_DOWN then
        Inr (SpNone, s\<lparr>sp_selected := min (sp_selected s + 1) (int (length (sp_results s)) - 1)\<rparr>)
      else if k = K_UP then Inr (SpNone, s\<lparr>sp_selected := max (sp_selected s - 1) 0\<rparr>)
      else if u \<noteq> [] \<and> py_isprintable u then
        Inr (SpNone, (sp_search apps (sp_query s @ u) s)\<lparr>sp_selected := 0\<rparr>)
      else Inr (SpNone, s))"

definition sp_handle_touch :: "spotlight \<Rightarrow> pos \<Rightarrow> sp_answer \<times> spotlight" where
  "sp_handle_touch s p =
     (if \<not> sp_visible s then (SpNone, s)
      else (case (case sp_rects s of None \<Rightarrow> None | Some rs \<Rightarrow> find (\<lambda>(r, e). in_rect r p) rs) of
              Some (r, e) \<Rightarrow> (SpResult e, s)
            | None \<Rightarrow>
                (if snd p < 50 \<or> snd p > 106 + int (length (sp_results s)) * 52
                 then (SpNone, sp_hide s) else (SpNone, s))))"

subsection \<open>Lemmas\<close>

definition sp_ok :: "spotlight \<Rightarrow> bool" where
  "sp_ok s \<longleftrightarrow> - 1 \<le> sp_selected s"

lemma sp_ok_simps [simp]:
  "sp_ok sp_init" "sp_ok (sp_show s) = sp_ok s" "sp_ok (sp_hide s) = sp_ok s"
  "sp_ok (sp_draw s) = sp_ok s" "sp_ok (sp_search apps q s) = sp_ok s"
  by (simp_all add: sp_ok_def sp_init_def sp_show_def sp_hide_def sp_draw_def sp_search_def)

lemma py_get_from_minus_one:
  "- 1 \<le> i \<Longrightarrow> i < int (length xs) \<Longrightarrow> xs \<noteq> [] \<Longrightarrow> \<exists>x. py_get xs i = Inr x"
  by (cases xs) (auto simp: py_get_def py_index_def Let_def)

lemma sp_handle_key_ok:
  "sp_ok s \<Longrightarrow> \<exists>a s'. sp_handle_key apps s k u = Inr (a, s') \<and> sp_ok s'"
  using py_get_from_minus_one [of "sp_selected s" "sp_results s"]
  by (auto simp: sp_handle_key_def sp_ok_def sp_hide_def sp_search_def)

lemma sp_handle_touch_ok [simp]: "sp_ok (snd (sp_handle_touch s p)) = sp_ok s"
  by (auto simp: sp_handle_touch_def split: option.splits)

lemma py_lower_Nil [simp]: "py_lower [] = []"
  by (simp add: py_lower_def)

lemma sp_matches_apps:
  "r \<in> set (sp_matches apps q) \<Longrightarrow> res_type r = RApp \<Longrightarrow>
     res_name r \<in> set apps \<and> py_in (py_lower q) (py_lower (res_name r))"
  by (auto simp: sp_matches_def Let_def app_result_def cmd_result_def split: if_splits)

interpretation spotlight_keys:
  event_app "\<lambda>s (k, u). map_sum id snd (sp_handle_key apps s k u)" sp_ok for apps
proof
  fix s and e :: "key \<times> string"
  assume "sp_ok s"
  then obtain a s' where "sp_handle_key apps s (fst e) (snd e) = Inr (a, s')" "sp_ok s'"
    using sp_handle_key_ok by blast
  then show "\<exists>s'. (case e of (k, u) \<Rightarrow> map_sum id snd (sp_handle_key apps s k u)) = Inr s' \<and> sp_ok s'"
    by (cases e) simp
qed

subsection \<open>Properties\<close>

text \<open>
  A search finds an application exactly when the query, compared without case, occurs
  in its name; the results list the applications in the order of the launcher, then the
  commands.
\<close>

theorem sp_search_apps:
  "q \<noteq> [] \<Longrightarrow>
     filter (\<lambda>r. res_type r = RApp) (sp_results (sp_search apps q s)) =
       map app_result (filter (\<lambda>n. \<exists>as bs. py_lower n = as @ py_lower q @ bs) apps)"
proof -
  assume q: "q \<noteq> []"
  have 1: "filter (\<lambda>r. res_type r = RApp) (map app_result ns) = map app_result ns" for ns
    by (induction ns) (simp_all add: app_result_def)
  have 2: "filter (\<lambda>r. res_type r = RApp) (map cmd_result ns) = []" for ns
    by (induction ns) (simp_all add: cmd_result_def)
  from q 1 2 show ?thesis
    by (simp add: sp_search_def sp_matches_def Let_def py_in_iff)
qed

theorem sp_search_apps_witness:
  "filter (\<lambda>r. res_type r = RApp) (sp_results (sp_search [''WiFi'', ''Notes'', ''NetTools''] ''n'' sp_init)) =
     map app_result [''Notes'', ''NetTools'']"
proof -
  have eq: "filter (\<lambda>n. \<exists>as bs. py_lower n = as @ py_lower ''n'' @ bs) [''WiFi'', ''Notes'', ''NetTools''] =
      [''Notes'', ''NetTools'']"
    by (simp only: py_in_iff [symmetric]) code_simp
  show ?thesis using sp_search_apps [of "''n''" "[''WiFi'', ''Notes'', ''NetTools'']" sp_init]
    by (simp only: eq) simp
qed

end
