(* ===== verification/App_Switcher.thy ===== *)
theory App_Switcher
  imports Ui_Config Graphics
begin

text \<open>
  The application switcher (\<^verbatim>\<open>src/src/system/app_switcher.py\<close>). The animated offset
  \<open>scroll_x\<close> is an exact rational; the snapshots are the names they are kept for.
\<close>

record card =
  card_rect :: rect
  card_close :: rect
  card_name :: string
  card_index :: nat

record app_switcher =
  as_visible :: bool
  as_recent :: "string list"
  as_selected :: int
  as_scroll_x :: rat
  as_target_x :: int
  as_snapshots :: "string list"
  as_card_rects :: "card option list option"

definition as_init :: app_switcher where
  "as_init = \<lparr>as_visible = False, as_recent = [], as_selected = 0, as_scroll_x = 0, as_target_x = 0,
              as_snapshots = [], as_card_rects = None\<rparr>"

definition as_add_recent :: "string \<Rightarrow> app_switcher \<Rightarrow> app_switcher" where
  "as_add_recent n s =
     (let r = (if n \<in> set (as_recent s) then remove1 n (as_recent s) else as_recent s);
          r' = n # r;
          r'' = (if length r' > 8 then take 8 r' else r')
      in s\<lparr>as_recent := r''\<rparr>)"

definition as_take_snapshot :: "string \<Rightarrow> app_switcher \<Rightarrow> app_switcher" where
  "as_take_snapshot n s = s\<lparr>as_snapshots := n # filter (\<lambda>m. m \<noteq> n) (as_snapshots s)\<rparr>"

definition as_show :: "app_switcher \<Rightarrow> app_switcher" where
  "as_show s = s\<lparr>as_visible := True, as_scroll_x := 0, as_target_x := 0, as_selected := 0\<rparr>"

definition as_hide :: "app_switcher \<Rightarrow> app_switcher" where
  "as_hide s = s\<lparr>as_visible := False\<rparr>"

subsection \<open>Drawing\<close>

text \<open>
  One entry per recent application: \<open>None\<close> for a card off the screen. The selected card is
  scaled by 1.05 (168 by 273 pixels).
\<close>

definition as_card :: "int \<Rightarrow> nat \<Rightarrow> int \<Rightarrow> nat \<times> string \<Rightarrow> card option" where
  "as_card scroll_x n sel e =
     (let i = fst e;
          x = (W div 2 - 160 div 2 - scroll_x) + int i * 180 - (int n div 2) * 180;
          y = H div 2 - 260 div 2 + 20;
          sw = (if int i = sel then 168 else 160);
          sh = (if int i = sel then 273 else 260);
          sx = x - (sw - 160) div 2;
          sy = y - (sh - 260) div 2;
          close_x = sx + sw - 18;
          close_y = sy + 6
      in if sx > W + 100 \<or> sx + sw < - 100 then None
         else Some \<lparr>card_rect = (sx, sy, sw, sh), card_close = (close_x - 10, close_y - 10, 20, 20),
                    card_name = snd e, card_index = i\<rparr>)"

text \<open>
  The offset moves a fifth of the way to its target. \<open>draw\<close> returns before it rebuilds
  \<open>card_rects\<close> when there is no recent application.
\<close>

definition as_scroll :: "app_switcher \<Rightarrow> app_switcher" where
  "as_scroll s = s\<lparr>as_scroll_x := as_scroll_x s + (of_int (as_target_x s) - as_scroll_x s) * (1 / 5)\<rparr>"

definition as_draw :: "app_switcher \<Rightarrow> app_switcher" where
  "as_draw s0 =
     (if \<not> as_visible s0 then s0
      else
        (let s = as_scroll s0
         in if as_recent s = [] then s
            else s\<lparr>as_card_rects := Some (map (as_card (trunc (as_scroll_x s)) (length (as_recent s)) (as_selected s))
                                            (enum (as_recent s)))\<rparr>))"

text \<open>What it shows: the overlay, the title, and for every card on the screen its picture, name and close button.\<close>

definition as_font :: "int \<Rightarrow> font" where
  "as_font n = SysFont ''helvetica'' n False"

definition as_preview :: "app_switcher \<Rightarrow> (string \<times> rgba \<times> rgba) list \<Rightarrow> card \<Rightarrow> gfx list" where
  "as_preview s apps c =
     (case card_rect c of (sx, sy, sw, sh) \<Rightarrow>
        (if card_name c \<in> set (as_snapshots s) then [GImage (card_name c) (sw - 8, sh - 40) (sx + 4, sy + 4)]
         else (case map_of apps (card_name c) of
                 Some (bg, ac) \<Rightarrow>
                   [GBlit (sw - 8, sh - 40) None [GFill bg, GCircle ac ((sw - 8) div 2, (sh - 40) div 2) 30 3] (sx + 4, sy + 4)]
               | None \<Rightarrow> [])))"

definition as_card_view :: "metrics \<Rightarrow> app_switcher \<Rightarrow> (string \<times> rgba \<times> rgba) list \<Rightarrow> card \<Rightarrow> gfx list" where
  "as_card_view tm s apps c =
     (case card_rect c of (sx, sy, sw, sh) \<Rightarrow>
        (let close_x = sx + sw - 18; close_y = sy + 6
         in round_rect [22, 22, 28] (sx, sy, sw, sh) 16
            @ (if int (card_index c) = as_selected s then [GRect [0, 200, 255] (sx, sy, sw, sh) 2 16] else [])
            @ as_preview s apps c
            @ [text_centred tm (as_font 12) (card_name c) [255, 255, 255] (sx + sw div 2) (sy + sh - 26),
               GCircle [255, 69, 58] (close_x, close_y) 10 0,
               text_middle tm (as_font 10) ''x'' [255, 255, 255] close_x close_y]))"

definition as_screen :: "metrics \<Rightarrow> (string \<times> rgba \<times> rgba) list \<Rightarrow> app_switcher \<Rightarrow> gfx list" where
  "as_screen tm apps s0 =
     (if \<not> as_visible s0 then []
      else
        (let s = as_draw s0; dim = [100, 100, 110]
         in [GBlit (W, H) None [GFill [0, 0, 0, 200]] (0, 0), text_centred tm (as_font 12) ''App Switcher'' [255, 255, 255] (W div 2) 20]
            @ (if as_recent s = [] then
                 [text_centred tm (as_font 12) ''No recent apps'' dim (W div 2) (H div 2),
                  text_centred tm (as_font 10) ''Swipe up and hold to open'' dim (W div 2) (H - 30)]
               else
                 concat (map (\<lambda>c. case c of None \<Rightarrow> [] | Some d \<Rightarrow> as_card_view tm s apps d)
                   (case as_card_rects s of Some cs \<Rightarrow> cs | None \<Rightarrow> []))
                 @ [text_centred tm (as_font 10) ''Swipe left/right  |  Tap to open  |  X to close'' dim (W div 2) (H - 24)])))"

subsection \<open>Touch\<close>

datatype as_answer = AsNone | AsClosed | AsOpen string

fun as_touch_cards :: "pos \<Rightarrow> card option list \<Rightarrow> app_switcher \<Rightarrow> (as_answer \<times> app_switcher) res" where
  "as_touch_cards p [] s = Inr (AsNone, s)"
| "as_touch_cards p (None # cs) s = as_touch_cards p cs s"
| "as_touch_cards p (Some c # cs) s =
     (if in_rect (card_close c) p then
        res_bind (py_remove (as_recent s) (card_name c))
          (\<lambda>r. Inr (AsClosed, s\<lparr>as_recent := r,
                 as_snapshots := filter (\<lambda>m. m \<noteq> card_name c) (as_snapshots s)\<rparr>))
      else if in_rect (card_rect c) p then Inr (AsOpen (card_name c), as_hide s)
      else as_touch_cards p cs s)"

definition as_handle_touch :: "app_switcher \<Rightarrow> pos \<Rightarrow> bool \<Rightarrow> bool \<Rightarrow> (as_answer \<times> app_switcher) res" where
  "as_handle_touch s p is_swipe_left is_swipe_right =
     (if \<not> as_visible s then Inr (AsNone, s)
      else if is_swipe_left then
        Inr (AsNone, s\<lparr>as_selected := min (as_selected s + 1) (int (length (as_recent s)) - 1),
                       as_target_x := as_target_x s + 180\<rparr>)
      else if is_swipe_right then
        Inr (AsNone, s\<lparr>as_selected := max (as_selected s - 1) 0, as_target_x := as_target_x s - 180\<rparr>)
      else (case as_card_rects s of
              None \<Rightarrow> Inr (AsNone, s)
            | Some cs \<Rightarrow> as_touch_cards p cs s))"

subsection \<open>Lemmas\<close>

text \<open>The recent list: at most eight names, none twice.\<close>

definition as_ok :: "app_switcher \<Rightarrow> bool" where
  "as_ok s \<longleftrightarrow> distinct (as_recent s) \<and> length (as_recent s) \<le> 8"

lemma as_recent_simps [simp]:
  "as_recent (as_show s) = as_recent s" "as_recent (as_hide s) = as_recent s"
  "as_recent (as_draw s) = as_recent s" "as_recent (as_take_snapshot n s) = as_recent s"
  by (simp_all add: as_show_def as_hide_def as_draw_def as_take_snapshot_def as_scroll_def Let_def)

lemma as_add_recent_ok: "as_ok s \<Longrightarrow> as_ok (as_add_recent n s)"
  by (auto simp: as_ok_def as_add_recent_def Let_def length_remove1 distinct_remove1 dest: in_set_takeD)

lemma as_touch_cards_ok:
  "as_touch_cards p cs s = Inr (a, s') \<Longrightarrow> as_ok s \<Longrightarrow> as_ok s'"
  by (induction p cs s rule: as_touch_cards.induct)
     (auto simp: as_ok_def py_remove_def length_remove1 split: if_splits)

lemma as_handle_touch_ok:
  "as_handle_touch s p l r = Inr (a, s') \<Longrightarrow> as_ok s \<Longrightarrow> as_ok s'"
  by (auto simp: as_handle_touch_def dest: as_touch_cards_ok split: if_splits option.splits)
     (auto simp: as_ok_def)

text \<open>Cards that all name recent applications: touching them cannot raise.\<close>

definition cards_fresh :: "app_switcher \<Rightarrow> bool" where
  "cards_fresh s \<longleftrightarrow>
     (case as_card_rects s of None \<Rightarrow> True
      | Some cs \<Rightarrow> list_all (\<lambda>c. case c of None \<Rightarrow> True | Some d \<Rightarrow> card_name d \<in> set (as_recent s)) cs)"

lemma as_touch_cards_fresh:
  "list_all (\<lambda>c. case c of None \<Rightarrow> True | Some d \<Rightarrow> card_name d \<in> set (as_recent s)) cs \<Longrightarrow>
     is_ok (as_touch_cards p cs s)"
  by (induction p cs s rule: as_touch_cards.induct) (auto simp: py_remove_def)

lemma as_handle_touch_fresh: "cards_fresh s \<Longrightarrow> is_ok (as_handle_touch s p l r)"
  by (auto simp: as_handle_touch_def cards_fresh_def intro!: as_touch_cards_fresh split: option.splits)

lemma as_card_name: "as_card x n sel e = Some c \<Longrightarrow> card_name c = snd e"
  by (auto simp: as_card_def Let_def split: if_splits)

lemma as_draw_fresh: "as_visible s \<Longrightarrow> as_recent s \<noteq> [] \<Longrightarrow> cards_fresh (as_draw s)"
  by (auto simp: as_draw_def as_scroll_def Let_def cards_fresh_def list_all_iff set_enum_iff
      dest: as_card_name split: option.splits)

subsection \<open>Properties\<close>

text \<open>
  (C31) The recent list behaves as a most-recently-used list of eight: opening an application
  puts it first, keeps the order of the others, never lists a name twice and never holds
  more than eight.
\<close>

theorem as_add_recent_mru:
  "as_ok s \<Longrightarrow>
     as_ok (as_add_recent n s) \<and>
     as_recent (as_add_recent n s) = take 8 (n # filter (\<lambda>m. m \<noteq> n) (as_recent s))"
proof -
  assume ok: "as_ok s"
  then have "remove1 n (as_recent s) = filter (\<lambda>m. m \<noteq> n) (as_recent s)"
    by (simp add: as_ok_def distinct_remove1_removeAll removeAll_filter_not_eq)
      (metis (no_types, lifting) filter_cong)
  moreover have "n \<notin> set (as_recent s) \<Longrightarrow> filter (\<lambda>m. m \<noteq> n) (as_recent s) = as_recent s"
    by (rule filter_True) auto
  ultimately show ?thesis
    using as_add_recent_ok [OF ok] by (auto simp: as_add_recent_def Let_def)
qed

theorem as_add_recent_mru_witness:
  "as_recent (as_add_recent ''WiFi'' (as_init\<lparr>as_recent := [''Notes'', ''WiFi'', ''Calc'']\<rparr>)) =
     [''WiFi'', ''Notes'', ''Calc'']"
  using as_add_recent_mru [of "as_init\<lparr>as_recent := [''Notes'', ''WiFi'', ''Calc'']\<rparr>" "''WiFi''"]
  by (simp add: as_ok_def as_init_def)

end
