(* ===== verification/Folders.thy ===== *)
theory Folders
  imports Ui_Config Graphics
begin

text \<open>
  Application folders (\<^verbatim>\<open>src/src/system/folders.py\<close>). The opening of the panel is
  animated in steps of 0.08, an exact rational here; the pixel sizes it gives are those of the
  source in every one of its thirteen frames.
\<close>

record app_folder =
  fd_name :: string
  fd_apps :: "string list"
  fd_color :: rgba

definition get_preview_apps :: "app_folder \<Rightarrow> string list" where
  "get_preview_apps f = take 4 (fd_apps f)"

record folder_manager =
  fm_open_folder :: "app_folder option"
  fm_visible :: bool
  fm_anim :: rat
  fm_rects :: "(rect \<times> string) list option"

definition fm_init :: folder_manager where
  "fm_init = \<lparr>fm_open_folder = None, fm_visible = False, fm_anim = 0, fm_rects = None\<rparr>"

definition fm_open :: "app_folder \<Rightarrow> folder_manager \<Rightarrow> folder_manager" where
  "fm_open f s = s\<lparr>fm_open_folder := Some f, fm_visible := True, fm_anim := 0\<rparr>"

definition fm_close :: "folder_manager \<Rightarrow> folder_manager" where
  "fm_close s = s\<lparr>fm_visible := False, fm_open_folder := None\<rparr>"

text \<open>The grid: four columns, cut off at the first row that does not fit in the panel.\<close>

definition fm_cell :: "int \<times> int \<Rightarrow> nat \<Rightarrow> rect" where
  "fm_cell d i =
     (let pw = fst d; ph = snd d; px = (W - pw) div 2; py = (H - ph) div 2;
          sz = (pw - 12 * 5) div 4
      in (px + 12 + int (i mod 4) * (sz + 12), py + 44 + int (i div 4) * (sz + 24), sz, sz))"

definition fm_fits :: "int \<times> int \<Rightarrow> nat \<Rightarrow> bool" where
  "fm_fits d i =
     (case fm_cell d i of (x, y, w, h) \<Rightarrow> \<not> (y + h > (H - snd d) div 2 + snd d - 10))"

text \<open>A step of the animation and the size \<open>(panel_w, panel_h)\<close> of the panel after it.\<close>

definition fm_step :: "rat \<Rightarrow> rat" where
  "fm_step a = min 1 (a + 8 / 100)"

definition fm_panel :: "rat \<Rightarrow> int \<times> int" where
  "fm_panel a = (let scale = 3 / 10 + 7 / 10 * a in (trunc (of_int W * (9 / 10) * scale), trunc (of_int H * (65 / 100) * scale)))"

definition fm_shown :: "int \<times> int \<Rightarrow> app_folder \<Rightarrow> (rect \<times> string) list" where
  "fm_shown d f = map (\<lambda>(i, n). (fm_cell d i, n)) (takeWhile (\<lambda>(i, n). fm_fits d i) (enum (fd_apps f)))"

definition fm_draw :: "folder_manager \<Rightarrow> folder_manager" where
  "fm_draw s =
     (case fm_open_folder s of
        None \<Rightarrow> s
      | Some f \<Rightarrow>
          (if \<not> fm_visible s then s
           else (let a = fm_step (fm_anim s) in s\<lparr>fm_anim := a, fm_rects := Some (fm_shown (fm_panel a) f)\<rparr>)))"

text \<open>
  What it shows. The function that draws an icon is handed to the manager from outside
  (\<open>folder_mgr.draw_icon = draw_icon\<close>) and is an argument here.
\<close>

definition fm_font :: "int \<Rightarrow> bool \<Rightarrow> font" where
  "fm_font n bold = SysFont ''helvetica'' n bold"

definition fm_screen :: "metrics \<Rightarrow> (string \<Rightarrow> int \<Rightarrow> int \<Rightarrow> int \<Rightarrow> gfx list) \<Rightarrow> folder_manager \<Rightarrow> gfx list" where
  "fm_screen tm icon s =
     (case fm_open_folder s of
        None \<Rightarrow> []
      | Some f \<Rightarrow>
          (if \<not> fm_visible s then []
           else
             (let a = fm_step (fm_anim s); alpha = trunc (a * 255); d = fm_panel a; px = (W - fst d) div 2; py = (H - snd d) div 2
              in [GBlit (W, H) None [GFill [0, 0, 0, trunc (180 * a)]] (0, 0), GBlit d None [GFill [28, 28, 36, alpha]] (px, py),
                  GRect [50, 50, 60] (px, py, fst d, snd d) 1 20,
                  text_centred tm (fm_font 14 True) (fd_name f) [255, 255, 255, alpha] (W div 2) (py + 14),
                  GLine [50, 50, 60] (px, py + 36) (px + fst d, py + 36) 1]
                 @ concat (map (\<lambda>((ix, iy, sz, _), n). icon n ix iy sz
                       @ [text_centred tm (fm_font 10 False) n [255, 255, 255, alpha] (ix + sz div 2) (iy + sz + 2)]) (fm_shown d f))
                 @ [text_centred tm (fm_font 11 False) ''Tap app to open  |  Swipe down to close'' [100, 100, 110, alpha] (W div 2) (py + snd d - 18)])))"

text \<open>A folder's own icon: up to four small squares in the colours of its applications.\<close>

definition draw_folder_icon :: "metrics \<Rightarrow> (string \<Rightarrow> rgba) \<Rightarrow> app_folder \<Rightarrow> int \<Rightarrow> int \<Rightarrow> int \<Rightarrow> gfx list" where
  "draw_folder_icon tm bg f x y sz =
     (let mini = sz div 2 - 4
      in round_rect (fd_color f) (x, y, sz, sz) (sz div 6)
         @ concat (map (\<lambda>(n, (ox, oy)). round_rect (bg n) (x + ox, y + oy, mini, mini) (mini div 4))
             (zip (get_preview_apps f) [(2, 2), (mini + 4, 2), (2, mini + 4), (mini + 4, mini + 4)]))
         @ [text_centred tm (fm_font 10 False) (take 8 (fd_name f)) [255, 255, 255, 200] (x + sz div 2) (y + sz + 2)])"

datatype fm_answer = FmNone | FmClosed | FmOpen string

definition fm_handle_touch :: "folder_manager \<Rightarrow> pos \<Rightarrow> bool \<Rightarrow> fm_answer \<times> folder_manager" where
  "fm_handle_touch s p is_swipe_down =
     (if \<not> fm_visible s then (FmNone, s)
      else if is_swipe_down then (FmClosed, fm_close s)
      else (case (case fm_rects s of None \<Rightarrow> None | Some rs \<Rightarrow> find (\<lambda>(r, n). in_rect r p) rs) of
              Some (r, n) \<Rightarrow> (FmOpen n, fm_close s)
            | None \<Rightarrow> (FmNone, s)))"

subsection \<open>The opening animation\<close>

text \<open>The animation never runs past its end, and after thirteen frames the panel has its full size.\<close>

definition anim_ok :: "folder_manager \<Rightarrow> bool" where
  "anim_ok s \<longleftrightarrow> 0 \<le> fm_anim s \<and> fm_anim s \<le> 1"

lemma fm_step_bounds: "0 \<le> a \<Longrightarrow> 0 \<le> fm_step a \<and> fm_step a \<le> 1"
  by (simp add: fm_step_def)

lemma anim_ok_steps: "anim_ok fm_init" "anim_ok s \<Longrightarrow> anim_ok (fm_open f s)" "anim_ok s \<Longrightarrow> anim_ok (fm_close s)" "anim_ok s \<Longrightarrow> anim_ok (fm_draw s)"
  using fm_step_bounds by (auto simp: anim_ok_def fm_init_def fm_open_def fm_close_def fm_draw_def Let_def split: option.split)

lemma fm_panel_full: "fm_panel 1 = (288, 312)"
  by (simp add: fm_panel_def W_def H_def trunc_def)

lemma fm_step_funpow: "(fm_step ^^ n) 0 = min 1 (of_nat n * (8 / 100))"
  by (induction n) (auto simp: fm_step_def min_def field_simps)

lemma fm_opens: "fm_panel ((fm_step ^^ 13) 0) = (288, 312)"
  by (simp only: fm_step_funpow) (simp add: fm_panel_full)

text \<open>Every colour the panel draws with is valid at every stage.\<close>

lemma fm_screen_ok:
  assumes "anim_ok s" "\<And>n x y sz. list_all gfx_ok (icon n x y sz)"
  shows "list_all gfx_ok (fm_screen tm icon s)"
proof -
  let ?a = "fm_step (fm_anim s)"
  have a: "0 \<le> ?a" "?a \<le> 1" using fm_step_bounds assms(1) by (auto simp: anim_ok_def)
  have al: "0 \<le> trunc (?a * 255) \<and> trunc (?a * 255) \<le> 255" "0 \<le> trunc (180 * ?a) \<and> trunc (180 * ?a) \<le> 180"
    using a by (intro trunc_bounds; simp)+
  have d: "0 \<le> fst (fm_panel ?a)" "0 \<le> snd (fm_panel ?a)"
    using a by (simp_all add: fm_panel_def Let_def trunc_def W_def H_def)
  obtain w h where p: "fm_panel ?a = (w, h)" by (cases "fm_panel ?a")
  show ?thesis
    using al d assms(2) by (auto simp: fm_screen_def Let_def p gfx_simps W_def H_def list_all_iff split: option.split)
qed

end
