(* ===== verification/Lock_Animation.thy ===== *)
theory Lock_Animation
  imports Graphics
begin

text \<open>
  The lock-screen animation (\<^verbatim>\<open>src/src/system/lock_animation.py\<close>): its state machine, the
  particles of a success, and what it draws. Times and coordinates are rationals. The random
  choices of \<open>spawn_particles\<close> and the sine of the pulse are arguments.
\<close>

subsection \<open>Colours\<close>

definition LA_WHITE :: rgba where "LA_WHITE = [255, 255, 255]"
definition LA_GREEN :: rgba where "LA_GREEN = [48, 209, 88]"
definition LA_BLUE :: rgba where "LA_BLUE = [10, 132, 255]"
definition LA_RED :: rgba where "LA_RED = [255, 69, 58]"
definition LA_PURPLE :: rgba where "LA_PURPLE = [191, 90, 242]"
definition LA_DIM :: rgba where "LA_DIM = [120, 120, 130]"

lemmas la_colours = LA_WHITE_def LA_GREEN_def LA_BLUE_def LA_RED_def LA_PURPLE_def LA_DIM_def

subsection \<open>State\<close>

datatype lock_state = LIdle | LScanning | LWaiting | LResult | LDone

record particle =
  pt_x :: rat
  pt_y :: rat
  pt_vx :: rat
  pt_vy :: rat
  pt_life :: rat
  pt_color :: rgba

record lock_anim =
  la_state :: lock_state
  la_progress :: rat
  la_start_t :: rat
  la_result :: "bool option"
  la_particles :: "particle list"

definition la_init :: lock_anim where
  "la_init = \<lparr>la_state = LIdle, la_progress = 0, la_start_t = 0, la_result = None, la_particles = []\<rparr>"

definition start_scan :: "rat \<Rightarrow> lock_anim \<Rightarrow> lock_anim" where
  "start_scan now s = s\<lparr>la_state := LScanning, la_progress := 0, la_start_t := now, la_result := None\<rparr>"

text \<open>
  What \<open>random\<close> yields for a particle: the cosine and sine of its angle, its speed and which
  of the four colours.
\<close>

type_synonym spark = "rat \<times> rat \<times> rat \<times> nat"

definition spark_colours :: "rgba list" where
  "spark_colours = [LA_GREEN, LA_BLUE, LA_WHITE, LA_PURPLE]"

definition spawn_particles :: "int \<Rightarrow> int \<Rightarrow> (nat \<Rightarrow> spark) \<Rightarrow> lock_anim \<Rightarrow> lock_anim" where
  "spawn_particles w h rnd s =
     s\<lparr>la_particles := la_particles s @
         map (\<lambda>i. case rnd i of (c, sn, speed, k) \<Rightarrow>
                 \<lparr>pt_x = of_int (w div 2), pt_y = of_int (h div 2), pt_vx = c * speed, pt_vy = sn * speed,
                  pt_life = 1, pt_color = spark_colours ! (k mod 4)\<rparr>) [0..<24]\<rparr>"

definition set_result :: "int \<Rightarrow> int \<Rightarrow> (nat \<Rightarrow> spark) \<Rightarrow> rat \<Rightarrow> bool \<Rightarrow> lock_anim \<Rightarrow> lock_anim" where
  "set_result w h rnd now success s =
     (let s1 = s\<lparr>la_state := LResult, la_result := Some success, la_start_t := now\<rparr>
      in if success then spawn_particles w h rnd s1 else s1)"

definition move_particle :: "particle \<Rightarrow> particle" where
  "move_particle p =
     p\<lparr>pt_x := pt_x p + pt_vx p, pt_y := pt_y p + pt_vy p, pt_vy := pt_vy p + 3 / 10, pt_life := pt_life p - 3 / 100\<rparr>"

definition la_update :: "rat \<Rightarrow> lock_anim \<Rightarrow> lock_anim" where
  "la_update now s =
     (let elapsed = now - la_start_t s
      in case la_state s of
           LScanning \<Rightarrow>
             (let p = min 1 (elapsed / 2); s1 = s\<lparr>la_progress := p\<rparr>
              in if p \<ge> 1 then s1\<lparr>la_state := LWaiting\<rparr> else s1)
         | LResult \<Rightarrow>
             (let s1 = s\<lparr>la_particles := filter (\<lambda>p. pt_life p > 0) (map move_particle (la_particles s))\<rparr>
              in if elapsed > 3 / 2 \<and> la_particles s1 = [] then s1\<lparr>la_state := LDone\<rparr> else s1)
         | _ \<Rightarrow> s)"

definition la_is_done :: "lock_anim \<Rightarrow> bool" where
  "la_is_done s \<longleftrightarrow> la_state s = LDone"

subsection \<open>Drawing\<close>

text \<open>The six lines of the fingerprint, as multiples of its size, and its three rings.\<close>

definition fingerprint_lines :: "((rat \<times> rat) \<times> (rat \<times> rat)) list" where
  "fingerprint_lines =
     [((0, - 1), (0, 1)), ((- (1 / 2), - (4 / 5)), (1 / 2, - (4 / 5))), ((- (4 / 5), - (2 / 5)), (4 / 5, - (2 / 5))),
      ((- 1, 0), (1, 0)), ((- (4 / 5), 2 / 5), (4 / 5, 2 / 5)), ((- (1 / 2), 4 / 5), (1 / 2, 4 / 5))]"

definition draw_fingerprint :: "int \<Rightarrow> int \<Rightarrow> int \<Rightarrow> rgba \<Rightarrow> gfx list" where
  "draw_fingerprint cx cy sz col =
     (let put = (\<lambda>(a, b). (cx + trunc (of_int sz * a * (3 / 5)), cy + trunc (of_int sz * b * (3 / 5))))
      in map (\<lambda>(a, b). GLine col (put a) (put b) 2) fingerprint_lines
         @ [GCircle col (cx, cy) sz 2, GCircle col (cx, cy) (sz - 8) 1, GCircle col (cx, cy) (sz - 18) 1])"

definition la_font :: "int \<Rightarrow> bool \<Rightarrow> font" where
  "la_font n bold = SysFont ''helvetica'' n bold"

text \<open>The four faces: idle, scanning (and waiting), a result, and nothing when done.\<close>

definition la_draw_idle :: "metrics \<Rightarrow> (rat \<Rightarrow> rat) \<Rightarrow> rat \<Rightarrow> int \<Rightarrow> int \<Rightarrow> gfx list" where
  "la_draw_idle tm sine now cx cy =
     (let pulse = 7 / 10 + 3 / 10 * sine (now * 2); col = map (\<lambda>c. trunc (of_int c * pulse)) LA_DIM
      in draw_fingerprint cx cy 40 col @ [text_centred tm (la_font 12 False) ''Touch to unlock'' LA_DIM cx (cy + 55)])"

definition la_draw_scan :: "metrics \<Rightarrow> trig \<Rightarrow> int \<Rightarrow> int \<Rightarrow> lock_anim \<Rightarrow> gfx list" where
  "la_draw_scan tm trig cx cy s =
     (let scan_y = cy - 40 + trunc (80 * la_progress s)
      in draw_fingerprint cx cy 40 LA_BLUE
         @ [GLine (with_alpha LA_BLUE 180) (cx - 35, scan_y) (cx + 35, scan_y) 2]
         @ map (\<lambda>i. GCircle LA_BLUE (cx + trunc (fst (trig (int i * 6 - 90)) * 48), cy + trunc (snd (trig (int i * 6 - 90)) * 48)) 2 0)
             [0..<nat (trunc (la_progress s * 60))]
         @ [text_centred tm (la_font 12 False) ''Scanning...'' LA_BLUE cx (cy + 58)])"

definition la_draw_result :: "metrics \<Rightarrow> int \<Rightarrow> int \<Rightarrow> lock_anim \<Rightarrow> gfx list" where
  "la_draw_result tm cx cy s =
     (if la_result s = Some True
      then draw_fingerprint cx cy 40 LA_GREEN @ [text_centred tm (la_font 14 True) ''Unlocked'' LA_GREEN cx (cy + 58)]
      else draw_fingerprint cx cy 40 LA_RED @ [text_centred tm (la_font 14 True) ''Not recognized'' LA_RED cx (cy + 58)])
     @ map (\<lambda>p. GCircle (take 3 (pt_color p)) (trunc (pt_x p), trunc (pt_y p)) 3 0) (la_particles s)"

definition la_draw :: "metrics \<Rightarrow> trig \<Rightarrow> (rat \<Rightarrow> rat) \<Rightarrow> int \<Rightarrow> int \<Rightarrow> rat \<Rightarrow> lock_anim \<Rightarrow> lock_anim \<times> gfx list" where
  "la_draw tm trig sine w h now s0 =
     (let s = la_update now s0; cx = w div 2; cy = h div 2
      in (s, case la_state s of
               LIdle \<Rightarrow> la_draw_idle tm sine now cx cy
             | LScanning \<Rightarrow> la_draw_scan tm trig cx cy s
             | LWaiting \<Rightarrow> la_draw_scan tm trig cx cy s
             | LResult \<Rightarrow> la_draw_result tm cx cy s
             | LDone \<Rightarrow> []))"

subsection \<open>Invariant\<close>

text \<open>
  A result is present exactly from \<open>set_result\<close> to the next scan; every particle is alive, no
  older than its birth allows, and of one of the four colours.
\<close>

definition la_ok :: "lock_anim \<Rightarrow> bool" where
  "la_ok s \<longleftrightarrow> (la_result s \<noteq> None) = (la_state s \<in> {LResult, LDone}) \<and> la_progress s \<le> 1
     \<and> (\<forall>p\<in>set (la_particles s). 0 < pt_life p \<and> pt_life p \<le> 1 \<and> pt_color p \<in> set spark_colours)"

lemma spawned:
  "p \<in> set (la_particles (spawn_particles w h rnd s)) \<Longrightarrow>
     p \<in> set (la_particles s) \<or> pt_life p = 1 \<and> pt_color p \<in> set spark_colours"
  by (auto simp: spawn_particles_def split: prod.splits intro!: nth_mem) (simp add: spark_colours_def)

lemma spawn_keeps [simp]:
  "la_state (spawn_particles w h rnd s) = la_state s" "la_result (spawn_particles w h rnd s) = la_result s"
  "la_progress (spawn_particles w h rnd s) = la_progress s" "la_start_t (spawn_particles w h rnd s) = la_start_t s"
  by (simp_all add: spawn_particles_def)

lemma la_ok_init: "la_ok la_init"
  by (simp add: la_ok_def la_init_def)

lemma la_ok_start: "la_ok s \<Longrightarrow> la_ok (start_scan now s)"
  by (simp add: la_ok_def start_scan_def)

lemma la_ok_result: "la_ok s \<Longrightarrow> la_ok (set_result w h rnd now b s)"
  by (auto simp: la_ok_def set_result_def Let_def dest!: spawned)

lemma la_ok_update: "la_ok s \<Longrightarrow> la_ok (la_update now s)"
  by (cases "la_state s") (auto simp: la_ok_def la_update_def Let_def move_particle_def intro: order_trans)

lemmas la_ok_steps = la_ok_init la_ok_start la_ok_result la_ok_update

subsection \<open>Drawing never raises\<close>

lemma fingerprint_ok: "colour_ok col \<Longrightarrow> list_all gfx_ok (draw_fingerprint cx cy sz col)"
  by (simp add: draw_fingerprint_def Let_def list_all_iff split_beta)

lemma la_colours_ok:
  "colour_ok LA_WHITE" "colour_ok LA_GREEN" "colour_ok LA_BLUE" "colour_ok LA_RED" "colour_ok LA_PURPLE" "colour_ok LA_DIM"
  "colour_ok (with_alpha LA_BLUE 180)"
  by (simp_all add: la_colours with_alpha_def gfx_simps)

lemma pulse_ok:
  assumes "\<bar>s\<bar> \<le> (1 :: rat)"
  shows "colour_ok (map (\<lambda>c. trunc (of_int c * (7 / 10 + 3 / 10 * s))) LA_DIM)"
proof -
  have s: "0 \<le> 7 / 10 + 3 / 10 * s" "7 / 10 + 3 / 10 * s \<le> 1" using assms by (auto simp: abs_le_iff)
  have "0 \<le> trunc (of_int c * (7 / 10 + 3 / 10 * s)) \<and> trunc (of_int c * (7 / 10 + 3 / 10 * s)) \<le> c" if "0 \<le> c" for c
    using that s mult_left_mono [OF s(2), of "of_int c"] by (intro trunc_bounds) simp_all
  from this [of 120] this [of 130] show ?thesis by (simp add: LA_DIM_def colour_ok_def)
qed

theorem la_draw_ok:
  assumes "la_ok s" "\<And>x. \<bar>sine x\<bar> \<le> 1"
  shows "list_all gfx_ok (snd (la_draw tm trig sine w h now s))"
proof -
  let ?s = "la_update now s"
  have "la_ok ?s" using assms(1) by (rule la_ok_update)
  then have "\<forall>p\<in>set (la_particles ?s). colour_ok (take 3 (pt_color p))"
    by (auto simp: la_ok_def spark_colours_def la_colours gfx_simps dest!: bspec)
  then show ?thesis
    using pulse_ok [OF assms(2)]
    by (auto simp: la_draw_def Let_def la_draw_idle_def la_draw_scan_def la_draw_result_def fingerprint_ok
        la_colours_ok gfx_simps list_all_iff [of _ "map _ _"] split: lock_state.split)
qed

subsection \<open>The result animation ends\<close>

lemma update_result:
  assumes "la_state s = LResult" "\<forall>p\<in>set (la_particles s). pt_life p \<le> b"
  shows "la_state (la_update t s) = LDone \<or>
    la_state (la_update t s) = LResult \<and> la_start_t (la_update t s) = la_start_t s
    \<and> (\<forall>p\<in>set (la_particles (la_update t s)). pt_life p \<le> b - 3 / 100)"
  using assms by (auto simp: la_update_def Let_def move_particle_def)

lemma update_done: "la_state s = LDone \<Longrightarrow> la_update t s = s"
  by (simp add: la_update_def Let_def)

lemma lives_fall:
  assumes "la_state s = LResult" "\<forall>p\<in>set (la_particles s). pt_life p \<le> 1"
  shows "la_state (fold la_update ts s) = LDone \<or>
    la_state (fold la_update ts s) = LResult \<and> la_start_t (fold la_update ts s) = la_start_t s
    \<and> (\<forall>p\<in>set (la_particles (fold la_update ts s)). pt_life p \<le> 1 - 3 / 100 * of_nat (length ts))"
proof (induction ts rule: rev_induct)
  case Nil
  with assms show ?case by simp
next
  case (snoc t ts)
  let ?b = "1 - 3 / 100 * of_nat (length ts) :: rat"
  have b: "?b - 3 / 100 = 1 - 3 / 100 * of_nat (length (ts @ [t]))" by (simp add: field_simps)
  from snoc update_result [of "fold la_update ts s" ?b t] show ?case unfolding b by (auto simp: update_done)
qed

theorem la_result_ends:
  assumes "la_state s = LResult" "\<forall>p\<in>set (la_particles s). pt_life p \<le> 1"
    and "33 \<le> length ts" "t - la_start_t s > 3 / 2"
  shows "la_is_done (fold la_update (ts @ [t]) s)"
proof -
  let ?r = "fold la_update ts s"
  have "1 - 3 / 100 * of_nat (length ts) - 3 / 100 < (0 :: rat)" using assms(3) by simp
  then have "la_state ?r = LResult \<and> (\<forall>p\<in>set (la_particles ?r). pt_life p \<le> 1 - 3 / 100 * of_nat (length ts)) \<longrightarrow>
      filter (\<lambda>p. pt_life p > 0) (map move_particle (la_particles ?r)) = []"
    by (auto simp: filter_empty_conv move_particle_def not_less dest!: bspec)
  with lives_fall [OF assms(1,2), of ts] assms(4) show ?thesis
    by (auto simp: la_is_done_def la_update_def [of t] Let_def)
qed

text \<open>Once done, the animation draws nothing at all until the next scan.\<close>

lemma la_done_blank:
  "la_is_done s \<Longrightarrow> la_draw tm trig sine w h now s = (s, [])"
  by (simp add: la_is_done_def la_draw_def la_update_def Let_def)

text \<open>The first update after a success keeps the result on show, whatever the time: its particles are alive.\<close>

lemma la_fresh_result:
  "la_state (la_update now (set_result w h rnd t True s)) = LResult"
  "la_result (la_update now (set_result w h rnd t True s)) = Some True"
proof -
  let ?s = "set_result w h rnd t True s"
  let ?p = "case rnd 0 of (c, sn, speed, k) \<Rightarrow> \<lparr>pt_x = of_int (w div 2), pt_y = of_int (h div 2), pt_vx = c * speed,
    pt_vy = sn * speed, pt_life = 1, pt_color = spark_colours ! (k mod 4)\<rparr>"
  have "?p \<in> set (la_particles ?s)" by (simp add: set_result_def spawn_particles_def Let_def)
  moreover have "pt_life ?p = 1" by (simp split: prod.split)
  ultimately have "\<exists>p\<in>set (la_particles ?s). pt_life (move_particle p) > 0"
    by (intro bexI [of _ ?p]) (simp_all add: move_particle_def)
  then have "filter (\<lambda>p. pt_life p > 0) (map move_particle (la_particles ?s)) \<noteq> []" by (auto simp: filter_empty_conv)
  moreover have "la_state ?s = LResult" "la_result ?s = Some True" by (simp_all add: set_result_def Let_def)
  ultimately show "la_state (la_update now ?s) = LResult" "la_result (la_update now ?s) = Some True"
    by (auto simp: la_update_def Let_def)
qed

end
