(* ===== verification/Julius_AI.thy ===== *)
theory Julius_AI
  imports Ui_Config
begin

text \<open>
  The assistant (\<^verbatim>\<open>src/src/system/julius_ai.py\<close>). \<open>ask\<close> starts a thread per question; a thread
  first appends the question to the history and sends the last ten entries, and later
  appends the answer. Threads run interleaved with the interface, so the model keeps the
  list of unfinished threads and gives each of the two parts of a thread as a step. The
  outcome of the request is an argument: the answer, or the text of the exception.
\<close>

datatype ai_role = RoleSystem | RoleUser | RoleAssistant | RoleJulius

type_synonym ai_msg = "ai_role \<times> string"

datatype ai_thread = Started string | Waiting string

record julius_ai =
  ai_visible :: bool
  ai_messages :: "ai_msg list"
  ai_input :: string
  ai_thinking :: bool
  ai_scroll :: int
  ai_history :: "ai_msg list"
  ai_threads :: "ai_thread list"

definition ai_system_prompt :: string where
  \<comment> \<open>the hyphen stands for the dash U+2014 of the source\<close>
  "ai_system_prompt =
     ''You are Julius, an AI assistant built into Julius OS - a custom mini handheld device. ''
     @ ''Keep responses short and helpful. You can help with device settings, ''
     @ ''networking, security tools, and general questions.''"

definition ai_greeting :: string where
  "ai_greeting = ''Hi! I'm Julius, your AI assistant. How can I help?''"

definition ai_init :: julius_ai where
  "ai_init = \<lparr>ai_visible = False, ai_messages = [], ai_input = [], ai_thinking = False,
              ai_scroll = 0, ai_history = [(RoleSystem, ai_system_prompt)], ai_threads = []\<rparr>"

definition ai_show :: "julius_ai \<Rightarrow> julius_ai" where
  "ai_show s =
     (let s1 = s\<lparr>ai_visible := True\<rparr>
      in if ai_messages s1 = [] then s1\<lparr>ai_messages := [(RoleJulius, ai_greeting)]\<rparr> else s1)"

definition ai_hide :: "julius_ai \<Rightarrow> julius_ai" where
  "ai_hide s = s\<lparr>ai_visible := False\<rparr>"

definition ai_ask :: "string \<Rightarrow> julius_ai \<Rightarrow> julius_ai" where
  "ai_ask q s =
     s\<lparr>ai_messages := ai_messages s @ [(RoleUser, q)], ai_thinking := True,
       ai_threads := ai_threads s @ [Started q]\<rparr>"

text \<open>The first half of thread \<open>i\<close>: the question joins the history.\<close>

definition ai_thread_send :: "nat \<Rightarrow> julius_ai \<Rightarrow> julius_ai" where
  "ai_thread_send i s =
     (if i < length (ai_threads s) then
        (case ai_threads s ! i of
           Started q \<Rightarrow> s\<lparr>ai_history := ai_history s @ [(RoleUser, q)],
                          ai_threads := (ai_threads s)[i := Waiting q]\<rparr>
         | Waiting q \<Rightarrow> s)
      else s)"

text \<open>The messages of the request: \<open>self.history[-10:]\<close>.\<close>

definition ai_payload :: "julius_ai \<Rightarrow> ai_msg list" where
  "ai_payload s = py_slice (ai_history s) (- 10) (int (length (ai_history s)))"

definition ai_answer :: "string + string \<Rightarrow> string" where
  "ai_answer out = (case out of Inr a \<Rightarrow> a | Inl e \<Rightarrow> ''Offline mode. ('' @ take 40 e @ '')'')"

text \<open>The second half of thread \<open>i\<close>: the answer is recorded and shown.\<close>

definition ai_thread_done :: "nat \<Rightarrow> string + string \<Rightarrow> julius_ai \<Rightarrow> julius_ai" where
  "ai_thread_done i out s =
     (if i < length (ai_threads s) then
        (case ai_threads s ! i of
           Waiting q \<Rightarrow>
             (let ms = ai_messages s @ [(RoleJulius, ai_answer out)]
              in s\<lparr>ai_history := ai_history s @ [(RoleAssistant, ai_answer out)], ai_messages := ms,
                   ai_thinking := False, ai_scroll := max 0 (int (length ms) * 60 - (H - 200)),
                   ai_threads := del_nth (ai_threads s) i\<rparr>)
         | Started q \<Rightarrow> s)
      else s)"

definition ai_submit :: "julius_ai \<Rightarrow> julius_ai" where
  "ai_submit s = (ai_ask (py_strip (ai_input s)) s)\<lparr>ai_input := []\<rparr>"

definition ai_handle_key :: "julius_ai \<Rightarrow> key \<Rightarrow> string \<Rightarrow> julius_ai" where
  "ai_handle_key s k u =
     (if \<not> ai_visible s then s
      else if k = K_RETURN \<and> py_strip (ai_input s) \<noteq> [] then ai_submit s
      else if k = K_BACKSPACE then s\<lparr>ai_input := butlast (ai_input s)\<rparr>
      else if k = K_ESCAPE then ai_hide s
      else if u \<noteq> [] \<and> py_isprintable u then s\<lparr>ai_input := ai_input s @ u\<rparr>
      else s)"

definition ai_handle_touch :: "julius_ai \<Rightarrow> pos \<Rightarrow> julius_ai" where
  "ai_handle_touch s p =
     (if \<not> ai_visible s then s
      else if W - 52 \<le> fst p \<and> fst p \<le> W - 8 \<and> H - 46 \<le> snd p \<and> snd p \<le> H - 8 then
        (if py_strip (ai_input s) \<noteq> [] then ai_submit s else s)
      else s)"

subsection \<open>Interleavings\<close>

inductive ai_step :: "julius_ai \<Rightarrow> julius_ai \<Rightarrow> bool" where
  st_show: "ai_step s (ai_show s)"
| st_hide: "ai_step s (ai_hide s)"
| st_key: "ai_step s (ai_handle_key s k u)"
| st_touch: "ai_step s (ai_handle_touch s p)"
| st_send: "ai_step s (ai_thread_send i s)"
| st_done: "ai_step s (ai_thread_done i out s)"

inductive ai_reachable :: "julius_ai \<Rightarrow> bool" where
  ai_start: "ai_reachable ai_init"
| ai_next: "ai_reachable s \<Longrightarrow> ai_step s t \<Longrightarrow> ai_reachable t"

inductive_cases ai_stepE: "ai_step s t"

definition count_role :: "ai_role \<Rightarrow> ai_msg list \<Rightarrow> nat" where
  "count_role r ms = length (filter (\<lambda>m. fst m = r) ms)"

fun is_started :: "ai_thread \<Rightarrow> bool" where
  "is_started (Started q) = True"
| "is_started (Waiting q) = False"

definition n_started :: "julius_ai \<Rightarrow> nat" where
  "n_started s = length (filter is_started (ai_threads s))"

text \<open>
  Bookkeeping: apart from the greeting every answer belongs to a question, the questions
  without an answer are the unfinished threads, and the history holds the questions of
  every thread that has sent its request and the answers of every finished one.
\<close>

definition ai_inv :: "julius_ai \<Rightarrow> bool" where
  "ai_inv s \<longleftrightarrow>
     (if ai_messages s = [] then \<not> ai_visible s \<and> ai_threads s = [] \<and> count_role RoleUser (ai_history s) = 0
                                   \<and> count_role RoleAssistant (ai_history s) = 0
      else count_role RoleJulius (ai_messages s) + length (ai_threads s) = Suc (count_role RoleUser (ai_messages s))
         \<and> count_role RoleAssistant (ai_history s) + 1 = count_role RoleJulius (ai_messages s)
         \<and> count_role RoleUser (ai_history s) + n_started s = count_role RoleUser (ai_messages s))"

lemma count_role_simps [simp]:
  "count_role r [] = 0"
  "count_role r (m # ms) = (if fst m = r then Suc (count_role r ms) else count_role r ms)"
  "count_role r (ms @ ns) = count_role r ms + count_role r ns"
  by (simp_all add: count_role_def)

lemma ai_inv_init: "ai_inv ai_init"
  by (simp add: ai_inv_def ai_init_def)

lemma ai_inv_show: "ai_inv s \<Longrightarrow> ai_inv (ai_show s)"
  by (auto simp: ai_inv_def ai_show_def Let_def n_started_def split: if_splits)

lemma ai_inv_hide: "ai_inv s \<Longrightarrow> ai_inv (ai_hide s)"
  by (auto simp: ai_inv_def ai_hide_def n_started_def split: if_splits)

lemma ai_inv_input: "ai_inv s \<Longrightarrow> ai_inv (s\<lparr>ai_input := i\<rparr>)"
  by (auto simp: ai_inv_def n_started_def split: if_splits)

lemma ai_inv_ask: "ai_inv s \<Longrightarrow> ai_visible s \<Longrightarrow> ai_inv (ai_ask q s)"
  by (auto simp: ai_inv_def ai_ask_def n_started_def split: if_splits)

lemma ai_inv_submit: "ai_inv s \<Longrightarrow> ai_visible s \<Longrightarrow> ai_inv (ai_submit s)"
  by (simp add: ai_submit_def ai_inv_ask ai_inv_input)

lemma ai_inv_key: "ai_inv s \<Longrightarrow> ai_inv (ai_handle_key s k u)"
  by (auto simp: ai_handle_key_def ai_inv_submit ai_inv_input ai_inv_hide)

lemma ai_inv_touch: "ai_inv s \<Longrightarrow> ai_inv (ai_handle_touch s p)"
  by (auto simp: ai_handle_touch_def ai_inv_submit)

lemma ai_inv_send:
  assumes "ai_inv s"
  shows "ai_inv (ai_thread_send i s)"
proof (cases "i < length (ai_threads s) \<and> is_started (ai_threads s ! i)")
  case True
  then obtain q where q: "ai_threads s ! i = Started q" by (cases "ai_threads s ! i") auto
  have "n_started s = Suc (length (filter is_started ((ai_threads s)[i := Waiting q])))"
    unfolding n_started_def by (rule filter_update_len) (use True in auto)
  with True q assms show ?thesis
    by (auto simp: ai_inv_def ai_thread_send_def n_started_def split: if_splits)
next
  case False
  with assms show ?thesis by (auto simp: ai_thread_send_def split: ai_thread.splits)
qed

lemma ai_inv_done: "ai_inv s \<Longrightarrow> ai_inv (ai_thread_done i out s)"
  using filter_del_nth [of i "ai_threads s" is_started]
  by (auto simp: ai_inv_def ai_thread_done_def n_started_def Let_def split: ai_thread.splits if_splits)

lemma ai_inv_step: "ai_step s t \<Longrightarrow> ai_inv s \<Longrightarrow> ai_inv t"
  by (erule ai_stepE)
     (auto intro: ai_inv_show ai_inv_hide ai_inv_key ai_inv_touch ai_inv_send ai_inv_done)

lemma ai_inv_reachable: "ai_reachable s \<Longrightarrow> ai_inv s"
  by (induction rule: ai_reachable.induct) (auto intro: ai_inv_init ai_inv_step)

subsection \<open>Properties\<close>



text \<open>
  The request never carries more than ten messages, and they are the most recent ones
  of the history.
\<close>

theorem ai_payload_recent:
  "length (ai_payload s) \<le> 10 \<and> (\<exists>older. ai_history s = older @ ai_payload s)"
proof
  show "length (ai_payload s) \<le> 10"
    by (simp add: ai_payload_def py_slice_def py_clamp_def)
  let ?n = "py_clamp (length (ai_history s)) (- 10)"
  have "ai_payload s = drop ?n (ai_history s)"
    by (simp add: ai_payload_def py_slice_def py_clamp_def)
  then have "ai_history s = take ?n (ai_history s) @ ai_payload s" by simp
  then show "\<exists>older. ai_history s = older @ ai_payload s" by blast
qed

text \<open>
  The indicator \<open>thinking\<close> is one flag for all threads: with two questions pending, the
  first answer clears it while the other request is still unfinished.
\<close>

theorem ai_thinking_cleared_early:
  "\<exists>s. ai_reachable s \<and> ai_threads s \<noteq> [] \<and> \<not> ai_thinking s"
proof -
  define s1 where "s1 = ai_handle_key (ai_show ai_init) (K_other 0) ''a''"
  define s2 where "s2 = ai_handle_key s1 K_RETURN []"
  define s3 where "s3 = ai_handle_key s2 (K_other 0) ''b''"
  define s4 where "s4 = ai_handle_key s3 K_RETURN []"
  define s5 where "s5 = ai_thread_send 0 s4"
  define s6 where "s6 = ai_thread_done 0 (Inr ''ok'') s5"
  note defs = s6_def s5_def s4_def s3_def s2_def s1_def
  have "ai_reachable s6"
    unfolding defs by (intro ai_next [OF _ st_done] ai_next [OF _ st_send] ai_next [OF _ st_key]
        ai_next [OF ai_start st_show])
  moreover have "ai_threads s6 \<noteq> [] \<and> \<not> ai_thinking s6"
    unfolding defs by code_simp
  ultimately show ?thesis by blast
qed

end
