(* ===== verification/Codecs.thy ===== *)
theory Codecs
  imports Julius_Prelude "HOL-Library.Word"
begin

text \<open>
  The text encodings of Python's library that the applications and the transfer protocols
  use: UTF-8 (\<open>str.encode\<close>, \<open>bytes.decode\<close> strict and with \<open>errors='replace'\<close>), hexadecimal
  (\<open>bytes.hex\<close>, \<open>bytes.fromhex\<close>), Base64 (\<open>base64.b64encode\<close>, the lenient
  \<open>base64.b64decode\<close>) and percent-encoding (\<open>urllib.parse.quote\<close>, \<open>unquote\<close>). The texts typed
  into the model are strings of Latin-1 characters; decoding may yield any code point, so a
  decoded text is a list of code points (\<open>ustr\<close>).
\<close>

type_synonym byte = "8 word"
type_synonym ustr = "nat list"

definition code_points :: "string \<Rightarrow> ustr" where
  "code_points s = map of_char s"

subsection \<open>UTF-8\<close>

text \<open>\<open>str.encode()\<close> for the characters of the model.\<close>

definition utf8_char :: "char \<Rightarrow> byte list" where
  "utf8_char c =
     (let n = (of_char c :: nat)
      in if n < 128 then [of_nat n] else [of_nat (192 + n div 64), of_nat (128 + n mod 64)])"

definition utf8 :: "string \<Rightarrow> byte list" where
  "utf8 s = concat (map utf8_char s)"

text \<open>
  One step of the decoder. The second byte of a sequence is restricted by the first (no
  overlong forms, no surrogates, nothing beyond \<open>U+10FFFF\<close>). A step answers with the code
  point, or \<open>None\<close> for an invalid sequence, and the number of bytes it covers: an invalid
  sequence covers the longest prefix that could have started a valid one.
\<close>

definition cont :: "nat \<Rightarrow> bool" where
  "cont b \<longleftrightarrow> 128 \<le> b \<and> b < 192"

definition second_ok :: "nat \<Rightarrow> nat \<Rightarrow> bool" where
  "second_ok a b \<longleftrightarrow>
     (if a = 224 then 160 \<le> b \<and> b < 192
      else if a = 237 then 128 \<le> b \<and> b < 160
      else if a = 240 then 144 \<le> b \<and> b < 192
      else if a = 244 then 128 \<le> b \<and> b < 144
      else cont b)"

definition utf8_step :: "nat list \<Rightarrow> nat option \<times> nat" where
  "utf8_step bs =
     (let a = hd bs; b = (if length bs > 1 then bs ! 1 else 0);
          c = (if length bs > 2 then bs ! 2 else 0); d = (if length bs > 3 then bs ! 3 else 0)
      in if a < 128 then (Some a, 1)
         else if 194 \<le> a \<and> a < 224 then
           (if cont b then (Some ((a - 192) * 64 + (b - 128)), 2) else (None, 1))
         else if 224 \<le> a \<and> a < 240 then
           (if \<not> second_ok a b then (None, 1)
            else if \<not> cont c then (None, 2)
            else (Some ((a - 224) * 4096 + (b - 128) * 64 + (c - 128)), 3))
         else if 240 \<le> a \<and> a < 245 then
           (if \<not> second_ok a b then (None, 1)
            else if \<not> cont c then (None, 2)
            else if \<not> cont d then (None, 3)
            else (Some ((a - 240) * 262144 + (b - 128) * 4096 + (c - 128) * 64 + (d - 128)), 4))
         else (None, 1))"

lemma utf8_step_pos: "0 < snd (utf8_step bs)"
  by (simp add: utf8_step_def Let_def)

function utf8_items :: "nat list \<Rightarrow> nat option list" where
  "utf8_items bs =
     (if bs = [] then [] else fst (utf8_step bs) # utf8_items (drop (snd (utf8_step bs)) bs))"
  by pat_completeness auto

termination utf8_items
  by (relation "measure length") (use utf8_step_pos in \<open>auto\<close>)

declare utf8_items.simps [simp del]

text \<open>\<open>bytes.decode()\<close> raises on the first invalid sequence; \<open>'replace'\<close> puts \<open>U+FFFD\<close>.\<close>

definition utf8_decode :: "byte list \<Rightarrow> ustr option" where
  "utf8_decode bs = those (utf8_items (map unat bs))"

definition utf8_replace :: "byte list \<Rightarrow> ustr" where
  "utf8_replace bs = map (\<lambda>x. case x of Some c \<Rightarrow> c | None \<Rightarrow> 65533) (utf8_items (map unat bs))"

subsection \<open>Hexadecimal\<close>

definition hex_digit :: "nat \<Rightarrow> char" where
  "hex_digit n = (if n < 10 then char_of (48 + n) else char_of (87 + n))"

definition hex_digit_upper :: "nat \<Rightarrow> char" where
  "hex_digit_upper n = (if n < 10 then char_of (48 + n) else char_of (55 + n))"

definition hex_val :: "char \<Rightarrow> nat option" where
  "hex_val c =
     (let n = (of_char c :: nat)
      in if 48 \<le> n \<and> n \<le> 57 then Some (n - 48)
         else if 97 \<le> n \<and> n \<le> 102 then Some (n - 87)
         else if 65 \<le> n \<and> n \<le> 70 then Some (n - 55)
         else None)"

definition bytes_hex :: "byte list \<Rightarrow> string" where
  "bytes_hex bs = concat (map (\<lambda>b. [hex_digit (unat b div 16), hex_digit (unat b mod 16)]) bs)"

definition ascii_space :: "char \<Rightarrow> bool" where
  "ascii_space c \<longleftrightarrow> (let n = (of_char c :: nat) in n = 32 \<or> (9 \<le> n \<and> n \<le> 13))"

text \<open>\<open>bytes.fromhex\<close>: blanks may separate bytes, not the two digits of one; \<open>None\<close> raises.\<close>

fun fromhex :: "string \<Rightarrow> byte list option" where
  "fromhex [] = Some []"
| "fromhex [c] = (if ascii_space c then Some [] else None)"
| "fromhex (c # d # ds) =
     (if ascii_space c then fromhex (d # ds)
      else (case (hex_val c, hex_val d) of
              (Some a, Some b) \<Rightarrow> map_option (\<lambda>bs. of_nat (16 * a + b) # bs) (fromhex ds)
            | _ \<Rightarrow> None))"

subsection \<open>Base64\<close>

definition b64_char :: "nat \<Rightarrow> char" where
  "b64_char n =
     (if n < 26 then char_of (65 + n) else if n < 52 then char_of (71 + n)
      else if n < 62 then char_of (n - 4) else if n = 62 then CHR ''+'' else CHR ''/'')"

definition b64_val :: "nat \<Rightarrow> nat option" where
  "b64_val n =
     (if 65 \<le> n \<and> n \<le> 90 then Some (n - 65) else if 97 \<le> n \<and> n \<le> 122 then Some (n - 71)
      else if 48 \<le> n \<and> n \<le> 57 then Some (n + 4) else if n = 43 then Some 62
      else if n = 47 then Some 63 else None)"

fun b64encode :: "nat list \<Rightarrow> string" where
  "b64encode [] = []"
| "b64encode [a] = [b64_char (a div 4), b64_char (a mod 4 * 16), CHR ''='', CHR ''='']"
| "b64encode [a, b] = [b64_char (a div 4), b64_char (a mod 4 * 16 + b div 16), b64_char (b mod 16 * 4), CHR ''='']"
| "b64encode (a # b # c # bs) =
     b64_char (a div 4) # b64_char (a mod 4 * 16 + b div 16) # b64_char (b mod 16 * 4 + c div 64)
     # b64_char (c mod 64) # b64encode bs"

text \<open>
  \<open>binascii.a2b_base64\<close> without \<open>strict_mode\<close>: characters outside the alphabet are skipped,
  \<open>q\<close> counts the data characters of the current group, \<open>left\<close> holds its unused bits and
  \<open>pads\<close> the padding seen since; a complete padding ends the input, and an incomplete group at
  the end raises.
\<close>

fun b64_step :: "nat \<Rightarrow> nat \<Rightarrow> nat \<Rightarrow> nat list" where
  "b64_step q left v =
     (if q = 0 then [] else if q = 1 then [left * 4 + v div 16]
      else if q = 2 then [left * 16 + v div 4] else [left * 64 + v])"

definition b64_left :: "nat \<Rightarrow> nat \<Rightarrow> nat" where
  "b64_left q v = (if q = 0 then v else if q = 1 then v mod 16 else if q = 2 then v mod 4 else 0)"

fun a2b_base64 :: "nat \<Rightarrow> nat \<Rightarrow> nat \<Rightarrow> nat list \<Rightarrow> nat list option" where
  "a2b_base64 q left pads [] = (if q = 0 then Some [] else None)"
| "a2b_base64 q left pads (c # cs) =
     (if c = 61 then
        (if 2 \<le> q \<and> 4 \<le> q + Suc pads then Some []
         else a2b_base64 q left (if 2 \<le> q then Suc pads else pads) cs)
      else (case b64_val c of
              None \<Rightarrow> a2b_base64 q left pads cs
            | Some v \<Rightarrow> map_option (\<lambda>bs. b64_step q left v @ bs)
                          (a2b_base64 ((q + 1) mod 4) (b64_left q v) 0 cs)))"

definition b64decode :: "byte list \<Rightarrow> byte list option" where
  "b64decode bs = map_option (map of_nat) (a2b_base64 0 0 0 (map unat bs))"

subsection \<open>Percent-encoding\<close>

definition url_safe :: "nat \<Rightarrow> bool" where
  "url_safe n \<longleftrightarrow> (65 \<le> n \<and> n \<le> 90) \<or> (97 \<le> n \<and> n \<le> 122) \<or> (48 \<le> n \<and> n \<le> 57)
     \<or> n = 95 \<or> n = 46 \<or> n = 45 \<or> n = 126 \<or> n = 47"

definition quote_byte :: "byte \<Rightarrow> string" where
  "quote_byte b =
     (let n = unat b
      in if url_safe n then [char_of n]
         else [CHR ''%'', hex_digit_upper (n div 16), hex_digit_upper (n mod 16)])"

definition url_quote :: "string \<Rightarrow> string" where
  "url_quote s = concat (map quote_byte (utf8 s))"

text \<open>\<open>unquote_to_bytes\<close>: \<open>%\<close> with two hexadecimal digits is a byte, anything else itself.\<close>

fun unquote_bytes :: "string \<Rightarrow> byte list" where
  "unquote_bytes [] = []"
| "unquote_bytes (c # cs) =
     (case cs of
        d # e # ds \<Rightarrow>
          (if c = CHR ''%'' then
             (case (hex_val d, hex_val e) of
                (Some a, Some b) \<Rightarrow> of_nat (16 * a + b) # unquote_bytes ds
              | _ \<Rightarrow> of_char c # unquote_bytes cs)
           else of_char c # unquote_bytes cs)
      | _ \<Rightarrow> of_char c # unquote_bytes cs)"

text \<open>
  \<open>unquote\<close> leaves a text without \<open>%\<close> alone and otherwise decodes its maximal ASCII parts,
  copying the characters between them.
\<close>

function unquote_parts :: "string \<Rightarrow> ustr" where
  "unquote_parts s =
     (if s = [] then []
      else if (of_char (hd s) :: nat) < 128 then
        utf8_replace (unquote_bytes (takeWhile (\<lambda>c. (of_char c :: nat) < 128) s))
          @ unquote_parts (dropWhile (\<lambda>c. (of_char c :: nat) < 128) s)
      else of_char (hd s) # unquote_parts (tl s))"
  by pat_completeness auto

termination unquote_parts
proof (relation "measure length")
  fix s :: string
  assume "s \<noteq> []" "(of_char (hd s) :: nat) < 128"
  then show "(dropWhile (\<lambda>c. (of_char c :: nat) < 128) s, s) \<in> measure length"
    by (cases s) (auto intro: le_imp_less_Suc length_dropWhile_le)
qed auto

declare unquote_parts.simps [simp del]

definition url_unquote :: "string \<Rightarrow> ustr" where
  "url_unquote s = (if CHR ''%'' \<in> set s then unquote_parts s else code_points s)"

subsection \<open>Bytes and digits\<close>

lemma unat_byte: "n < 256 \<Longrightarrow> unat (of_nat n :: byte) = n"
  by (simp add: unat_of_nat take_bit_nat_eq_self)

lemma unat_byte_less [simp]: "unat (b :: byte) < 256"
  using unsigned_less [of b] by simp

lemma byte_of_unat [simp]: "(of_nat (unat b) :: byte) = b"
  by simp

lemma of_char_char_of: "n < 256 \<Longrightarrow> (of_char (char_of n :: char) :: nat) = n"
  by (simp add: of_char_of)

lemma hex_val_digit:
  assumes "n < 16"
  shows "hex_val (hex_digit n) = Some n" "hex_val (hex_digit_upper n) = Some n"
  using assms by (auto simp: hex_val_def hex_digit_def hex_digit_upper_def of_char_char_of Let_def)

lemma hex_digit_not_space: "n < 16 \<Longrightarrow> \<not> ascii_space (hex_digit n)"
  by (auto simp: ascii_space_def hex_digit_def of_char_char_of Let_def)

lemma byte_nibbles: "(of_nat (16 * (unat b div 16) + unat b mod 16) :: byte) = b"
  by simp

lemma nibble_less: "unat (b :: byte) div 16 < 16"
  using unat_byte_less [of b] by linarith

lemma fromhex_bytes_hex: "fromhex (bytes_hex bs) = Some bs"
proof (induction bs)
  case Nil
  then show ?case by (simp add: bytes_hex_def)
next
  case (Cons b bs)
  have "bytes_hex (b # bs) = hex_digit (unat b div 16) # hex_digit (unat b mod 16) # bytes_hex bs"
    by (simp add: bytes_hex_def)
  with Cons.IH show ?case
    using nibble_less [of b] by (simp add: hex_digit_not_space hex_val_digit)
qed

subsection \<open>UTF-8 round trip\<close>

lemma utf8_step_ascii: "a < 128 \<Longrightarrow> utf8_step (a # bs) = (Some a, 1)"
  by (simp add: utf8_step_def)

lemma utf8_step_two:
  "194 \<le> a \<Longrightarrow> a < 224 \<Longrightarrow> cont b \<Longrightarrow> utf8_step (a # b # bs) = (Some ((a - 192) * 64 + (b - 128)), 2)"
  by (simp add: utf8_step_def)

lemma map_unat_utf8_char:
  "map unat (utf8_char c) =
     (let n = of_char c in if n < 128 then [n] else [192 + n div 64, 128 + n mod 64])"
proof -
  let ?n = "of_char c :: nat"
  have n: "?n < 256" by simp
  have "unat (of_nat (192 + ?n div 64) :: byte) = 192 + ?n div 64" using n by (intro unat_byte) linarith
  moreover have "unat (of_nat (128 + ?n mod 64) :: byte) = 128 + ?n mod 64" by (intro unat_byte) linarith
  moreover have "unat (of_nat ?n :: byte) = ?n" by (rule unat_byte [OF n])
  ultimately show ?thesis by (simp only: utf8_char_def Let_def list.map split: if_split) simp
qed

lemma utf8_step_char:
  "utf8_step (map unat (utf8_char c) @ bs) = (Some (of_char c), length (utf8_char c))"
proof (cases "(of_char c :: nat) < 128")
  case True
  then show ?thesis by (simp add: map_unat_utf8_char utf8_step_ascii) (simp add: utf8_char_def)
next
  case False
  let ?n = "of_char c :: nat"
  have n: "?n < 256" by simp
  then have "194 \<le> 192 + ?n div 64" "192 + ?n div 64 < 224" using False by linarith+
  moreover have "cont (128 + ?n mod 64)" by (simp add: cont_def)
  ultimately show ?thesis
    using False by (simp add: map_unat_utf8_char utf8_step_two Let_def) (simp add: utf8_char_def Let_def)
qed

lemma utf8_items_utf8: "utf8_items (map unat (utf8 s)) = map (\<lambda>c. Some (of_char c)) s"
proof (induction s)
  case Nil
  then show ?case by (simp add: utf8_def utf8_items.simps)
next
  case (Cons c s)
  have ne: "map unat (utf8_char c) @ map unat (utf8 s) \<noteq> []" by (simp add: utf8_char_def Let_def)
  have "utf8_items (map unat (utf8_char c) @ map unat (utf8 s)) = Some (of_char c) # utf8_items (map unat (utf8 s))"
    using ne by (subst utf8_items.simps) (simp add: utf8_step_char)
  with Cons.IH show ?case by (simp add: utf8_def)
qed

lemma those_map_Some: "those (map (\<lambda>x. Some (f x)) xs) = Some (map f xs)"
  by (induction xs) simp_all

lemma utf8_decode_utf8 [simp]: "utf8_decode (utf8 s) = Some (code_points s)"
  by (simp add: utf8_decode_def utf8_items_utf8 those_map_Some code_points_def)

lemma utf8_replace_utf8 [simp]: "utf8_replace (utf8 s) = code_points s"
  by (simp add: utf8_replace_def utf8_items_utf8 code_points_def)

text \<open>An ASCII text is its own encoding.\<close>

definition ascii :: "string \<Rightarrow> bool" where
  "ascii s \<longleftrightarrow> (\<forall>c\<in>set s. (of_char c :: nat) < 128)"

lemma utf8_ascii: "ascii s \<Longrightarrow> map unat (utf8 s) = map of_char s"
  by (induction s) (auto simp: ascii_def utf8_def map_unat_utf8_char)

subsection \<open>Base64 round trip\<close>

lemma b64_val_char:
  assumes "n < 64"
  shows "b64_val (of_char (b64_char n)) = Some n" "(of_char (b64_char n) :: nat) \<noteq> 61"
    "(of_char (b64_char n) :: nat) < 128"
  using assms by (auto simp: b64_val_def b64_char_def of_char_char_of)

lemma a2b_data:
  "n < 64 \<Longrightarrow> a2b_base64 q left pads (of_char (b64_char n) # cs) =
     map_option (\<lambda>bs. b64_step q left n @ bs) (a2b_base64 ((q + 1) mod 4) (b64_left q n) 0 cs)"
  by (simp add: b64_val_char)

lemma a2b_pad:
  "a2b_base64 2 left 0 (61 # 61 # cs) = Some []" "a2b_base64 3 left 0 (61 # cs) = Some []"
  by simp_all

declare a2b_base64.simps(2) [simp del]

lemma a2b_one:
  assumes "w < 64" "x < 64"
  shows "a2b_base64 0 0 0 (of_char (b64_char w) # of_char (b64_char x) # 61 # 61 # cs) = Some [w * 4 + x div 16]"
  using assms by (simp add: a2b_data a2b_pad [simplified numeral_2_eq_2] b64_left_def)

lemma a2b_two:
  assumes "w < 64" "x < 64" "y < 64"
  shows "a2b_base64 0 0 0 (of_char (b64_char w) # of_char (b64_char x) # of_char (b64_char y) # 61 # cs) =
     Some [w * 4 + x div 16, x mod 16 * 16 + y div 4]"
  using assms by (simp add: a2b_data a2b_pad b64_left_def)

lemma a2b_three:
  assumes "w < 64" "x < 64" "y < 64" "z < 64"
  shows "a2b_base64 0 0 0 (of_char (b64_char w) # of_char (b64_char x) # of_char (b64_char y) # of_char (b64_char z) # cs) =
     map_option (\<lambda>bs. [w * 4 + x div 16, x mod 16 * 16 + y div 4, y mod 4 * 64 + z] @ bs) (a2b_base64 0 0 0 cs)"
  using assms by (simp add: a2b_data b64_left_def option.map_comp comp_def)

lemma b64_split:
  assumes "(a :: nat) < 256" "b < 256" "c < 256"
  shows "a div 4 < 64" "a mod 4 * 16 + b div 16 < 64" "b mod 16 * 4 + c div 64 < 64" "c mod 64 < 64"
    "a div 4 * 4 + (a mod 4 * 16 + b div 16) div 16 = a"
    "(a mod 4 * 16 + b div 16) mod 16 * 16 + (b mod 16 * 4 + c div 64) div 4 = b"
    "(b mod 16 * 4 + c div 64) mod 4 * 64 + c mod 64 = c"
proof -
  have q: "b div 16 < 16" "c div 64 < 4" using assms by linarith+
  show "a div 4 < 64" "a mod 4 * 16 + b div 16 < 64" "b mod 16 * 4 + c div 64 < 64" "c mod 64 < 64"
    using assms by auto
  show "a div 4 * 4 + (a mod 4 * 16 + b div 16) div 16 = a" using q by simp
  show "(a mod 4 * 16 + b div 16) mod 16 * 16 + (b mod 16 * 4 + c div 64) div 4 = b" using q by simp
  show "(b mod 16 * 4 + c div 64) mod 4 * 64 + c mod 64 = c" using q by simp
qed

lemma a2b_b64encode: "\<forall>n\<in>set ns. n < 256 \<Longrightarrow> a2b_base64 0 0 0 (map of_char (b64encode ns)) = Some ns"
proof (induction ns rule: b64encode.induct)
  case 1
  then show ?case by simp
next
  case (2 a)
  then have a: "a < 256" by simp
  have pad: "of_char (CHR ''='') = (61 :: nat)" by simp
  show ?case
    using a2b_one [of "a div 4" "a mod 4 * 16" "[]"] b64_split [OF a, of 0 0]
    by (simp only: b64encode.simps list.map pad) simp
next
  case (3 a b)
  then have a: "a < 256" "b < 256" by simp_all
  have pad: "of_char (CHR ''='') = (61 :: nat)" by simp
  show ?case
    using a2b_two [of "a div 4" "a mod 4 * 16 + b div 16" "b mod 16 * 4" "[]"] b64_split [OF a, of 0]
    by (simp only: b64encode.simps list.map pad) simp
next
  case (4 a b c bs)
  then have a: "a < 256" "b < 256" "c < 256" and "\<forall>n\<in>set bs. n < 256" by simp_all
  with 4 have IH: "a2b_base64 0 0 0 (map of_char (b64encode bs)) = Some bs" by blast
  note sp = b64_split [OF a]
  show ?case
    unfolding b64encode.simps list.map a2b_three [OF sp(1-4)] IH sp(5-7) by simp
qed

lemma b64encode_ascii: "\<forall>n\<in>set ns. n < 256 \<Longrightarrow> ascii (b64encode ns)"
proof (induction ns rule: b64encode.induct)
  case (4 a b c bs)
  then have a: "a < 256" "b < 256" "c < 256" and r: "ascii (b64encode bs)" by simp_all
  from r b64_split [OF a] show ?case by (auto simp: ascii_def b64_val_char)
next
  case (3 a b)
  then have a: "a < 256" "b < 256" by simp_all
  from b64_split [OF a, of 0] show ?case by (auto simp: ascii_def b64_val_char)
next
  case (2 a)
  then have a: "a < 256" by simp
  from b64_split [OF a, of 0 0] show ?case by (auto simp: ascii_def b64_val_char)
qed (simp add: ascii_def)

lemma b64decode_b64encode: "b64decode (utf8 (b64encode (map unat bs))) = Some bs"
proof -
  have "\<forall>n\<in>set (map unat bs). n < 256" by simp
  then show ?thesis
    by (simp add: b64decode_def utf8_ascii b64encode_ascii a2b_b64encode map_idI)
qed

subsection \<open>Percent-encoding round trip\<close>

lemma hex_upper_ascii: "n < 16 \<Longrightarrow> (of_char (hex_digit_upper n) :: nat) < 128"
  by (simp add: hex_digit_upper_def of_char_char_of)

lemma quote_byte_ascii: "ascii (quote_byte b)"
  using nibble_less [of b]
  by (auto simp: ascii_def quote_byte_def url_safe_def of_char_char_of hex_upper_ascii Let_def)

lemma url_quote_ascii: "ascii (url_quote s)"
  using quote_byte_ascii by (auto simp: ascii_def url_quote_def)

lemma unquote_plain: "c \<noteq> CHR ''%'' \<Longrightarrow> unquote_bytes (c # cs) = of_char c # unquote_bytes cs"
  by (simp split: list.split)

lemma unquote_quote_byte: "unquote_bytes (quote_byte b @ cs) = b # unquote_bytes cs"
proof (cases "url_safe (unat b)")
  case True
  then have "unat b \<noteq> 37" by (auto simp: url_safe_def)
  moreover have "unat b = 37" if "char_of (unat b) = CHR ''%''"
    using of_char_char_of [of "unat b"] unfolding that by simp
  ultimately have "char_of (unat b) \<noteq> CHR ''%''" by blast
  moreover have "(of_char (char_of (unat b) :: char) :: byte) = b"
    using of_nat_of_char [of "char_of (unat b)", where ?'a = byte] by (simp add: of_char_char_of)
  ultimately show ?thesis using True by (simp add: quote_byte_def unquote_plain Let_def del: unquote_bytes.simps(2))
next
  case False
  then show ?thesis
    using nibble_less [of b] by (simp add: quote_byte_def hex_val_digit Let_def)
qed

lemma unquote_url_quote: "unquote_bytes (url_quote s) = utf8 s"
proof -
  have "unquote_bytes (concat (map quote_byte bs)) = bs" for bs
    by (induction bs) (simp_all add: unquote_quote_byte del: unquote_bytes.simps(2))
  then show ?thesis by (simp add: url_quote_def)
qed

lemma unquote_parts_ascii: "ascii s \<Longrightarrow> s \<noteq> [] \<Longrightarrow> unquote_parts s = utf8_replace (unquote_bytes s)"
proof -
  assume a: "ascii s" "s \<noteq> []"
  let ?P = "\<lambda>c. (of_char c :: nat) < 128"
  have "takeWhile ?P s = s" "dropWhile ?P s = []" "?P (hd s)"
    using a by (auto simp: ascii_def takeWhile_eq_all_conv dropWhile_eq_Nil_conv)
  note eqs = this
  have "unquote_parts s = utf8_replace (unquote_bytes (takeWhile ?P s)) @ unquote_parts (dropWhile ?P s)"
    using a(2) eqs(3) by (subst unquote_parts.simps) simp
  then show ?thesis unfolding eqs by (simp add: unquote_parts.simps [of "[]"])
qed

lemma unquote_no_percent: "CHR ''%'' \<notin> set s \<Longrightarrow> unquote_bytes s = map of_char s"
proof (induction s)
  case (Cons c s)
  then show ?case using unquote_plain [of c s] by auto
qed simp

lemma utf8_ascii_bytes: "ascii s \<Longrightarrow> utf8 s = map of_char s"
  by (induction s) (auto simp: ascii_def utf8_def utf8_char_def of_nat_of_char)

lemma url_unquote_quote: "url_unquote (url_quote s) = code_points s"
proof (cases "CHR ''%'' \<in> set (url_quote s)")
  case True
  then have "url_quote s \<noteq> []" by auto
  with True show ?thesis
    by (simp add: url_unquote_def unquote_parts_ascii url_quote_ascii unquote_url_quote)
next
  case False
  then have "utf8 s = map of_char (url_quote s)"
    using unquote_url_quote [of s] by (simp add: unquote_no_percent)
  then have "utf8 s = utf8 (url_quote s)"
    by (simp add: utf8_ascii_bytes url_quote_ascii)
  then have "code_points s = code_points (url_quote s)"
    using utf8_replace_utf8 by metis
  with False show ?thesis by (simp add: url_unquote_def)
qed

subsection \<open>Encoding any text\<close>

text \<open>\<open>str.encode()\<close> for a text of any code points but surrogates.\<close>

definition utf8_point :: "nat \<Rightarrow> nat list" where
  "utf8_point c =
     (if c < 128 then [c]
      else if c < 2048 then [192 + c div 64, 128 + c mod 64]
      else if c < 65536 then [224 + c div 4096, 128 + c div 64 mod 64, 128 + c mod 64]
      else [240 + c div 262144, 128 + c div 4096 mod 64, 128 + c div 64 mod 64, 128 + c mod 64])"

definition utf8_text :: "ustr \<Rightarrow> byte list" where
  "utf8_text u = map of_nat (concat (map utf8_point u))"

lemma utf8_text_code_points: "utf8_text (code_points t) = utf8 t"
proof -
  have "map of_nat (utf8_point (of_char c)) = utf8_char c" for c
  proof (cases "(of_char c :: nat) < 128")
    case False
    have "(of_char c :: nat) < 2048" "(of_char c :: nat) < 65536"
      using nat_of_char_less_256 [of c] by linarith+
    with False have "utf8_point (of_char c) = [192 + of_char c div 64, 128 + of_char c mod 64]" by (simp add: utf8_point_def)
    with False show ?thesis by (simp add: utf8_char_def Let_def)
  qed (simp add: utf8_point_def utf8_char_def)
  then show ?thesis by (induction t) (simp_all add: utf8_text_def code_points_def utf8_def)
qed

lemma six_bits: "z < 64 \<Longrightarrow> n = q * 64 + z \<Longrightarrow> n div 64 = q \<and> n mod 64 = (z :: nat)"
  by simp

lemma point_two: "194 \<le> a \<Longrightarrow> a < 224 \<Longrightarrow> cont b \<Longrightarrow> utf8_point ((a - 192) * 64 + (b - 128)) = [a, b]"
proof -
  assume a: "194 \<le> a" "a < 224" and b: "cont b"
  define x y where "x = a - 192" and "y = b - 128"
  have "a = 192 + x" "2 \<le> x" "x < 32" "b = 128 + y" "y < 64" using a b by (auto simp: x_def y_def cont_def)
  then show ?thesis by (simp add: utf8_point_def)
qed

lemma point_three:
  assumes "224 \<le> a" "a < 240" "second_ok a b" "cont c"
  shows "utf8_point ((a - 224) * 4096 + (b - 128) * 64 + (c - 128)) = [a, b, c]"
proof -
  define x y z where "x = a - 224" and "y = b - 128" and "z = c - 128"
  have x: "a = 224 + x" "x < 16" "b = 128 + y" "y < 64" "c = 128 + z" "z < 64" "x = 0 \<Longrightarrow> 32 \<le> y"
    using assms by (auto simp: x_def y_def z_def cont_def second_ok_def split: if_splits)
  define n where "n = x * 4096 + y * 64 + z"
  have "2048 \<le> n" "n < 65536" using x by (cases "x = 0"; simp add: n_def)+
  moreover have "n = x * 4096 + (y * 64 + z)" "y * 64 + z < 4096" using x by (simp_all add: n_def)
  then have "n div 4096 = x" by simp
  moreover have "n = (x * 64 + y) * 64 + z" by (simp add: n_def)
  then have "n div 64 = x * 64 + y" "n mod 64 = z" using six_bits [OF x(6)] by blast+
  ultimately show ?thesis using x by (simp add: utf8_point_def n_def [symmetric])
qed

lemma point_four:
  assumes "240 \<le> a" "a < 245" "second_ok a b" "cont c" "cont d"
  shows "utf8_point ((a - 240) * 262144 + (b - 128) * 4096 + (c - 128) * 64 + (d - 128)) = [a, b, c, d]"
proof -
  define w x y z where "w = a - 240" and "x = b - 128" and "y = c - 128" and "z = d - 128"
  have x: "a = 240 + w" "w < 5" "b = 128 + x" "x < 64" "c = 128 + y" "y < 64" "d = 128 + z" "z < 64" "w = 0 \<Longrightarrow> 16 \<le> x"
    using assms by (auto simp: w_def x_def y_def z_def cont_def second_ok_def split: if_splits)
  define n where "n = w * 262144 + x * 4096 + y * 64 + z"
  have "65536 \<le> n" using x by (cases "w = 0"; simp add: n_def)
  moreover have "n = w * 262144 + (x * 4096 + y * 64 + z)" "x * 4096 + y * 64 + z < 262144" using x by (simp_all add: n_def)
  then have "n div 262144 = w" by simp
  moreover have "n = (w * 64 + x) * 4096 + (y * 64 + z)" "y * 64 + z < 4096" using x by (simp_all add: n_def)
  then have "n div 4096 = w * 64 + x" by simp
  moreover have "n = ((w * 64 + x) * 64 + y) * 64 + z" by (simp add: n_def)
  then have "n div 64 = (w * 64 + x) * 64 + y" "n mod 64 = z" using six_bits [OF x(8)] by blast+
  moreover have "((w * 64 + x) * 64 + y) mod 64 = y" using six_bits [OF x(6)] by blast
  ultimately show ?thesis using x by (simp add: utf8_point_def n_def [symmetric] del: distrib_right_numeral)
qed

lemma utf8_step_point: "bs \<noteq> [] \<Longrightarrow> utf8_step bs = (Some p, k) \<Longrightarrow> utf8_point p = take k bs"
proof -
  assume ne: "bs \<noteq> []" and st: "utf8_step bs = (Some p, k)"
  obtain a r where bs: "bs = a # r" using ne by (cases bs) auto
  consider "a < 128" | "194 \<le> a" "a < 224" | "224 \<le> a" "a < 240" | "240 \<le> a" "a < 245"
    using st bs by (auto simp: utf8_step_def Let_def split: if_splits)
  then show ?thesis
  proof cases
    case 1
    with st bs show ?thesis by (auto simp: utf8_step_def utf8_point_def Let_def)
  next
    case 2
    with st bs obtain b s where "r = b # s" "cont b" "p = (a - 192) * 64 + (b - 128)" "k = 2"
      by (cases r) (auto simp: utf8_step_def Let_def cont_def split: if_splits)
    with 2 bs point_two show ?thesis by simp
  next
    case 3
    with st bs obtain b s where r: "r = b # s" "second_ok a b"
      by (cases r) (auto simp: utf8_step_def Let_def second_ok_def cont_def split: if_splits)
    with 3 st bs obtain c s' where "s = c # s'" "cont c" "p = (a - 224) * 4096 + (b - 128) * 64 + (c - 128)" "k = 3"
      by (cases s) (auto simp: utf8_step_def Let_def cont_def split: if_splits)
    with 3 bs r point_three show ?thesis by simp
  next
    case 4
    with st bs obtain b s where r: "r = b # s" "second_ok a b"
      by (cases r) (auto simp: utf8_step_def Let_def second_ok_def cont_def split: if_splits)
    with 4 st bs obtain c s' where s: "s = c # s'" "cont c"
      by (cases s) (auto simp: utf8_step_def Let_def cont_def split: if_splits)
    with 4 st bs r obtain d s'' where "s' = d # s''" "cont d" "p = (a - 240) * 262144 + (b - 128) * 4096 + (c - 128) * 64 + (d - 128)" "k = 4"
      by (cases s') (auto simp: utf8_step_def Let_def cont_def split: if_splits)
    with 4 bs r s point_four show ?thesis by simp
  qed
qed

lemma utf8_items_points: "those (utf8_items bs) = Some u \<Longrightarrow> concat (map utf8_point u) = bs"
proof (induction bs arbitrary: u rule: utf8_items.induct)
  case (1 bs)
  show ?case
  proof (cases "bs = []")
    case True
    with 1 show ?thesis by (simp add: utf8_items.simps)
  next
    case False
    obtain x k where st: "utf8_step bs = (x, k)" by fastforce
    then have "utf8_items bs = x # utf8_items (drop k bs)" using False by (subst utf8_items.simps) simp
    with 1(2) obtain p u' where u: "x = Some p" "u = p # u'" "those (utf8_items (drop k bs)) = Some u'"
      by (auto split: option.splits)
    with 1(1) [OF False] st have "concat (map utf8_point u') = drop k bs" by simp
    with u utf8_step_point [OF False] st show ?thesis by simp
  qed
qed

text \<open>A decoded text is encoded to the bytes it was decoded from.\<close>

lemma utf8_text_decode: "utf8_decode bs = Some u \<Longrightarrow> utf8_text u = bs"
proof -
  assume "utf8_decode bs = Some u"
  then have "concat (map utf8_point u) = map unat bs" by (auto simp: utf8_decode_def intro: utf8_items_points)
  then show ?thesis by (simp add: utf8_text_def comp_def)
qed

end
