(* ===== verification/Json.thy ===== *)
theory Json
  imports Codecs "HOL-Library.AList"
begin

text \<open>
  \<^verbatim>\<open>json.dumps\<close> and \<^verbatim>\<open>json.loads\<close> of Python's library, as the transfer protocols use them, for
  texts of Latin-1 characters and without floating-point numbers: \<open>json_loads\<close> answers \<open>None\<close>,
  an exception of the caller, for a text that is not JSON and for one that has such a number
  or a character beyond Latin-1.
\<close>

datatype json = JNull | JBool bool | JInt int | JStr string | JList "json list" | JObj "(string \<times> json) list"

subsection \<open>Printing\<close>

abbreviation quote_char :: char where "quote_char \<equiv> CHR 0x22"
abbreviation backslash_char :: char where "backslash_char \<equiv> CHR 0x5C"

definition json_short :: "(char \<times> char) list" where
  "json_short = [(quote_char, quote_char), (backslash_char, backslash_char), (CHR 0x0A, CHR ''n''), (CHR 0x0D, CHR ''r''),
     (CHR 0x09, CHR ''t''), (CHR 0x0C, CHR ''f''), (CHR 0x08, CHR ''b'')]"

definition json_escape :: "char \<Rightarrow> string" where
  "json_escape c =
     (case map_of json_short c of
        Some e \<Rightarrow> [backslash_char, e]
      | None \<Rightarrow>
          (let n = (of_char c :: nat)
           in if 32 \<le> n \<and> n \<le> 126 then [c]
              else [backslash_char, CHR ''u'', CHR ''0'', CHR ''0'', hex_digit (n div 16), hex_digit (n mod 16)]))"

definition json_quote :: "string \<Rightarrow> string" where
  "json_quote t = quote_char # concat (map json_escape t) @ [quote_char]"

fun commas :: "string list \<Rightarrow> string" where
  "commas [] = []"
| "commas [w] = w"
| "commas (w # ws) = w @ '', '' @ commas ws"

fun json_dumps :: "json \<Rightarrow> string" where
  "json_dumps JNull = ''null''"
| "json_dumps (JBool b) = (if b then ''true'' else ''false'')"
| "json_dumps (JInt i) = py_str_int i"
| "json_dumps (JStr t) = json_quote t"
| "json_dumps (JList js) = ''['' @ commas (map json_dumps js) @ '']''"
| "json_dumps (JObj kvs) = ''{'' @ commas (map (\<lambda>(k, v). json_quote k @ '': '' @ json_dumps v) kvs) @ ''}''"

subsection \<open>Parsing\<close>

definition json_ws :: "char \<Rightarrow> bool" where
  "json_ws c \<longleftrightarrow> c \<in> {CHR '' '', CHR 0x09, CHR 0x0A, CHR 0x0D}"

definition skip_ws :: "string \<Rightarrow> string" where
  "skip_ws s = dropWhile json_ws s"

definition json_unescape :: "char \<Rightarrow> char option" where
  "json_unescape e = (if e = CHR ''/'' then Some e else map_of (map (\<lambda>(c, e). (e, c)) json_short) e)"

definition hex4 :: "char \<Rightarrow> char \<Rightarrow> char \<Rightarrow> char \<Rightarrow> char option" where
  "hex4 a b c d =
     (case (hex_val a, hex_val b, hex_val c, hex_val d) of
        (Some w, Some x, Some y, Some z) \<Rightarrow>
          (if 4096 * w + 256 * x + 16 * y + z < 256 then Some (char_of (4096 * w + 256 * x + 16 * y + z)) else None)
      | _ \<Rightarrow> None)"

text \<open>The rest of a string after its opening quote.\<close>

fun json_string :: "string \<Rightarrow> (string \<times> string) option" where
  "json_string [] = None"
| "json_string (c # cs) =
     (if c = quote_char then Some ([], cs)
      else if c = backslash_char then
        (case cs of
           [] \<Rightarrow> None
         | e # ds \<Rightarrow>
             (if e = CHR ''u'' then
                (case ds of
                   w # x # y # z # es \<Rightarrow>
                     (case hex4 w x y z of None \<Rightarrow> None | Some u \<Rightarrow> map_option (\<lambda>(t, r). (u # t, r)) (json_string es))
                 | _ \<Rightarrow> None)
              else (case json_unescape e of None \<Rightarrow> None | Some u \<Rightarrow> map_option (\<lambda>(t, r). (u # t, r)) (json_string ds))))
      else if (of_char c :: nat) < 32 then None
      else map_option (\<lambda>(t, r). (c # t, r)) (json_string cs))"

definition json_digit :: "char \<Rightarrow> bool" where
  "json_digit c \<longleftrightarrow> (let n = (of_char c :: nat) in 48 \<le> n \<and> n \<le> 57)"

definition json_nat :: "string \<Rightarrow> (nat \<times> string) option" where
  "json_nat s =
     (let ds = takeWhile json_digit s; r = dropWhile json_digit s
      in if ds = [] then None
         else
           (let (ds', r') = (if hd ds = CHR ''0'' then ([hd ds], tl ds @ r) else (ds, r))
            in if r' \<noteq> [] \<and> hd r' \<in> {CHR ''.'', CHR ''e'', CHR ''E''} then None else Some (num_val ds', r')))"

definition json_int :: "string \<Rightarrow> (json \<times> string) option" where
  "json_int s =
     (if s \<noteq> [] \<and> hd s = CHR ''-'' then map_option (\<lambda>(n, r). (JInt (- int n), r)) (json_nat (tl s))
      else map_option (\<lambda>(n, r). (JInt (int n), r)) (json_nat s))"

text \<open>\<open>dict\<close> of the pairs read: a later pair replaces the value of an earlier one with its key.\<close>

definition json_dict :: "(string \<times> json) list \<Rightarrow> (string \<times> json) list" where
  "json_dict kvs = foldl (\<lambda>d (k, v). AList.update k v d) [] kvs"

text \<open>
  The parser, with fuel: every call hands on a shorter text, so a text of length \<open>n\<close> needs
  at most \<open>n + 1\<close>.
\<close>

fun json_value :: "nat \<Rightarrow> string \<Rightarrow> (json \<times> string) option"
  and json_elems :: "nat \<Rightarrow> string \<Rightarrow> (json list \<times> string) option"
  and json_members :: "nat \<Rightarrow> string \<Rightarrow> ((string \<times> json) list \<times> string) option"
where
  "json_value 0 s = None"
| "json_value (Suc n) s =
     (if s = [] then None
      else if hd s = quote_char then map_option (\<lambda>(t, r). (JStr t, r)) (json_string (tl s))
      else if hd s = CHR ''{'' then
        (let r = skip_ws (tl s)
         in if r \<noteq> [] \<and> hd r = CHR ''}'' then Some (JObj [], tl r)
            else map_option (\<lambda>(kvs, r). (JObj (json_dict kvs), r)) (json_members n r))
      else if hd s = CHR ''['' then
        (let r = skip_ws (tl s)
         in if r \<noteq> [] \<and> hd r = CHR '']'' then Some (JList [], tl r)
            else map_option (\<lambda>(js, r). (JList js, r)) (json_elems n r))
      else if py_prefix ''null'' s then Some (JNull, drop 4 s)
      else if py_prefix ''true'' s then Some (JBool True, drop 4 s)
      else if py_prefix ''false'' s then Some (JBool False, drop 5 s)
      else json_int s)"
| "json_elems 0 s = None"
| "json_elems (Suc n) s =
     (case json_value n s of
        None \<Rightarrow> None
      | Some (j, r0) \<Rightarrow>
          (let r = skip_ws r0
           in if r = [] then None
              else if hd r = CHR '']'' then Some ([j], tl r)
              else if hd r = CHR '','' then map_option (\<lambda>(js, r). (j # js, r)) (json_elems n (skip_ws (tl r)))
              else None))"
| "json_members 0 s = None"
| "json_members (Suc n) s =
     (if s = [] \<or> hd s \<noteq> quote_char then None
      else
        (case json_string (tl s) of
           None \<Rightarrow> None
         | Some (k, r1) \<Rightarrow>
             (let r2 = skip_ws r1
              in if r2 = [] \<or> hd r2 \<noteq> CHR '':'' then None
                 else
                   (case json_value n (skip_ws (tl r2)) of
                      None \<Rightarrow> None
                    | Some (v, r3) \<Rightarrow>
                        (let r = skip_ws r3
                         in if r = [] then None
                            else if hd r = CHR ''}'' then Some ([(k, v)], tl r)
                            else if hd r = CHR '','' then map_option (\<lambda>(kvs, r). ((k, v) # kvs, r)) (json_members n (skip_ws (tl r)))
                            else None)))))"

definition json_loads :: "string \<Rightarrow> json option" where
  "json_loads s =
     (case json_value (Suc (length s)) (skip_ws s) of
        Some (j, r) \<Rightarrow> (if skip_ws r = [] then Some j else None)
      | None \<Rightarrow> None)"

subsection \<open>Parsing what was printed\<close>

lemma json_string_plain:
  "32 \<le> (of_char c :: nat) \<Longrightarrow> c \<noteq> quote_char \<Longrightarrow> c \<noteq> backslash_char \<Longrightarrow>
     json_string (c # cs) = map_option (\<lambda>(t, r). (c # t, r)) (json_string cs)"
  by simp

lemma hex4_byte: "hex4 CHR ''0'' CHR ''0'' (hex_digit (of_char c div 16)) (hex_digit (of_char c mod 16)) = Some c"
proof -
  have "(of_char c :: nat) div 16 < 16" by (rule less_mult_imp_div_less) simp
  moreover have "hex_val CHR ''0'' = Some 0" by (simp add: hex_val_def)
  ultimately show ?thesis by (simp add: hex4_def hex_val_digit)
qed

lemma json_string_escape: "json_string (json_escape c @ cs) = map_option (\<lambda>(t, r). (c # t, r)) (json_string cs)"
proof (cases "map_of json_short c")
  case (Some e)
  then have "(c, e) \<in> set json_short" by (rule map_of_SomeD)
  then show ?thesis by (auto simp: json_short_def json_escape_def json_unescape_def)
next
  case None
  then have c: "c \<noteq> quote_char" "c \<noteq> backslash_char" by (auto simp: json_short_def)
  show ?thesis
  proof (cases "32 \<le> (of_char c :: nat) \<and> (of_char c :: nat) \<le> 126")
    case True
    with None c show ?thesis by (simp add: json_escape_def)
  next
    case False
    then have "json_escape c = [backslash_char, CHR ''u'', CHR ''0'', CHR ''0'', hex_digit (of_char c div 16), hex_digit (of_char c mod 16)]"
      using None by (auto simp: json_escape_def Let_def)
    then show ?thesis by (simp add: hex4_byte)
  qed
qed

lemma json_string_quote: "json_string (concat (map json_escape t) @ quote_char # cs) = Some (t, cs)"
  by (induction t) (simp_all add: json_string_escape)

text \<open>What may follow a value inside a printed text.\<close>

definition json_stop :: "string \<Rightarrow> bool" where
  "json_stop r \<longleftrightarrow> r = [] \<or> hd r \<in> {CHR '','', CHR '']'', CHR ''}''}"

lemma digits_py_digits: "\<forall>c\<in>set (py_digits n). json_digit c"
proof (induction n rule: py_digits.induct)
  case (1 n)
  have d: "json_digit (char_of (48 + k :: nat))" if "k < 10" for k
    using that by (simp add: json_digit_def of_char_char_of Let_def)
  show ?case
  proof (cases "n < 10")
    case True
    with d [of n] show ?thesis by (subst py_digits.simps) simp
  next
    case False
    with 1 d [of "n mod 10"] show ?thesis by (subst py_digits.simps) simp
  qed
qed

lemma hd_py_digits: "hd (py_digits n) = CHR ''0'' \<Longrightarrow> py_digits n = ''0''"
proof (induction n rule: py_digits.induct)
  case (1 n)
  show ?case
  proof (cases "n < 10")
    case True
    then have "py_digits n = [char_of (48 + n)]" by (subst py_digits.simps) (rule if_P)
    with 1(2) show ?thesis by simp
  next
    case False
    then have e: "py_digits n = py_digits (n div 10) @ [char_of (48 + n mod 10)]" by (subst py_digits.simps) (rule if_not_P)
    with 1(2) have "hd (py_digits (n div 10)) = CHR ''0''" by (simp add: hd_append)
    with 1(1) False have "py_digits (n div 10) = ''0''" by blast
    then have "n div 10 = 0" using num_val_digits [of "n div 10"] by (simp add: num_val_def)
    with False show ?thesis by simp
  qed
qed

lemma json_nat_digits: "json_stop r \<Longrightarrow> json_nat (py_digits n @ r) = Some (n, r)"
proof -
  assume r: "json_stop r"
  have nd: "r = [] \<or> \<not> json_digit (hd r)" using r by (auto simp: json_stop_def json_digit_def)
  have "takeWhile json_digit (py_digits n @ r) = py_digits n" "dropWhile json_digit (py_digits n @ r) = r"
    using digits_py_digits nd by (cases r; simp add: takeWhile_append2 dropWhile_append2)+
  moreover have "r = [] \<or> hd r \<notin> {CHR ''.'', CHR ''e'', CHR ''E''}" using r by (auto simp: json_stop_def)
  moreover have "num_val (py_digits n) = n" by (rule num_val_digits)
  ultimately show ?thesis
    using hd_py_digits [of n] by (cases "hd (py_digits n) = CHR ''0''") (auto simp: json_nat_def Let_def)
qed

lemma json_digit_minus: "\<not> json_digit CHR ''-''"
  by (simp add: json_digit_def)

lemma json_int_str: "json_stop r \<Longrightarrow> json_int (py_str_int i @ r) = Some (JInt i, r)"
proof -
  assume r: "json_stop r"
  have "json_digit (hd (py_digits n @ r))" for n
    using digits_py_digits [of n] hd_in_set [of "py_digits n"] by simp
  then have "hd (py_digits n @ r) \<noteq> CHR ''-''" for n by (metis json_digit_minus)
  with json_nat_digits [OF r] show ?thesis by (auto simp: json_int_def py_str_int_def)
qed

lemma hd_str_int: "json_digit (hd (py_str_int i @ r)) \<or> hd (py_str_int i @ r) = CHR ''-''"
  using digits_py_digits [of "nat i"] hd_in_set [of "py_digits (nat i)"] by (simp add: py_str_int_def)

lemma json_value_int: "json_stop r \<Longrightarrow> json_value (Suc n) (py_str_int i @ r) = Some (JInt i, r)"
proof -
  assume r: "json_stop r"
  let ?s = "py_str_int i @ r"
  obtain c cs where s: "?s = c # cs" by (cases ?s) (simp_all add: py_str_int_def split: if_splits)
  have "json_digit c \<or> c = CHR ''-''" using hd_str_int [of i r] s by simp
  then have "c \<notin> {quote_char, CHR ''{'', CHR ''['', CHR ''n'', CHR ''t'', CHR ''f''}" by (auto simp: json_digit_def)
  with json_int_str [OF r, of i] show ?thesis by (auto simp: s)
qed

lemma json_value_str: "json_value (Suc n) (json_quote t @ r) = Some (JStr t, r)"
  by (simp add: json_quote_def json_string_quote)

text \<open>The dictionaries of a value have distinct keys.\<close>

fun json_ok :: "json \<Rightarrow> bool" where
  "json_ok (JList js) = list_all json_ok js"
| "json_ok (JObj kvs) = (distinct (map fst kvs) \<and> list_all (\<lambda>(k, v). json_ok v) kvs)"
| "json_ok j = True"

lemma update_new: "k \<notin> set (map fst d) \<Longrightarrow> AList.update k v d = d @ [(k, v)]"
  by (induction d) auto

lemma json_dict_distinct: "distinct (map fst kvs) \<Longrightarrow> json_dict kvs = kvs"
proof -
  have "distinct (map fst (d @ kvs)) \<Longrightarrow> foldl (\<lambda>d (k, v). AList.update k v d) d kvs = d @ kvs" for d
    by (induction kvs arbitrary: d) (auto simp: update_new)
  then show "distinct (map fst kvs) \<Longrightarrow> json_dict kvs = kvs" by (simp add: json_dict_def)
qed

lemma commas_Cons: "ws \<noteq> [] \<Longrightarrow> commas (w # ws) = w @ '', '' @ commas ws"
  by (cases ws) simp_all

text \<open>The first character of a printed value is not white space and does not end a list.\<close>

lemma dumps_hd: "json_dumps j \<noteq> [] \<and> hd (json_dumps j) \<notin> {CHR '' '', CHR 0x09, CHR 0x0A, CHR 0x0D, CHR '']'', CHR ''}''}"
proof (cases j)
  case (JInt i)
  have "json_digit (hd (py_str_int i @ [])) \<or> hd (py_str_int i @ []) = CHR ''-''" by (rule hd_str_int)
  then show ?thesis using JInt by (auto simp: json_digit_def py_str_int_def)
qed (auto simp: json_quote_def)

lemma skip_ws_dumps [simp]: "skip_ws (json_dumps j @ r) = json_dumps j @ r" "skip_ws (CHR '' '' # json_dumps j @ r) = json_dumps j @ r"
  using dumps_hd [of j] by (cases "json_dumps j"; simp add: skip_ws_def json_ws_def)+

lemma skip_ws_stop: "json_stop r \<Longrightarrow> skip_ws r = r"
  by (cases r) (auto simp: json_stop_def skip_ws_def json_ws_def)

lemma skip_ws_quote [simp]: "skip_ws (CHR '' '' # json_quote t @ r) = json_quote t @ r" "skip_ws (json_quote t @ r) = json_quote t @ r"
  by (simp_all add: skip_ws_def json_ws_def json_quote_def)

lemma elems_step:
  assumes "json_value n (json_dumps j @ r) = Some (j, r)"
  shows "r = CHR '']'' # q \<Longrightarrow> json_elems (Suc n) (json_dumps j @ r) = Some ([j], q)"
    and "r = CHR '','' # CHR '' '' # json_dumps j' @ q \<Longrightarrow> json_elems (Suc n) (json_dumps j @ r)
       = map_option (\<lambda>(js, r). (j # js, r)) (json_elems n (json_dumps j' @ q))"
  using assms by (simp_all add: skip_ws_stop json_stop_def)

lemma members_step:
  assumes "json_value n (json_dumps v @ r) = Some (v, r)"
  shows "r = CHR ''}'' # q \<Longrightarrow> json_members (Suc n) (json_quote k @ '': '' @ json_dumps v @ r) = Some ([(k, v)], q)"
    and "r = CHR '','' # CHR '' '' # json_quote k' @ q \<Longrightarrow> json_members (Suc n) (json_quote k @ '': '' @ json_dumps v @ r)
       = map_option (\<lambda>(kvs, r). ((k, v) # kvs, r)) (json_members n (json_quote k' @ q))"
proof -
  have c: "skip_ws (CHR '':'' # x) = CHR '':'' # x" for x by (simp add: skip_ws_def json_ws_def)
  have q: "json_quote t @ x = quote_char # concat (map json_escape t) @ quote_char # x" for t x by (simp add: json_quote_def)
  show "r = CHR ''}'' # q \<Longrightarrow> json_members (Suc n) (json_quote k @ '': '' @ json_dumps v @ r) = Some ([(k, v)], q)"
    using assms by (simp add: q json_string_quote c skip_ws_stop json_stop_def)
  show "r = CHR '','' # CHR '' '' # json_quote k' @ q \<Longrightarrow> json_members (Suc n) (json_quote k @ '': '' @ json_dumps v @ r)
       = map_option (\<lambda>(kvs, r). ((k, v) # kvs, r)) (json_members n (json_quote k' @ q))"
    using assms by (simp add: q [of k] json_string_quote c skip_ws_stop json_stop_def)
qed

text \<open>The fuel a value needs.\<close>

fun json_fuel :: "json \<Rightarrow> nat" where
  "json_fuel (JList js) = 1 + sum_list (map (\<lambda>j. 1 + json_fuel j) js)"
| "json_fuel (JObj kvs) = 1 + sum_list (map (\<lambda>(k, v). 1 + json_fuel v) kvs)"
| "json_fuel j = 1"

definition json_back :: "json \<Rightarrow> bool" where
  "json_back j \<longleftrightarrow> (\<forall>n r. json_fuel j \<le> n \<longrightarrow> json_stop r \<longrightarrow> json_value n (json_dumps j @ r) = Some (j, r))"

lemma elems_back:
  assumes "\<forall>j\<in>set js. json_back j" "js \<noteq> []" "sum_list (map (\<lambda>j. 1 + json_fuel j) js) \<le> n"
  shows "json_elems n (commas (map json_dumps js) @ CHR '']'' # q) = Some (js, q)"
  using assms
proof (induction js arbitrary: n)
  case (Cons j js)
  obtain m where m: "n = Suc m" using Cons.prems(3) by (cases n) simp_all
  have j: "json_fuel j \<le> m" "json_back j" using Cons.prems by (simp_all add: m)
  show ?case
  proof (cases "js = []")
    case True
    have "json_value m (json_dumps j @ CHR '']'' # q) = Some (j, CHR '']'' # q)"
      using j by (simp add: json_back_def json_stop_def)
    from elems_step(1) [OF this] True m show ?thesis by simp
  next
    case False
    then obtain j' js' where js: "js = j' # js'" by (cases js) simp_all
    obtain x where x: "commas (map json_dumps js) @ CHR '']'' # q = json_dumps j' @ x"
      by (cases "js' = []") (simp_all add: js commas_Cons)
    have "json_value m (json_dumps j @ '', '' @ json_dumps j' @ x) = Some (j, '', '' @ json_dumps j' @ x)"
      using j by (simp add: json_back_def json_stop_def)
    from elems_step(2) [OF this] have "json_elems n (json_dumps j @ '', '' @ json_dumps j' @ x)
        = map_option (\<lambda>(js, r). (j # js, r)) (json_elems m (json_dumps j' @ x))" by (simp add: m)
    moreover have "json_elems m (json_dumps j' @ x) = Some (js, q)"
      using Cons.IH [of m] Cons.prems False by (simp add: m flip: x)
    moreover have "commas (map json_dumps (j # js)) @ CHR '']'' # q = json_dumps j @ '', '' @ json_dumps j' @ x"
      using False x by (simp add: commas_Cons)
    ultimately show ?thesis by simp
  qed
qed simp

lemma members_back:
  assumes "\<forall>(k, v)\<in>set kvs. json_back v" "kvs \<noteq> []" "sum_list (map (\<lambda>(k, v). 1 + json_fuel v) kvs) \<le> n"
  shows "json_members n (commas (map (\<lambda>(k, v). json_quote k @ '': '' @ json_dumps v) kvs) @ CHR ''}'' # q) = Some (kvs, q)"
  using assms
proof (induction kvs arbitrary: n)
  case (Cons kv kvs)
  obtain k v where kv: "kv = (k, v)" by (cases kv)
  obtain m where m: "n = Suc m" using Cons.prems(3) by (cases n) (simp_all add: kv)
  have v: "json_fuel v \<le> m" "json_back v" using Cons.prems by (simp_all add: m kv)
  let ?f = "\<lambda>(k, v). json_quote k @ '': '' @ json_dumps v"
  show ?case
  proof (cases "kvs = []")
    case True
    have "json_value m (json_dumps v @ CHR ''}'' # q) = Some (v, CHR ''}'' # q)"
      using v by (simp add: json_back_def json_stop_def)
    from members_step(1) [OF this] True m show ?thesis by (simp add: kv)
  next
    case False
    then obtain k' v' kvs' where kvs: "kvs = (k', v') # kvs'" by (cases kvs) auto
    obtain x where x: "commas (map ?f kvs) @ CHR ''}'' # q = json_quote k' @ x"
      by (cases "kvs' = []") (simp_all add: kvs commas_Cons)
    have "json_value m (json_dumps v @ '', '' @ json_quote k' @ x) = Some (v, '', '' @ json_quote k' @ x)"
      using v by (simp add: json_back_def json_stop_def)
    from members_step(2) [OF this] have "json_members n (json_quote k @ '': '' @ json_dumps v @ '', '' @ json_quote k' @ x)
        = map_option (\<lambda>(kvs, r). ((k, v) # kvs, r)) (json_members m (json_quote k' @ x))" by (simp add: m)
    moreover have "json_members m (json_quote k' @ x) = Some (kvs, q)"
      using Cons.IH [of m] Cons.prems False by (simp add: m kv flip: x)
    moreover have "commas (map ?f (kv # kvs)) @ CHR ''}'' # q = json_quote k @ '': '' @ json_dumps v @ '', '' @ json_quote k' @ x"
      using False x by (simp add: commas_Cons kv)
    ultimately show ?thesis by (simp add: kv)
  qed
qed simp

lemma commas_hd: "ws \<noteq> [] \<Longrightarrow> hd ws \<noteq> [] \<Longrightarrow> commas ws \<noteq> [] \<and> hd (commas ws) = hd (hd ws)"
  by (cases ws; cases "tl ws") (simp_all add: commas_Cons)

lemma skip_ws_id: "s \<noteq> [] \<Longrightarrow> \<not> json_ws (hd s) \<Longrightarrow> skip_ws s = s"
  by (cases s) (simp_all add: skip_ws_def)

lemma json_back_list:
  assumes "\<forall>j\<in>set js. json_back j"
  shows "json_back (JList js)"
  unfolding json_back_def
proof (intro allI impI)
  fix n r
  assume n: "json_fuel (JList js) \<le> n"
  then obtain m where m: "n = Suc m" by (cases n) simp_all
  show "json_value n (json_dumps (JList js) @ r) = Some (JList js, r)"
  proof (cases "js = []")
    case True
    then show ?thesis by (simp add: m skip_ws_def json_ws_def)
  next
    case False
    let ?s = "commas (map json_dumps js) @ CHR '']'' # r"
    have h: "commas (map json_dumps js) \<noteq> [] \<and> hd (commas (map json_dumps js)) = hd (json_dumps (hd js))"
      using False dumps_hd [of "hd js"] commas_hd [of "map json_dumps js"] by (simp add: hd_map)
    have "skip_ws ?s = ?s" "hd ?s \<noteq> CHR '']''"
      using h dumps_hd [of "hd js"] by (auto intro!: skip_ws_id simp: json_ws_def)
    with elems_back [OF assms False, of m r] n m show ?thesis by simp
  qed
qed

lemma json_back_obj:
  assumes "\<forall>(k, v)\<in>set kvs. json_back v" "distinct (map fst kvs)"
  shows "json_back (JObj kvs)"
  unfolding json_back_def
proof (intro allI impI)
  fix n r
  assume n: "json_fuel (JObj kvs) \<le> n"
  then obtain m where m: "n = Suc m" by (cases n) simp_all
  show "json_value n (json_dumps (JObj kvs) @ r) = Some (JObj kvs, r)"
  proof (cases "kvs = []")
    case True
    then show ?thesis by (simp add: m skip_ws_def json_ws_def)
  next
    case False
    let ?c = "commas (map (\<lambda>(k, v). json_quote k @ '': '' @ json_dumps v) kvs)"
    have h: "?c \<noteq> [] \<and> hd ?c = quote_char"
      using False commas_hd [of "map (\<lambda>(k, v). json_quote k @ '': '' @ json_dumps v) kvs"]
      by (simp add: hd_map json_quote_def split_beta)
    have "skip_ws (?c @ CHR ''}'' # r) = ?c @ CHR ''}'' # r" "hd (?c @ CHR ''}'' # r) \<noteq> CHR ''}''"
      using h by (auto intro!: skip_ws_id simp: json_ws_def)
    with members_back [OF assms(1) False, of m r] n m json_dict_distinct [OF assms(2)] show ?thesis by simp
  qed
qed

lemma json_back_atom: "json_back JNull" "json_back (JBool b)"
  by (auto simp: json_back_def Suc_le_eq gr0_conv_Suc)

lemma json_back_all: "json_ok j \<Longrightarrow> json_back j"
proof (induction j rule: json_ok.induct)
  case (1 js)
  then show ?case by (auto intro!: json_back_list simp: list_all_iff)
next
  case (2 kvs)
  then show ?case by (auto intro!: json_back_obj simp: list_all_iff)
qed (auto simp: json_back_atom, auto simp: json_back_def Suc_le_eq gr0_conv_Suc json_value_int json_value_str simp del: json_value.simps)

lemma sum_commas: "ws \<noteq> [] \<Longrightarrow> length (commas ws) + 2 = sum_list (map (\<lambda>w. length w + 2) ws)"
proof (induction ws)
  case (Cons w ws)
  then show ?case by (cases "ws = []") (simp_all add: commas_Cons)
qed simp

lemma sum_list_le: "\<forall>x\<in>set xs. f x \<le> (g x :: nat) \<Longrightarrow> sum_list (map f xs) \<le> sum_list (map g xs)"
  by (induction xs) auto

lemma fuel_commas:
  assumes "\<forall>x\<in>set xs. f x \<le> length (w x)"
  shows "sum_list (map (\<lambda>x. 1 + f x) xs) \<le> length (commas (map w xs)) + 1"
proof (cases "xs = []")
  case False
  have "sum_list (map f xs) \<le> sum_list (map (\<lambda>x. length (w x)) xs)" using assms by (intro sum_list_le) blast
  moreover have "length (commas (map w xs)) + 2 = sum_list (map (\<lambda>x. length (w x) + 2) xs)"
    using sum_commas [of "map w xs"] False by (simp add: comp_def)
  moreover have "1 \<le> length xs" using False by (simp add: Suc_le_eq)
  ultimately show ?thesis by (simp only: add.commute [of 1] Suc_eq_plus1 [symmetric] add_2_eq_Suc' sum_list_Suc)
qed simp

lemma fuel_enough: "json_fuel j \<le> length (json_dumps j)"
proof (induction j rule: json_fuel.induct)
  case (1 js)
  with fuel_commas [of js json_fuel json_dumps] show ?case by simp
next
  case (2 kvs)
  let ?f = "\<lambda>(k, v). json_quote k @ '': '' @ json_dumps v"
  have "\<forall>kv\<in>set kvs. (case kv of (k, v) \<Rightarrow> json_fuel v) \<le> length (?f kv)" using 2 by fastforce
  from fuel_commas [OF this] have "sum_list (map (\<lambda>(k, v). 1 + json_fuel v) kvs) \<le> length (commas (map ?f kvs)) + 1"
    by (simp add: case_prod_beta')
  then show ?case by simp
qed (simp_all add: json_quote_def py_str_int_def Suc_le_eq)

text \<open>What \<open>dumps\<close> prints \<open>loads\<close> reads back.\<close>

lemma json_loads_dumps: "json_ok j \<Longrightarrow> json_loads (json_dumps j) = Some j"
proof -
  assume "json_ok j"
  then have "json_value (Suc (length (json_dumps j))) (json_dumps j @ []) = Some (j, [])"
    using json_back_all [of j] fuel_enough [of j] le_SucI unfolding json_back_def by (metis json_stop_def)
  moreover have "skip_ws (json_dumps j) = json_dumps j" using skip_ws_dumps(1) [of j "[]"] by simp
  moreover have "skip_ws [] = []" by (simp add: skip_ws_def)
  ultimately show ?thesis by (simp add: json_loads_def del: json_value.simps)
qed

text \<open>A printed text is printable ASCII: it has no line end.\<close>

definition printable :: "string \<Rightarrow> bool" where
  "printable s \<longleftrightarrow> (\<forall>c\<in>set s. 32 \<le> (of_char c :: nat) \<and> (of_char c :: nat) \<le> 126)"

lemma printable_simps [simp]:
  "printable []" "printable (c # s) = (32 \<le> (of_char c :: nat) \<and> (of_char c :: nat) \<le> 126 \<and> printable s)"
  "printable (s @ t) = (printable s \<and> printable t)"
  by (auto simp: printable_def)

lemma printable_hex: "n < 16 \<Longrightarrow> printable [hex_digit n]"
  by (auto simp: hex_digit_def of_char_char_of)

lemma printable_escape: "printable (json_escape c)"
proof (cases "map_of json_short c")
  case (Some e)
  then have "(c, e) \<in> set json_short" by (rule map_of_SomeD)
  then show ?thesis by (auto simp: json_short_def json_escape_def)
next
  case None
  have "(of_char c :: nat) div 16 < 16" by (rule less_mult_imp_div_less) simp
  with printable_hex [of "of_char c div 16"] printable_hex [of "of_char c mod 16"] None show ?thesis
    by (simp add: json_escape_def Let_def)
qed

lemma printable_quote: "printable (json_quote t)"
  by (induction t) (simp_all add: json_quote_def printable_escape)

lemma printable_commas: "\<forall>w\<in>set ws. printable w \<Longrightarrow> printable (commas ws)"
proof (induction ws)
  case (Cons w ws)
  then show ?case by (cases "ws = []") (simp_all add: commas_Cons)
qed simp

lemma printable_str_int: "printable (py_str_int i)"
proof -
  have "printable (py_digits n)" for n
    using digits_py_digits [of n] by (fastforce simp: printable_def json_digit_def Let_def)
  then show ?thesis by (simp add: py_str_int_def)
qed

lemma printable_dumps: "printable (json_dumps j)"
proof (induction j rule: json_dumps.induct)
  case (5 js)
  then show ?case by (auto intro!: printable_commas)
next
  case (6 kvs)
  then show ?case by (fastforce intro!: printable_commas simp: printable_quote)
qed (simp_all add: printable_quote printable_str_int)

end
