(* ===== verification/Sockets.thy ===== *)
theory Sockets
  imports Codecs
begin

text \<open>
  Reading from a stream socket, as the transfers do. A connection is the list of segments that
  arrive, after which the peer has closed it; \<open>recv(n)\<close> answers with at most \<open>n\<close> bytes of the
  first segment and with no bytes at the end of the stream. The loops of the source:

  \<^item> \<open>read_header\<close>: \<open>while b"\n" not in header: header += conn.recv(1)\<close>, which never ends on a
    stream without a line end (then the value is \<open>None\<close>);
  \<^item> \<open>recv_body\<close>: \<open>while received < size\<close>, left when no more bytes come;
  \<^item> \<open>recv_all\<close>: read until the end of the stream.
\<close>

type_synonym conn = "byte list list"

abbreviation newline_byte :: byte where
  "newline_byte \<equiv> 10"

definition conn_ok :: "conn \<Rightarrow> bool" where
  "conn_ok conn \<longleftrightarrow> [] \<notin> set conn"

fun recv :: "nat \<Rightarrow> conn \<Rightarrow> byte list \<times> conn" where
  "recv n [] = ([], [])"
| "recv n (c # cs) = (if length c \<le> n then (c, cs) else (take n c, drop n c # cs))"

partial_function (option) read_header :: "byte list \<Rightarrow> conn \<Rightarrow> (byte list \<times> conn) option" where
  "read_header h conn =
     (if newline_byte \<in> set h then Some (h, conn)
      else read_header (h @ fst (recv 1 conn)) (snd (recv 1 conn)))"

function recv_body :: "int \<Rightarrow> conn \<Rightarrow> byte list \<times> conn" where
  "recv_body remaining conn =
     (if remaining \<le> 0 then ([], conn)
      else
        (let data = fst (recv (nat (min 4096 remaining)) conn); conn' = snd (recv (nat (min 4096 remaining)) conn)
         in if data = [] then ([], conn')
            else (data @ fst (recv_body (remaining - int (length data)) conn'), snd (recv_body (remaining - int (length data)) conn'))))"
  by pat_completeness auto

termination recv_body
  by (relation "measure (\<lambda>(r, _). nat r)") (auto simp: nat_less_iff)

declare recv_body.simps [simp del]

function recv_all :: "conn \<Rightarrow> byte list" where
  "recv_all conn =
     (let data = fst (recv 4096 conn) in if data = [] then [] else data @ recv_all (snd (recv 4096 conn)))"
  by pat_completeness auto

lemma recv_concat: "fst (recv n conn) @ concat (snd (recv n conn)) = concat conn"
  by (induction n conn rule: recv.induct) simp_all

lemma recv_shorter: "fst (recv n conn) \<noteq> [] \<Longrightarrow> length (concat (snd (recv n conn))) < length (concat conn)"
proof -
  assume "fst (recv n conn) \<noteq> []"
  then have "0 < length (fst (recv n conn))" by simp
  moreover have "length (fst (recv n conn)) + length (concat (snd (recv n conn))) = length (concat conn)"
    using recv_concat [of n conn] by (metis length_append)
  ultimately show ?thesis by linarith
qed

termination recv_all
  by (relation "measure (\<lambda>conn. length (concat conn))") (simp_all add: recv_shorter)

declare recv_all.simps [simp del]

text \<open>\<open>f.read(4096)\<close> until the end of a file, sending each chunk.\<close>

function file_chunks :: "byte list \<Rightarrow> byte list list" where
  "file_chunks content = (if content = [] then [] else take 4096 content # file_chunks (drop 4096 content))"
  by pat_completeness auto

termination file_chunks
  by (relation "measure length") simp_all

declare file_chunks.simps [simp del]

subsection \<open>What the loops read\<close>

lemma recv_ok: "conn_ok conn \<Longrightarrow> conn_ok (snd (recv n conn))"
  by (induction n conn rule: recv.induct) (auto simp: conn_ok_def)

lemma recv_length: "length (fst (recv n conn)) \<le> n"
  by (induction n conn rule: recv.induct) simp_all

lemma recv_Nil_iff: "conn_ok conn \<Longrightarrow> 0 < n \<Longrightarrow> fst (recv n conn) = [] \<longleftrightarrow> concat conn = []"
  by (induction n conn rule: recv.induct) (auto simp: conn_ok_def)

lemma recv_one:
  assumes "conn_ok conn" "concat conn = b # bs"
  shows "fst (recv 1 conn) = [b]" "concat (snd (recv 1 conn)) = bs"
proof -
  have "fst (recv 1 conn) \<noteq> []" using assms recv_Nil_iff [of conn 1] by simp
  moreover have "length (fst (recv 1 conn)) \<le> 1" by (rule recv_length)
  ultimately obtain x where x: "fst (recv 1 conn) = [x]" by (cases "fst (recv 1 conn)") simp_all
  with recv_concat [of 1 conn] assms(2) show "fst (recv 1 conn) = [b]" "concat (snd (recv 1 conn)) = bs" by simp_all
qed

lemma read_header_line:
  "conn_ok conn \<Longrightarrow> concat conn = l @ newline_byte # rest \<Longrightarrow> newline_byte \<notin> set l \<Longrightarrow> newline_byte \<notin> set h \<Longrightarrow>
     \<exists>conn'. read_header h conn = Some (h @ l @ [newline_byte], conn') \<and> concat conn' = rest \<and> conn_ok conn'"
proof (induction l arbitrary: h conn)
  case Nil
  from recv_one [OF Nil(1), of newline_byte rest] Nil recv_ok [OF Nil(1), of 1] show ?case
    by (subst read_header.simps, subst read_header.simps) simp
next
  case (Cons b l)
  have r: "fst (recv 1 conn) = [b]" "concat (snd (recv 1 conn)) = l @ newline_byte # rest"
    using recv_one [OF Cons.prems(1), of b "l @ newline_byte # rest"] Cons.prems(2) by simp_all
  have "read_header h conn = read_header (h @ [b]) (snd (recv 1 conn))"
    using Cons.prems(4) r by (subst read_header.simps) simp
  with Cons.IH [of "snd (recv 1 conn)" "h @ [b]"] r Cons.prems recv_ok [OF Cons.prems(1), of 1] show ?case by simp
qed

text \<open>The loop ends exactly when a line end arrives.\<close>

lemma read_header_Some:
  "read_header h conn = Some r \<Longrightarrow> newline_byte \<in> set h \<or> newline_byte \<in> set (concat conn)"
proof (rule read_header.raw_induct [where P = "\<lambda>h conn _. newline_byte \<in> set h \<or> newline_byte \<in> set (concat conn)"])
  fix f :: "byte list \<Rightarrow> conn \<Rightarrow> (byte list \<times> conn) option" and h conn y
  assume ih: "\<And>h conn y. f h conn = Some y \<Longrightarrow> newline_byte \<in> set h \<or> newline_byte \<in> set (concat conn)"
    and st: "(if newline_byte \<in> set h then Some (h, conn) else f (h @ fst (recv 1 conn)) (snd (recv 1 conn))) = Some y"
  show "newline_byte \<in> set h \<or> newline_byte \<in> set (concat conn)"
  proof (cases "newline_byte \<in> set h")
    case False
    with st have "f (h @ fst (recv 1 conn)) (snd (recv 1 conn)) = Some y" by simp
    from ih [OF this] recv_concat [of 1 conn] show ?thesis by (metis Un_iff set_append)
  qed simp
qed

lemma read_header_None_iff:
  assumes "conn_ok conn"
  shows "read_header [] conn = None \<longleftrightarrow> newline_byte \<notin> set (concat conn)"
proof
  show "newline_byte \<notin> set (concat conn)" if "read_header [] conn = None"
  proof
    assume "newline_byte \<in> set (concat conn)"
    then obtain l rest where "concat conn = l @ newline_byte # rest" "newline_byte \<notin> set l" by (meson split_list_first)
    from read_header_line [OF assms this, of "[]"] that show False by auto
  qed
  show "read_header [] conn = None" if "newline_byte \<notin> set (concat conn)"
    using that read_header_Some [of "[]" conn] by (cases "read_header [] conn") auto
qed

lemma recv_body_take: "conn_ok conn \<Longrightarrow> fst (recv_body n conn) = take (nat n) (concat conn)"
proof (induction n conn rule: recv_body.induct)
  case (1 n conn)
  show ?case
  proof (cases "n \<le> 0")
    case True
    then show ?thesis by (subst recv_body.simps) simp
  next
    case False
    define d c where "d = fst (recv (nat (min 4096 n)) conn)" and "c = snd (recv (nat (min 4096 n)) conn)"
    have dc: "d @ c' = concat conn" if "c' = concat c" for c' using that recv_concat by (simp add: d_def c_def)
    have len: "length d \<le> nat n" using recv_length [of "nat (min 4096 n)" conn] False by (simp add: d_def)
    show ?thesis
    proof (cases "d = []")
      case True
      with recv_Nil_iff [OF 1(3), of "nat (min 4096 n)"] False have "concat conn = []" by (simp add: d_def)
      with True False show ?thesis by (subst recv_body.simps) (simp add: d_def)
    next
      case d: False
      have "fst (recv_body n conn) = d @ fst (recv_body (n - int (length d)) c)"
        using False d by (subst recv_body.simps) (simp add: d_def c_def Let_def)
      moreover have "fst (recv_body (n - int (length d)) c) = take (nat (n - int (length d))) (concat c)"
        using 1(1) False d recv_ok [OF 1(3)] by (simp add: d_def c_def)
      moreover have "nat (n - int (length d)) = nat n - length d" by simp
      ultimately show ?thesis using dc len by (metis append_Nil2 take_append take_all)
    qed
  qed
qed

lemma recv_body_rest: "fst (recv_body n conn) @ concat (snd (recv_body n conn)) = concat conn \<and> (conn_ok conn \<longrightarrow> conn_ok (snd (recv_body n conn)))"
proof (induction n conn rule: recv_body.induct)
  case (1 n conn)
  show ?case
  proof (cases "n \<le> 0")
    case True
    then show ?thesis by (subst recv_body.simps, subst (2) recv_body.simps, subst (3) recv_body.simps) simp
  next
    case False
    let ?d = "fst (recv (nat (min 4096 n)) conn)" and ?c = "snd (recv (nat (min 4096 n)) conn)"
    have st: "recv_body n conn
        = (if ?d = [] then ([], ?c) else (?d @ fst (recv_body (n - int (length ?d)) ?c), snd (recv_body (n - int (length ?d)) ?c)))"
      using False by (subst recv_body.simps) (simp add: Let_def)
    show ?thesis using 1 False recv_concat [of "nat (min 4096 n)" conn] recv_ok [of conn "nat (min 4096 n)"]
      by (cases "?d = []") (auto simp: st)
  qed
qed

lemmas recv_body_concat = recv_body_rest [THEN conjunct1]

lemma recv_body_ok: "conn_ok conn \<Longrightarrow> conn_ok (snd (recv_body n conn))"
  using recv_body_rest by blast

lemma recv_all_concat: "conn_ok conn \<Longrightarrow> recv_all conn = concat conn"
proof (induction conn rule: recv_all.induct)
  case (1 conn)
  show ?case
  proof (cases "fst (recv 4096 conn) = []")
    case True
    with recv_Nil_iff [OF 1(2), of 4096] show ?thesis by (subst recv_all.simps) simp
  next
    case False
    then have "recv_all conn = fst (recv 4096 conn) @ recv_all (snd (recv 4096 conn))" by (subst recv_all.simps) simp
    with 1(1) False recv_ok [OF 1(2)] recv_concat [of 4096 conn] show ?thesis by simp
  qed
qed

lemma concat_file_chunks: "concat (file_chunks content) = content"
proof (induction content rule: file_chunks.induct)
  case (1 content)
  then show ?case by (cases "content = []") (subst file_chunks.simps, simp)+
qed

end
