(* ===== verification/Json_Lines.thy ===== *)
theory Json_Lines
  imports Json Sockets
begin

text \<open>
  The framing of the transfer protocols: a JSON dictionary on a line of its own, read byte by
  byte up to the line end and decoded with \<open>json.loads(header.decode().strip())\<close>. A dictionary
  sent this way is read back from any segmentation of the stream (\<open>header_back\<close>).
\<close>

type_synonym jdict = "(string \<times> json) list"

text \<open>\<open>data.decode()\<close> as a text of the model.\<close>

definition latin1 :: "ustr \<Rightarrow> string option" where
  "latin1 u = (if list_all (\<lambda>n. n < 256) u then Some (map char_of u) else None)"

definition decode_json :: "byte list \<Rightarrow> json option" where
  "decode_json data = Option.bind (Option.bind (utf8_decode data) latin1) (\<lambda>t. json_loads (py_strip t))"

text \<open>A dictionary as \<open>json.dumps(d) + "\n"\<close> writes it, encoded.\<close>

definition json_line :: "json \<Rightarrow> byte list" where
  "json_line j = utf8 (json_dumps j @ [newline_char])"

lemma latin1_code_points: "latin1 (code_points t) = Some t"
proof -
  have "map char_of (map (of_char :: char \<Rightarrow> nat) t) = t" by (induction t) simp_all
  then show ?thesis by (simp add: latin1_def code_points_def list_all_iff del: map_map)
qed

lemma decode_json_dumps: "json_ok (JObj kvs) \<Longrightarrow> decode_json (utf8 (json_dumps (JObj kvs) @ [newline_char])) = Some (JObj kvs)"
proof -
  assume j: "json_ok (JObj kvs)"
  let ?t = "json_dumps (JObj kvs) @ [newline_char]"
  have "py_strip ?t = json_dumps (JObj kvs)"
    by (rule py_strip_pad) (simp_all add: py_isspace_char_def)
  with json_loads_dumps [OF j] show ?thesis
    by (simp add: decode_json_def latin1_code_points del: json_dumps.simps)
qed

lemma utf8_append: "utf8 (s @ t) = utf8 s @ utf8 t"
  by (simp add: utf8_def)

lemma printable_no_newline: "printable s \<Longrightarrow> newline_byte \<notin> set (utf8 s)"
proof
  assume s: "printable s" and n: "newline_byte \<in> set (utf8 s)"
  have "ascii s" using s by (auto simp: printable_def ascii_def)
  then have "map unat (utf8 s) = map of_char s" by (rule utf8_ascii)
  moreover have "unat newline_byte \<in> set (map unat (utf8 s))" using n by (metis image_eqI list.set_map)
  ultimately obtain c where "c \<in> set s" "(of_char c :: nat) = 10" by auto
  with s show False by (auto simp: printable_def)
qed

lemma utf8_newline: "utf8 [newline_char] = [newline_byte]"
  by (simp add: utf8_def utf8_char_def)

text \<open>The header of a dictionary is read back from any segmentation of the stream.\<close>

lemma header_back:
  assumes "conn_ok conn" "json_ok (JObj kvs)" "concat conn = utf8 (json_dumps (JObj kvs) @ [newline_char]) @ rest"
  shows "\<exists>h conn'. read_header [] conn = Some (h, conn') \<and> decode_json h = Some (JObj kvs) \<and> concat conn' = rest \<and> conn_ok conn'"
proof -
  have "concat conn = utf8 (json_dumps (JObj kvs)) @ newline_byte # rest" using assms(3) by (simp add: utf8_append utf8_newline del: json_dumps.simps)
  from read_header_line [OF assms(1) this printable_no_newline [OF printable_dumps], of "[]"]
  obtain conn' where "read_header [] conn = Some (utf8 (json_dumps (JObj kvs)) @ [newline_byte], conn')" "concat conn' = rest" "conn_ok conn'"
    by auto
  moreover have "decode_json (utf8 (json_dumps (JObj kvs)) @ [newline_byte]) = Some (JObj kvs)"
    using decode_json_dumps [OF assms(2)] by (simp add: utf8_append utf8_newline del: json_dumps.simps)
  ultimately show ?thesis by blast
qed

end
