(* ===== verification/Posix_Path.thy ===== *)
theory Posix_Path
  imports Julius_Prelude
begin

text \<open>
  The functions of \<^verbatim>\<open>os.path\<close> the file manager and the transfers use (POSIX), and the components
  a path resolves to.
\<close>

subsection \<open>Paths\<close>

abbreviation slash :: char where
  "slash \<equiv> CHR ''/''"

definition path_join :: "string \<Rightarrow> string \<Rightarrow> string" where
  "path_join a b =
     (if py_prefix [slash] b then b else if a = [] \<or> last a = slash then a @ b else a @ slash # b)"

definition path_basename :: "string \<Rightarrow> string" where
  "path_basename p = rev (takeWhile (\<lambda>c. c \<noteq> slash) (rev p))"

definition path_dirname :: "string \<Rightarrow> string" where
  "path_dirname p =
     (let head = rev (dropWhile (\<lambda>c. c \<noteq> slash) (rev p))
      in if list_all (\<lambda>c. c = slash) head then head else rev (dropWhile (\<lambda>c. c = slash) (rev head)))"

definition resolve :: "string \<Rightarrow> string list" where
  "resolve p = filter (\<lambda>c. c \<noteq> [] \<and> c \<noteq> ''.'') (py_split slash p)"

subsection \<open>Lemmas on paths\<close>

lemma py_split_append: "py_split sep (a @ sep # b) = py_split sep a @ py_split sep b"
proof (induction a)
  case Nil
  then show ?case by simp
next
  case (Cons c a)
  obtain w ws where "py_split sep a = w # ws" by (cases "py_split sep a") simp_all
  with Cons show ?case by simp
qed

text \<open>A name of a directory entry.\<close>

definition is_name :: "string \<Rightarrow> bool" where
  "is_name n \<longleftrightarrow> n \<noteq> [] \<and> n \<noteq> ''.'' \<and> slash \<notin> set n"

lemma resolve_name: "is_name n \<Longrightarrow> resolve n = [n]"
  by (simp add: resolve_def is_name_def py_split_no_sep)

lemma resolve_append: "resolve (a @ slash # b) = resolve a @ resolve b"
  by (simp add: resolve_def py_split_append)

lemma resolve_join [simp]: "is_name n \<Longrightarrow> resolve (path_join p n) = resolve p @ [n]"
proof -
  assume n: "is_name n"
  have h: "\<not> py_prefix [slash] n" using n by (cases n) (auto simp: is_name_def)
  show ?thesis
  proof (cases "p = [] \<or> last p = slash")
    case True
    then consider "p = []" | q where "p = q @ [slash]" by (metis append_butlast_last_id)
    then show ?thesis
    proof cases
      case 1
      with n h show ?thesis by (simp add: path_join_def resolve_name) (simp add: resolve_def)
    next
      case (2 q)
      with n h resolve_append [of q n] resolve_append [of q "[]"] show ?thesis
        by (simp add: path_join_def resolve_name) (simp add: resolve_def)
    qed
  next
    case False
    with n h show ?thesis by (simp add: path_join_def resolve_append resolve_name)
  qed
qed

lemma basename_join [simp]: "is_name n \<Longrightarrow> path_basename (path_join p n) = n"
proof -
  assume n: "is_name n"
  have h: "\<not> py_prefix [slash] n" using n by (cases n) (auto simp: is_name_def)
  have t: "takeWhile (\<lambda>c. c \<noteq> slash) (rev n @ xs) = rev n @ takeWhile (\<lambda>c. c \<noteq> slash) xs" for xs
    using n by (subst takeWhile_append2) (auto simp: is_name_def)
  show ?thesis
  proof (cases "p = [] \<or> last p = slash")
    case True
    then have "takeWhile (\<lambda>c. c \<noteq> slash) (rev p) = []" by (cases p rule: rev_cases) auto
    with True h t [of "rev p"] show ?thesis by (simp add: path_basename_def path_join_def)
  next
    case False
    with h t [of "slash # rev p"] show ?thesis by (simp add: path_basename_def path_join_def)
  qed
qed

text \<open>A path without a trailing slash, or the root.\<close>

definition norm_path :: "string \<Rightarrow> bool" where
  "norm_path p \<longleftrightarrow> p = [slash] \<or> p \<noteq> [] \<and> last p \<noteq> slash"

lemma dirname_join: "norm_path p \<Longrightarrow> is_name n \<Longrightarrow> path_dirname (path_join p n) = p"
proof -
  assume p: "norm_path p" and n: "is_name n"
  have h: "\<not> py_prefix [slash] n" using n by (cases n) (auto simp: is_name_def)
  have d: "dropWhile (\<lambda>c. c \<noteq> slash) (rev n @ slash # xs) = slash # xs" for xs
    using n by (subst dropWhile_append2) (auto simp: is_name_def)
  show ?thesis
  proof (cases "p = [slash]")
    case True
    with h d [of "[]"] show ?thesis by (simp add: path_dirname_def path_join_def)
  next
    case False
    with p obtain q c where q: "p = q @ [c]" "c \<noteq> slash" by (cases p rule: rev_cases) (auto simp: norm_path_def)
    with h d [of "rev p"] show ?thesis by (simp add: path_dirname_def path_join_def)
  qed
qed

end
