(* ===== verification/Julius_Drop.thy ===== *)
theory Julius_Drop
  imports Ui_Config Json_Lines Posix_Path
begin

text \<open>
  Julius Drop (\<^verbatim>\<open>src/src/system/julius_drop.py\<close>): the beacons that announce devices, the list of
  nearby devices, sending and receiving a file, the screen and its touch zones.

  A beacon and a transfer header are JSON dictionaries. A receiving thread that never ends is
  the value \<open>None\<close>. Arguments stand for the address of this device (\<open>get_ip\<close>), the files that
  may not be written, and the text of an exception; what is stored on the device is part of
  the state. Of the screen this theory has what touch and exceptions depend on;
  \<open>Panel_Screens\<close> has the rest.
\<close>

record transfer =
  tf_name :: string
  tf_peer :: string
  tf_size :: int
  tf_received :: bool

record julius_drop =
  dr_visible :: bool
  dr_nearby :: "jdict list"
  dr_status :: string
  dr_mode :: string
  dr_device_rects :: "(rect \<times> string) list option"
  dr_transfers :: "transfer list"
  dr_files :: "string \<rightharpoonup> byte list"

definition dr_init :: julius_drop where
  "dr_init = \<lparr>dr_visible = False, dr_nearby = [], dr_status = ''Ready'', dr_mode = ''menu'', dr_device_rects = None,
     dr_transfers = [], dr_files = Map.empty\<rparr>"

subsection \<open>Beacons\<close>

definition beacon_info :: "string \<Rightarrow> string \<Rightarrow> jdict" where
  "beacon_info name ip = [(''name'', JStr name), (''ip'', JStr ip), (''type'', JStr ''julius_drop'')]"

definition beacon_msg :: "string \<Rightarrow> string \<Rightarrow> byte list" where
  "beacon_msg name ip = utf8 (json_dumps (JObj (beacon_info name ip)))"

text \<open>
  One round of the listener thread for a decoded beacon; \<open>my_ip\<close> is the result of \<open>get_ip\<close>.
  \<open>info["ip"]\<close> on a beacon without that field raises \<open>KeyError\<close>, which the listener swallows.
\<close>

definition dr_listen :: "string \<Rightarrow> jdict \<Rightarrow> julius_drop \<Rightarrow> julius_drop" where
  "dr_listen my_ip info s =
     (if map_of info ''type'' = Some (JStr ''julius_drop'') then
        (case map_of info ''ip'' of
           None \<Rightarrow> s
         | Some ip \<Rightarrow>
             (if ip \<noteq> JStr my_ip \<and> Some ip \<notin> set (map (\<lambda>d. map_of d ''ip'') (dr_nearby s))
              then s\<lparr>dr_nearby := dr_nearby s @ [info]\<rparr> else s))
      else s)"

text \<open>A datagram: \<open>recvfrom(1024)\<close>, \<open>json.loads(data.decode())\<close>; what raises is swallowed.\<close>

definition dr_datagram :: "string \<Rightarrow> byte list \<Rightarrow> julius_drop \<Rightarrow> julius_drop" where
  "dr_datagram my_ip data s =
     (case Option.bind (Option.bind (utf8_decode (take 1024 data)) latin1) json_loads of
        Some (JObj info) \<Rightarrow> dr_listen my_ip info s
      | _ \<Rightarrow> s)"

subsection \<open>Receiving and sending\<close>

definition DROP_DIR :: string where
  "DROP_DIR = ''/var/julius/drops/''"

definition dr_error :: "string \<Rightarrow> string \<Rightarrow> julius_drop \<Rightarrow> julius_drop" where
  "dr_error what exc s = s\<lparr>dr_status := what @ '' error: '' @ exc\<rparr>"

text \<open>
  \<open>handle_receive\<close> after the header: the name must be a text; the file is opened, and so
  emptied, before the size is compared, which raises unless it is a number.
\<close>

definition dr_store :: "(string \<Rightarrow> bool) \<Rightarrow> string \<Rightarrow> conn \<Rightarrow> string \<Rightarrow> jdict \<Rightarrow> julius_drop \<Rightarrow> julius_drop" where
  "dr_store denied exc conn addr info s =
     (case (map_of info ''name'', map_of info ''size'') of
        (Some (JStr filename), Some sz) \<Rightarrow>
          (let filepath = path_join DROP_DIR filename
           in if denied filepath then dr_error ''Receive'' exc s
              else
                (case (case sz of JInt n \<Rightarrow> Some n | JBool b \<Rightarrow> Some (if b then 1 else 0) | _ \<Rightarrow> None) of
                   None \<Rightarrow> dr_error ''Receive'' exc (s\<lparr>dr_files := (dr_files s)(filepath \<mapsto> [])\<rparr>)
                 | Some filesize \<Rightarrow>
                     s\<lparr>dr_files := (dr_files s)(filepath \<mapsto> fst (recv_body filesize conn)),
                       dr_transfers := dr_transfers s @ [\<lparr>tf_name = filename, tf_peer = addr, tf_size = filesize, tf_received = True\<rparr>],
                       dr_status := ''Received '' @ filename\<rparr>))
      | _ \<Rightarrow> dr_error ''Receive'' exc s)"

definition handle_receive :: "(string \<Rightarrow> bool) \<Rightarrow> string \<Rightarrow> conn \<Rightarrow> string \<Rightarrow> julius_drop \<Rightarrow> julius_drop option" where
  "handle_receive denied exc conn addr s =
     (case read_header [] conn of
        None \<Rightarrow> None
      | Some (header, conn') \<Rightarrow>
          Some (case decode_json header of
                  Some (JObj info) \<Rightarrow> dr_store denied exc conn' addr info s
                | _ \<Rightarrow> dr_error ''Receive'' exc s))"

text \<open>The thread of \<open>start_receiver\<close>: the connections one after the other.\<close>

fun receive_loop :: "(string \<Rightarrow> bool) \<Rightarrow> string \<Rightarrow> (conn \<times> string) list \<Rightarrow> julius_drop \<Rightarrow> julius_drop option" where
  "receive_loop denied exc [] s = Some s"
| "receive_loop denied exc ((conn, addr) # cs) s =
     Option.bind (handle_receive denied exc conn addr s) (receive_loop denied exc cs)"

text \<open>What \<open>send_file\<close> writes to the connection, and its effect here.\<close>

definition send_header :: "string \<Rightarrow> int \<Rightarrow> string" where
  "send_header filename filesize = json_dumps (JObj [(''name'', JStr filename), (''size'', JInt filesize)]) @ [newline_char]"

definition send_stream :: "string \<Rightarrow> byte list \<Rightarrow> byte list" where
  "send_stream filepath content =
     utf8 (send_header (path_basename filepath) (int (length content))) @ concat (file_chunks content)"

definition dr_send_file :: "string option \<Rightarrow> string \<Rightarrow> string \<Rightarrow> byte list \<Rightarrow> julius_drop \<Rightarrow> julius_drop" where
  "dr_send_file fails ip filepath content s =
     (case fails of
        Some exc \<Rightarrow> dr_error ''Send'' exc s
      | None \<Rightarrow>
          s\<lparr>dr_transfers := dr_transfers s @ [\<lparr>tf_name = path_basename filepath, tf_peer = ip, tf_size = int (length content), tf_received = False\<rparr>],
            dr_status := ''Sent '' @ path_basename filepath\<rparr>)"

subsection \<open>The screen\<close>

definition dr_show :: "julius_drop \<Rightarrow> julius_drop" where
  "dr_show s = s\<lparr>dr_visible := True, dr_mode := ''menu''\<rparr>"

definition dr_hide :: "julius_drop \<Rightarrow> julius_drop" where
  "dr_hide s = s\<lparr>dr_visible := False\<rparr>"

text \<open>
  The row of a device: \<open>dev["name"][:20]\<close> and \<open>dev["ip"]\<close> are rendered, which raises when the
  name is missing or either is not a text.
\<close>

definition dr_row :: "jdict \<Rightarrow> string res" where
  "dr_row d =
     (case map_of d ''name'' of
        None \<Rightarrow> Inl KeyError
      | Some (JStr _) \<Rightarrow> (case map_of d ''ip'' of Some (JStr ip) \<Rightarrow> Inr ip | Some _ \<Rightarrow> Inl TypeError | None \<Rightarrow> Inl KeyError)
      | Some _ \<Rightarrow> Inl TypeError)"

fun dr_rows :: "int \<Rightarrow> jdict list \<Rightarrow> (rect \<times> string) list res" where
  "dr_rows y [] = Inr []"
| "dr_rows y (d # ds) =
     res_bind (dr_row d) (\<lambda>ip. res_bind (dr_rows (y + 52) ds) (\<lambda>rs. Inr (((8, y, W - 16, 46), ip) # rs)))"

definition dr_draw :: "julius_drop \<Rightarrow> julius_drop res" where
  "dr_draw s =
     (if \<not> dr_visible s then Inr s
      else res_bind (dr_rows 116 (take 4 (dr_nearby s))) (\<lambda>rs. Inr (s\<lparr>dr_device_rects := Some rs\<rparr>)))"

fun dr_send_button :: "rect \<Rightarrow> pos \<Rightarrow> bool" where
  "dr_send_button (rx, ry, rw, rh) (x, y) = (W - 60 \<le> x \<and> x \<le> W - 8 \<and> ry + 10 \<le> y \<and> y \<le> ry + 38)"

definition dr_handle_touch :: "julius_drop \<Rightarrow> pos \<Rightarrow> julius_drop" where
  "dr_handle_touch s p =
     (if \<not> dr_visible s then s
      else (case (case dr_device_rects s of None \<Rightarrow> None | Some rs \<Rightarrow> find (\<lambda>(r, ip). dr_send_button r p) rs) of
              Some (r, ip) \<Rightarrow> s\<lparr>dr_status := ''Select file to send to '' @ ip\<rparr>
            | None \<Rightarrow> s))"

subsection \<open>Lemmas on the list of devices\<close>

text \<open>The nearby list: every entry has an address, none twice, never this device.\<close>

definition dr_ok :: "string \<Rightarrow> julius_drop \<Rightarrow> bool" where
  "dr_ok my_ip s \<longleftrightarrow>
     (let ips = map (\<lambda>d. map_of d ''ip'') (dr_nearby s)
      in distinct ips \<and> None \<notin> set ips \<and> Some (JStr my_ip) \<notin> set ips)"

lemma dr_nearby_simps [simp]:
  "dr_nearby (dr_show s) = dr_nearby s" "dr_nearby (dr_hide s) = dr_nearby s"
  "dr_nearby (dr_handle_touch s p) = dr_nearby s"
  by (simp_all add: dr_show_def dr_hide_def dr_handle_touch_def split: option.split prod.split)

lemma dr_ok_listen: "dr_ok my_ip s \<Longrightarrow> dr_ok my_ip (dr_listen my_ip b s)"
  by (auto simp: dr_ok_def dr_listen_def Let_def split: option.splits)

lemma dr_ok_datagram: "dr_ok my_ip s \<Longrightarrow> dr_ok my_ip (dr_datagram my_ip data s)"
  by (auto simp: dr_datagram_def dr_ok_listen split: option.split json.split)

interpretation drop_listener: event_app "\<lambda>s data. Inr (dr_datagram my_ip data s)" "dr_ok my_ip" for my_ip
  by unfold_locales (auto intro: dr_ok_datagram)

text \<open>The devices whose row can be drawn.\<close>

definition dr_drawable :: "julius_drop \<Rightarrow> bool" where
  "dr_drawable s \<longleftrightarrow> (\<forall>d\<in>set (dr_nearby s). is_ok (dr_row d))"

lemma dr_drawable_simps [simp]:
  "dr_drawable (dr_show s) = dr_drawable s" "dr_drawable (dr_hide s) = dr_drawable s"
  "dr_drawable (dr_handle_touch s p) = dr_drawable s" "dr_drawable dr_init"
  by (simp_all add: dr_drawable_def dr_init_def)

lemma dr_rows_ok: "\<forall>d\<in>set ds. is_ok (dr_row d) \<Longrightarrow> \<exists>rs. dr_rows y ds = Inr rs"
proof (induction ds arbitrary: y)
  case (Cons d ds)
  then obtain ip rs where "dr_row d = Inr ip" "dr_rows (y + 52) ds = Inr rs" by (metis is_ok_iff list.set_intros)
  then show ?case by simp
qed simp

lemma dr_draw_ok: "dr_drawable s \<Longrightarrow> \<exists>s'. dr_draw s = Inr s' \<and> dr_drawable s'"
proof -
  assume s: "dr_drawable s"
  then have "\<forall>d\<in>set (take 4 (dr_nearby s)). is_ok (dr_row d)" by (auto simp: dr_drawable_def dest: in_set_takeD)
  with dr_rows_ok obtain rs where "dr_rows 116 (take 4 (dr_nearby s)) = Inr rs" by blast
  with s show ?thesis by (simp add: dr_draw_def dr_drawable_def)
qed

lemma send_stream_ne: "send_stream filepath content \<noteq> []"
  by (simp add: send_stream_def send_header_def utf8_append utf8_newline del: json_dumps.simps)

lemma receive_stream:
  assumes "conn_ok conn" "concat conn = utf8 (send_header name sz) @ data" "\<not> denied (path_join DROP_DIR name)"
  shows "\<exists>s'. handle_receive denied exc conn addr s = Some s'
      \<and> dr_files s' = (dr_files s)(path_join DROP_DIR name \<mapsto> take (nat sz) data)
      \<and> dr_transfers s' = dr_transfers s @ [\<lparr>tf_name = name, tf_peer = addr, tf_size = sz, tf_received = True\<rparr>]
      \<and> dr_status s' = ''Received '' @ name"
proof -
  have "json_ok (JObj [(''name'', JStr name), (''size'', JInt sz)])" by simp
  from header_back [OF assms(1) this] assms(2) obtain h conn' where
    "read_header [] conn = Some (h, conn')" "decode_json h = Some (JObj [(''name'', JStr name), (''size'', JInt sz)])"
    "concat conn' = data" "conn_ok conn'"
    by (auto simp: send_header_def simp del: json_dumps.simps)
  with assms(3) show ?thesis by (simp add: handle_receive_def dr_store_def Let_def recv_body_take)
qed

subsection \<open>Properties\<close>

text \<open>
  (C13) A file sent with Julius Drop arrives: however the network cuts the stream into
  segments, the receiver stores exactly the bytes sent, in its drop directory under the name
  of the file, and lists the transfer.
\<close>

theorem drop_roundtrip:
  assumes "conn_ok conn" "concat conn = send_stream filepath content" "\<not> denied (path_join DROP_DIR (path_basename filepath))"
  shows "\<exists>s'. handle_receive denied exc conn addr s = Some s'
      \<and> dr_files s' = (dr_files s)(path_join DROP_DIR (path_basename filepath) \<mapsto> content)
      \<and> dr_transfers s' = dr_transfers s @ [\<lparr>tf_name = path_basename filepath, tf_peer = addr, tf_size = int (length content), tf_received = True\<rparr>]"
proof -
  have "concat conn = utf8 (send_header (path_basename filepath) (int (length content))) @ content"
    using assms(2) by (simp add: send_stream_def concat_file_chunks)
  from receive_stream [where denied = denied, OF assms(1) this assms(3)] show ?thesis by fastforce
qed

theorem drop_roundtrip_witness:
  "\<exists>s'. handle_receive (\<lambda>_. False) [] [send_stream ''/tmp/a.txt'' [1, 2, 10, 3]] ''10.0.0.2'' dr_init = Some s'
      \<and> dr_files s' = (dr_files dr_init)(path_join DROP_DIR (path_basename ''/tmp/a.txt'') \<mapsto> [1, 2, 10, 3])
      \<and> dr_transfers s' = dr_transfers dr_init @ [\<lparr>tf_name = path_basename ''/tmp/a.txt'', tf_peer = ''10.0.0.2'',
            tf_size = int (length [1 :: byte, 2, 10, 3]), tf_received = True\<rparr>]"
  by (rule drop_roundtrip) (simp_all add: conn_ok_def send_stream_ne [symmetric])

text \<open>
  (C14) The sender of a file chooses where it is written and how complete it is said to be: with
  an absolute path as the name, any file that may be written is replaced by the bytes sent,
  and a stream that ends early is stored cut short and still listed as a transfer of the full
  size.
\<close>

theorem drop_sender_controls:
  assumes "conn_ok conn" "path = slash # rest" "\<not> denied path" "concat conn = utf8 (send_header path sz) @ data" "int (length data) \<le> sz"
  shows "\<exists>s'. handle_receive denied exc conn addr s = Some s' \<and> dr_files s' path = Some data
      \<and> last (dr_transfers s') = \<lparr>tf_name = path, tf_peer = addr, tf_size = sz, tf_received = True\<rparr> \<and> dr_status s' = ''Received '' @ path"
proof -
  have p: "path_join DROP_DIR path = path" using assms(2) by (simp add: path_join_def)
  have "length data \<le> nat sz" using assms(5) by linarith
  with receive_stream [OF assms(1,4), of denied exc addr s] assms(3) p show ?thesis by auto
qed

theorem drop_sender_controls_witness:
  "\<exists>s'. handle_receive (\<lambda>_. False) [] [utf8 (send_header ''/etc/passwd'' 1000) @ [7]] ''6.6.6.6'' dr_init = Some s'
      \<and> dr_files s' ''/etc/passwd'' = Some [7]
      \<and> last (dr_transfers s') = \<lparr>tf_name = ''/etc/passwd'', tf_peer = ''6.6.6.6'', tf_size = 1000, tf_received = True\<rparr>
      \<and> dr_status s' = ''Received '' @ ''/etc/passwd''"
  by (rule drop_sender_controls) (simp_all add: conn_ok_def)

text \<open>
  (C15) The receiver ends exactly when a line end arrives. A peer that closes the connection
  before sending one makes it loop forever, and since connections are handled one after the
  other, no later transfer is received.
\<close>

theorem drop_receiver_hangs:
  assumes "conn_ok conn"
  shows "(handle_receive denied exc conn addr s = None \<longleftrightarrow> newline_byte \<notin> set (concat conn))
    \<and> (newline_byte \<notin> set (concat conn) \<longrightarrow> receive_loop denied exc ((conn, addr) # later) s = None)"
  using read_header_None_iff [OF assms] by (auto simp: handle_receive_def split: option.split)

theorem drop_receiver_hangs_witness:
  "handle_receive (\<lambda>_. False) [] [] ''6.6.6.6'' dr_init = None
    \<and> receive_loop (\<lambda>_. False) [] (([], ''6.6.6.6'') # [([[1]], ''10.0.0.2'')]) dr_init = None"
  using drop_receiver_hangs [of "[]" "\<lambda>_. False" "[]" "''6.6.6.6''" dr_init "[([[1]], ''10.0.0.2'')]"]
  by (simp add: conn_ok_def)

text \<open>
  Whatever datagrams arrive, the list of nearby devices never lists an address twice and
  never lists this device itself.
\<close>

theorem dr_nearby_distinct:
  "\<exists>s'. run_events (\<lambda>s data. Inr (dr_datagram my_ip data s)) dr_init bs = Inr s'
      \<and> distinct (map (\<lambda>d. map_of d ''ip'') (dr_nearby s')) \<and> Some (JStr my_ip) \<notin> set (map (\<lambda>d. map_of d ''ip'') (dr_nearby s'))"
proof -
  have "dr_ok my_ip dr_init" by (simp add: dr_ok_def dr_init_def)
  from drop_listener.run_ok [OF this, of bs] show ?thesis by (auto simp: dr_ok_def Let_def)
qed

text \<open>A device that announces itself is listed by every other device, unless its address is listed already.\<close>

lemma beacon_listed:
  assumes "length (beacon_msg name ip) \<le> 1024" "ip \<noteq> my_ip" "Some (JStr ip) \<notin> set (map (\<lambda>d. map_of d ''ip'') (dr_nearby s))"
  shows "dr_nearby (dr_datagram my_ip (beacon_msg name ip) s) = dr_nearby s @ [beacon_info name ip]"
proof -
  have "json_loads (json_dumps (JObj (beacon_info name ip))) = Some (JObj (beacon_info name ip))"
    by (rule json_loads_dumps) (simp add: beacon_info_def)
  moreover have "take 1024 (beacon_msg name ip) = beacon_msg name ip" using assms(1) by simp
  ultimately show ?thesis
    using assms(2,3) by (simp add: dr_datagram_def beacon_msg_def latin1_code_points dr_listen_def del: json_dumps.simps)
      (simp add: beacon_info_def)
qed

end
