(* ===== verification/Julius_Cloud.thy ===== *)
theory Julius_Cloud
  imports Ui_Config
begin

text \<open>
  Julius Cloud (\<^verbatim>\<open>src/src/system/julius_cloud.py\<close>): the configuration file, the screen, and the
  start and the end of a synchronisation. The exchange with the server is represented by
  its outcome: the text of the exception, or the number of files synchronised, the time and
  the local files afterwards.
\<close>

record cloud_file =
  cf_name :: string
  cf_size :: int

record julius_cloud =
  cl_visible :: bool
  cl_status :: string
  cl_syncing :: bool
  cl_files :: "cloud_file list"
  cl_server_ip :: string
  cl_last_sync :: string
  cl_sync_btn :: "rect option"
  cl_config :: "string option"

fun cl_read_lines :: "string list \<Rightarrow> julius_cloud \<Rightarrow> julius_cloud" where
  "cl_read_lines [] s = s"
| "cl_read_lines (l # ls) s =
     cl_read_lines ls
       (if py_in ''server='' l then s\<lparr>cl_server_ip := py_strip (py_split (CHR ''='') l ! 1)\<rparr>
        else if py_in ''last_sync='' l then s\<lparr>cl_last_sync := py_strip (py_split (CHR ''='') l ! 1)\<rparr>
        else s)"

definition cl_load_config :: "julius_cloud \<Rightarrow> julius_cloud" where
  "cl_load_config s =
     (case cl_config s of None \<Rightarrow> s | Some content \<Rightarrow> cl_read_lines (file_lines content) s)"

definition cl_init :: "string option \<Rightarrow> julius_cloud" where
  "cl_init f =
     cl_load_config \<lparr>cl_visible = False, cl_status = ''Idle'', cl_syncing = False, cl_files = [],
       cl_server_ip = [], cl_last_sync = ''Never'', cl_sync_btn = None, cl_config = f\<rparr>"

definition cl_save_config :: "julius_cloud \<Rightarrow> julius_cloud" where
  "cl_save_config s =
     s\<lparr>cl_config := Some (''server='' @ cl_server_ip s @ [newline_char]
                         @ ''last_sync='' @ cl_last_sync s @ [newline_char])\<rparr>"

text \<open>\<open>sync\<close>: without a server it only sets the status; otherwise it starts the thread.\<close>

definition cl_sync :: "julius_cloud \<Rightarrow> julius_cloud" where
  "cl_sync s =
     (if cl_server_ip s = [] then s\<lparr>cl_status := ''No server configured''\<rparr>
      else s\<lparr>cl_syncing := True, cl_status := ''Syncing...''\<rparr>)"

definition cl_sync_end :: "string + (nat \<times> string \<times> cloud_file list) \<Rightarrow> julius_cloud \<Rightarrow> julius_cloud" where
  "cl_sync_end out s =
     (case out of
        Inr (synced, now, files) \<Rightarrow>
          (cl_save_config (s\<lparr>cl_last_sync := now\<rparr>))
            \<lparr>cl_files := files, cl_status := ''Synced '' @ py_str_int (int synced) @ '' files'', cl_syncing := False\<rparr>
      | Inl e \<Rightarrow> s\<lparr>cl_status := ''Sync error: '' @ take 30 e, cl_syncing := False\<rparr>)"

definition cl_show :: "cloud_file list \<Rightarrow> julius_cloud \<Rightarrow> julius_cloud" where
  "cl_show local_files s = s\<lparr>cl_visible := True, cl_files := local_files\<rparr>"

definition cl_hide :: "julius_cloud \<Rightarrow> julius_cloud" where
  "cl_hide s = s\<lparr>cl_visible := False\<rparr>"

definition cl_draw :: "julius_cloud \<Rightarrow> julius_cloud" where
  "cl_draw s = (if \<not> cl_visible s then s else s\<lparr>cl_sync_btn := Some (W - 90, 63, 80, 36)\<rparr>)"

definition cl_handle_touch :: "julius_cloud \<Rightarrow> pos \<Rightarrow> julius_cloud" where
  "cl_handle_touch s p =
     (if \<not> cl_visible s then s
      else (case cl_sync_btn s of
              Some r \<Rightarrow> (if in_rect r p then cl_sync s else s)
            | None \<Rightarrow> s))"

subsection \<open>Lemmas\<close>

text \<open>A value that survives a line of the configuration file.\<close>

definition plain_value :: "string \<Rightarrow> bool" where
  "plain_value v \<longleftrightarrow>
     CHR ''='' \<notin> set v \<and> newline_char \<notin> set v \<and> cr_char \<notin> set v \<and> py_strip (v @ [newline_char]) = v"

lemma file_lines_config:
  assumes "plain_value a" "plain_value b"
  shows "file_lines (''server='' @ a @ [newline_char] @ ''last_sync='' @ b @ [newline_char]) =
           [''server='' @ a @ [newline_char], ''last_sync='' @ b @ [newline_char]]"
proof -
  let ?l1 = "''server='' @ a" and ?l2 = "''last_sync='' @ b"
  let ?c = "?l1 @ newline_char # ?l2 @ [newline_char]"
  have nl: "newline_char \<notin> set ?l1" "newline_char \<notin> set ?l2"
    using assms by (auto simp: plain_value_def)
  have cr: "cr_char \<notin> set ?c"
    using assms by (auto simp: plain_value_def)
  have "file_lines ?c = py_lines_acc [] ?c"
    by (simp only: file_lines_def universal_newlines_id [OF cr])
  also have "\<dots> = [?l1 @ [newline_char], ?l2 @ [newline_char]]"
    by (simp only: py_lines_acc_line [OF nl(1)] py_lines_acc_line [OF nl(2), of "[]" "[]"]) simp
  finally show ?thesis by simp
qed

lemma py_in_absent: "x \<in> set xs \<Longrightarrow> x \<notin> set ys \<Longrightarrow> \<not> py_in xs ys"
  using py_in_set by fastforce

lemma cl_split_value:
  "CHR ''='' \<notin> set k \<Longrightarrow> plain_value v \<Longrightarrow> py_split (CHR ''='') (k @ ''='' @ v @ [newline_char]) ! 1 = v @ [newline_char]"
  by (simp add: py_split_append_sep py_split_no_sep plain_value_def)

lemma cl_read_server:
  assumes "plain_value v"
  shows "cl_read_lines ((''server='' @ v @ [newline_char]) # ls) s = cl_read_lines ls (s\<lparr>cl_server_ip := v\<rparr>)"
proof -
  have "py_in ''server='' (''server='' @ v @ [newline_char])" by simp
  moreover have "py_strip (py_split (CHR ''='') (''server='' @ v @ [newline_char]) ! 1) = v"
    using cl_split_value [of "''server''" v] assms by (simp add: plain_value_def)
  ultimately show ?thesis by (simp only: cl_read_lines.simps if_True)
qed

lemma cl_read_last_sync:
  assumes "plain_value v"
  shows "cl_read_lines ((''last_sync='' @ v @ [newline_char]) # ls) s = cl_read_lines ls (s\<lparr>cl_last_sync := v\<rparr>)"
proof -
  have "\<not> py_in ''server='' (v @ [newline_char])"
    by (rule py_in_absent [of "CHR ''=''"]) (use assms in \<open>auto simp: plain_value_def\<close>)
  then have "\<not> py_in ''server='' (''last_sync='' @ v @ [newline_char])" by simp
  moreover have "py_in ''last_sync='' (''last_sync='' @ v @ [newline_char])" by simp
  moreover have "py_strip (py_split (CHR ''='') (''last_sync='' @ v @ [newline_char]) ! 1) = v"
    using cl_split_value [of "''last_sync''" v] assms by (simp add: plain_value_def)
  ultimately show ?thesis by (simp only: cl_read_lines.simps if_True if_False)
qed

subsection \<open>Properties\<close>

text \<open>
  What \<open>save_config\<close> writes, \<open>load_config\<close> reads back: a server address and a time without
  \<open>=\<close>, line ends or surrounding blanks survive the configuration file.
\<close>

theorem cl_config_roundtrip:
  assumes "plain_value (cl_server_ip s)" and "plain_value (cl_last_sync s)"
  shows "cl_server_ip (cl_init (cl_config (cl_save_config s))) = cl_server_ip s
       \<and> cl_last_sync (cl_init (cl_config (cl_save_config s))) = cl_last_sync s"
  using file_lines_config [OF assms] cl_read_server [OF assms(1)] cl_read_last_sync [OF assms(2)]
  by (simp add: cl_init_def cl_save_config_def cl_load_config_def del: cl_read_lines.simps append_Cons)
     (simp add: cl_read_lines.simps(1))

theorem cl_config_roundtrip_witness:
  "cl_server_ip (cl_init (cl_config (cl_save_config ((cl_init None)\<lparr>cl_server_ip := ''10.0.0.7''\<rparr>)))) = ''10.0.0.7''"
  using cl_config_roundtrip [of "(cl_init None)\<lparr>cl_server_ip := ''10.0.0.7''\<rparr>"]
  by (simp add: plain_value_def py_strip_def py_lstrip_def py_isspace_char_def cl_init_def cl_load_config_def)

end
