(* ===== verification/Julius_UI.thy ===== *)
theory Julius_UI
  imports Ui_Config Control_Center Notification_Center Spotlight App_Switcher Folders
    Lock_Animation Julius_AI Julius_Drop Julius_Cloud
begin

text \<open>
  The main interface (\<^verbatim>\<open>src/src/julius_ui.py\<close>): the global variables of the module as one
  record, the event loop as a step function on one event, one frame of the loop (events,
  then drawing), the home-screen geometry and \<open>open_app\<close>. A step may raise; the effects on
  the outside are appended to \<open>ui_log\<close>. The time an event is handled at is an argument, a
  rational number of seconds.
\<close>

subsection \<open>Applications and the home screen\<close>

definition APPS :: "(string \<times> nat) list" where
  "APPS =
     map (\<lambda>n. (n, 0))
       [''Terminal'', ''WiFi'', ''IR'', ''Bluetooth'', ''Connect'', ''Transfer'', ''Scanner'', ''Files'',
        ''SysMon'', ''SSH'', ''Notes'', ''NetTools'', ''Packets'', ''Clipboard'', ''Hotspot'', ''GPIO'']
     @ map (\<lambda>n. (n, 1))
       [''Calc'', ''Todo'', ''Passwords'', ''Weather'', ''Hasher'', ''Encoder'', ''NetMon'', ''Editor'',
        ''Timer'', ''WakeOnLAN'', ''SpeedTest'', ''ProcKill'', ''NetMapper'', ''SysInfo'', ''Firewall'',
        ''Logs'', ''USB'', ''Drop'', ''Cloud'', ''AI'', ''Radio'', ''Maps'', ''Settings'']"

definition DOCK_NAMES :: "string list" where
  "DOCK_NAMES = [''Terminal'', ''WiFi'', ''AI'', ''Settings'']"

definition app_instances :: "string list" where
  "app_instances =
     [''Terminal'', ''WiFi'', ''IR'', ''Bluetooth'', ''GPIO'', ''Connect'', ''Transfer'', ''Clipboard'',
      ''Hotspot'', ''Scanner'', ''Files'', ''SysMon'', ''SSH'', ''Notes'', ''NetTools'', ''Packets'',
      ''WakeOnLAN'', ''SpeedTest'', ''Calc'', ''Todo'', ''Passwords'', ''Weather'', ''Hasher'', ''Encoder'',
      ''NetMon'', ''Editor'', ''Timer'', ''ProcKill'', ''NetMapper'', ''SysInfo'', ''Firewall'', ''Logs'',
      ''USB'', ''Radio'', ''Maps'']"

text \<open>The folders built at start-up; nothing ever opens them.\<close>

definition FOLDERS :: "app_folder list" where
  "FOLDERS =
     (let pick = (\<lambda>ns. filter (\<lambda>n. n \<in> set ns) (map fst APPS))
      in [\<lparr>fd_name = ''Network'', fd_apps = pick [''WiFi'', ''Scanner'', ''NetTools'', ''Packets'', ''NetMon'',
             ''NetMapper'', ''Hotspot'', ''SpeedTest''], fd_color = [0, 30, 60]\<rparr>,
          \<lparr>fd_name = ''Security'', fd_apps = pick [''Firewall'', ''Passwords'', ''Hasher'', ''Encoder'',
             ''ProcKill'', ''SSH''], fd_color = [50, 0, 30]\<rparr>,
          \<lparr>fd_name = ''Tools'', fd_apps = pick [''GPIO'', ''IR'', ''Bluetooth'', ''USB'', ''WakeOnLAN'',
             ''Transfer''], fd_color = [30, 20, 0]\<rparr>])"

definition page_apps :: "nat \<Rightarrow> string list" where
  "page_apps pg = map fst (filter (\<lambda>a. snd a = pg) APPS)"

definition dock_apps :: "string list" where
  "dock_apps = filter (\<lambda>n. n \<in> set DOCK_NAMES) (map fst APPS)"

definition icon_size :: int where
  "icon_size = (W - 9 * 5) div 4"

definition icon_rect :: "nat \<Rightarrow> rect" where
  "icon_rect i =
     (9 + int (i mod 4) * (icon_size + 9), 132 + int (i div 4) * (icon_size + 20 + 5), icon_size, icon_size)"

definition dock_rect :: "nat \<Rightarrow> rect" where
  "dock_rect i =
     (let dsz = 46; dock_y = H - 70; n = int (length dock_apps); dpd = (W - 24 - n * dsz) div (n + 1)
      in (12 + dpd * (int i + 1) + dsz * int i, dock_y + 7, dsz, 46))"

definition get_tapped_app :: "nat \<Rightarrow> pos \<Rightarrow> string option" where
  "get_tapped_app pg p =
     (case find (\<lambda>(i, n). in_rect (icon_rect i) p) (enum (page_apps pg)) of
        Some (i, n) \<Rightarrow> Some n
      | None \<Rightarrow>
          (case find (\<lambda>(i, n). in_rect (dock_rect i) p) (enum dock_apps) of
             Some (i, n) \<Rightarrow> Some n
           | None \<Rightarrow> None))"

subsection \<open>State\<close>

datatype screen_state = SLock | SHome | SApp | SSettings

record ui =
  ui_state :: screen_state
  swipe_count :: nat
  current_app :: "string option"
  current_page :: nat
  touch_start :: "pos option"
  touch_time :: rat
  settings_scroll :: int
  items_flat_cache :: "flat_item list"
  show_cc :: bool
  show_notif :: bool
  show_spotlight :: bool
  show_ai :: bool
  show_drop :: bool
  show_cloud :: bool
  show_switcher :: bool
  show_folder :: bool
  ui_cfg :: config
  ui_cc :: control_center
  ui_nc :: notif_center
  ui_sp :: spotlight
  ui_ai :: julius_ai
  ui_dr :: julius_drop
  ui_cl :: julius_cloud
  ui_la :: lock_anim
  ui_as :: app_switcher
  ui_fm :: folder_manager
  ui_running :: bool
  ui_log :: "effect list"

text \<open>
  The world around the interface: whether the backend bridge was imported, the files found in
  the cloud directory, the width of a rendered word, the random choices of the lock animation,
  and what \<open>get_wifi_bars\<close> gives the status bar of the frame: the status it reads is written by
  the thread of the bridge (\<open>Julius_Status\<close>), and it can raise.
\<close>

record ui_env =
  en_backend :: bool
  en_local_files :: "cloud_file list"
  en_clear_width :: int
  en_sparks :: "nat \<Rightarrow> spark"
  en_bars :: "int res"

definition ui_init :: "config option \<Rightarrow> string \<Rightarrow> notif_file \<Rightarrow> string option \<Rightarrow> ui" where
  "ui_init settings_file now nfile cloud_cfg =
     (let c = load_settings settings_file
      in \<lparr>ui_state = SLock, swipe_count = 0, current_app = None, current_page = 0, touch_start = None,
          touch_time = 0, settings_scroll = 0, items_flat_cache = [], show_cc = False,
          show_notif = False, show_spotlight = False, show_ai = False, show_drop = False,
          show_cloud = False, show_switcher = False, show_folder = False, ui_cfg = c,
          ui_cc = cc_init c, ui_nc = nc_init now nfile, ui_sp = sp_init, ui_ai = ai_init,
          ui_dr = dr_init, ui_cl = cl_init cloud_cfg, ui_la = la_init, ui_as = as_init,
          ui_fm = fm_init, ui_running = True, ui_log = []\<rparr>)"

definition emit :: "effect list \<Rightarrow> ui \<Rightarrow> ui" where
  "emit es s = s\<lparr>ui_log := ui_log s @ es\<rparr>"

definition haptic_fx :: "string \<Rightarrow> ui \<Rightarrow> ui" where
  "haptic_fx n s = emit [Vibrate n] s"

definition notify_fx :: "ui_env \<Rightarrow> string \<Rightarrow> string \<Rightarrow> string \<Rightarrow> ui \<Rightarrow> ui" where
  "notify_fx env a t b s = (if en_backend env then emit [SendNotification a t b] s else s)"

subsection \<open>Opening an application\<close>

definition open_app :: "ui_env \<Rightarrow> string \<Rightarrow> ui \<Rightarrow> ui" where
  "open_app env name s0 =
     (let s = notify_fx env name (name @ '' opened'') [] (haptic_fx ''tap'' s0)
      in if name = ''Settings'' then s\<lparr>ui_state := SSettings\<rparr>
         else if name = ''AI'' then s\<lparr>ui_ai := ai_show (ui_ai s), show_ai := True\<rparr>
         else if name = ''Drop'' then s\<lparr>ui_dr := dr_show (ui_dr s), show_drop := True\<rparr>
         else if name = ''Cloud'' then
           s\<lparr>ui_cl := cl_show (en_local_files env) (ui_cl s), show_cloud := True\<rparr>
         else if name \<in> set app_instances then
           s\<lparr>current_app := Some name, ui_state := SApp, ui_as := as_add_recent name (ui_as s)\<rparr>
         else haptic_fx ''error'' s)"

subsection \<open>Gestures\<close>

record gesture =
  is_tap :: bool
  is_swipe_left :: bool
  is_swipe_right :: bool
  is_swipe_down :: bool
  is_swipe_up :: bool
  from_top :: bool
  from_bottom :: bool
  elapsed :: rat

definition mk_gesture :: "pos \<Rightarrow> pos \<Rightarrow> rat \<Rightarrow> gesture" where
  "mk_gesture st p el =
     (let dx = fst p - fst st; dy = snd p - snd st
      in \<lparr>is_tap = (\<bar>dx\<bar> < 14 \<and> \<bar>dy\<bar> < 14),
          is_swipe_left = (dx < - 50 \<and> \<bar>dy\<bar> < 60),
          is_swipe_right = (dx > 50 \<and> \<bar>dy\<bar> < 60),
          is_swipe_down = (dy > 70 \<and> \<bar>dx\<bar> < 60),
          is_swipe_up = (dy < - 50 \<and> \<bar>dx\<bar> < 60),
          from_top = (snd st < 80),
          from_bottom = (snd st > H - 100),
          elapsed = el\<rparr>)"

subsection \<open>Releasing a touch\<close>

definition up_switcher :: "ui_env \<Rightarrow> gesture \<Rightarrow> pos \<Rightarrow> ui \<Rightarrow> ui res" where
  "up_switcher env g p s =
     res_bind (as_handle_touch (ui_as s) p (is_swipe_left g) (is_swipe_right g))
       (\<lambda>(result, a).
          let s1 = s\<lparr>ui_as := a\<rparr>
          in Inr (if is_swipe_down g then s1\<lparr>show_switcher := False, ui_as := as_hide a\<rparr>
                  else (case result of
                          AsOpen n \<Rightarrow> (open_app env n s1)\<lparr>show_switcher := False\<rparr>
                        | _ \<Rightarrow> s1)))"

definition up_folder :: "ui_env \<Rightarrow> gesture \<Rightarrow> pos \<Rightarrow> ui \<Rightarrow> ui" where
  "up_folder env g p s =
     (let (result, f) = fm_handle_touch (ui_fm s) p (is_swipe_down g); s1 = s\<lparr>ui_fm := f\<rparr>
      in case result of
           FmClosed \<Rightarrow> s1\<lparr>show_folder := False\<rparr>
         | FmOpen n \<Rightarrow> (open_app env n s1)\<lparr>show_folder := False\<rparr>
         | FmNone \<Rightarrow> s1)"

definition up_cc :: "gesture \<Rightarrow> pos \<Rightarrow> ui \<Rightarrow> ui res" where
  "up_cc g p s =
     res_bind (cc_handle_touch (ui_cfg s) (ui_cc s) p)
       (\<lambda>(b, c, cc, es).
          let s1 = emit es (s\<lparr>ui_cfg := c, ui_cc := cc\<rparr>)
          in Inr (if is_swipe_down g
                  then haptic_fx ''swipe'' (s1\<lparr>show_cc := False, ui_cc := cc_hide (ui_cc s1)\<rparr>)
                  else s1))"

definition up_notif :: "gesture \<Rightarrow> pos \<Rightarrow> ui \<Rightarrow> ui" where
  "up_notif g p s =
     (let s1 = s\<lparr>ui_nc := snd (nc_handle_touch (ui_nc s) p)\<rparr>
      in if is_swipe_up g
         then haptic_fx ''swipe'' (s1\<lparr>show_notif := False, ui_nc := nc_hide (ui_nc s1)\<rparr>) else s1)"

text \<open>What the interface does with an answer of Spotlight, for a touch and for a key.\<close>

definition spotlight_answer :: "ui_env \<Rightarrow> sp_answer \<Rightarrow> ui \<Rightarrow> ui" where
  "spotlight_answer env a s =
     (case a of
        SpHide \<Rightarrow> s\<lparr>show_spotlight := False\<rparr>
      | SpResult r \<Rightarrow>
          (if res_type r = RApp then (open_app env (res_name r) s)\<lparr>show_spotlight := False\<rparr> else s)
      | SpNone \<Rightarrow> s)"

definition up_spotlight :: "ui_env \<Rightarrow> pos \<Rightarrow> ui \<Rightarrow> ui" where
  "up_spotlight env p s =
     (let (a, sp) = sp_handle_touch (ui_sp s) p in spotlight_answer env a (s\<lparr>ui_sp := sp\<rparr>))"

definition up_ai :: "gesture \<Rightarrow> pos \<Rightarrow> ui \<Rightarrow> ui" where
  "up_ai g p s =
     (let s1 = s\<lparr>ui_ai := ai_handle_touch (ui_ai s) p\<rparr>
      in if is_swipe_right g \<or> is_swipe_down g
         then haptic_fx ''swipe'' (s1\<lparr>show_ai := False, ui_ai := ai_hide (ui_ai s1)\<rparr>) else s1)"

definition up_drop :: "gesture \<Rightarrow> pos \<Rightarrow> ui \<Rightarrow> ui" where
  "up_drop g p s =
     (let s1 = s\<lparr>ui_dr := dr_handle_touch (ui_dr s) p\<rparr>
      in if is_swipe_right g \<or> is_swipe_down g
         then s1\<lparr>show_drop := False, ui_dr := dr_hide (ui_dr s1)\<rparr> else s1)"

definition up_cloud :: "gesture \<Rightarrow> pos \<Rightarrow> ui \<Rightarrow> ui" where
  "up_cloud g p s =
     (let s1 = s\<lparr>ui_cl := cl_handle_touch (ui_cl s) p\<rparr>
      in if is_swipe_right g \<or> is_swipe_down g
         then s1\<lparr>show_cloud := False, ui_cl := cl_hide (ui_cl s1)\<rparr> else s1)"

definition up_lock :: "ui_env \<Rightarrow> rat \<Rightarrow> gesture \<Rightarrow> ui \<Rightarrow> ui" where
  "up_lock env now g s =
     (if is_swipe_left g then
        (let s1 = haptic_fx ''swipe'' (s\<lparr>swipe_count := Suc (swipe_count s)\<rparr>)
         in if swipe_count s1 \<ge> 2 then
              (let s2 = s1\<lparr>ui_la := set_result W H (en_sparks env) now True (start_scan now (ui_la s1))\<rparr>
               in notify_fx env ''Julius OS'' ''Unlocked'' ''Device unlocked''
                    (haptic_fx ''unlock'' (s2\<lparr>ui_state := SHome, swipe_count := 0\<rparr>)))
            else s1)
      else s)"

definition up_home :: "ui_env \<Rightarrow> gesture \<Rightarrow> pos \<Rightarrow> ui \<Rightarrow> ui" where
  "up_home env g p s =
     (if is_swipe_down g \<and> from_top g then
        haptic_fx ''swipe'' (s\<lparr>ui_nc := nc_show (ui_nc s), show_notif := True\<rparr>)
      else if is_swipe_up g \<and> from_bottom g then
        haptic_fx ''swipe'' (s\<lparr>ui_cc := cc_show (ui_cc s), show_cc := True\<rparr>)
      else if is_swipe_up g \<and> \<not> from_bottom g \<and> elapsed g > 2 / 5 then
        haptic_fx ''long_press'' (s\<lparr>ui_as := as_show (ui_as s), show_switcher := True\<rparr>)
      else if is_swipe_up g \<and> \<not> from_bottom g then
        haptic_fx ''swipe'' (s\<lparr>ui_sp := sp_show (ui_sp s), show_spotlight := True\<rparr>)
      else if is_swipe_down g \<and> \<not> from_top g then
        haptic_fx ''swipe'' (s\<lparr>ui_state := SLock, swipe_count := 0\<rparr>)
      else if is_swipe_left g \<and> current_page s = 0 then haptic_fx ''swipe'' (s\<lparr>current_page := 1\<rparr>)
      else if is_swipe_right g \<and> current_page s = 1 then haptic_fx ''swipe'' (s\<lparr>current_page := 0\<rparr>)
      else if is_tap g then
        (case get_tapped_app (current_page s) p of Some n \<Rightarrow> open_app env n s | None \<Rightarrow> s)
      else s)"

text \<open>
  In an application a tap hands the \<open>MOUSEBUTTONUP\<close> event to it inside \<open>try ... except: pass\<close>,
  as the key handler does with key events.
\<close>

definition app_input :: "event \<Rightarrow> ui \<Rightarrow> ui" where
  "app_input e s = (case current_app s of Some n \<Rightarrow> emit [AppInput n e] s | None \<Rightarrow> s)"

definition up_app :: "gesture \<Rightarrow> pos \<Rightarrow> ui \<Rightarrow> ui" where
  "up_app g p s =
     (if is_swipe_right g \<or> (is_swipe_down g \<and> from_top g) then
        haptic_fx ''swipe'' (s\<lparr>ui_state := SHome, current_app := None\<rparr>)
      else if is_tap g then app_input (MouseUp p) s
      else s)"

definition up_settings :: "ui_env \<Rightarrow> gesture \<Rightarrow> pos \<Rightarrow> ui \<Rightarrow> ui" where
  "up_settings env g p s =
     (if is_swipe_right g \<or> is_swipe_down g then haptic_fx ''swipe'' (s\<lparr>ui_state := SHome\<rparr>)
      else if is_swipe_up g then s\<lparr>settings_scroll := min (settings_scroll s + 40) 500\<rparr>
      else if is_tap g then
        (let (c, es) = handle_settings_tap (en_backend env) p (items_flat_cache s) (ui_cfg s)
         in haptic_fx ''tap'' (emit es (s\<lparr>ui_cfg := c\<rparr>)))
      else s)"

definition end_touch :: "ui \<Rightarrow> ui" where
  "end_touch s = s\<lparr>touch_start := None\<rparr>"

definition mouse_up :: "ui_env \<Rightarrow> rat \<Rightarrow> pos \<Rightarrow> ui \<Rightarrow> ui res" where
  "mouse_up env now p s =
     (case touch_start s of
        None \<Rightarrow> Inr s
      | Some st \<Rightarrow>
          (let g = mk_gesture st p (now - touch_time s)
           in map_sum id end_touch
                (if show_switcher s then up_switcher env g p s
                 else if show_folder s then Inr (up_folder env g p s)
                 else if show_cc s then up_cc g p s
                 else if show_notif s then Inr (up_notif g p s)
                 else if show_spotlight s then Inr (up_spotlight env p s)
                 else if show_ai s then Inr (up_ai g p s)
                 else if show_drop s then Inr (up_drop g p s)
                 else if show_cloud s then Inr (up_cloud g p s)
                 else (case ui_state s of
                         SLock \<Rightarrow> Inr (up_lock env now g s)
                       | SHome \<Rightarrow> Inr (up_home env g p s)
                       | SApp \<Rightarrow> Inr (up_app g p s)
                       | SSettings \<Rightarrow> Inr (up_settings env g p s)))))"

subsection \<open>Keys and the wheel\<close>

definition key_escape :: "ui \<Rightarrow> ui" where
  "key_escape s =
     (if show_switcher s then s\<lparr>show_switcher := False, ui_as := as_hide (ui_as s)\<rparr>
      else if show_folder s then s\<lparr>show_folder := False, ui_fm := fm_close (ui_fm s)\<rparr>
      else if show_cc s then s\<lparr>show_cc := False, ui_cc := cc_hide (ui_cc s)\<rparr>
      else if show_notif s then s\<lparr>show_notif := False, ui_nc := nc_hide (ui_nc s)\<rparr>
      else (case ui_state s of
              SApp \<Rightarrow> s\<lparr>ui_state := SHome, current_app := None\<rparr>
            | SSettings \<Rightarrow> s\<lparr>ui_state := SHome\<rparr>
            | SHome \<Rightarrow> s\<lparr>ui_state := SLock, swipe_count := 0\<rparr>
            | SLock \<Rightarrow> s))"

definition key_down :: "ui_env \<Rightarrow> key \<Rightarrow> string \<Rightarrow> bool \<Rightarrow> ui \<Rightarrow> ui res" where
  "key_down env k u ctrl s =
     (if show_spotlight s then
        res_bind (sp_handle_key (map fst APPS) (ui_sp s) k u)
          (\<lambda>(a, sp). Inr (spotlight_answer env a (s\<lparr>ui_sp := sp\<rparr>)))
      else if show_ai s then
        (let s1 = s\<lparr>ui_ai := ai_handle_key (ui_ai s) k u\<rparr>
         in Inr (if k = K_ESCAPE then s1\<lparr>show_ai := False\<rparr> else s1))
      else if k = K_ESCAPE then Inr (key_escape s)
      else if ui_state s = SApp \<and> (case current_app s of Some n \<Rightarrow> n \<noteq> [] | None \<Rightarrow> False)
        then Inr (app_input (KeyDown k u ctrl) s)
      else Inr s)"

definition mouse_wheel :: "int \<Rightarrow> ui \<Rightarrow> ui" where
  "mouse_wheel y s =
     (if ui_state s = SSettings
      then s\<lparr>settings_scroll := max 0 (min (settings_scroll s - y * 20) 500)\<rparr> else s)"

subsection \<open>The event loop\<close>

definition ui_step :: "ui_env \<Rightarrow> ui \<Rightarrow> rat \<times> event \<Rightarrow> ui res" where
  "ui_step env s te =
     (if \<not> ui_running s then Inr s
      else (case snd te of
              Quit \<Rightarrow>
                Inr ((emit [SysExit] (notify_fx env ''Julius OS'' ''Shutting down'' ''Julius OS is closing'' s))
                       \<lparr>ui_running := False\<rparr>)
            | MouseDown p \<Rightarrow> Inr (s\<lparr>touch_start := Some p, touch_time := fst te\<rparr>)
            | MouseUp p \<Rightarrow> mouse_up env (fst te) p s
            | KeyDown k u c \<Rightarrow> key_down env k u c s
            | MouseWheel y \<Rightarrow> Inr (mouse_wheel y s)
            | MouseMotion p b \<Rightarrow> Inr s))"

text \<open>Drawing a frame: the page, then the panels in the order of the source.\<close>

definition draw_page :: "ui_env \<Rightarrow> rat \<Rightarrow> ui \<Rightarrow> ui res" where
  "draw_page env now s =
     (case ui_state s of
        SLock \<Rightarrow> Inr (s\<lparr>ui_la := la_update now (ui_la s)\<rparr>)
      | SHome \<Rightarrow> res_bind (en_bars env) (\<lambda>_. Inr s)
      | SApp \<Rightarrow> res_bind (en_bars env) (\<lambda>_. Inr s)
      | SSettings \<Rightarrow>
          res_bind (en_bars env) (\<lambda>_.
          res_bind (draw_settings (ui_cfg s) (settings_scroll s)) (\<lambda>fl. Inr (s\<lparr>items_flat_cache := fl\<rparr>))))"

definition draw_panels :: "ui_env \<Rightarrow> ui \<Rightarrow> ui res" where
  "draw_panels env s =
     res_bind (if show_notif s then nc_draw (en_clear_width env) (ui_nc s) else Inr (ui_nc s)) (\<lambda>nc.
     res_bind (if show_cc s then cc_draw (ui_cc s) else Inr (ui_cc s)) (\<lambda>cc.
     res_bind (if show_drop s then dr_draw (ui_dr s) else Inr (ui_dr s)) (\<lambda>dr.
     Inr (s\<lparr>ui_nc := nc, ui_cc := cc,
            ui_sp := (if show_spotlight s then sp_draw (ui_sp s) else ui_sp s),
            ui_dr := dr,
            ui_cl := (if show_cloud s then cl_draw (ui_cl s) else ui_cl s),
            ui_as := (if show_switcher s then as_draw (ui_as s) else ui_as s),
            ui_fm := (if show_folder s then fm_draw (ui_fm s) else ui_fm s)\<rparr>))))"

definition ui_draw :: "ui_env \<Rightarrow> rat \<Rightarrow> ui \<Rightarrow> ui res" where
  "ui_draw env now s =
     (if \<not> ui_running s then Inr s else res_bind (draw_page env now s) (draw_panels env))"

text \<open>One round of \<open>while True\<close>: the pending events, then the drawing.\<close>

definition ui_frame :: "ui_env \<Rightarrow> ui \<Rightarrow> rat \<times> (rat \<times> event) list \<Rightarrow> ui res" where
  "ui_frame env s f = res_bind (run_events (ui_step env) s (snd f)) (ui_draw env (fst f))"

end
