(* ===== verification/Ui_Invariant.thy ===== *)
theory Ui_Invariant
  imports Julius_UI
begin

text \<open>
  The invariant of the main interface and its preservation by every step of the event loop
  and by drawing: one lemma per handler of \<open>Julius_UI\<close>, then the loop.
\<close>

named_theorems ui_simps

subsection \<open>What the small operations change\<close>

lemma emit_fields [ui_simps]:
  "ui_state (emit es s) = ui_state s" "swipe_count (emit es s) = swipe_count s"
  "current_app (emit es s) = current_app s" "current_page (emit es s) = current_page s"
  "touch_start (emit es s) = touch_start s" "settings_scroll (emit es s) = settings_scroll s"
  "show_cc (emit es s) = show_cc s" "show_notif (emit es s) = show_notif s"
  "show_spotlight (emit es s) = show_spotlight s" "show_ai (emit es s) = show_ai s"
  "show_drop (emit es s) = show_drop s" "show_cloud (emit es s) = show_cloud s"
  "show_switcher (emit es s) = show_switcher s" "show_folder (emit es s) = show_folder s"
  "ui_cfg (emit es s) = ui_cfg s" "ui_cc (emit es s) = ui_cc s" "ui_nc (emit es s) = ui_nc s"
  "ui_sp (emit es s) = ui_sp s" "ui_ai (emit es s) = ui_ai s" "ui_dr (emit es s) = ui_dr s"
  "ui_cl (emit es s) = ui_cl s" "ui_la (emit es s) = ui_la s" "ui_as (emit es s) = ui_as s"
  "ui_fm (emit es s) = ui_fm s" "ui_running (emit es s) = ui_running s"
  "items_flat_cache (emit es s) = items_flat_cache s" "touch_time (emit es s) = touch_time s"
  "ui_log (emit es s) = ui_log s @ es"
  by (simp_all add: emit_def)

lemma fx_as_emit:
  "haptic_fx n s = emit [Vibrate n] s"
  "notify_fx env a t b s = emit (if en_backend env then [SendNotification a t b] else []) s"
  by (simp_all add: haptic_fx_def notify_fx_def emit_def)

lemma special_not_instance [simp]:
  "''Settings'' \<notin> set app_instances" "''AI'' \<notin> set app_instances"
  "''Drop'' \<notin> set app_instances" "''Cloud'' \<notin> set app_instances"
  by (simp_all add: app_instances_def)

lemma open_app_flags [ui_simps]:
  "show_cc (open_app env n s) = show_cc s" "show_notif (open_app env n s) = show_notif s"
  "show_spotlight (open_app env n s) = show_spotlight s"
  "show_switcher (open_app env n s) = show_switcher s" "show_folder (open_app env n s) = show_folder s"
  "show_ai (open_app env n s) = (show_ai s \<or> n = ''AI'')"
  "show_drop (open_app env n s) = (show_drop s \<or> n = ''Drop'')"
  "show_cloud (open_app env n s) = (show_cloud s \<or> n = ''Cloud'')"
  by (simp_all add: open_app_def Let_def fx_as_emit ui_simps)

lemma open_app_fields [ui_simps]:
  "swipe_count (open_app env n s) = swipe_count s" "current_page (open_app env n s) = current_page s"
  "settings_scroll (open_app env n s) = settings_scroll s" "ui_running (open_app env n s) = ui_running s"
  "ui_cc (open_app env n s) = ui_cc s" "ui_nc (open_app env n s) = ui_nc s"
  "ui_sp (open_app env n s) = ui_sp s" "ui_cfg (open_app env n s) = ui_cfg s"
  "items_flat_cache (open_app env n s) = items_flat_cache s"
  by (simp_all add: open_app_def Let_def fx_as_emit ui_simps)

lemma open_app_state [ui_simps]:
  "ui_state (open_app env n s) =
     (if n = ''Settings'' then SSettings
      else if n \<in> set app_instances then SApp else ui_state s)"
  by (simp add: open_app_def Let_def fx_as_emit ui_simps)

lemma open_app_current [ui_simps]:
  "current_app (open_app env n s) = (if n \<in> set app_instances then Some n else current_app s)"
  by (simp add: open_app_def Let_def fx_as_emit ui_simps)

lemma open_app_switcher [ui_simps]:
  "ui_as (open_app env n s) = (if n \<in> set app_instances then as_add_recent n (ui_as s) else ui_as s)"
  by (simp add: open_app_def Let_def fx_as_emit ui_simps)

subsection \<open>The invariant\<close>

fun at_most_one :: "bool list \<Rightarrow> bool" where
  "at_most_one [] = True"
| "at_most_one (b # bs) = (if b then list_all Not bs else at_most_one bs)"

definition overlay_flags :: "ui \<Rightarrow> bool list" where
  "overlay_flags s =
     [show_switcher s, show_folder s, show_cc s, show_notif s, show_spotlight s, show_ai s,
      show_drop s, show_cloud s]"

definition no_overlay :: "ui \<Rightarrow> bool" where
  "no_overlay s \<longleftrightarrow> list_all Not (overlay_flags s)"

text \<open>
  At most one panel is open and no folder ever is. A panel is open over the home screen
  only, except that Drop and Cloud survive a lock by the escape key. An application is
  current exactly in the application state. The counters stay in their ranges.
\<close>

definition ui_ok :: "ui \<Rightarrow> bool" where
  "ui_ok s \<longleftrightarrow>
     at_most_one (overlay_flags s) \<and> \<not> show_folder s
     \<and> (\<not> no_overlay s \<longrightarrow> ui_state s = SHome \<or> (ui_state s = SLock \<and> (show_drop s \<or> show_cloud s)))
     \<and> (ui_state s = SApp) = (current_app s \<noteq> None)
     \<and> current_app s \<in> insert None (Some ` set app_instances)
     \<and> swipe_count s \<le> 1 \<and> (ui_state s \<noteq> SLock \<longrightarrow> swipe_count s = 0)
     \<and> current_page s \<le> 1 \<and> 0 \<le> settings_scroll s \<and> settings_scroll s \<le> 500
     \<and> as_ok (ui_as s) \<and> sp_ok (ui_sp s)"

lemmas overlay_defs = overlay_flags_def no_overlay_def

lemma ui_ok_init: "ui_ok (ui_init sf now nf cc)"
  by (simp add: ui_ok_def ui_init_def overlay_defs as_ok_def as_init_def Let_def)

lemma overlay_emit [ui_simps]:
  "overlay_flags (emit es s) = overlay_flags s" "no_overlay (emit es s) = no_overlay s"
  by (simp_all add: overlay_defs ui_simps)

lemma ui_ok_emit [simp]: "ui_ok (emit es s) = ui_ok s"
  by (simp add: ui_ok_def ui_simps)

lemma ui_ok_end_touch [simp]: "ui_ok (end_touch s) = ui_ok s"
  by (simp add: ui_ok_def overlay_defs end_touch_def)

lemma ui_ok_panels [simp]:
  "ui_ok (s\<lparr>ui_cc := a\<rparr>) = ui_ok s" "ui_ok (s\<lparr>ui_nc := b\<rparr>) = ui_ok s"
  "ui_ok (s\<lparr>ui_ai := c\<rparr>) = ui_ok s" "ui_ok (s\<lparr>ui_dr := d\<rparr>) = ui_ok s"
  "ui_ok (s\<lparr>ui_cl := e\<rparr>) = ui_ok s" "ui_ok (s\<lparr>ui_la := f\<rparr>) = ui_ok s"
  "ui_ok (s\<lparr>ui_fm := h\<rparr>) = ui_ok s" "ui_ok (s\<lparr>ui_cfg := i\<rparr>) = ui_ok s"
  "ui_ok (s\<lparr>items_flat_cache := j\<rparr>) = ui_ok s"
  by (simp_all add: ui_ok_def overlay_defs)

lemma no_overlay_iff:
  "no_overlay s \<longleftrightarrow> \<not> show_switcher s \<and> \<not> show_folder s \<and> \<not> show_cc s \<and> \<not> show_notif s
     \<and> \<not> show_spotlight s \<and> \<not> show_ai s \<and> \<not> show_drop s \<and> \<not> show_cloud s"
  by (simp add: overlay_defs)

text \<open>With one panel open the others are closed.\<close>

lemma overlay_switcher:
  "ui_ok s \<Longrightarrow> show_switcher s \<Longrightarrow> \<not> show_folder s \<and> \<not> show_cc s \<and> \<not> show_notif s \<and> \<not> show_spotlight s
     \<and> \<not> show_ai s \<and> \<not> show_drop s \<and> \<not> show_cloud s \<and> ui_state s = SHome"
  by (auto simp: ui_ok_def overlay_defs)

lemma overlay_cc:
  "ui_ok s \<Longrightarrow> show_cc s \<Longrightarrow> \<not> show_switcher s \<and> \<not> show_folder s \<and> \<not> show_notif s \<and> \<not> show_spotlight s
     \<and> \<not> show_ai s \<and> \<not> show_drop s \<and> \<not> show_cloud s \<and> ui_state s = SHome"
  by (auto simp: ui_ok_def overlay_defs split: if_splits)

lemma overlay_notif:
  "ui_ok s \<Longrightarrow> show_notif s \<Longrightarrow> \<not> show_switcher s \<and> \<not> show_folder s \<and> \<not> show_cc s \<and> \<not> show_spotlight s
     \<and> \<not> show_ai s \<and> \<not> show_drop s \<and> \<not> show_cloud s \<and> ui_state s = SHome"
  by (auto simp: ui_ok_def overlay_defs split: if_splits)

lemma overlay_spotlight:
  "ui_ok s \<Longrightarrow> show_spotlight s \<Longrightarrow> \<not> show_switcher s \<and> \<not> show_folder s \<and> \<not> show_cc s \<and> \<not> show_notif s
     \<and> \<not> show_ai s \<and> \<not> show_drop s \<and> \<not> show_cloud s \<and> ui_state s = SHome"
  by (auto simp: ui_ok_def overlay_defs split: if_splits)

lemma overlay_ai:
  "ui_ok s \<Longrightarrow> show_ai s \<Longrightarrow> \<not> show_switcher s \<and> \<not> show_folder s \<and> \<not> show_cc s \<and> \<not> show_notif s
     \<and> \<not> show_spotlight s \<and> \<not> show_drop s \<and> \<not> show_cloud s \<and> ui_state s = SHome"
  by (auto simp: ui_ok_def overlay_defs split: if_splits)

lemma overlay_drop:
  "ui_ok s \<Longrightarrow> show_drop s \<Longrightarrow> \<not> show_switcher s \<and> \<not> show_folder s \<and> \<not> show_cc s \<and> \<not> show_notif s
     \<and> \<not> show_spotlight s \<and> \<not> show_ai s \<and> \<not> show_cloud s"
  by (auto simp: ui_ok_def overlay_defs split: if_splits)

lemma overlay_cloud:
  "ui_ok s \<Longrightarrow> show_cloud s \<Longrightarrow> \<not> show_switcher s \<and> \<not> show_folder s \<and> \<not> show_cc s \<and> \<not> show_notif s
     \<and> \<not> show_spotlight s \<and> \<not> show_ai s \<and> \<not> show_drop s"
  by (auto simp: ui_ok_def overlay_defs split: if_splits)

text \<open>The part of the invariant that does not speak about panels.\<close>

definition core_ok :: "ui \<Rightarrow> bool" where
  "core_ok s \<longleftrightarrow>
     (ui_state s = SApp) = (current_app s \<noteq> None)
     \<and> current_app s \<in> insert None (Some ` set app_instances)
     \<and> swipe_count s \<le> 1 \<and> (ui_state s \<noteq> SLock \<longrightarrow> swipe_count s = 0)
     \<and> current_page s \<le> 1 \<and> 0 \<le> settings_scroll s \<and> settings_scroll s \<le> 500
     \<and> as_ok (ui_as s) \<and> sp_ok (ui_sp s)"

lemma ui_okD: "ui_ok s \<Longrightarrow> core_ok s"
  by (simp add: ui_ok_def core_ok_def)

lemma ui_okI_none: "no_overlay s \<Longrightarrow> core_ok s \<Longrightarrow> ui_ok s"
  by (simp add: ui_ok_def core_ok_def overlay_defs)

lemma core_ok_open_app:
  assumes "core_ok s" "ui_state s = SHome"
  shows "core_ok (open_app env n s)"
proof (cases "n \<in> set app_instances")
  case True
  then have "n \<noteq> ''Settings''" by auto
  with True assms as_add_recent_ok [of "ui_as s" n] show ?thesis
    by (simp add: core_ok_def ui_simps)
next
  case False
  with assms show ?thesis by (simp add: core_ok_def ui_simps)
qed

lemma core_ok_upd [simp]:
  "core_ok (s\<lparr>show_switcher := b\<rparr>) = core_ok s" "core_ok (s\<lparr>show_folder := b\<rparr>) = core_ok s"
  "core_ok (s\<lparr>show_cc := b\<rparr>) = core_ok s" "core_ok (s\<lparr>show_notif := b\<rparr>) = core_ok s"
  "core_ok (s\<lparr>show_spotlight := b\<rparr>) = core_ok s" "core_ok (s\<lparr>show_ai := b\<rparr>) = core_ok s"
  "core_ok (s\<lparr>show_drop := b\<rparr>) = core_ok s" "core_ok (s\<lparr>show_cloud := b\<rparr>) = core_ok s"
  "core_ok (s\<lparr>ui_cc := cc\<rparr>) = core_ok s" "core_ok (s\<lparr>ui_nc := nc\<rparr>) = core_ok s"
  "core_ok (s\<lparr>ui_ai := ai\<rparr>) = core_ok s" "core_ok (s\<lparr>ui_dr := dr\<rparr>) = core_ok s"
  "core_ok (s\<lparr>ui_cl := cl\<rparr>) = core_ok s" "core_ok (s\<lparr>ui_la := la\<rparr>) = core_ok s"
  "core_ok (s\<lparr>ui_fm := fm\<rparr>) = core_ok s" "core_ok (s\<lparr>ui_cfg := c\<rparr>) = core_ok s"
  "core_ok (emit es s) = core_ok s"
  by (simp_all add: core_ok_def ui_simps)

lemma core_ok_switcher: "core_ok s \<Longrightarrow> as_ok a \<Longrightarrow> core_ok (s\<lparr>ui_as := a\<rparr>)"
  by (simp add: core_ok_def)

lemma core_ok_spotlight: "core_ok s \<Longrightarrow> sp_ok a \<Longrightarrow> core_ok (s\<lparr>ui_sp := a\<rparr>)"
  by (simp add: core_ok_def)

lemma ui_ok_switcher: "ui_ok s \<Longrightarrow> as_ok a \<Longrightarrow> ui_ok (s\<lparr>ui_as := a\<rparr>)"
proof -
  have "overlay_flags (s\<lparr>ui_as := a\<rparr>) = overlay_flags s" by (simp add: overlay_flags_def)
  then show "ui_ok s \<Longrightarrow> as_ok a \<Longrightarrow> ui_ok (s\<lparr>ui_as := a\<rparr>)" by (simp add: ui_ok_def no_overlay_def)
qed

lemma ui_ok_spotlight: "ui_ok s \<Longrightarrow> sp_ok a \<Longrightarrow> ui_ok (s\<lparr>ui_sp := a\<rparr>)"
proof -
  have "overlay_flags (s\<lparr>ui_sp := a\<rparr>) = overlay_flags s" by (simp add: overlay_flags_def)
  then show "ui_ok s \<Longrightarrow> sp_ok a \<Longrightarrow> ui_ok (s\<lparr>ui_sp := a\<rparr>)" by (simp add: ui_ok_def no_overlay_def)
qed

lemma core_as_sp: "core_ok s \<Longrightarrow> as_ok (ui_as s)" "core_ok s \<Longrightarrow> sp_ok (ui_sp s)"
  by (simp_all add: core_ok_def)

text \<open>After opening application \<open>n\<close>, only the panel of \<open>n\<close> itself may be open.\<close>

lemma ui_okI_opened:
  assumes "core_ok t"
    and "\<not> show_switcher t" "\<not> show_folder t" "\<not> show_cc t" "\<not> show_notif t" "\<not> show_spotlight t"
    and "show_ai t = (n = ''AI'')" "show_drop t = (n = ''Drop'')" "show_cloud t = (n = ''Cloud'')"
    and "n \<in> {''AI'', ''Drop'', ''Cloud''} \<Longrightarrow> ui_state t = SHome"
  shows "ui_ok t"
proof -
  consider "n = ''AI''" | "n = ''Drop''" | "n = ''Cloud''" | "n \<notin> {''AI'', ''Drop'', ''Cloud''}" by blast
  then show ?thesis
    using assms by cases (simp_all add: ui_ok_def core_ok_def overlay_defs)
qed

lemma ui_ok_home_open:
  "ui_ok s \<Longrightarrow> ui_state s = SHome \<Longrightarrow> no_overlay s \<Longrightarrow> ui_ok (open_app env n s)"
  by (rule ui_okI_opened [where n = n]) (auto simp: core_ok_open_app ui_okD no_overlay_iff ui_simps)

subsection \<open>One lemma per handler\<close>

lemma up_switcher_InrE:
  assumes "up_switcher env g p s = Inr s'"
  obtains r a where "as_handle_touch (ui_as s) p (is_swipe_left g) (is_swipe_right g) = Inr (r, a)"
    and "s' = (if is_swipe_down g then s\<lparr>ui_as := a, show_switcher := False, ui_as := as_hide a\<rparr>
               else (case r of AsOpen n \<Rightarrow> (open_app env n (s\<lparr>ui_as := a\<rparr>))\<lparr>show_switcher := False\<rparr>
                             | _ \<Rightarrow> s\<lparr>ui_as := a\<rparr>))"
  using assms by (auto simp: up_switcher_def res_bind_Inr_iff Let_def)

lemma up_switcher_ok:
  assumes "ui_ok s" "show_switcher s" "up_switcher env g p s = Inr s'"
  shows "ui_ok s'"
proof -
  note o = overlay_switcher [OF assms(1,2)]
  from assms(3) obtain r a where touch: "as_handle_touch (ui_as s) p (is_swipe_left g) (is_swipe_right g) = Inr (r, a)"
    and s': "s' = (if is_swipe_down g then s\<lparr>ui_as := a, show_switcher := False, ui_as := as_hide a\<rparr>
                   else (case r of AsOpen n \<Rightarrow> (open_app env n (s\<lparr>ui_as := a\<rparr>))\<lparr>show_switcher := False\<rparr>
                                 | _ \<Rightarrow> s\<lparr>ui_as := a\<rparr>))"
    by (rule up_switcher_InrE)
  have a: "as_ok a" using as_handle_touch_ok [OF touch] core_as_sp ui_okD assms(1) by blast
  then have core: "core_ok (s\<lparr>ui_as := a\<rparr>)" "core_ok (s\<lparr>ui_as := as_hide a\<rparr>)"
    using ui_okD [OF assms(1)] by (auto intro: core_ok_switcher simp: as_ok_def)
  show ?thesis
  proof (cases "is_swipe_down g")
    case True
    have "core_ok (s\<lparr>show_switcher := False, ui_as := as_hide a\<rparr>)"
      by (rule core_ok_switcher) (use a ui_okD [OF assms(1)] in \<open>simp_all add: as_ok_def\<close>)
    with True s' o show ?thesis by (auto intro!: ui_okI_none simp: no_overlay_iff)
  next
    case False
    have opened: "ui_ok ((open_app env n (s\<lparr>ui_as := a\<rparr>))\<lparr>show_switcher := False\<rparr>)" for n
      by (rule ui_okI_opened [where n = n]) (use o core in \<open>auto simp: core_ok_open_app ui_simps\<close>)
    have "ui_ok (s\<lparr>ui_as := a\<rparr>)" using assms(1) a by (rule ui_ok_switcher)
    with False s' opened show ?thesis by (auto split: as_answer.splits)
  qed
qed

text \<open>Closing a panel leaves no panel open, whatever happened to the panel's own state.\<close>

lemma ui_ok_close:
  assumes "ui_ok s"
  shows "show_cc s \<Longrightarrow> ui_ok (s\<lparr>show_cc := False\<rparr>)"
    and "show_notif s \<Longrightarrow> ui_ok (s\<lparr>show_notif := False\<rparr>)"
    and "show_spotlight s \<Longrightarrow> ui_ok (s\<lparr>show_spotlight := False\<rparr>)"
    and "show_ai s \<Longrightarrow> ui_ok (s\<lparr>show_ai := False\<rparr>)"
    and "show_drop s \<Longrightarrow> ui_ok (s\<lparr>show_drop := False\<rparr>)"
    and "show_cloud s \<Longrightarrow> ui_ok (s\<lparr>show_cloud := False\<rparr>)"
    and "show_switcher s \<Longrightarrow> ui_ok (s\<lparr>show_switcher := False\<rparr>)"
proof -
  have core: "core_ok s" by (rule ui_okD [OF assms])
  show "show_cc s \<Longrightarrow> ui_ok (s\<lparr>show_cc := False\<rparr>)"
    using core overlay_cc [OF assms] by (auto intro!: ui_okI_none simp: no_overlay_iff)
  show "show_notif s \<Longrightarrow> ui_ok (s\<lparr>show_notif := False\<rparr>)"
    using core overlay_notif [OF assms] by (auto intro!: ui_okI_none simp: no_overlay_iff)
  show "show_spotlight s \<Longrightarrow> ui_ok (s\<lparr>show_spotlight := False\<rparr>)"
    using core overlay_spotlight [OF assms] by (auto intro!: ui_okI_none simp: no_overlay_iff)
  show "show_ai s \<Longrightarrow> ui_ok (s\<lparr>show_ai := False\<rparr>)"
    using core overlay_ai [OF assms] by (auto intro!: ui_okI_none simp: no_overlay_iff)
  show "show_drop s \<Longrightarrow> ui_ok (s\<lparr>show_drop := False\<rparr>)"
    using core overlay_drop [OF assms] by (auto intro!: ui_okI_none simp: no_overlay_iff)
  show "show_cloud s \<Longrightarrow> ui_ok (s\<lparr>show_cloud := False\<rparr>)"
    using core overlay_cloud [OF assms] by (auto intro!: ui_okI_none simp: no_overlay_iff)
  show "show_switcher s \<Longrightarrow> ui_ok (s\<lparr>show_switcher := False\<rparr>)"
    using core overlay_switcher [OF assms] by (auto intro!: ui_okI_none simp: no_overlay_iff)
qed

lemma up_cc_ok:
  assumes "ui_ok s" "show_cc s" "up_cc g p s = Inr s'"
  shows "ui_ok s'"
proof -
  have "ui_ok ((emit es (s\<lparr>ui_cfg := c, ui_cc := cc\<rparr>))\<lparr>show_cc := False\<rparr>)" for es c cc
    by (rule ui_ok_close) (use assms(1,2) in \<open>simp_all add: ui_simps\<close>)
  with assms show ?thesis
    by (auto simp: up_cc_def res_bind_Inr_iff Let_def fx_as_emit)
qed

lemma up_notif_ok: "ui_ok s \<Longrightarrow> show_notif s \<Longrightarrow> ui_ok (up_notif g p s)"
  by (simp add: up_notif_def Let_def fx_as_emit ui_ok_close)

lemma spotlight_answer_ok:
  assumes "ui_ok s" "show_spotlight s" "sp_ok sp"
  shows "ui_ok (spotlight_answer env a (s\<lparr>ui_sp := sp\<rparr>))"
proof -
  note o = overlay_spotlight [OF assms(1,2)]
  have core: "core_ok (s\<lparr>ui_sp := sp\<rparr>)" using ui_okD [OF assms(1)] assms(3) by (rule core_ok_spotlight)
  have stay: "ui_ok (s\<lparr>ui_sp := sp\<rparr>)" using assms(1,3) by (rule ui_ok_spotlight)
  have opened: "ui_ok ((open_app env n (s\<lparr>ui_sp := sp\<rparr>))\<lparr>show_spotlight := False\<rparr>)" for n
    by (rule ui_okI_opened [where n = n]) (use o core in \<open>auto simp: core_ok_open_app ui_simps\<close>)
  have hide: "ui_ok (s\<lparr>ui_sp := sp, show_spotlight := False\<rparr>)"
    using o core by (auto intro!: ui_okI_none simp: no_overlay_iff)
  show ?thesis
    using stay opened hide by (simp add: spotlight_answer_def split: sp_answer.split)
qed

lemma up_spotlight_ok: "ui_ok s \<Longrightarrow> show_spotlight s \<Longrightarrow> ui_ok (up_spotlight env p s)"
  using spotlight_answer_ok [of s "snd (sp_handle_touch (ui_sp s) p)" env] core_as_sp(2) [OF ui_okD, of s]
  by (auto simp: up_spotlight_def split: prod.split dest: sym)

lemma up_ai_ok: "ui_ok s \<Longrightarrow> show_ai s \<Longrightarrow> ui_ok (up_ai g p s)"
  by (simp add: up_ai_def Let_def fx_as_emit ui_ok_close)

lemma up_drop_ok: "ui_ok s \<Longrightarrow> show_drop s \<Longrightarrow> ui_ok (up_drop g p s)"
  by (simp add: up_drop_def Let_def ui_ok_close)

lemma up_cloud_ok: "ui_ok s \<Longrightarrow> show_cloud s \<Longrightarrow> ui_ok (up_cloud g p s)"
  by (simp add: up_cloud_def Let_def ui_ok_close)

lemma up_lock_ok:
  assumes "ui_ok s" "ui_state s = SLock" "no_overlay s"
  shows "ui_ok (up_lock env now g s)"
proof (rule ui_okI_none)
  show "no_overlay (up_lock env now g s)"
    using assms(3) by (simp add: up_lock_def Let_def fx_as_emit ui_simps no_overlay_iff)
  show "core_ok (up_lock env now g s)"
    using ui_okD [OF assms(1)] assms(2)
    by (auto simp: up_lock_def Let_def fx_as_emit ui_simps core_ok_def)
qed

lemma up_app_ok:
  assumes "ui_ok s" "ui_state s = SApp" "no_overlay s"
  shows "ui_ok (up_app g p s)"
proof -
  have "core_ok (s\<lparr>ui_state := SHome, current_app := None\<rparr>)"
    using ui_okD [OF assms(1)] assms(2) by (simp add: core_ok_def)
  moreover have "no_overlay (s\<lparr>ui_state := SHome, current_app := None\<rparr>)"
    using assms(3) by (simp add: no_overlay_iff)
  ultimately show ?thesis
    using assms(1) by (auto simp: up_app_def app_input_def fx_as_emit intro: ui_okI_none split: option.splits)
qed

lemma up_settings_ok:
  assumes "ui_ok s" "ui_state s = SSettings" "no_overlay s"
  shows "ui_ok (up_settings env g p s)"
proof -
  have "core_ok (s\<lparr>ui_state := SHome\<rparr>)" "core_ok (s\<lparr>settings_scroll := min (settings_scroll s + 40) 500\<rparr>)"
    using ui_okD [OF assms(1)] assms(2) by (simp_all add: core_ok_def)
  moreover have "no_overlay (s\<lparr>ui_state := SHome\<rparr>)" "no_overlay (s\<lparr>settings_scroll := min (settings_scroll s + 40) 500\<rparr>)"
    using assms(3) by (simp_all add: no_overlay_iff)
  ultimately show ?thesis
    using assms(1) by (auto simp: up_settings_def fx_as_emit intro: ui_okI_none split: prod.splits)
qed

lemma up_home_ok:
  assumes "ui_ok s" "ui_state s = SHome" "no_overlay s"
  shows "ui_ok (up_home env g p s)"
proof -
  have core: "core_ok s" by (rule ui_okD [OF assms(1)])
  have sp: "ui_ok (s\<lparr>ui_sp := sp_show (ui_sp s), show_spotlight := True\<rparr>)"
    and sw: "ui_ok (s\<lparr>ui_as := as_show (ui_as s), show_switcher := True\<rparr>)"
    and nc: "ui_ok (s\<lparr>ui_nc := nc_show (ui_nc s), show_notif := True\<rparr>)"
    and cc: "ui_ok (s\<lparr>ui_cc := cc_show (ui_cc s), show_cc := True\<rparr>)"
    using core assms(2,3) by (simp_all add: ui_ok_def core_ok_def overlay_defs as_ok_def)
  have lock: "ui_ok (s\<lparr>ui_state := SLock, swipe_count := 0\<rparr>)"
    and pages: "ui_ok (s\<lparr>current_page := 1\<rparr>)" "ui_ok (s\<lparr>current_page := 0\<rparr>)"
    using core assms(2,3) by (simp_all add: ui_ok_def core_ok_def overlay_defs)
  note opened = ui_ok_home_open [OF assms]
  show ?thesis
    unfolding up_home_def fx_as_emit
    using sp sw nc cc lock pages opened assms(1) by (simp split: option.split)
qed

lemma mouse_up_ok:
  assumes ok: "ui_ok s" and up: "mouse_up env now p s = Inr s'"
  shows "ui_ok s'"
proof (cases "touch_start s")
  case None
  with assms show ?thesis by (simp add: mouse_up_def)
next
  case (Some st)
  define g where "g = mk_gesture st p (now - touch_time s)"
  define r where "r = (if show_switcher s then up_switcher env g p s
                 else if show_folder s then Inr (up_folder env g p s)
                 else if show_cc s then up_cc g p s
                 else if show_notif s then Inr (up_notif g p s)
                 else if show_spotlight s then Inr (up_spotlight env p s)
                 else if show_ai s then Inr (up_ai g p s)
                 else if show_drop s then Inr (up_drop g p s)
                 else if show_cloud s then Inr (up_cloud g p s)
                 else (case ui_state s of
                         SLock \<Rightarrow> Inr (up_lock env now g s)
                       | SHome \<Rightarrow> Inr (up_home env g p s)
                       | SApp \<Rightarrow> Inr (up_app g p s)
                       | SSettings \<Rightarrow> Inr (up_settings env g p s)))"
  have "mouse_up env now p s = map_sum id end_touch r"
    unfolding mouse_up_def r_def g_def Let_def Some by simp
  then obtain t where t: "r = Inr t" and s': "s' = end_touch t"
    using up by (cases r) auto
  have nofolder: "\<not> show_folder s" using ok by (simp add: ui_ok_def)
  have "ui_ok t"
  proof (cases "no_overlay s")
    case True
    then have "r = (case ui_state s of
                         SLock \<Rightarrow> Inr (up_lock env now g s)
                       | SHome \<Rightarrow> Inr (up_home env g p s)
                       | SApp \<Rightarrow> Inr (up_app g p s)
                       | SSettings \<Rightarrow> Inr (up_settings env g p s))"
      by (simp add: r_def no_overlay_iff)
    with t True ok show ?thesis
      by (auto split: screen_state.splits intro: up_lock_ok up_home_ok up_app_ok up_settings_ok)
  next
    case False
    with t ok nofolder show ?thesis
      by (auto simp: r_def no_overlay_iff split: if_splits
               intro: up_switcher_ok up_cc_ok up_notif_ok up_spotlight_ok up_ai_ok up_drop_ok up_cloud_ok)
  qed
  with s' show ?thesis by simp
qed

lemma key_escape_ok:
  assumes "ui_ok s" "\<not> show_spotlight s" "\<not> show_ai s"
  shows "ui_ok (key_escape s)"
proof -
  have core: "core_ok s" by (rule ui_okD [OF assms(1)])
  have sw: "ui_ok (s\<lparr>show_switcher := False, ui_as := as_hide (ui_as s)\<rparr>)" if "show_switcher s"
    by (rule ui_ok_switcher) (use ui_ok_close(7) [OF assms(1) that] core in \<open>simp_all add: core_ok_def as_ok_def\<close>)
  have app: "ui_ok (s\<lparr>ui_state := SHome, current_app := None\<rparr>)" if "ui_state s = SApp"
    using assms(1) that by (simp add: ui_ok_def overlay_defs)
  have settings: "ui_ok (s\<lparr>ui_state := SHome\<rparr>)" if "ui_state s = SSettings"
    using assms(1) that by (simp add: ui_ok_def overlay_defs)
  have lock: "ui_ok (s\<lparr>ui_state := SLock, swipe_count := 0\<rparr>)"
    if "ui_state s = SHome" "\<not> show_switcher s" "\<not> show_cc s" "\<not> show_notif s"
    using assms that by (auto simp: ui_ok_def overlay_defs split: if_splits)
  have "\<not> show_folder s" using assms(1) by (simp add: ui_ok_def)
  with sw app settings lock assms(1) show ?thesis
    by (simp add: key_escape_def ui_ok_close split: screen_state.split)
qed

lemma key_down_ok:
  assumes ok: "ui_ok s" and "key_down env k u c s = Inr s'"
  shows "ui_ok s'"
proof -
  have ai: "ui_ok (s\<lparr>ui_ai := a, show_ai := False\<rparr>)" if "show_ai s" for a
    using ui_ok_close(4) [of "s\<lparr>ui_ai := a\<rparr>"] ok that by simp
  have sp: "ui_ok (spotlight_answer env a (s\<lparr>ui_sp := sp\<rparr>))"
    if "show_spotlight s" "sp_handle_key (map fst APPS) (ui_sp s) k u = Inr (a, sp)" for a sp
    using spotlight_answer_ok [OF ok that(1)] that(2) core_as_sp(2) [OF ui_okD [OF ok]]
      sp_handle_key_ok [of "ui_sp s" "map fst APPS" k u] by auto
  from assms ai sp key_escape_ok [of s] show ?thesis
    by (auto simp: key_down_def res_bind_Inr_iff Let_def app_input_def split: if_splits option.splits)
qed

lemma ui_ok_scroll:
  assumes "ui_ok s" "0 \<le> k" "k \<le> 500"
  shows "ui_ok (s\<lparr>settings_scroll := k\<rparr>)"
proof -
  have "overlay_flags (s\<lparr>settings_scroll := k\<rparr>) = overlay_flags s" by (simp add: overlay_flags_def)
  with assms show ?thesis by (simp add: ui_ok_def no_overlay_def)
qed

lemma mouse_wheel_ok: "ui_ok s \<Longrightarrow> ui_ok (mouse_wheel y s)"
  by (simp add: mouse_wheel_def ui_ok_scroll)

lemma ui_ok_touch [simp]:
  "ui_ok (s\<lparr>touch_start := a, touch_time := b\<rparr>) = ui_ok s" "ui_ok (s\<lparr>ui_running := r\<rparr>) = ui_ok s"
  by (simp_all add: ui_ok_def overlay_defs)

lemma ui_step_ok: "ui_ok s \<Longrightarrow> ui_step env s te = Inr s' \<Longrightarrow> ui_ok s'"
  by (cases "snd te")
    (auto simp: ui_step_def fx_as_emit mouse_wheel_ok split: if_splits intro: mouse_up_ok key_down_ok)

subsection \<open>Drawing and the loop\<close>

lemma draw_page_ok: "ui_ok s \<Longrightarrow> draw_page env now s = Inr s' \<Longrightarrow> ui_ok s'"
  by (auto simp: draw_page_def res_bind_Inr_iff split: screen_state.splits)

lemma draw_panels_ok:
  assumes ok: "ui_ok s" and "draw_panels env s = Inr s'"
  shows "ui_ok s'"
proof -
  have "as_ok (if show_switcher s then as_draw (ui_as s) else ui_as s)"
    and "sp_ok (if show_spotlight s then sp_draw (ui_sp s) else ui_sp s)"
    using core_as_sp [OF ui_okD [OF ok]] by (simp_all add: as_ok_def)
  with assms show ?thesis
    by (auto simp del: if_split simp: draw_panels_def res_bind_Inr_iff intro!: ui_ok_switcher ui_ok_spotlight)
qed

lemma ui_draw_ok: "ui_ok s \<Longrightarrow> ui_draw env now s = Inr s' \<Longrightarrow> ui_ok s'"
  by (auto simp: ui_draw_def res_bind_Inr_iff intro: draw_page_ok draw_panels_ok split: if_splits)

interpretation ui_events: stepping_app "ui_step env" ui_ok for env
  by unfold_locales (rule ui_step_ok)

text \<open>A frame with the surroundings it runs in: these may change from frame to frame.\<close>

definition ui_loop :: "ui \<Rightarrow> ui_env \<times> rat \<times> (rat \<times> event) list \<Rightarrow> ui res" where
  "ui_loop s f = ui_frame (fst f) s (snd f)"

lemma ui_loop_ok: "ui_ok s \<Longrightarrow> ui_loop s f = Inr s' \<Longrightarrow> ui_ok s'"
  by (auto simp: ui_loop_def ui_frame_def res_bind_Inr_iff dest: ui_events.run_invar intro: ui_draw_ok)

interpretation ui_frames: stepping_app ui_loop ui_ok
  by unfold_locales (rule ui_loop_ok)

subsection \<open>Properties\<close>

text \<open>
  (C1) Whatever events arrive, in whatever order and however many per frame, the running
  interface never shows two panels at once, never opens a folder, shows a panel over the
  home screen only (Drop and Cloud excepted, which may stay over the lock screen), has a
  current application exactly in the application state and only one it has an object for,
  counts at most one unlocking swipe, and keeps page, scroll and recent list in range.
\<close>

theorem ui_invariant:
  "run_events ui_loop (ui_init settings_file now nfile cloud_cfg) frames = Inr s \<Longrightarrow>
     at_most_one (overlay_flags s) \<and> \<not> show_folder s
     \<and> (ui_state s \<noteq> SHome \<longrightarrow> no_overlay s \<or> (ui_state s = SLock \<and> (show_drop s \<or> show_cloud s)))
     \<and> (ui_state s = SApp) = (current_app s \<noteq> None)
     \<and> current_app s \<in> insert None (Some ` set app_instances)
     \<and> swipe_count s \<le> 1 \<and> (ui_state s \<noteq> SLock \<longrightarrow> swipe_count s = 0)
     \<and> current_page s \<le> 1 \<and> 0 \<le> settings_scroll s \<and> settings_scroll s \<le> 500
     \<and> distinct (as_recent (ui_as s)) \<and> length (as_recent (ui_as s)) \<le> 8"
  using ui_frames.run_invar [OF ui_ok_init, of settings_file now nfile cloud_cfg frames s]
  unfolding ui_ok_def as_ok_def by blast

end
