(* ===== verification/Ui_Safety.thy ===== *)
theory Ui_Safety
  imports Ui_Invariant
begin

text \<open>
  What the main interface does and never does: the lock screen, what applications are
  handed, where panels are left open or stop answering, and which icons a finger can reach.
\<close>

subsection \<open>The lock screen\<close>

definition locked :: "ui \<Rightarrow> bool" where
  "locked s \<longleftrightarrow> ui_state s = SLock \<and> no_overlay s"

definition touch_end :: "event \<Rightarrow> bool" where
  "touch_end e = (case e of MouseUp p \<Rightarrow> True | _ \<Rightarrow> False)"

definition app_inputs :: "effect list \<Rightarrow> (string \<times> event) list" where
  "app_inputs fx = concat (map (\<lambda>f. case f of AppInput n e \<Rightarrow> [(n, e)] | _ \<Rightarrow> []) fx)"

lemma app_inputs_append [simp]: "app_inputs (xs @ ys) = app_inputs xs @ app_inputs ys"
  by (simp add: app_inputs_def)

lemma app_inputs_simps [simp]:
  "app_inputs [] = []" "app_inputs (Vibrate n # fx) = app_inputs fx"
  "app_inputs (SendNotification a t b # fx) = app_inputs fx" "app_inputs (SysExit # fx) = app_inputs fx"
  "app_inputs (AppInput n e # fx) = (n, e) # app_inputs fx"
  "app_inputs (SaveSettings c # fx) = app_inputs fx" "app_inputs (Popen x # fx) = app_inputs fx"
  "app_inputs (WifiConnect x y # fx) = app_inputs fx" "app_inputs (WifiDisconnect # fx) = app_inputs fx"
  by (simp_all add: app_inputs_def)

lemma up_lock_first:
  "swipe_count s = 0 \<Longrightarrow> up_lock env now g s =
     (if is_swipe_left g then emit [Vibrate ''swipe''] (s\<lparr>swipe_count := 1\<rparr>) else s)"
  by (simp add: up_lock_def Let_def fx_as_emit ui_simps)

lemma locked_upd [simp]:
  "locked (emit es s) = locked s" "locked (s\<lparr>swipe_count := n\<rparr>) = locked s" "locked (end_touch s) = locked s"
  "swipe_count (end_touch s) = swipe_count s"
  by (simp_all add: locked_def no_overlay_iff end_touch_def ui_simps)

text \<open>One step on the lock screen: nothing but the second left swipe leaves it.\<close>

lemma locked_up:
  assumes "locked s" "mouse_up env now p s = Inr s'"
  shows "ui_cfg s' = ui_cfg s" "app_inputs (ui_log s') = app_inputs (ui_log s)"
    and "swipe_count s = 0 \<Longrightarrow> locked s' \<and> swipe_count s' \<le> 1"
proof -
  obtain st where st: "s' = s \<or> (touch_start s = Some st \<and>
      s' = end_touch (up_lock env now (mk_gesture st p (now - touch_time s)) s))"
    using assms by (auto simp: locked_def no_overlay_iff mouse_up_def Let_def split: option.splits)
  show "ui_cfg s' = ui_cfg s" "app_inputs (ui_log s') = app_inputs (ui_log s)"
    using st by (auto simp: end_touch_def up_lock_def Let_def fx_as_emit ui_simps)
  show "locked s' \<and> swipe_count s' \<le> 1" if "swipe_count s = 0"
    using st that assms(1) by (auto simp: up_lock_first ui_simps)
qed

lemma locked_other:
  assumes "locked s" "ui_step env s te = Inr s'" "\<not> touch_end (snd te)"
  shows "locked s'" "ui_cfg s' = ui_cfg s" "app_inputs (ui_log s') = app_inputs (ui_log s)"
    "swipe_count s' = swipe_count s"
  using assms
  by (cases "snd te"; auto simp: ui_step_def touch_end_def locked_def no_overlay_iff fx_as_emit ui_simps
        key_down_def key_escape_def mouse_wheel_def split: if_splits)+

lemma locked_run:
  "run_events (ui_step env) s es = Inr s' \<Longrightarrow> locked s \<Longrightarrow> swipe_count s \<le> 1 \<Longrightarrow>
     length (filter (\<lambda>te. touch_end (snd te)) es) + swipe_count s \<le> 1 \<Longrightarrow>
     locked s' \<and> ui_cfg s' = ui_cfg s \<and> app_inputs (ui_log s') = app_inputs (ui_log s)"
proof (induction es arbitrary: s)
  case Nil
  then show ?case by simp
next
  case (Cons te es)
  from Cons.prems(1) obtain s1 where s1: "ui_step env s te = Inr s1" "run_events (ui_step env) s1 es = Inr s'"
    by (cases "ui_step env s te") auto
  show ?case
  proof (cases "touch_end (snd te)")
    case True
    then obtain p where p: "snd te = MouseUp p" by (cases "snd te") (auto simp: touch_end_def)
    from True Cons.prems(4) have z: "swipe_count s = 0" and rest: "filter (\<lambda>te. touch_end (snd te)) es = []"
      by simp_all
    show ?thesis
    proof (cases "ui_running s")
      case True
      with s1(1) p have up: "mouse_up env (fst te) p s = Inr s1" by (simp add: ui_step_def)
      from locked_up [OF Cons.prems(2) up] z Cons.IH [OF s1(2)] rest show ?thesis by simp
    next
      case False
      with s1(1) have "s1 = s" by (simp add: ui_step_def)
      with Cons.IH [OF s1(2)] Cons.prems rest z show ?thesis by simp
    qed
  next
    case False
    with locked_other [OF Cons.prems(2) s1(1)] Cons.IH [OF s1(2)] Cons.prems show ?thesis by simp
  qed
qed

subsection \<open>What applications are handed\<close>

lemma app_inputs_mem: "AppInput n e \<in> set fx \<Longrightarrow> (n, e) \<in> set (app_inputs fx)"
  by (force simp: app_inputs_def)

text \<open>The events the interface passes on: a release, or a key other than escape.\<close>

definition app_event :: "event \<Rightarrow> bool" where
  "app_event e =
     (case e of MouseUp p \<Rightarrow> True | KeyDown k u c \<Rightarrow> k \<noteq> K_ESCAPE | _ \<Rightarrow> False)"

abbreviation inputs :: "ui \<Rightarrow> (string \<times> event) list" where
  "inputs s \<equiv> app_inputs (ui_log s)"

lemma inputs_open_app [simp]: "inputs (open_app env n s) = inputs s"
  by (simp add: open_app_def Let_def fx_as_emit ui_simps)

lemma inputs_emit [simp]: "inputs (emit fx s) = inputs s @ app_inputs fx"
  by (simp add: ui_simps)

lemma cc_perform_inputs: "cc_perform a c = (c', fx) \<Longrightarrow> app_inputs fx = []"
  by (auto simp: cc_perform_def toggle_wifi_def toggle_bt_def toggle_airplane_def toggle_hotspot_def Let_def
      split: cc_action.splits if_splits)

lemma cc_handle_touch_inputs: "cc_handle_touch c s p = Inr (b, c', s', fx) \<Longrightarrow> app_inputs fx = []"
  by (auto simp: cc_handle_touch_def cc_touch_sliders_def Let_def dest: cc_perform_inputs
      split: option.splits prod.splits if_splits)

lemma tap_item_inputs: "app_inputs (snd (tap_item br p it c)) = []"
  by (simp add: tap_item_def Let_def split: item_type.split)

lemma handle_settings_tap_inputs: "app_inputs (snd (handle_settings_tap br p fl c)) = []"
proof (induction br p fl c rule: handle_settings_tap.induct)
  case (2 br p iy it fl c)
  then show ?case
    using tap_item_inputs [of br p it c] by (auto split: prod.splits)
qed simp

lemma inputs_spotlight_answer [simp]: "inputs (spotlight_answer env a s) = inputs s"
  by (simp add: spotlight_answer_def split: sp_answer.split)

lemma inputs_up:
  "up_switcher env g p s = Inr s' \<Longrightarrow> inputs s' = inputs s"
  "up_cc g p s = Inr s' \<Longrightarrow> inputs s' = inputs s"
  "inputs (up_folder env g p s) = inputs s" "inputs (up_notif g p s) = inputs s"
  "inputs (up_spotlight env p s) = inputs s" "inputs (up_ai g p s) = inputs s"
  "inputs (up_drop g p s) = inputs s" "inputs (up_cloud g p s) = inputs s"
  "inputs (up_lock env now g s) = inputs s" "inputs (up_home env g p s) = inputs s"
  "inputs (up_settings env g p s) = inputs s"
  subgoal by (erule up_switcher_InrE) (simp split: as_answer.split)
  subgoal by (auto simp: up_cc_def res_bind_Inr_iff Let_def fx_as_emit dest: cc_handle_touch_inputs split: if_splits)
  subgoal by (simp add: up_folder_def Let_def split: prod.split fm_answer.split)
  subgoal by (simp add: up_notif_def Let_def fx_as_emit)
  subgoal by (simp add: up_spotlight_def split: prod.split)
  subgoal by (simp add: up_ai_def Let_def fx_as_emit)
  subgoal by (simp add: up_drop_def Let_def)
  subgoal by (simp add: up_cloud_def Let_def)
  subgoal by (simp add: up_lock_def Let_def fx_as_emit)
  subgoal by (simp add: up_home_def fx_as_emit split: option.split)
  subgoal using handle_settings_tap_inputs [of "en_backend env" p "items_flat_cache s" "ui_cfg s"]
    by (auto simp: up_settings_def Let_def fx_as_emit split: prod.split)
  done

lemma inputs_up_app:
  "inputs (up_app g p s) = inputs s \<or>
     (\<exists>n. current_app s = Some n \<and> inputs (up_app g p s) = inputs s @ [(n, MouseUp p)])"
  by (simp add: up_app_def app_input_def fx_as_emit split: option.split)

lemma inputs_end_touch [simp]: "inputs (end_touch s) = inputs s"
  by (simp add: end_touch_def)

lemma inputs_mouse_up:
  assumes "mouse_up env now p s = Inr s'"
  shows "inputs s' = inputs s \<or>
    (\<exists>n. ui_state s = SApp \<and> no_overlay s \<and> current_app s = Some n \<and> inputs s' = inputs s @ [(n, MouseUp p)])"
proof (cases "ui_state s = SApp \<and> no_overlay s")
  case True
  then have "s' = s \<or> (\<exists>g. s' = end_touch (up_app g p s))"
    using assms by (auto simp: mouse_up_def Let_def no_overlay_iff split: option.splits)
  with True inputs_up_app show ?thesis by (metis inputs_end_touch)
next
  case False
  show ?thesis
  proof (cases "touch_start s")
    case None
    with assms show ?thesis by (simp add: mouse_up_def)
  next
    case (Some st)
    with assms False show ?thesis
      by (auto simp: mouse_up_def Let_def no_overlay_iff inputs_up map_sum_Inr_iff
          split: if_splits screen_state.splits)
  qed
qed

lemma inputs_key_down:
  assumes "key_down env k u c s = Inr s'"
  shows "inputs s' = inputs s \<or>
    (\<exists>n. ui_state s = SApp \<and> \<not> show_spotlight s \<and> \<not> show_ai s \<and> current_app s = Some n
         \<and> inputs s' = inputs s @ [(n, KeyDown k u c)] \<and> k \<noteq> K_ESCAPE)"
  using assms
  by (auto simp: key_down_def key_escape_def res_bind_Inr_iff Let_def app_input_def
      split: if_splits screen_state.splits option.splits)

lemma inputs_step:
  assumes "ui_step env s te = Inr s'"
  shows "inputs s' = inputs s \<or>
    (\<exists>n. ui_state s = SApp \<and> current_app s = Some n \<and> inputs s' = inputs s @ [(n, snd te)]
         \<and> app_event (snd te))"
  using assms inputs_mouse_up [of env "fst te" _ s s'] inputs_key_down [of env _ _ _ s s']
  by (cases "snd te")
    (auto simp: ui_step_def app_event_def fx_as_emit mouse_wheel_def split: if_splits)

definition inputs_ok :: "ui \<Rightarrow> bool" where
  "inputs_ok s \<longleftrightarrow> ui_ok s \<and> list_all (\<lambda>(n, e). n \<in> set app_instances \<and> app_event e) (inputs s)"

lemma inputs_ok_step:
  assumes "inputs_ok s" "ui_step env s te = Inr s'"
  shows "inputs_ok s'"
proof -
  have "current_app s = Some n \<Longrightarrow> n \<in> set app_instances" for n
    using assms(1) by (auto simp: inputs_ok_def ui_ok_def)
  with assms ui_step_ok [OF _ assms(2)] inputs_step [OF assms(2)] show ?thesis
    unfolding inputs_ok_def by auto
qed

interpretation ui_inputs: stepping_app "ui_step env" inputs_ok for env
  by unfold_locales (rule inputs_ok_step)

subsection \<open>Spotlight hidden but still in front\<close>

definition frozen :: "(string \<times> event) list \<Rightarrow> ui \<Rightarrow> bool" where
  "frozen ins s \<longleftrightarrow>
     show_spotlight s \<and> \<not> sp_visible (ui_sp s) \<and> ui_state s = SHome \<and> inputs s = ins
     \<and> \<not> show_switcher s \<and> \<not> show_folder s \<and> \<not> show_cc s \<and> \<not> show_notif s \<and> \<not> show_ai s
     \<and> \<not> show_drop s \<and> \<not> show_cloud s"

lemma frozen_step: "frozen ins s \<Longrightarrow> \<exists>s'. ui_step env s te = Inr s' \<and> frozen ins s'"
  by (cases "snd te")
    (auto simp: frozen_def ui_step_def mouse_up_def up_spotlight_def sp_handle_touch_def sp_handle_key_def
       spotlight_answer_def key_down_def mouse_wheel_def end_touch_def Let_def fx_as_emit ui_simps
       split: option.split)

interpretation frozen_events: event_app "ui_step env" "frozen ins" for env ins
  by unfold_locales (rule frozen_step)

lemma frozen_draw: "frozen ins s \<Longrightarrow> is_ok (en_bars env) \<Longrightarrow> \<exists>s'. ui_draw env now s = Inr s' \<and> frozen ins s'"
  by (auto simp: frozen_def ui_draw_def draw_page_def draw_panels_def sp_draw_def is_ok_iff)

lemma frozen_loop: "frozen ins s \<Longrightarrow> is_ok (en_bars (fst f)) \<Longrightarrow> \<exists>s'. ui_loop s f = Inr s' \<and> frozen ins s'"
  using frozen_events.run_ok [of ins s "fst f" "snd (snd f)"] frozen_draw [of ins _ "fst f" "fst (snd f)"]
  by (auto simp: ui_loop_def ui_frame_def)

lemma frozen_run:
  "frozen ins s \<Longrightarrow> \<forall>f\<in>set frames. is_ok (en_bars (fst f)) \<Longrightarrow> \<exists>s'. run_events ui_loop s frames = Inr s' \<and> frozen ins s'"
proof (induction frames arbitrary: s)
  case (Cons f frames)
  then obtain t where "ui_loop s f = Inr t" "frozen ins t" using frozen_loop [of ins s f] by auto
  with Cons show ?case by auto
qed simp

subsection \<open>Properties\<close>

text \<open>
  (C2) From the start of the program the device stays locked until a touch has been
  released twice: whatever else arrives (keys, presses, motion, the wheel), with fewer than
  two releases no panel opens, no setting changes and no application is handed an event.
\<close>

theorem lock_holds:
  "run_events (ui_step env) (ui_init settings_file now nfile cloud_cfg) es = Inr s \<Longrightarrow>
   length (filter (\<lambda>te. touch_end (snd te)) es) \<le> 1 \<Longrightarrow>
     ui_state s = SLock \<and> no_overlay s \<and> ui_cfg s = load_settings settings_file \<and> app_inputs (ui_log s) = []"
  using locked_run [of env "ui_init settings_file now nfile cloud_cfg" es s]
  by (simp add: locked_def ui_init_def Let_def no_overlay_iff)

text \<open>
  (C5) Applications are only ever handed releases of a touch and keys other than escape:
  whatever the user does, no application opened from the main interface sees the escape
  key, a press, a motion or the wheel.
\<close>

theorem app_input_events:
  "run_events (ui_step env) (ui_init settings_file now nfile cloud_cfg) es = Inr s \<Longrightarrow>
   AppInput n e \<in> set (ui_log s) \<Longrightarrow>
     n \<in> set app_instances \<and> ((\<exists>p. e = MouseUp p) \<or> (\<exists>k u c. e = KeyDown k u c \<and> k \<noteq> K_ESCAPE))"
proof -
  assume run: "run_events (ui_step env) (ui_init settings_file now nfile cloud_cfg) es = Inr s"
    and log: "AppInput n e \<in> set (ui_log s)"
  have "inputs_ok (ui_init settings_file now nfile cloud_cfg)"
    using ui_ok_init by (simp add: inputs_ok_def ui_init_def Let_def)
  from ui_inputs.run_invar [OF this run] app_inputs_mem [OF log]
  have "n \<in> set app_instances \<and> app_event e" by (auto simp: inputs_ok_def list_all_iff)
  then show ?thesis by (cases e) (simp_all add: app_event_def)
qed



text \<open>
  (C7) Locking with the escape key does not close Drop or Cloud: the panel stays open over
  the lock screen and keeps receiving the touches, so the swipes that should unlock go to it.
\<close>

theorem escape_leaves_panel_over_lock:
  "ui_ok s \<Longrightarrow> ui_running s \<Longrightarrow> ui_state s = SHome \<Longrightarrow> show_drop s \<Longrightarrow>
     \<exists>s'. ui_step env s (t, KeyDown K_ESCAPE u c) = Inr s' \<and> ui_state s' = SLock \<and> show_drop s'
        \<and> (\<forall>now p s''. mouse_up env now p s' = Inr s'' \<longrightarrow> ui_state s'' = SLock \<and> swipe_count s'' = 0)"
  using overlay_drop [of s]
  by (auto simp: ui_step_def key_down_def key_escape_def mouse_up_def up_drop_def Let_def end_touch_def
      split: option.splits)

subsection \<open>Concrete runs\<close>

definition demo_env :: ui_env where
  "demo_env = \<lparr>en_backend = True, en_local_files = [], en_clear_width = 30,
     en_sparks = (\<lambda>_. (0, 1, 2, 0)), en_bars = Inr 3\<rparr>"

definition demo_start :: ui where
  "demo_start = ui_init None ''12:00'' NoFile None"

definition swipe_ev :: "pos \<Rightarrow> pos \<Rightarrow> (rat \<times> event) list" where
  "swipe_ev a b = [(0, MouseDown a), (0, MouseUp b)]"

lemmas demo_run_simps = demo_env_def demo_start_def ui_init_def swipe_ev_def ui_step_def mouse_up_def
  mk_gesture_def Let_def up_lock_def up_home_def end_touch_def fx_as_emit emit_def load_settings_def

abbreviation unlock_ev :: "(rat \<times> event) list" where
  "unlock_ev \<equiv> swipe_ev (200, 200) (100, 200) @ swipe_ev (200, 200) (100, 200)"

lemma demo_ok: "run_events (ui_step env) demo_start es = Inr s \<Longrightarrow> ui_ok s"
  unfolding demo_start_def by (rule ui_events.run_invar [OF ui_ok_init])

theorem lock_holds_witness:
  "\<exists>s. run_events (ui_step demo_env) demo_start (swipe_ev (200, 200) (100, 200) @ [(1, KeyDown K_RETURN [] False)]) = Inr s
     \<and> ui_state s = SLock \<and> no_overlay s \<and> ui_cfg s = DEFAULT_SETTINGS \<and> app_inputs (ui_log s) = []"
proof -
  let ?es = "swipe_ev (200, 200) (100, 200) @ [(1, KeyDown K_RETURN [] False)]"
  have "\<exists>s. run_events (ui_step demo_env) demo_start ?es = Inr s"
    by (simp add: demo_run_simps key_down_def)
  then obtain s where s: "run_events (ui_step demo_env) demo_start ?es = Inr s" ..
  have few: "length (filter (\<lambda>te. touch_end (snd te)) ?es) \<le> 1" by (simp add: swipe_ev_def touch_end_def)
  from lock_holds [OF s [unfolded demo_start_def] few] s show ?thesis by (auto simp: load_settings_def)
qed

theorem app_input_events_witness:
  "\<exists>s. run_events (ui_step demo_env) demo_start (unlock_ev @ swipe_ev (20, 140) (20, 140) @ swipe_ev (30, 200) (30, 200)) = Inr s
     \<and> AppInput ''Terminal'' (MouseUp (30, 200)) \<in> set (ui_log s) \<and> ''Terminal'' \<in> set app_instances"
proof -
  let ?es = "unlock_ev @ swipe_ev (20, 140) (20, 140) @ swipe_ev (30, 200) (30, 200)"
  have tap: "get_tapped_app 0 (20, 140) = Some ''Terminal''" by code_simp
  have "\<exists>s. run_events (ui_step demo_env) demo_start ?es = Inr s \<and> AppInput ''Terminal'' (MouseUp (30, 200)) \<in> set (ui_log s)"
    by (simp add: demo_run_simps tap open_app_def app_instances_def up_app_def app_input_def H_def)
  then obtain s where s: "run_events (ui_step demo_env) demo_start ?es = Inr s"
    and log: "AppInput ''Terminal'' (MouseUp (30, 200)) \<in> set (ui_log s)" by blast
  from app_input_events [OF s [unfolded demo_start_def] log] s log show ?thesis by blast
qed



theorem escape_leaves_panel_over_lock_witness:
  "\<exists>s'. ui_step demo_env (demo_start\<lparr>ui_state := SHome, show_drop := True\<rparr>) (0, KeyDown K_ESCAPE [] False) = Inr s'
     \<and> ui_state s' = SLock \<and> show_drop s'"
proof -
  let ?s = "demo_start\<lparr>ui_state := SHome, show_drop := True\<rparr>"
  have "ui_ok ?s" "ui_running ?s" "ui_state ?s = SHome" "show_drop ?s"
    by (simp_all add: ui_ok_def overlay_defs demo_start_def ui_init_def Let_def as_ok_def as_init_def)
  from escape_leaves_panel_over_lock [OF this, of demo_env 0 "[]" False] show ?thesis by blast
qed

theorem ui_invariant_witness:
  "\<exists>s. run_events ui_loop demo_start [(demo_env, 1, unlock_ev)] = Inr s \<and> ui_state s = SHome \<and> current_app s = None"
proof -
  have "\<exists>s. run_events ui_loop demo_start [(demo_env, 1, unlock_ev)] = Inr s \<and> ui_state s = SHome"
    by (simp add: demo_run_simps ui_loop_def ui_frame_def ui_draw_def draw_page_def draw_panels_def)
  then obtain s where s: "run_events ui_loop demo_start [(demo_env, 1, unlock_ev)] = Inr s" "ui_state s = SHome" by blast
  from ui_invariant [OF s(1) [unfolded demo_start_def]] s show ?thesis by auto
qed

end
