(* ===== verification/FM_Radio.thy ===== *)
theory FM_Radio
  imports Complex_Main Ui_Config
begin

text \<open>
  The radio (\<^verbatim>\<open>src/src/apps/radio/radio.py\<close>), on the 320 by 480 screen of the main interface.

  Frequencies are Python floats between 87.5 and 108, where doubles have 46 binary places: a
  frequency is the integer \<open>m\<close> that stands for \<open>m / 2^46\<close>, and the operations round to nearest,
  ties to even, as IEEE arithmetic does. The threads that start the receiver program are part
  of the state; the processes running are recorded. The sine of the visualizer is an
  argument, and its bars are exact rationals. The widths of rendered texts are arguments.
\<close>

subsection \<open>Frequencies\<close>

type_synonym freq = int

text \<open>\<open>a / b\<close> rounded to an integer, ties to even, for positive \<open>b\<close>.\<close>

definition rhe :: "int \<Rightarrow> int \<Rightarrow> int" where
  "rhe a b =
     (let q = a div b; r = a mod b
      in if 2 * r < b then q else if 2 * r > b then q + 1 else if even q then q else q + 1)"

text \<open>The double nearest to \<open>k / 10\<close>; the double \<open>0.1\<close>, with 55 binary places.\<close>

definition dbl :: "int \<Rightarrow> freq" where
  "dbl k = rhe (k * 2 ^ 46) 10"

definition tenth :: int where
  "tenth = 3602879701896397"

definition freq_sub_tenth :: "freq \<Rightarrow> freq" where
  "freq_sub_tenth m = rhe (m * 2 ^ 9 - tenth) (2 ^ 9)"

definition freq_add_tenth :: "freq \<Rightarrow> freq" where
  "freq_add_tenth m = rhe (m * 2 ^ 9 + tenth) (2 ^ 9)"

text \<open>\<open>round(x, 1)\<close>: the double nearest to the decimal with one place nearest to \<open>x\<close>.\<close>

definition tenths :: "freq \<Rightarrow> int" where
  "tenths m = rhe (m * 10) (2 ^ 46)"

definition round1 :: "freq \<Rightarrow> freq" where
  "round1 m = dbl (tenths m)"

definition tune_down :: "freq \<Rightarrow> freq" where
  "tune_down m = round1 (max (dbl 875) (freq_sub_tenth m))"

definition tune_up :: "freq \<Rightarrow> freq" where
  "tune_up m = round1 (min (dbl 1080) (freq_add_tenth m))"

text \<open>\<open>abs(p - f) < 0.1\<close>; the difference of two doubles of this range is exact.\<close>

definition freq_near :: "freq \<Rightarrow> freq \<Rightarrow> bool" where
  "freq_near p f \<longleftrightarrow> \<bar>p - f\<bar> * 2 ^ 9 < tenth"

text \<open>\<open>f"{freq}"\<close> and \<open>f"{freq:.1f}"\<close>, which agree on the doubles nearest to one decimal.\<close>

definition freq_text :: "freq \<Rightarrow> string" where
  "freq_text m = py_str_int (tenths m div 10) @ ''.'' @ py_str_int (tenths m mod 10)"

record preset =
  ps_name :: string
  ps_freq :: freq

definition PRESETS :: "preset list" where
  "PRESETS = map (\<lambda>(n, k). \<lparr>ps_name = n, ps_freq = dbl k\<rparr>)
     [(''Radio Mirchi'', 983), (''Sun FM'', 935), (''Big FM'', 927), (''Radio City'', 911), (''AIR FM'', 1001),
      (''Red FM'', 935), (''Rainbow FM'', 1019), (''Hello FM'', 1064)]"

subsection \<open>State\<close>

record radio =
  ra_freq :: freq
  ra_playing :: bool
  ra_selected :: int
  ra_process :: "nat option"
  ra_status :: string
  ra_scan_results :: "freq list"
  ra_volume :: int
  ra_visualizer :: "rat list"
  ra_t :: rat
  ra_controls :: "(rect \<times> string) list option"
  ra_presets :: "(rect \<times> freq) list option"
  ra_vol_rect :: "rect option"
  ra_threads :: "freq list"
  ra_running :: "(nat \<times> freq) list"

definition radio_init :: radio where
  "radio_init = \<lparr>ra_freq = dbl 983, ra_playing = False, ra_selected = 0, ra_process = None, ra_status = ''Ready'',
     ra_scan_results = [], ra_volume = 80, ra_visualizer = replicate 20 0, ra_t = 0, ra_controls = None, ra_presets = None,
     ra_vol_rect = None, ra_threads = [], ra_running = []\<rparr>"

definition radio_stop :: "radio \<Rightarrow> radio" where
  "radio_stop s =
     (let s1 = (case ra_process s of None \<Rightarrow> s | Some pid \<Rightarrow> s\<lparr>ra_running := filter (\<lambda>(p, _). p \<noteq> pid) (ra_running s)\<rparr>)
      in s1\<lparr>ra_playing := False, ra_status := ''Stopped''\<rparr>)"

definition radio_play :: "freq \<Rightarrow> radio \<Rightarrow> radio" where
  "radio_play f s =
     (let s1 = radio_stop s
      in s1\<lparr>ra_freq := f, ra_playing := True, ra_status := ''Playing '' @ freq_text f @ '' MHz'', ra_threads := ra_threads s1 @ [f]\<rparr>)"

text \<open>The oldest thread not yet there reaches \<open>Popen\<close>: a new process, or the text of the exception.\<close>

definition radio_spawn :: "string + nat \<Rightarrow> radio \<Rightarrow> radio" where
  "radio_spawn answer s =
     (case ra_threads s of
        [] \<Rightarrow> s
      | f # fs \<Rightarrow>
          (case answer of
             Inr pid \<Rightarrow> s\<lparr>ra_threads := fs, ra_process := Some pid, ra_running := ra_running s @ [(pid, f)]\<rparr>
           | Inl e \<Rightarrow> s\<lparr>ra_threads := fs, ra_status := ''Error: '' @ take 20 e, ra_playing := False\<rparr>))"

text \<open>\<open>scan\<close> and the end of its thread: every frequency from 88.0 to 107.9 is a result.\<close>

definition radio_scan :: "radio \<Rightarrow> radio" where
  "radio_scan s = s\<lparr>ra_status := ''Scanning...'', ra_scan_results := []\<rparr>"

definition radio_scan_end :: "radio \<Rightarrow> radio" where
  "radio_scan_end s =
     (let rs = ra_scan_results s @ map (\<lambda>k. dbl (int k)) [880..<1080]
      in s\<lparr>ra_scan_results := rs, ra_status := ''Found '' @ py_str_int (int (length rs)) @ '' stations''\<rparr>)"

definition update_visualizer :: "(rat \<Rightarrow> rat) \<Rightarrow> radio \<Rightarrow> radio" where
  "update_visualizer sine s =
     (let t = ra_t s + 1 / 10
      in s\<lparr>ra_t := t,
           ra_visualizer := (if ra_playing s then map (\<lambda>i. (sine (t + of_nat i * (1 / 2)) * (1 / 2) + 1 / 2) * 40 + 5) [0..<length (ra_visualizer s)]
             else map (\<lambda>v. max 2 (v - 2)) (ra_visualizer s))\<rparr>)"

subsection \<open>The screen\<close>

definition radio_controls :: "radio \<Rightarrow> (rect \<times> string) list" where
  "radio_controls s =
     map (\<lambda>(lbl, bx, by). if lbl \<in> {''PLAY'', ''STOP''} then ((bx, by, 48, 36), lbl) else ((bx, by, 40, 30), lbl))
       [(''-0.1'', W div 2 - 120, 196), (''PREV'', W div 2 - 64, 196),
        (if \<not> ra_playing s then ''PLAY'' else ''STOP'', W div 2 - 20, 196), (''NEXT'', W div 2 + 24, 196), (''+0.1'', W div 2 + 68, 196)]"

definition radio_preset_rects :: "(rect \<times> freq) list" where
  "radio_preset_rects = map (\<lambda>(i, p). ((8, 286 + 40 * int i, W - 16, 34), ps_freq p)) (enum (take 5 PRESETS))"

abbreviation "RA_ACCENT \<equiv> RGB 0 200 255"
abbreviation "RA_CARD \<equiv> RGB 22 22 28"
abbreviation "RA_WHITE \<equiv> RGB 255 255 255"
abbreviation "RA_DIM \<equiv> RGB 100 100 110"
abbreviation "RA_LINE \<equiv> RGB 40 40 50"

definition radio_draw_top :: "text_sizes \<Rightarrow> radio \<Rightarrow> draw_cmd list" where
  "radio_draw_top sz s =
     (let ft = freq_text (ra_freq s)
      in [Fill (RGB 8 8 18), DRect (RGB 14 14 22) (0, 0, W, 180),
          DText ft RA_WHITE (W div 2 - sz_big sz ft div 2 - 20, 46), DText ''MHz'' RA_ACCENT (W div 2 + sz_big sz ft div 2 - 16, 68)]
         @ (case find (\<lambda>p. freq_near (ps_freq p) (ra_freq s)) PRESETS of
              Some p \<Rightarrow> [DText (ps_name p) RA_ACCENT (W div 2 - sz_med sz (ps_name p) div 2, 90)] | None \<Rightarrow> [])
         @ [DText (ra_status s) (if ra_playing s then RGB 48 209 88 else RA_DIM) (W div 2 - sz_font sz (ra_status s) div 2, 112)]
         @ map (\<lambda>(i, h). DRect (if ra_playing s then RA_ACCENT else RA_LINE)
               (20 + int i * ((W - 40) div int (length (ra_visualizer s))), 160 - \<lfloor>h\<rfloor>, (W - 40) div int (length (ra_visualizer s)) - 2, \<lfloor>h\<rfloor>))
             (enum (ra_visualizer s))
         @ [DLine RA_LINE (0, 168) (W, 168)])"

definition radio_draw_controls :: "text_sizes \<Rightarrow> radio \<Rightarrow> draw_cmd list" where
  "radio_draw_controls sz s =
     concat (map (\<lambda>((bx, by, bw, bh), lbl).
        rr (if lbl \<in> {''PLAY'', ''STOP''} then RA_ACCENT else RA_CARD) (bx, by, bw, bh) 8
        @ [DText lbl RA_WHITE (bx + bw div 2 - sz_font sz lbl div 2, by + bh div 2 - sz_height sz lbl div 2)]) (radio_controls s))
     @ (let fw = trunc_div ((W - 40) * ra_volume s) 100
        in [DText (''Vol: '' @ py_str_int (ra_volume s) @ ''%'') RA_DIM (20, 228)] @ rr RA_LINE (20, 242, W - 40, 8) 4
           @ rr RA_ACCENT (20, 242, fw, 8) 4 @ [DCircle RA_WHITE (20 + fw, 246) 6])"

definition radio_draw_presets :: "text_sizes \<Rightarrow> radio \<Rightarrow> draw_cmd list" where
  "radio_draw_presets sz s =
     [DText ''Presets'' RA_WHITE (20, 264), DLine RA_LINE (0, 282) (W, 282)]
     @ concat (map (\<lambda>(i, p). let y = 286 + 40 * int i; is_sel = freq_near (ps_freq p) (ra_freq s); fq = freq_text (ps_freq p) @ '' MHz''
          in rr (if is_sel then RGB 30 40 55 else RA_CARD) (8, y, W - 16, 34) 8
             @ (if is_sel then [DRect RA_ACCENT (8, y, W - 16, 34)] else [])
             @ [DText (ps_name p) RA_WHITE (16, y + 10), DText fq (if is_sel then RA_ACCENT else RA_DIM) (W - sz_font sz fq - 16, y + 10)])
         (enum (take 5 PRESETS)))
     @ [Flip]"

definition radio_draw :: "(rat \<Rightarrow> rat) \<Rightarrow> text_sizes \<Rightarrow> radio \<Rightarrow> radio \<times> draw_cmd list" where
  "radio_draw sine sz s0 =
     (let s = update_visualizer sine s0
      in (s\<lparr>ra_controls := Some (radio_controls s), ra_vol_rect := Some (20, 236, W - 40, 20), ra_presets := Some radio_preset_rects\<rparr>,
          radio_draw_top sz s @ radio_draw_controls sz s @ radio_draw_presets sz s))"

subsection \<open>Input\<close>

definition radio_control :: "string \<Rightarrow> radio \<Rightarrow> radio res" where
  "radio_control lbl s =
     (if lbl = ''PLAY'' then Inr (radio_play (ra_freq s) s)
      else if lbl = ''STOP'' then Inr (radio_stop s)
      else if lbl = ''-0.1'' then Inr (s\<lparr>ra_freq := tune_down (ra_freq s)\<rparr>)
      else if lbl = ''+0.1'' then Inr (s\<lparr>ra_freq := tune_up (ra_freq s)\<rparr>)
      else if lbl = ''PREV'' then
        (let sel = max 0 (ra_selected s - 1)
         in res_bind (py_get PRESETS sel) (\<lambda>p. Inr (s\<lparr>ra_selected := sel, ra_freq := ps_freq p\<rparr>)))
      else if lbl = ''NEXT'' then
        (let sel = min (int (length PRESETS) - 1) (ra_selected s + 1)
         in res_bind (py_get PRESETS sel) (\<lambda>p. Inr (s\<lparr>ra_selected := sel, ra_freq := ps_freq p\<rparr>)))
      else Inr s)"

definition radio_slider :: "int \<Rightarrow> int" where
  "radio_slider x = max 0 (min 100 (slider_pct (x - 20) (W - 40)))"

definition radio_press :: "pos \<Rightarrow> radio \<Rightarrow> radio res" where
  "radio_press p s =
     res_bind (case ra_controls s of
          None \<Rightarrow> Inr s
        | Some cs \<Rightarrow> fold (\<lambda>(r, lbl) st. res_bind st (\<lambda>s. if in_rect r p then radio_control lbl s else Inr s)) cs (Inr s)) (\<lambda>s1.
       let s2 = (case ra_presets s1 of None \<Rightarrow> s1 | Some ps \<Rightarrow> fold (\<lambda>(r, f) s. if in_rect r p then radio_play f s else s) ps s1)
       in Inr (case ra_vol_rect s2 of
            None \<Rightarrow> s2
          | Some r \<Rightarrow> (if in_rect r p then s2\<lparr>ra_volume := radio_slider (fst p)\<rparr> else s2)))"

definition radio_handle_input :: "radio \<Rightarrow> event \<Rightarrow> radio res" where
  "radio_handle_input s e = (case e of MouseDown p \<Rightarrow> radio_press p s | _ \<Rightarrow> Inr s)"

subsection \<open>Lemmas\<close>

text \<open>Rounding is off by at most one half, so it finds the integer that is closer than that.\<close>

lemma rhe_close:
  assumes "0 < b"
  shows "2 * (rhe a b * b) \<le> 2 * a + b" "2 * a \<le> 2 * (rhe a b * b) + b"
proof -
  define q r where "q = a div b" and "r = a mod b"
  have "a = q * b + r" unfolding q_def r_def by simp
  moreover have "0 \<le> r" "r < b" using assms by (simp_all add: r_def)
  moreover have "(q + 1) * b = q * b + b" by (simp add: distrib_right)
  moreover have "rhe a b = (if 2 * r < b then q else if 2 * r > b then q + 1 else if even q then q else q + 1)"
    by (simp add: rhe_def Let_def q_def r_def)
  ultimately show "2 * (rhe a b * b) \<le> 2 * a + b" "2 * a \<le> 2 * (rhe a b * b) + b" by (auto split: if_split)
qed

lemma rhe_unique:
  assumes "0 < b" "2 * a < 2 * (k * b) + b" "2 * (k * b) < 2 * a + b"
  shows "rhe a b = k"
proof -
  have "rhe a b * b < (k + 1) * b" "(k - 1) * b < rhe a b * b"
    using rhe_close [OF assms(1), of a] assms(2,3) by (simp_all add: algebra_simps)
  with assms(1) show ?thesis by (simp add: mult_less_cancel_right)
qed

lemma dbl_close: "10 * dbl k \<le> k * 70368744177664 + 5" "k * 70368744177664 \<le> 10 * dbl k + 5"
  using rhe_close [of 10 "k * 70368744177664"] by (simp_all add: dbl_def)

lemma tenths_near: "10 * m \<le> k * 70368744177664 + 1000 \<Longrightarrow> k * 70368744177664 \<le> 10 * m + 1000 \<Longrightarrow> tenths m = k"
  unfolding tenths_def by (rule rhe_unique) simp_all

lemma step_close:
  "10 * freq_sub_tenth (dbl k) \<le> (k - 1) * 70368744177664 + 100" "(k - 1) * 70368744177664 \<le> 10 * freq_sub_tenth (dbl k) + 100"
  "10 * freq_add_tenth (dbl k) \<le> (k + 1) * 70368744177664 + 100" "(k + 1) * 70368744177664 \<le> 10 * freq_add_tenth (dbl k) + 100"
  using dbl_close [of k] rhe_close [of 512 "dbl k * 512 - 3602879701896397"] rhe_close [of 512 "dbl k * 512 + 3602879701896397"]
  by (simp_all add: freq_sub_tenth_def freq_add_tenth_def tenth_def)

lemma tune_exact:
  assumes "875 \<le> k" "k \<le> 1080"
  shows "tune_down (dbl k) = dbl (max 875 (k - 1))" "tune_up (dbl k) = dbl (min 1080 (k + 1))" "tenths (dbl k) = k"
proof -
  have "tenths (max (dbl 875) (freq_sub_tenth (dbl k))) = max 875 (k - 1)"
    by (rule tenths_near) (use step_close [of k] dbl_close [of 875] assms in \<open>auto simp: max_def\<close>)
  then show "tune_down (dbl k) = dbl (max 875 (k - 1))" by (simp add: tune_down_def round1_def)
  have "tenths (min (dbl 1080) (freq_add_tenth (dbl k))) = min 1080 (k + 1)"
    by (rule tenths_near) (use step_close [of k] dbl_close [of 1080] assms in \<open>auto simp: min_def\<close>)
  then show "tune_up (dbl k) = dbl (min 1080 (k + 1))" by (simp add: tune_up_def round1_def)
  show "tenths (dbl k) = k" by (rule tenths_near) (use dbl_close [of k] in simp_all)
qed

text \<open>A frequency of the FM band with one decimal.\<close>

definition in_band :: "freq \<Rightarrow> bool" where
  "in_band f \<longleftrightarrow> (\<exists>k. 875 \<le> k \<and> k \<le> 1080 \<and> f = dbl k)"

lemma in_band_dbl: "875 \<le> k \<Longrightarrow> k \<le> 1080 \<Longrightarrow> in_band (dbl k)"
  by (auto simp: in_band_def)

lemma in_band_tune: "in_band f \<Longrightarrow> in_band (tune_down f) \<and> in_band (tune_up f)"
proof -
  assume "in_band f"
  then obtain k where "875 \<le> k" "k \<le> 1080" "f = dbl k" by (auto simp: in_band_def)
  then show ?thesis by (simp add: tune_exact in_band_dbl)
qed

lemma presets_band: "\<forall>p\<in>set PRESETS. in_band (ps_freq p)" "length PRESETS = 8"
  by (auto simp: PRESETS_def intro!: in_band_dbl)

definition radio_ok :: "radio \<Rightarrow> bool" where
  "radio_ok s \<longleftrightarrow> in_band (ra_freq s) \<and> 0 \<le> ra_selected s \<and> ra_selected s < 8 \<and> 0 \<le> ra_volume s \<and> ra_volume s \<le> 100
     \<and> (\<forall>ps. ra_presets s = Some ps \<longrightarrow> (\<forall>(r, f)\<in>set ps. in_band f))"

lemma radio_ok_init: "radio_ok radio_init"
  by (simp add: radio_ok_def radio_init_def in_band_dbl)

lemma radio_stop_fields [simp]:
  "ra_freq (radio_stop s) = ra_freq s" "ra_selected (radio_stop s) = ra_selected s" "ra_volume (radio_stop s) = ra_volume s"
  "ra_presets (radio_stop s) = ra_presets s" "ra_controls (radio_stop s) = ra_controls s" "ra_vol_rect (radio_stop s) = ra_vol_rect s"
  by (simp_all add: radio_stop_def Let_def split: option.split)

lemma radio_play_ok: "radio_ok s \<Longrightarrow> in_band f \<Longrightarrow> radio_ok (radio_play f s)"
  by (simp add: radio_ok_def radio_play_def Let_def)

lemma preset_get: "0 \<le> i \<Longrightarrow> i < 8 \<Longrightarrow> \<exists>p. py_get PRESETS i = Inr p \<and> in_band (ps_freq p)"
  using presets_band nth_mem [of "nat i" PRESETS] by (simp add: py_get_ok)

lemma radio_control_ok: "radio_ok s \<Longrightarrow> \<exists>s'. radio_control lbl s = Inr s' \<and> radio_ok s'"
proof -
  assume s: "radio_ok s"
  then have r: "0 \<le> ra_selected s" "ra_selected s < 8" "in_band (ra_freq s)" by (simp_all add: radio_ok_def)
  obtain p q where
    "py_get PRESETS (max 0 (ra_selected s - 1)) = Inr p" "in_band (ps_freq p)"
    "py_get PRESETS (min 7 (ra_selected s + 1)) = Inr q" "in_band (ps_freq q)"
    using r preset_get [of "max 0 (ra_selected s - 1)"] preset_get [of "min 7 (ra_selected s + 1)"]
    by (auto simp: min_less_iff_disj)
  moreover have "radio_ok (radio_stop s)" using s by (simp add: radio_ok_def)
  moreover note radio_play_ok [OF s r(3)] in_band_tune [OF r(3)]
  ultimately show ?thesis using s by (simp add: radio_control_def presets_band(2) Let_def) (simp add: radio_ok_def min_less_iff_disj)
qed

lemma radio_controls_ok:
  "radio_ok s \<Longrightarrow> \<exists>s'. fold (\<lambda>(r, lbl) st. res_bind st (\<lambda>s. if in_rect r p then radio_control lbl s else Inr s)) cs (Inr s) = Inr s' \<and> radio_ok s'"
proof (induction cs arbitrary: s)
  case (Cons c cs)
  obtain r lbl where c: "c = (r, lbl)" by (cases c)
  from radio_control_ok [OF Cons.prems, of lbl] obtain s1 where "radio_control lbl s = Inr s1" "radio_ok s1" by blast
  with Cons c show ?case by auto
qed simp

lemma radio_presets_ok:
  "radio_ok s \<Longrightarrow> \<forall>(r, f)\<in>set ps. in_band f \<Longrightarrow> radio_ok (fold (\<lambda>(r, f) s. if in_rect r p then radio_play f s else s) ps s)"
  by (induction ps arbitrary: s) (auto simp: radio_play_ok)

lemma radio_press_ok: "radio_ok s \<Longrightarrow> \<exists>s'. radio_press p s = Inr s' \<and> radio_ok s'"
proof -
  assume s: "radio_ok s"
  obtain s1 where s1: "(case ra_controls s of None \<Rightarrow> Inr s
      | Some cs \<Rightarrow> fold (\<lambda>(r, lbl) st. res_bind st (\<lambda>s. if in_rect r p then radio_control lbl s else Inr s)) cs (Inr s)) = Inr s1" "radio_ok s1"
  proof (cases "ra_controls s")
    case None
    with s that show ?thesis by simp
  next
    case (Some cs)
    with radio_controls_ok [OF s, of p cs] that show ?thesis by auto
  qed
  let ?s2 = "case ra_presets s1 of None \<Rightarrow> s1 | Some ps \<Rightarrow> fold (\<lambda>(r, f) s. if in_rect r p then radio_play f s else s) ps s1"
  have s2: "radio_ok ?s2"
  proof (cases "ra_presets s1")
    case (Some ps)
    with s1(2) have "\<forall>(r, f)\<in>set ps. in_band f" by (simp add: radio_ok_def)
    from radio_presets_ok [OF s1(2) this] Some show ?thesis by simp
  qed (use s1(2) in simp)
  have v: "radio_ok (t\<lparr>ra_volume := radio_slider x\<rparr>)" if "radio_ok t" for t x
    using that by (simp add: radio_ok_def radio_slider_def)
  show ?thesis unfolding radio_press_def s1(1) using s2 v [OF s2] by (simp add: Let_def split: option.split)
qed

text \<open>What happens to the radio: events, frames drawn, threads that reach \<open>Popen\<close>, and scans.\<close>

datatype radio_action = RaEvent event | RaDraw "rat \<Rightarrow> rat" text_sizes | RaSpawn "string + nat" | RaScan | RaScanEnd

definition radio_step :: "radio \<Rightarrow> radio_action \<Rightarrow> radio res" where
  "radio_step s a =
     (case a of
        RaEvent e \<Rightarrow> radio_handle_input s e
      | RaDraw sine sz \<Rightarrow> Inr (fst (radio_draw sine sz s))
      | RaSpawn r \<Rightarrow> Inr (radio_spawn r s)
      | RaScan \<Rightarrow> Inr (radio_scan s)
      | RaScanEnd \<Rightarrow> Inr (radio_scan_end s))"

lemma radio_preset_rects_band: "\<forall>(r, f)\<in>set radio_preset_rects. in_band f"
  using presets_band(1) by (auto simp: radio_preset_rects_def set_enum_iff dest!: nth_mem in_set_takeD)

lemma radio_step_ok: "radio_ok s \<Longrightarrow> \<exists>s'. radio_step s a = Inr s' \<and> radio_ok s'"
proof (cases a)
  case (RaEvent e)
  then show "radio_ok s \<Longrightarrow> ?thesis"
    using radio_press_ok by (cases e) (simp_all add: radio_step_def radio_handle_input_def)
next
  case (RaDraw sine sz)
  then show "radio_ok s \<Longrightarrow> ?thesis"
    using radio_preset_rects_band by (simp add: radio_step_def radio_draw_def update_visualizer_def radio_ok_def Let_def)
next
  case (RaSpawn r)
  then show "radio_ok s \<Longrightarrow> ?thesis" by (simp add: radio_step_def radio_spawn_def radio_ok_def split: list.split sum.split)
qed (simp_all add: radio_step_def radio_scan_def radio_scan_end_def radio_ok_def Let_def)

interpretation radio_app: event_app radio_step radio_ok
  by unfold_locales (rule radio_step_ok)

subsection \<open>Properties\<close>

text \<open>
  (C27) In double arithmetic the two tuning buttons move by exactly one tenth: on the double
  nearest to \<open>k/10\<close>, \<open>round(max(87.5, f - 0.1), 1)\<close> and \<open>round(min(108.0, f + 0.1), 1)\<close> are the
  doubles nearest to the neighbouring tenth, stopped at the ends of the band.
\<close>

theorem radio_tuning_exact:
  assumes "875 \<le> k" "k \<le> 1080"
  shows "tune_down (dbl k) = dbl (max 875 (k - 1)) \<and> tune_up (dbl k) = dbl (min 1080 (k + 1))"
  using tune_exact [OF assms] by blast

theorem radio_tuning_exact_witness:
  "tune_down (dbl 983) = dbl (max 875 (983 - 1)) \<and> tune_up (dbl 983) = dbl (min 1080 (983 + 1))"
  by (rule radio_tuning_exact) simp_all

text \<open>
  Whatever is touched, drawn or started, in any order, the radio never raises, its
  frequency is a one-decimal frequency of the FM band, its preset index is valid and its
  volume is a percentage.
\<close>

theorem radio_in_band:
  "\<exists>s. run_events radio_step radio_init acts = Inr s \<and> (\<exists>k. 875 \<le> k \<and> k \<le> 1080 \<and> ra_freq s = dbl k)
     \<and> 0 \<le> ra_selected s \<and> ra_selected s < 8 \<and> 0 \<le> ra_volume s \<and> ra_volume s \<le> 100"
  using radio_app.run_ok [OF radio_ok_init, of acts] by (auto simp: radio_ok_def in_band_def)

text \<open>
  Two stations chosen before the first receiver has started leave it running: \<open>stop\<close> only knows
  the process started last.
\<close>

lemma radio_orphan:
  assumes "ra_process s = None" "ra_threads s = []" "ra_running s = []" "p \<noteq> q"
  shows "ra_running (radio_stop (radio_spawn (Inr q) (radio_spawn (Inr p) (radio_play g (radio_play f s))))) = [(p, f)]"
  using assms by (simp add: radio_play_def radio_stop_def radio_spawn_def Let_def)

text \<open>
  The play button is 48 pixels wide but the next button starts 44 pixels to its right: a touch
  on the strip in between plays the current station and then moves the display to the next.
\<close>

lemma radio_overlap:
  assumes "ra_controls s = Some (radio_controls s)" "\<not> ra_playing s" "ra_selected s = 0" "184 \<le> x" "x \<le> 188" "196 \<le> y" "y \<le> 226"
    "ra_presets s = None" "ra_vol_rect s = None"
  shows "\<exists>s'. radio_press (x, y) s = Inr s' \<and> ra_playing s' \<and> ra_status s' = ''Playing '' @ freq_text (ra_freq s) @ '' MHz''
     \<and> ra_selected s' = 1 \<and> ra_freq s' = dbl 935"
  using assms
  by (simp add: radio_press_def radio_controls_def W_def radio_control_def radio_play_def Let_def presets_band(2) py_get_def py_index_def)
    (simp add: PRESETS_def)

lemma radio_needs_press: "(\<forall>p. e \<noteq> MouseDown p) \<Longrightarrow> radio_handle_input s e = Inr s"
  by (cases e) (simp_all add: radio_handle_input_def)

end
