(* ===== verification/Pin_Panels.thy ===== *)
theory Pin_Panels
  imports Julius_Prelude
begin

text \<open>
  The two button panels: the infra-red remote (\<^verbatim>\<open>src/src/apps/ir/ir.py\<close>) and the GPIO panel
  (\<^verbatim>\<open>src/src/apps/gpio/gpio.py\<close>). Both lay out six buttons in two columns and answer to a press
  (\<open>MOUSEBUTTONDOWN\<close>) only. What \<open>send_code\<close> prints is recorded.
\<close>

text \<open>The rectangle of button \<open>i\<close>, computed alike by \<open>draw\<close> and \<open>handle_input\<close> of both panels.\<close>

definition panel_btn :: "nat \<Rightarrow> rect" where
  "panel_btn i =
     (let pad = 8; btn_w = (240 - pad * 3) div 2; btn_h = 30
      in (pad + int (i mod 2) * (btn_w + pad), 32 + pad + int (i div 2) * (btn_h + pad), btn_w, btn_h))"

subsection \<open>The infra-red remote\<close>

definition IR_BUTTONS :: "(string \<times> string) list" where
  "IR_BUTTONS = [(''Power'', ''0x20DF10EF''), (''Vol +'', ''0x20DF40BF''), (''Vol -'', ''0x20DFC03F''),
     (''Ch +'', ''0x20DF00FF''), (''Ch -'', ''0x20DF807F''), (''Mute'', ''0x20DF906F'')]"

definition send_code :: "string \<Rightarrow> string list \<Rightarrow> string list" where
  "send_code code out = out @ [''Sending IR code: '' @ code]"

definition ir_draw :: "draw_cmd list" where
  "ir_draw =
     app_header ''IR Remote''
     @ concat (map (\<lambda>(i, name, code). case panel_btn i of (x, y, w, h) \<Rightarrow>
          [DRect ACCENT (x, y, w, h), DText name TEXT (x + 10, y + 9)]) (enum IR_BUTTONS)) @ [Flip]"

definition ir_handle_input :: "string list \<Rightarrow> event \<Rightarrow> string list" where
  "ir_handle_input out e =
     (case e of
        MouseDown p \<Rightarrow> fold (\<lambda>(i, name, code) o'. if collidepoint (panel_btn i) p then send_code code o' else o') (enum IR_BUTTONS) out
      | _ \<Rightarrow> out)"

subsection \<open>The GPIO panel\<close>

record gpio_pin =
  gp_pin :: int
  gp_name :: string
  gp_state :: bool

definition PINS :: "gpio_pin list" where
  "PINS = map (\<lambda>n. \<lparr>gp_pin = n, gp_name = ''PIN '' @ py_str_int n, gp_state = False\<rparr>) [1, 2, 3, 4, 5, 6]"

definition toggle_pin :: "nat \<Rightarrow> gpio_pin list \<Rightarrow> gpio_pin list" where
  "toggle_pin i pins = pins[i := (pins ! i)\<lparr>gp_state := \<not> gp_state (pins ! i)\<rparr>]"

definition gpio_draw :: "gpio_pin list \<Rightarrow> draw_cmd list" where
  "gpio_draw pins =
     app_header ''GPIO Control''
     @ concat (map (\<lambda>(i, pin). case panel_btn i of (x, y, w, h) \<Rightarrow>
          [DRect (if gp_state pin then GREEN else DIM) (x, y, w, h),
           DText (gp_name pin @ '' '' @ (if gp_state pin then ''ON'' else ''OFF'')) TEXT (x + 8, y + 9)]) (enum pins)) @ [Flip]"

definition gpio_handle_input :: "gpio_pin list \<Rightarrow> event \<Rightarrow> gpio_pin list" where
  "gpio_handle_input pins e =
     (case e of
        MouseDown p \<Rightarrow> fold (\<lambda>i ps. if collidepoint (panel_btn i) p then toggle_pin i ps else ps) [0..<length pins] pins
      | _ \<Rightarrow> pins)"

subsection \<open>Lemmas\<close>

lemma panel_btn_eq: "panel_btn i = (8 + 116 * int (i mod 2), 40 + 38 * int (i div 2), 108, 30)"
  by (simp add: panel_btn_def Let_def)

text \<open>The buttons do not overlap.\<close>

lemma panel_btn_disjoint:
  assumes "collidepoint (panel_btn i) p" "collidepoint (panel_btn j) p"
  shows "i = j"
proof -
  obtain x y where p: "p = (x, y)" by (cases p)
  have "a = (x - 8) div 116" if "8 + 116 * a \<le> x" "x < 116 + 116 * a" for a :: int
    using that by linarith
  moreover have "a = (y - 40) div 38" if "40 + 38 * a \<le> y" "y < 70 + 38 * a" for a :: int
    using that by linarith
  ultimately have "int (k mod 2) = (x - 8) div 116 \<and> int (k div 2) = (y - 40) div 38" if "collidepoint (panel_btn k) p" for k
    using that by (simp add: p panel_btn_eq)
  with assms have "int (i mod 2) = int (j mod 2)" "int (i div 2) = int (j div 2)" by metis+
  then show ?thesis by (metis div_mult_mod_eq of_nat_eq_iff)
qed

lemma fold_hit:
  assumes "i < n" "collidepoint (panel_btn i) p"
  shows "fold (\<lambda>j s. if collidepoint (panel_btn j) p then f j s else s) [0..<n] s = f i s"
proof -
  have skip: "fold (\<lambda>j s. if collidepoint (panel_btn j) p then f j s else s) js s = s" if "i \<notin> set js" for js s
    using that panel_btn_disjoint [OF _ assms(2)] by (induction js arbitrary: s) auto
  have "[0..<n] = [0..<i] @ i # [Suc i..<n]"
    using assms(1) by (metis le_add1 less_imp_add_positive upt_add_eq_append upt_conv_Cons add_0)
  with skip assms(2) show ?thesis by simp
qed

text \<open>
  A press inside the rectangle drawn for a pin toggles that pin and no other; a second press
  restores it.
\<close>

lemma gpio_press_toggles:
  assumes "i < length pins" "collidepoint (panel_btn i) p"
  shows "gpio_handle_input pins (MouseDown p) = toggle_pin i pins"
    and "gpio_handle_input (gpio_handle_input pins (MouseDown p)) (MouseDown p) = pins"
proof -
  have hit: "gpio_handle_input ps (MouseDown p) = toggle_pin i ps" if "i < length ps" for ps
    unfolding gpio_handle_input_def event.case by (rule fold_hit [OF that assms(2)])
  from hit [OF assms(1)] show "gpio_handle_input pins (MouseDown p) = toggle_pin i pins" .
  with hit [of "toggle_pin i pins"] assms(1)
  show "gpio_handle_input (gpio_handle_input pins (MouseDown p)) (MouseDown p) = pins"
    by (simp add: toggle_pin_def)
qed

lemma panels_need_press:
  "(\<forall>p. e \<noteq> MouseDown p) \<Longrightarrow> gpio_handle_input pins e = pins \<and> ir_handle_input out e = out"
  by (cases e) (simp_all add: gpio_handle_input_def ir_handle_input_def)

end
