(* ===== verification/Notes.thy ===== *)
theory Notes
  imports Julius_Prelude
begin

text \<open>
  The Notes application (\<^verbatim>\<open>src/src/apps/notes/notes.py\<close>): its state, \<open>load\<close> and \<open>save\<close>,
  the three screens and \<open>handle_input\<close>. A file holds the value that \<open>json.dump\<close> wrote and
  \<open>json.load\<close> reads back; an absent file is \<open>None\<close>.
\<close>

record note_entry =
  note_title :: string
  note_body :: string

datatype notes_mode = NList | NEdit | NView

datatype notes_stage = STitle | SBody

record notes_state =
  nnotes :: "note_entry list"
  nmode :: notes_mode
  nselected :: int
  nediting :: string
  ntitle :: string
  nstage :: notes_stage
  nscroll :: int
  notes_file :: "note_entry list option"

definition notes_load :: "note_entry list option \<Rightarrow> note_entry list" where
  "notes_load f = (case f of Some ns \<Rightarrow> ns | None \<Rightarrow> [])"

definition notes_init :: "note_entry list option \<Rightarrow> notes_state" where
  "notes_init f =
     \<lparr> nnotes = notes_load f, nmode = NList, nselected = 0, nediting = [], ntitle = [],
       nstage = STitle, nscroll = 0, notes_file = f \<rparr>"

definition notes_save :: "notes_state \<Rightarrow> notes_state" where
  "notes_save s = s\<lparr>notes_file := Some (nnotes s)\<rparr>"

definition note_lines :: "note_entry \<Rightarrow> string list" where
  "note_lines n = py_split newline_char (note_body n)"

subsection \<open>Screens\<close>

definition notes_draw_list :: "notes_state \<Rightarrow> draw_cmd list" where
  "notes_draw_list s =
     [Fill BG, DText ''Notes'' ACCENT (8, 8),
      DText (py_str_int (int (length (nnotes s))) @ '' notes'') DIM (180, 8),
      DLine ACCENT (0, 24) (240, 24)]
     @ (if nnotes s = [] then [DText ''No notes. Press N to create'' DIM (8, 120)]
        else draw_rows (nscroll s) 12 30 16
               (\<lambda>idx y n.
                  (if idx = nselected s then [highlight y 15] else [])
                  @ [DText (take 26 (note_title n)) (if idx = nselected s then ACCENT else TEXT) (8, y)])
               (nnotes s))
     @ app_footer ''N=new  ENTER=open  D=del''"

definition notes_draw_edit :: "notes_state \<Rightarrow> draw_cmd list" where
  "notes_draw_edit s =
     [Fill BG]
     @ (case nstage s of
          STitle \<Rightarrow>
            [DText ''Note Title:'' ACCENT (8, 8), DLine ACCENT (0, 24) (240, 24),
             DText (ntitle s @ ''_'') TEXT (8, 40)]
        | SBody \<Rightarrow>
            (let shown = py_slice (py_split newline_char (nediting s)) (- 12)
                                  (int (length (py_split newline_char (nediting s))))
             in [DText (take 26 (ntitle s)) ACCENT (8, 8), DLine ACCENT (0, 24) (240, 24)]
                @ map (\<lambda>(i, line). DText (take 30 line) TEXT (8, 30 + int i * 16)) (enum shown)
                @ [DText ''_'' GREEN (8, 30 + int (length shown) * 16)]))
     @ app_footer ''ENTER=newline  ESC=save''"

text \<open>
  \<open>draw_view\<close> blits a variable \<open>hint\<close> that is neither a local of the method nor a global of
  the module, so every call that gets past \<open>self.notes[self.selected]\<close> raises \<open>NameError\<close>.
\<close>

definition notes_draw_view :: "notes_state \<Rightarrow> draw_cmd list res" where
  "notes_draw_view s = res_bind (py_get (nnotes s) (nselected s)) (\<lambda>n. Inl NameError)"

definition notes_draw :: "notes_state \<Rightarrow> draw_cmd list res" where
  "notes_draw s =
     (case nmode s of
        NList \<Rightarrow> Inr (notes_draw_list s)
      | NEdit \<Rightarrow> Inr (notes_draw_edit s)
      | NView \<Rightarrow> notes_draw_view s)"

subsection \<open>Input\<close>

definition notes_key_list :: "notes_state \<Rightarrow> key \<Rightarrow> notes_state res" where
  "notes_key_list s k =
     (if k = K_n then Inr (s\<lparr>nmode := NEdit, nstage := STitle, ntitle := [], nediting := []\<rparr>)
      else if k = K_DOWN then
        (let c = nav_down 12 (int (length (nnotes s))) (nselected s, nscroll s)
         in Inr (s\<lparr>nselected := fst c, nscroll := snd c\<rparr>))
      else if k = K_UP then
        (let c = nav_up (nselected s, nscroll s)
         in Inr (s\<lparr>nselected := fst c, nscroll := snd c\<rparr>))
      else if k = K_RETURN then
        (if nnotes s \<noteq> [] then Inr (s\<lparr>nmode := NView, nscroll := 0\<rparr>) else Inr s)
      else if k = K_d then
        (if nnotes s \<noteq> [] then
           res_bind (py_pop (nnotes s) (nselected s))
             (\<lambda>ns. Inr (notes_save (s\<lparr>nnotes := ns, nselected := max 0 (nselected s - 1)\<rparr>)))
         else Inr s)
      else Inr s)"

definition notes_key_edit :: "notes_state \<Rightarrow> key \<Rightarrow> string \<Rightarrow> notes_state" where
  "notes_key_edit s k u =
     (case nstage s of
        STitle \<Rightarrow>
          (if k = K_RETURN \<and> ntitle s \<noteq> [] then s\<lparr>nstage := SBody\<rparr>
           else if k = K_BACKSPACE then s\<lparr>ntitle := butlast (ntitle s)\<rparr>
           else if k = K_ESCAPE then s\<lparr>nmode := NList\<rparr>
           else s\<lparr>ntitle := ntitle s @ u\<rparr>)
      | SBody \<Rightarrow>
          (if k = K_ESCAPE then
             (notes_save (s\<lparr>nnotes := nnotes s @ [\<lparr>note_title = ntitle s, note_body = nediting s\<rparr>]\<rparr>))
               \<lparr>nmode := NList, nstage := STitle\<rparr>
           else if k = K_RETURN then s\<lparr>nediting := nediting s @ [newline_char]\<rparr>
           else if k = K_BACKSPACE then s\<lparr>nediting := butlast (nediting s)\<rparr>
           else s\<lparr>nediting := nediting s @ u\<rparr>))"

definition notes_key_view :: "notes_state \<Rightarrow> key \<Rightarrow> notes_state res" where
  "notes_key_view s k =
     res_bind (py_get (nnotes s) (nselected s)) (\<lambda>n.
       (if k = K_ESCAPE then Inr (s\<lparr>nmode := NList, nscroll := 0\<rparr>)
        else if k = K_DOWN then
          Inr (if nscroll s < int (length (note_lines n)) - 12 then s\<lparr>nscroll := nscroll s + 1\<rparr> else s)
        else if k = K_UP then
          Inr (if nscroll s > 0 then s\<lparr>nscroll := nscroll s - 1\<rparr> else s)
        else if k = K_e then
          res_bind (py_pop (nnotes s) (nselected s))
            (\<lambda>ns. Inr (s\<lparr>nmode := NEdit, nstage := SBody, ntitle := note_title n,
                         nediting := note_body n, nnotes := ns\<rparr>))
        else Inr s))"

definition notes_handle_input :: "notes_state \<Rightarrow> event \<Rightarrow> notes_state res" where
  "notes_handle_input s e =
     (case e of
        KeyDown k u _ \<Rightarrow>
          (case nmode s of
             NList \<Rightarrow> notes_key_list s k
           | NEdit \<Rightarrow> Inr (notes_key_edit s k u)
           | NView \<Rightarrow> notes_key_view s k)
      | _ \<Rightarrow> Inr s)"

subsection \<open>Good states\<close>

text \<open>
  The selection is inside the list. While a note taken out of the list by \<open>e\<close> is being
  edited the selection may point one past the end: leaving the body stage always appends
  the note again.
\<close>

definition notes_ok :: "notes_state \<Rightarrow> bool" where
  "notes_ok s \<longleftrightarrow>
     0 \<le> nscroll s \<and> 0 \<le> nselected s \<and>
     (case nmode s of
        NList \<Rightarrow> sel_ok (int (length (nnotes s))) (nselected s)
      | NView \<Rightarrow> nselected s < int (length (nnotes s))
      | NEdit \<Rightarrow> (case nstage s of
                    STitle \<Rightarrow> sel_ok (int (length (nnotes s))) (nselected s)
                  | SBody \<Rightarrow> nselected s \<le> int (length (nnotes s))))"

lemma notes_ok_init: "notes_ok (notes_init f)"
  by (simp add: notes_ok_def notes_init_def)

lemma notes_save_simps [simp]:
  "nnotes (notes_save s) = nnotes s" "nmode (notes_save s) = nmode s"
  "nselected (notes_save s) = nselected s" "nscroll (notes_save s) = nscroll s"
  "nstage (notes_save s) = nstage s" "notes_file (notes_save s) = Some (nnotes s)"
  by (simp_all add: notes_save_def)

lemma notes_key_list_ok:
  assumes "notes_ok s" "nmode s = NList"
  shows "\<exists>s'. notes_key_list s k = Inr s' \<and> notes_ok s'"
proof -
  from assms have sel: "sel_ok (int (length (nnotes s))) (nselected s)" and scr: "0 \<le> nscroll s"
    by (simp_all add: notes_ok_def)
  then have sel0: "0 \<le> nselected s" by (simp add: sel_ok_def)
  have pop: "\<exists>ns. py_pop (nnotes s) (nselected s) = Inr ns
      \<and> int (length ns) = int (length (nnotes s)) - 1" if "nnotes s \<noteq> []"
  proof -
    from that sel have "nselected s < int (length (nnotes s))" by (auto simp: sel_ok_def)
    with sel0 show ?thesis by (auto simp: py_simps)
  qed
  from sel scr sel0 assms(2) show ?thesis
    using pop sel_ok_delete [OF sel] sel_ok_nav_down [OF sel, of 12 "nscroll s"]
      sel_ok_nav_up [OF sel, of "nscroll s"]
      nav_up_scroll_nonneg [of "(nselected s, nscroll s)"]
      nav_down_scroll_nonneg [of "(nselected s, nscroll s)" 12 "int (length (nnotes s))"]
    by (auto simp: notes_key_list_def notes_ok_def Let_def sel_ok_def)
qed

lemma notes_key_edit_ok: "notes_ok s \<Longrightarrow> nmode s = NEdit \<Longrightarrow> notes_ok (notes_key_edit s k u)"
  by (auto simp: notes_key_edit_def notes_ok_def sel_ok_def split: notes_stage.splits)

lemma notes_key_view_ok:
  "notes_ok s \<Longrightarrow> nmode s = NView \<Longrightarrow> \<exists>s'. notes_key_view s k = Inr s' \<and> notes_ok s'"
  by (auto simp: notes_key_view_def notes_ok_def sel_ok_def py_simps)

lemma note_eta [simp]: "\<lparr>note_title = note_title n, note_body = note_body n\<rparr> = (n :: note_entry)"
  by (cases n) simp

interpretation notes_app: event_app notes_handle_input notes_ok
proof
  fix s e
  assume "notes_ok s"
  then show "\<exists>s'. notes_handle_input s e = Inr s' \<and> notes_ok s'"
    using notes_key_list_ok notes_key_edit_ok notes_key_view_ok
    by (auto simp: notes_handle_input_def split: event.splits notes_mode.splits)
qed

subsection \<open>Properties\<close>

text \<open>
  Whatever the notes file holds and whatever events arrive, \<open>handle_input\<close> of the
  Notes application never raises and the selection stays inside the list (or one past it
  while a note taken out for editing is still in the editor).
\<close>

theorem notes_never_raises:
  "\<exists>s'. run_events notes_handle_input (notes_init f) es = Inr s' \<and> notes_ok s'"
  by (rule notes_app.run_ok [OF notes_ok_init])

lemma notes_type_title:
  "nmode s = NEdit \<and> nstage s = STitle \<Longrightarrow>
     run_events notes_handle_input s (type_text t) = Inr (s\<lparr>ntitle := ntitle s @ t\<rparr>)"
  by (rule run_type_text [where P = "\<lambda>s. nmode s = NEdit \<and> nstage s = STitle"
        and app = "\<lambda>s t. s\<lparr>ntitle := ntitle s @ t\<rparr>"])
     (auto simp: notes_handle_input_def notes_key_edit_def)

lemma notes_type_body:
  "nmode s = NEdit \<and> nstage s = SBody \<Longrightarrow>
     run_events notes_handle_input s (type_text t) = Inr (s\<lparr>nediting := nediting s @ t\<rparr>)"
  by (rule run_type_text [where P = "\<lambda>s. nmode s = NEdit \<and> nstage s = SBody"
        and app = "\<lambda>s t. s\<lparr>nediting := nediting s @ t\<rparr>"])
     (auto simp: notes_handle_input_def notes_key_edit_def)

text \<open>
  Writing a note: from the list, \<open>N\<close>, a non-empty title, \<open>ENTER\<close>, a body and \<open>ESC\<close>
  append exactly that note to the list, leave the list screen showing, and the file then
  holds the new list.
\<close>

theorem notes_write_saved:
  assumes "nmode s = NList" and "t \<noteq> []"
  shows "\<exists>s'. run_events notes_handle_input s
            ([press K_n] @ type_text t @ [press K_RETURN] @ type_text b @ [press K_ESCAPE]) = Inr s'
          \<and> nnotes s' = nnotes s @ [\<lparr>note_title = t, note_body = b\<rparr>]
          \<and> notes_file s' = Some (nnotes s') \<and> nmode s' = NList"
proof -
  let ?s1 = "s\<lparr>nmode := NEdit, nstage := STitle, ntitle := [], nediting := []\<rparr>"
  have 1: "notes_handle_input s (press K_n) = Inr ?s1"
    using assms by (simp add: notes_handle_input_def press_def notes_key_list_def)
  have 2: "run_events notes_handle_input ?s1 (type_text t) = Inr (?s1\<lparr>ntitle := t\<rparr>)"
    by (simp add: notes_type_title)
  have 3: "notes_handle_input (?s1\<lparr>ntitle := t\<rparr>) (press K_RETURN)
      = Inr (?s1\<lparr>ntitle := t, nstage := SBody\<rparr>)"
    using assms by (simp add: notes_handle_input_def press_def notes_key_edit_def)
  have 4: "run_events notes_handle_input (?s1\<lparr>ntitle := t, nstage := SBody\<rparr>) (type_text b)
      = Inr (?s1\<lparr>ntitle := t, nstage := SBody, nediting := b\<rparr>)"
    by (simp add: notes_type_body)
  show ?thesis
    using 1 2 3 4 by (simp add: run_events_append)
      (simp add: notes_handle_input_def press_def notes_key_edit_def)
qed

theorem notes_write_saved_witness:
  "\<exists>s'. run_events notes_handle_input (notes_init None)
            ([press K_n] @ type_text ''Shop'' @ [press K_RETURN] @ type_text ''milk'' @ [press K_ESCAPE]) = Inr s'
          \<and> nnotes s' = nnotes (notes_init None) @ [\<lparr>note_title = ''Shop'', note_body = ''milk''\<rparr>]
          \<and> notes_file s' = Some (nnotes s') \<and> nmode s' = NList"
  by (rule notes_write_saved) (simp_all add: notes_init_def)

text \<open>
  Editing loses nothing: opening the selected note for editing with \<open>E\<close> and leaving
  with \<open>ESC\<close> keeps the notes up to their order, puts the edited note last and saves the
  list.
\<close>

theorem notes_edit_keeps_notes:
  assumes "notes_ok s" and "nmode s = NView"
  shows "\<exists>s'. run_events notes_handle_input s [press K_e, press K_ESCAPE] = Inr s'
          \<and> mset (nnotes s') = mset (nnotes s)
          \<and> last (nnotes s') = nnotes s ! nat (nselected s)
          \<and> notes_file s' = Some (nnotes s')"
proof -
  from assms have "0 \<le> nselected s" and lt: "nselected s < int (length (nnotes s))"
    by (simp_all add: notes_ok_def)
  moreover from this have "nat (nselected s) < length (nnotes s)" by simp
  moreover note mset_del_nth [OF this]
  ultimately show ?thesis
    using assms(2)
    by (simp add: notes_handle_input_def press_def notes_key_view_def notes_key_edit_def py_simps)
qed

theorem notes_edit_keeps_notes_witness:
  "\<exists>s'. run_events notes_handle_input
            ((notes_init (Some [\<lparr>note_title = ''a'', note_body = ''x''\<rparr>, \<lparr>note_title = ''b'', note_body = ''y''\<rparr>]))\<lparr>nmode := NView\<rparr>)
            [press K_e, press K_ESCAPE] = Inr s'
          \<and> mset (nnotes s') = mset [\<lparr>note_title = ''a'', note_body = ''x''\<rparr>, \<lparr>note_title = ''b'', note_body = ''y''\<rparr>]
          \<and> last (nnotes s') = \<lparr>note_title = ''a'', note_body = ''x''\<rparr>
          \<and> notes_file s' = Some (nnotes s')"
  using notes_edit_keeps_notes [of "(notes_init (Some [\<lparr>note_title = ''a'', note_body = ''x''\<rparr>, \<lparr>note_title = ''b'', note_body = ''y''\<rparr>]))\<lparr>nmode := NView\<rparr>"]
  by (simp add: notes_init_def notes_load_def notes_ok_def)

end
