(* ===== verification/Ui_Apps.thy ===== *)
theory Ui_Apps
  imports Ui_Safety FM_Radio Pin_Panels Notes
begin

text \<open>
  The applications inside the main interface: what follows for them from the events the
  interface hands on (\<open>app_event\<close>: releases of a touch, and keys other than escape). An
  application's state after a run is the run of its own handler over the events of its name in
  the log.
\<close>

definition events_for :: "string \<Rightarrow> ui \<Rightarrow> event list" where
  "events_for n s = map snd (filter (\<lambda>(m, e). m = n) (inputs s))"

lemma events_for_app_event:
  assumes "run_events (ui_step env) (ui_init settings_file now nfile cloud_cfg) es = Inr s"
  shows "list_all app_event (events_for n s)"
proof -
  have "inputs_ok (ui_init settings_file now nfile cloud_cfg)"
    using ui_ok_init by (simp add: inputs_ok_def ui_init_def Let_def)
  from ui_inputs.run_invar [OF this assms] show ?thesis by (auto simp: inputs_ok_def events_for_def list_all_iff)
qed

lemma app_event_no_press: "app_event e \<Longrightarrow> e \<noteq> MouseDown p"
  by (auto simp: app_event_def)

text \<open>A property that every handed-on event keeps holds after all of them.\<close>

lemma run_handed_on:
  assumes "\<And>s e. I s \<Longrightarrow> app_event e \<Longrightarrow> \<exists>s'. step s e = Inr s' \<and> I s'"
  shows "list_all app_event es \<Longrightarrow> I s \<Longrightarrow> \<exists>s'. run_events step s es = Inr s' \<and> I s'"
proof (induction es arbitrary: s)
  case (Cons e es)
  then obtain s1 where "step s e = Inr s1" "I s1" using assms [of s e] by auto
  with Cons show ?case by simp
qed simp

subsection \<open>Notes without escape\<close>

text \<open>No note is added to what was there, in memory or in the file.\<close>

definition no_new_notes :: "note_entry list \<Rightarrow> notes_state \<Rightarrow> bool" where
  "no_new_notes ns s \<longleftrightarrow> notes_ok s \<and> mset (nnotes s) \<subseteq># mset ns \<and> mset (notes_load (notes_file s)) \<subseteq># mset ns"

lemma py_pop_subset: "py_pop xs i = Inr ys \<Longrightarrow> mset ys \<subseteq># mset xs"
proof -
  assume p: "py_pop xs i = Inr ys"
  then obtain k where "py_index (length xs) i = Some k" "ys = del_nth xs k" by (auto simp: py_pop_def split: option.splits)
  with py_index_SomeD mset_del_nth [of k xs] show ?thesis by (metis subset_mset.add_increasing2 mset_subset_eq_add_right add_mset_add_single mset_subset_eq_add_left)
qed

lemma no_new_notes_step:
  assumes "no_new_notes ns s" "app_event e"
  shows "\<exists>s'. notes_handle_input s e = Inr s' \<and> no_new_notes ns s'"
proof -
  obtain s' where s': "notes_handle_input s e = Inr s'" "notes_ok s'"
    using notes_app.step_ok [of s e] assms(1) by (auto simp: no_new_notes_def)
  have le: "mset (nnotes s) \<subseteq># mset ns" "mset (notes_load (notes_file s)) \<subseteq># mset ns" using assms(1) by (simp_all add: no_new_notes_def)
  have "mset (nnotes s') \<subseteq># mset ns \<and> mset (notes_load (notes_file s')) \<subseteq># mset ns"
    using s'(1) assms(2) le
    by (cases e) (auto simp: notes_handle_input_def notes_key_list_def notes_key_edit_def notes_key_view_def app_event_def
        notes_save_def notes_load_def res_bind_Inr_iff Let_def dest!: py_pop_subset intro: subset_mset.order_trans
        split: notes_mode.splits notes_stage.splits if_splits)
  with s' show ?thesis by (auto simp: no_new_notes_def)
qed

subsection \<open>Properties\<close>





end
