(* ===== verification/Ui_Crash.thy ===== *)
theory Ui_Crash
  imports Ui_Safety
begin

text \<open>
  When the main interface raises: a sound settings file and notification list, and at most
  one event per frame, leave one way to crash it, through the application switcher.
\<close>

definition numeric_cfg :: "config \<Rightarrow> bool" where
  "numeric_cfg c \<longleftrightarrow> numeric (cfg_get c ''brightness'' (VStr [])) \<and> numeric (cfg_get c ''volume'' (VStr []))"

definition sane :: "ui \<Rightarrow> bool" where
  "sane s \<longleftrightarrow> numeric_cfg (ui_cfg s) \<and> numeric (cc_brightness (ui_cc s)) \<and> numeric (cc_volume (ui_cc s))
     \<and> notifs_sound (nc_notifs (ui_nc s)) \<and> dr_drawable (ui_dr s)"

lemma numeric_simps [simp]: "numeric (VInt i)" "numeric (VBool b)" "\<not> numeric (VStr x)"
  by (simp_all add: numeric_def)

lemma numeric_cfg_upd: "numeric_cfg c \<Longrightarrow> numeric v \<Longrightarrow> numeric_cfg (c(k \<mapsto> v))"
  by (simp add: numeric_cfg_def)

subsection \<open>Handlers keep the state sane\<close>

lemma cc_perform_numeric: "numeric_cfg c \<Longrightarrow> numeric_cfg (fst (cc_perform a c))"
  by (simp add: cc_perform_def toggle_wifi_def toggle_bt_def toggle_airplane_def toggle_hotspot_def Let_def
      numeric_cfg_upd split: cc_action.split)

lemma cc_handle_touch_numeric:
  assumes "cc_handle_touch c s p = Inr (b, c', s', fx)"
    and "numeric_cfg c" "numeric (cc_brightness s)" "numeric (cc_volume s)"
  shows "numeric_cfg c' \<and> numeric (cc_brightness s') \<and> numeric (cc_volume s')"
proof -
  have "numeric_cfg c1" if "cc_perform a c = (c1, f1)" for a c1 f1
    using that cc_perform_numeric [OF assms(2), of a] by simp
  with assms show ?thesis
    by (auto simp: cc_handle_touch_def cc_touch_sliders_def cc_hide_def Let_def numeric_cfg_upd
        split: option.splits prod.splits if_splits)
qed

lemma tap_item_numeric: "numeric_cfg c \<Longrightarrow> numeric_cfg (fst (tap_item br p it c))"
  by (simp add: tap_item_def Let_def numeric_cfg_upd split: item_type.split)

lemma settings_tap_numeric: "numeric_cfg c \<Longrightarrow> numeric_cfg (fst (handle_settings_tap br p fl c))"
proof (induction br p fl c rule: handle_settings_tap.induct)
  case (2 br p iy it fl c)
  then show ?case using tap_item_numeric [of c br p it] by (auto split: prod.splits)
qed simp

lemma sane_cong:
  "ui_cfg t = ui_cfg s \<Longrightarrow> ui_cc t = ui_cc s \<Longrightarrow> ui_nc t = ui_nc s \<Longrightarrow>
     dr_drawable (ui_dr t) = dr_drawable (ui_dr s) \<Longrightarrow> sane t = sane s"
  by (simp add: sane_def)

lemma drawable_open_app [simp]: "dr_drawable (ui_dr (open_app env n s)) = dr_drawable (ui_dr s)"
  by (simp add: open_app_def Let_def fx_as_emit ui_simps)

lemma sane_simps [simp]:
  "sane (emit fx s) = sane s" "sane (open_app env n s) = sane s" "sane (end_touch s) = sane s"
  "sane (s\<lparr>show_switcher := b\<rparr>) = sane s" "sane (s\<lparr>show_folder := b\<rparr>) = sane s"
  "sane (s\<lparr>show_cc := b\<rparr>) = sane s" "sane (s\<lparr>show_notif := b\<rparr>) = sane s"
  "sane (s\<lparr>show_spotlight := b\<rparr>) = sane s" "sane (s\<lparr>show_ai := b\<rparr>) = sane s"
  "sane (s\<lparr>show_drop := b\<rparr>) = sane s" "sane (s\<lparr>show_cloud := b\<rparr>) = sane s"
  "sane (s\<lparr>ui_as := sw\<rparr>) = sane s" "sane (s\<lparr>ui_sp := sp\<rparr>) = sane s" "sane (s\<lparr>ui_fm := fm\<rparr>) = sane s"
  "sane (s\<lparr>ui_ai := ai\<rparr>) = sane s" "sane (s\<lparr>ui_dr := dr_show (ui_dr s)\<rparr>) = sane s"
  "sane (s\<lparr>ui_dr := dr_hide (ui_dr s)\<rparr>) = sane s" "sane (s\<lparr>ui_dr := dr_handle_touch (ui_dr s) p\<rparr>) = sane s"
  "sane (s\<lparr>ui_dr := dr_hide (dr_handle_touch (ui_dr s) p)\<rparr>) = sane s" "sane (s\<lparr>ui_cl := cl\<rparr>) = sane s"
  "sane (s\<lparr>ui_la := la\<rparr>) = sane s" "sane (s\<lparr>ui_state := st\<rparr>) = sane s" "sane (s\<lparr>swipe_count := nn\<rparr>) = sane s"
  "sane (s\<lparr>current_app := ca\<rparr>) = sane s" "sane (s\<lparr>current_page := pg\<rparr>) = sane s"
  "sane (s\<lparr>settings_scroll := k\<rparr>) = sane s" "sane (s\<lparr>items_flat_cache := fl\<rparr>) = sane s"
  "sane (s\<lparr>touch_start := a, touch_time := x\<rparr>) = sane s" "sane (s\<lparr>ui_running := r\<rparr>) = sane s"
  "sane (s\<lparr>ui_cc := cc_show (ui_cc s)\<rparr>) = sane s" "sane (s\<lparr>ui_cc := cc_hide (ui_cc s)\<rparr>) = sane s"
  "sane (s\<lparr>ui_nc := nc_show (ui_nc s)\<rparr>) = sane s" "sane (s\<lparr>ui_nc := nc_hide (ui_nc s)\<rparr>) = sane s"
  by (simp_all add: sane_def ui_simps end_touch_def cc_show_def cc_hide_def nc_show_def nc_hide_def)

lemma sane_spotlight_answer [simp]: "sane (spotlight_answer env a s) = sane s"
  by (simp add: spotlight_answer_def split: sp_answer.split)

lemma sane_up:
  "up_switcher env g p s = Inr s' \<Longrightarrow> sane s \<Longrightarrow> sane s'"
  "up_cc g p s = Inr s' \<Longrightarrow> sane s \<Longrightarrow> sane s'"
  "sane s \<Longrightarrow> sane (up_folder env g p s)" "sane s \<Longrightarrow> sane (up_notif g p s)"
  "sane s \<Longrightarrow> sane (up_spotlight env p s)" "sane s \<Longrightarrow> sane (up_ai g p s)"
  "sane s \<Longrightarrow> sane (up_drop g p s)" "sane s \<Longrightarrow> sane (up_cloud g p s)"
  "sane s \<Longrightarrow> sane (up_lock env now g s)" "sane s \<Longrightarrow> sane (up_home env g p s)"
  "sane s \<Longrightarrow> sane (up_app g p s)" "sane s \<Longrightarrow> sane (up_settings env g p s)"
  subgoal by (erule up_switcher_InrE) (simp split: as_answer.split)
  subgoal by (auto simp: up_cc_def res_bind_Inr_iff Let_def fx_as_emit sane_def ui_simps cc_hide_def
                dest: cc_handle_touch_numeric split: if_splits)
  subgoal by (simp add: up_folder_def Let_def split: prod.split fm_answer.split)
  subgoal using nc_touch_sound [of "ui_nc s" p] by (simp add: up_notif_def Let_def fx_as_emit sane_def ui_simps)
  subgoal by (simp add: up_spotlight_def split: prod.split)
  subgoal by (simp add: up_ai_def Let_def fx_as_emit)
  subgoal by (simp add: up_drop_def Let_def sane_def)
  subgoal by (simp add: up_cloud_def Let_def)
  subgoal by (simp add: up_lock_def Let_def fx_as_emit)
  subgoal by (simp add: up_home_def fx_as_emit split: option.split)
  subgoal by (simp add: up_app_def app_input_def fx_as_emit split: option.split)
  subgoal using settings_tap_numeric [of "ui_cfg s" "en_backend env" p "items_flat_cache s"]
    by (auto simp: up_settings_def Let_def fx_as_emit sane_def ui_simps split: prod.split)
  done

lemma sane_mouse_up:
  assumes "mouse_up env now p s = Inr s'" "sane s"
  shows "sane s'"
proof (cases "touch_start s")
  case None
  with assms show ?thesis by (simp add: mouse_up_def)
next
  case (Some st)
  with assms show ?thesis
    by (auto simp: mouse_up_def Let_def map_sum_Inr_iff sane_up split: if_splits screen_state.splits)
qed

lemma sane_escape: "sane (key_escape s) = sane s"
  by (auto simp: key_escape_def sane_def cc_hide_def nc_hide_def split: screen_state.split)

lemma sane_key_down:
  "key_down env k u c s = Inr s' \<Longrightarrow> sane s \<Longrightarrow> sane s'"
  using sane_escape [of s]
  by (auto simp: key_down_def res_bind_Inr_iff Let_def app_input_def split: if_splits option.splits)

lemma sane_step: "ui_step env s te = Inr s' \<Longrightarrow> sane s \<Longrightarrow> sane s'"
  by (cases "snd te")
    (auto simp: ui_step_def fx_as_emit mouse_wheel_def intro: sane_mouse_up sane_key_down split: if_splits)

interpretation sane_events: stepping_app "ui_step env" sane for env
  by unfold_locales (rule sane_step)

subsection \<open>Drawing\<close>

lemma draw_row_slider:
  "numeric_cfg c \<Longrightarrow> item_type it = ISlider \<Longrightarrow> item_key it \<in> {''brightness'', ''volume''} \<Longrightarrow> is_ok (draw_row c it)"
  by (auto simp: draw_row_def numeric_cfg_def Let_def numeric_def split: cval.splits)

lemma draw_row_ok:
  "numeric_cfg c \<Longrightarrow> item_type it = ISlider \<longrightarrow> item_key it \<in> {''brightness'', ''volume''} \<Longrightarrow> is_ok (draw_row c it)"
  using draw_row_slider [of c it] by (cases "item_type it") (auto simp: draw_row_def Let_def)

lemma draw_settings_rows_ok:
  "numeric_cfg c \<Longrightarrow>
   list_all (\<lambda>(y, it). item_type it = ISlider \<longrightarrow> item_key it \<in> {''brightness'', ''volume''}) fl \<Longrightarrow>
     is_ok (draw_settings_rows c fl)"
proof (induction c fl rule: draw_settings_rows.induct)
  case (2 c y it fl)
  then show ?case
    using draw_row_ok [of c it] by (cases "draw_row c it"; cases "draw_settings_rows c fl") auto
qed simp

lemma draw_settings_ok: "numeric_cfg c \<Longrightarrow> is_ok (draw_settings c k)"
  using draw_settings_rows_ok [of c "settings_items k"]
  by (cases "draw_settings_rows c (settings_items k)")
    (auto simp: draw_settings_def settings_items_def SETTINGS_SECTIONS_def mk_item_def)

lemma cc_draw_ok:
  "numeric (cc_brightness s) \<Longrightarrow> numeric (cc_volume s) \<Longrightarrow>
     \<exists>s'. cc_draw s = Inr s' \<and> numeric (cc_brightness s') \<and> numeric (cc_volume s')"
  by (auto simp: cc_draw_def cc_anim_def Let_def)

text \<open>
  What a frame leaves behind: the control centre has the rectangles its touch handler reads,
  and the cards of a switcher in front name recent applications, unless there are none.
\<close>

definition drawn :: "ui \<Rightarrow> bool" where
  "drawn s \<longleftrightarrow> ui_running s \<longrightarrow>
     (show_cc s \<longrightarrow> cc_visible (ui_cc s) \<longrightarrow> cc_toggle_rects (ui_cc s) \<noteq> None)
     \<and> (show_switcher s \<longrightarrow> as_visible (ui_as s) \<longrightarrow> as_recent (ui_as s) \<noteq> [] \<longrightarrow> cards_fresh (ui_as s))"

lemma draw_page_sane:
  assumes "sane s"
  shows "(\<exists>s'. draw_page env now s = Inr s' \<and> sane s') \<or> (\<exists>e. en_bars env = Inl e \<and> draw_page env now s = Inl e)"
proof -
  obtain fl where "draw_settings (ui_cfg s) (settings_scroll s) = Inr fl"
    using draw_settings_ok [of "ui_cfg s" "settings_scroll s"] assms
    by (cases "draw_settings (ui_cfg s) (settings_scroll s)") (auto simp: sane_def)
  with assms show ?thesis by (cases "en_bars env") (auto simp: draw_page_def split: screen_state.split)
qed

lemma draw_panels_sane:
  assumes "sane s"
  shows "\<exists>s'. draw_panels env s = Inr s' \<and> sane s' \<and> drawn s'"
proof -
  obtain nc where nc: "(if show_notif s then nc_draw (en_clear_width env) (ui_nc s) else Inr (ui_nc s)) = Inr nc"
    and nc5: "notifs_sound (nc_notifs nc)"
    using assms nc_draw_sound [of "ui_nc s" "en_clear_width env"] by (cases "show_notif s") (auto simp: sane_def)
  obtain cc where cc: "(if show_cc s then cc_draw (ui_cc s) else Inr (ui_cc s)) = Inr cc"
    and num: "numeric (cc_brightness cc)" "numeric (cc_volume cc)"
    and rects: "show_cc s \<longrightarrow> cc_visible cc \<longrightarrow> cc_toggle_rects cc \<noteq> None"
    using assms cc_draw_ok [of "ui_cc s"] cc_draw_visible [of "ui_cc s"] cc_draw_rects [of "ui_cc s"]
    by (cases "show_cc s") (auto simp: sane_def)
  obtain dr where dr: "(if show_drop s then dr_draw (ui_dr s) else Inr (ui_dr s)) = Inr dr" "dr_drawable dr"
    using assms dr_draw_ok [of "ui_dr s"] by (cases "show_drop s") (auto simp: sane_def)
  have cards: "as_visible (as_draw a) \<Longrightarrow> as_recent a \<noteq> [] \<Longrightarrow> cards_fresh (as_draw a)" for a
    using as_draw_fresh [of a] by (cases "as_visible a") (auto simp: as_draw_def)
  show ?thesis
    using assms nc5 num rects cards dr(2)
    by (simp add: draw_panels_def nc cc dr(1) sane_def drawn_def)
qed

lemma ui_draw_sane:
  "sane s \<Longrightarrow> (\<exists>s'. ui_draw env now s = Inr s' \<and> sane s' \<and> drawn s') \<or> (\<exists>e. en_bars env = Inl e \<and> ui_draw env now s = Inl e)"
  using draw_page_sane [of s env now] draw_panels_sane [of _ env]
  by (cases "ui_running s") (fastforce simp: ui_draw_def drawn_def)+

subsection \<open>Steps\<close>

lemma is_ok_Inl: "r = Inl x \<Longrightarrow> \<not> is_ok r"
  by simp

lemma as_touch_hidden: "\<not> as_visible s \<Longrightarrow> is_ok (as_handle_touch s p l r)"
  by (simp add: as_handle_touch_def)

lemma as_touch_error: "as_handle_touch s p l r = Inl x \<Longrightarrow> x = ValueError"
proof -
  have "as_touch_cards p cs s = Inl x \<Longrightarrow> x = ValueError" for cs
    by (induction p cs s rule: as_touch_cards.induct) (auto simp: py_remove_def split: if_splits)
  then show "as_handle_touch s p l r = Inl x \<Longrightarrow> x = ValueError"
    by (auto simp: as_handle_touch_def split: if_splits option.splits)
qed

lemma up_switcher_raises:
  assumes "drawn s" "ui_running s" "show_switcher s" "up_switcher env g p s = Inl x"
  shows "x = ValueError \<and> as_recent (ui_as s) = []"
proof -
  from assms(4) have e: "as_handle_touch (ui_as s) p (is_swipe_left g) (is_swipe_right g) = Inl x"
    by (auto simp: up_switcher_def res_bind_Inl_iff Let_def)
  with as_touch_hidden [of "ui_as s"] as_handle_touch_fresh [of "ui_as s"] assms as_touch_error [OF e]
  show ?thesis unfolding drawn_def by (metis is_ok_Inl)
qed

lemma up_cc_total:
  assumes "drawn s" "ui_running s" "show_cc s"
  shows "is_ok (up_cc g p s)"
  using assms cc_handle_touch_ok [of "ui_cc s" "ui_cfg s" p]
  by (cases "cc_handle_touch (ui_cfg s) (ui_cc s) p") (auto simp: up_cc_def drawn_def Let_def)

lemma key_down_total: "ui_ok s \<Longrightarrow> is_ok (key_down env k u c s)"
  using sp_handle_key_ok [of "ui_sp s" "map fst APPS" k u] core_as_sp(2) [OF ui_okD, of s]
  by (auto simp: key_down_def Let_def)

lemma map_sum_Inl_iff: "map_sum f g x = Inl y \<longleftrightarrow> (\<exists>z. x = Inl z \<and> y = f z)"
  by (cases x) auto

lemma mouse_up_raises:
  assumes "drawn s" "ui_running s" "mouse_up env now p s = Inl x"
  shows "x = ValueError \<and> show_switcher s \<and> as_recent (ui_as s) = []"
proof (cases "touch_start s")
  case None
  with assms show ?thesis by (simp add: mouse_up_def)
next
  case (Some st)
  define g where "g = mk_gesture st p (now - touch_time s)"
  show ?thesis
  proof (cases "show_switcher s")
    case True
    with assms Some have "up_switcher env g p s = Inl x"
      by (simp add: mouse_up_def g_def Let_def map_sum_Inl_iff)
    with True up_switcher_raises [OF assms(1,2)] show ?thesis by blast
  next
    case False
    with assms Some up_cc_total [OF assms(1,2), of g p] show ?thesis
      by (auto simp: mouse_up_def g_def [symmetric] Let_def map_sum_Inl_iff split: if_splits screen_state.splits)
  qed
qed

lemma ui_step_raises:
  assumes "ui_ok s" "drawn s" "ui_step env s te = Inl x"
  shows "x = ValueError \<and> show_switcher s \<and> as_recent (ui_as s) = []"
proof -
  have "key_down env k u c s \<noteq> Inl x" for k u c using key_down_total [OF assms(1), of env k u c] by auto
  with assms mouse_up_raises [OF assms(2), of env "fst te" _ x] show ?thesis
    by (cases "snd te") (auto simp: ui_step_def split: if_splits)
qed

definition healthy :: "ui \<Rightarrow> bool" where
  "healthy s \<longleftrightarrow> ui_ok s \<and> sane s \<and> drawn s"

lemma healthy_loop:
  assumes "healthy s" "ui_loop s f = Inr s'"
  shows "healthy s'"
proof -
  from assms(2) obtain s1 where s1: "run_events (ui_step (fst f)) s (snd (snd f)) = Inr s1"
    and d: "ui_draw (fst f) (fst (snd f)) s1 = Inr s'"
    by (auto simp: ui_loop_def ui_frame_def res_bind_Inr_iff)
  have "sane s1" using sane_events.run_invar [OF _ s1] assms(1) by (simp add: healthy_def)
  with ui_draw_sane [OF this, of "fst f" "fst (snd f)"] d ui_loop_ok [OF _ assms(2)] assms(1)
  show ?thesis by (auto simp: healthy_def)
qed

interpretation healthy_frames: stepping_app ui_loop healthy
  by unfold_locales (rule healthy_loop)

lemma healthy_loop_raises:
  assumes h: "healthy s" and one: "length (snd (snd f)) \<le> 1" and bars: "is_ok (en_bars (fst f))" and e: "ui_loop s f = Inl x"
  shows "x = ValueError \<and> show_switcher s \<and> as_recent (ui_as s) = []"
proof -
  have draw: "ui_draw (fst f) (fst (snd f)) t \<noteq> Inl x" if "sane t" for t
    using ui_draw_sane [OF that, of "fst f" "fst (snd f)"] bars by (auto simp: is_ok_iff)
  from h have ok: "ui_ok s" "sane s" "drawn s" by (simp_all add: healthy_def)
  show ?thesis
  proof (cases "snd (snd f)")
    case Nil
    with e draw ok show ?thesis by (simp add: ui_loop_def ui_frame_def)
  next
    case (Cons te rest)
    with one have "rest = []" by simp
    with Cons e have "res_bind (ui_step (fst f) s te) (ui_draw (fst f) (fst (snd f))) = Inl x"
      by (cases "ui_step (fst f) s te") (simp_all add: ui_loop_def ui_frame_def)
    then have "ui_step (fst f) s te = Inl x"
      using draw sane_step [of "fst f" s te] ok(2) unfolding res_bind_Inl_iff by blast
    then show ?thesis using ui_step_raises ok by blast
  qed
qed

lemma healthy_init:
  assumes "numeric_cfg (load_settings sf)" "notifs_sound (nc_load now nf)"
  shows "healthy (ui_init sf now nf cc)"
proof -
  have "numeric (cfg_get (load_settings sf) k (VStr [])) \<Longrightarrow> numeric (cfg_get (load_settings sf) k (VInt i))" for k i
    by (auto simp: cfg_get_def split: option.splits)
  with assms show ?thesis
    using ui_ok_init [of sf now nf cc]
    by (simp add: healthy_def sane_def drawn_def ui_init_def Let_def cc_init_def nc_init_def numeric_cfg_def)
qed

subsection \<open>Properties\<close>


definition crash_frames :: "(ui_env \<times> rat \<times> (rat \<times> event) list) list" where
  "crash_frames = map (\<lambda>(t, e). (demo_env, t, [(t, e)]))
     [(0, MouseDown (200, 200)), (0, MouseUp (100, 200)), (0, MouseDown (200, 200)), (0, MouseUp (100, 200)),
      (1, MouseDown (20, 140)), (1, MouseUp (20, 140)), (2, MouseDown (100, 200)), (2, MouseUp (200, 200)),
      (3, MouseDown (200, 300)), (4, MouseUp (200, 200)), (5, MouseDown (226, 130)), (5, MouseUp (226, 130)),
      (6, MouseDown (226, 130)), (6, MouseUp (226, 130))]"


definition nameless_beacon :: "string \<Rightarrow> jdict" where
  "nameless_beacon ip = [(''type'', JStr ''julius_drop''), (''ip'', JStr ip)]"

lemma dr_rows_raise: "\<forall>d\<in>set ds. is_ok (dr_row d) \<Longrightarrow> dr_row d' = Inl x \<Longrightarrow> dr_rows y (ds @ d' # ds') = Inl x"
proof (induction ds arbitrary: y)
  case (Cons d ds)
  then obtain ip where "dr_row d = Inr ip" by (auto simp: is_ok_iff)
  with Cons show ?case by simp
qed simp

text \<open>
  (C9) Any device of the local network can stop the interface: a beacon that names an address
  but no device is listed, and the next frame that draws the Drop panel raises \<open>KeyError\<close>,
  which the main loop does not catch.
\<close>

theorem beacon_stops_ui:
  assumes data: "data = utf8 (json_dumps (JObj (nameless_beacon ip)))" "length data \<le> 1024"
    and new: "ip \<noteq> my_ip" "Some (JStr ip) \<notin> set (map (\<lambda>d. map_of d ''ip'') (dr_nearby (ui_dr s)))" "length (dr_nearby (ui_dr s)) < 4"
    and s: "dr_drawable (ui_dr s)" "dr_visible (ui_dr s)" "show_drop s" "\<not> show_notif s" "\<not> show_cc s" "ui_running s" "ui_state s = SHome" "is_ok (en_bars env)"
  shows "ui_draw env now (s\<lparr>ui_dr := dr_datagram my_ip data (ui_dr s)\<rparr>) = Inl KeyError"
proof -
  let ?ds = "dr_nearby (ui_dr s)"
  have "json_loads (json_dumps (JObj (nameless_beacon ip))) = Some (JObj (nameless_beacon ip))"
    by (rule json_loads_dumps) (simp add: nameless_beacon_def)
  then have d: "dr_datagram my_ip data (ui_dr s) = (ui_dr s)\<lparr>dr_nearby := ?ds @ [nameless_beacon ip]\<rparr>"
    using data new by (simp add: dr_datagram_def latin1_code_points dr_listen_def del: json_dumps.simps) (simp add: nameless_beacon_def)
  have "dr_rows 116 (?ds @ nameless_beacon ip # []) = Inl KeyError"
    by (rule dr_rows_raise) (use s(1) in \<open>simp_all add: dr_drawable_def dr_row_def nameless_beacon_def\<close>)
  then have "dr_draw (dr_datagram my_ip data (ui_dr s)) = Inl KeyError"
    using s(2) new(3) by (simp add: d dr_draw_def)
  with s show ?thesis by (auto simp: ui_draw_def draw_page_def draw_panels_def is_ok_iff)
qed

theorem beacon_stops_ui_witness:
  "ui_draw demo_env 0 ((demo_start\<lparr>ui_state := SHome, show_drop := True, ui_dr := dr_show dr_init\<rparr>)
     \<lparr>ui_dr := dr_datagram ''10.0.0.1'' (utf8 (json_dumps (JObj (nameless_beacon ''6.6''))))
        (ui_dr (demo_start\<lparr>ui_state := SHome, show_drop := True, ui_dr := dr_show dr_init\<rparr>))\<rparr>) = Inl KeyError"
proof (rule beacon_stops_ui)
  show "length (utf8 (json_dumps (JObj (nameless_beacon ''6.6'')))) \<le> 1024" by code_simp
  show "''6.6'' \<noteq> ''10.0.0.1''" by code_simp
qed (simp_all add: demo_env_def demo_start_def ui_init_def Let_def dr_show_def dr_init_def dr_drawable_def)

end
