(* ===== verification/Home_Screen.thy ===== *)
theory Home_Screen
  imports Ui_Invariant
begin

text \<open>
  The geometry of the home screen: the icons of a page do not overlap, a touch on an icon
  finds its application, and some applications have no icon a finger can reach.
\<close>

lemma find_unique:
  assumes "x \<in> set xs" "P x" "\<And>y. y \<in> set xs \<Longrightarrow> P y \<Longrightarrow> y = x"
  shows "find P xs = Some x"
  using assms
proof (induction xs)
  case (Cons a xs)
  show ?case
  proof (cases "P a")
    case True
    with Cons.prems(3) [of a] show ?thesis by simp
  next
    case False
    with Cons.prems(1,2) have "x \<in> set xs" by auto
    from Cons.IH [OF this Cons.prems(2)] Cons.prems(3) have "find P xs = Some x" by simp
    with False show ?thesis by simp
  qed
qed simp

lemma icon_size: "icon_size = 68"
  by (simp add: icon_size_def W_def)

text \<open>A point on an icon determines its column and row, hence its index.\<close>

lemma icon_rect_index:
  assumes "in_rect (icon_rect i) p"
  shows "int i = (snd p - 132) div 93 * 4 + (fst p - 9) div 77"
proof -
  obtain x y where p: "p = (x, y)" by (cases p)
  from assms have x: "77 * int (i mod 4) \<le> x - 9" "x - 9 < 77 * int (i mod 4) + 77"
    and y: "93 * int (i div 4) \<le> y - 132" "y - 132 < 93 * int (i div 4) + 93"
    by (simp_all add: p icon_rect_def icon_size)
  have "(x - 9) div 77 = int (i mod 4)" using x by linarith
  moreover have "(y - 132) div 93 = int (i div 4)" using y by linarith
  moreover have "int i = int (i div 4) * 4 + int (i mod 4)"
    by (metis div_mult_mod_eq of_nat_add of_nat_mult of_nat_numeral)
  ultimately show ?thesis by (simp add: p)
qed

lemma icon_rect_disjoint: "in_rect (icon_rect i) p \<Longrightarrow> in_rect (icon_rect j) p \<Longrightarrow> i = j"
  using icon_rect_index [of i p] icon_rect_index [of j p] by simp

lemma page_find:
  assumes "i < length xs" "in_rect (icon_rect i) p"
  shows "find (\<lambda>(i, n). in_rect (icon_rect i) p) (enum xs) = Some (i, xs ! i)"
proof (rule find_unique)
  show "(i, xs ! i) \<in> set (enum xs)" using assms(1) by (simp add: set_enum_iff)
  show "y = (i, xs ! i)" if "y \<in> set (enum xs)" "case y of (i, n) \<Rightarrow> in_rect (icon_rect i) p" for y
  proof (cases y)
    case (Pair j n)
    with that icon_rect_disjoint [OF assms(2), of j] show ?thesis by (simp add: set_enum_iff)
  qed
qed (use assms(2) in simp)

lemma dock_apps_eq: "dock_apps = [''Terminal'', ''WiFi'', ''AI'', ''Settings'']"
  by code_simp

lemma dock_rect_eq: "dock_rect i = (34 + 68 * int i, 417, 46, 46)"
  by (simp add: dock_rect_def dock_apps_eq W_def H_def Let_def)

lemma page_apps_eq:
  "page_apps 0 = [''Terminal'', ''WiFi'', ''IR'', ''Bluetooth'', ''Connect'', ''Transfer'', ''Scanner'', ''Files'',
     ''SysMon'', ''SSH'', ''Notes'', ''NetTools'', ''Packets'', ''Clipboard'', ''Hotspot'', ''GPIO'']"
  "page_apps 1 = [''Calc'', ''Todo'', ''Passwords'', ''Weather'', ''Hasher'', ''Encoder'', ''NetMon'', ''Editor'',
     ''Timer'', ''WakeOnLAN'', ''SpeedTest'', ''ProcKill'', ''NetMapper'', ''SysInfo'', ''Firewall'',
     ''Logs'', ''USB'', ''Drop'', ''Cloud'', ''AI'', ''Radio'', ''Maps'', ''Settings'']"
  by code_simp+

text \<open>The two middle icons of the dock lie wholly under the last row of the page.\<close>

lemma dock_shadowed:
  "i \<in> {1, 2} \<Longrightarrow> in_rect (dock_rect i) p \<Longrightarrow> in_rect (icon_rect (12 + i)) p"
  by (cases p) (auto simp: dock_rect_eq icon_rect_def icon_size)

lemma tapped_cases:
  assumes "get_tapped_app pg p = Some n"
  shows "(\<exists>i < length (page_apps pg). in_rect (icon_rect i) p \<and> n = page_apps pg ! i) \<or>
    (\<exists>i < 4. in_rect (dock_rect i) p \<and> n = dock_apps ! i \<and>
       (\<forall>j < length (page_apps pg). \<not> in_rect (icon_rect j) p))"
proof (cases "\<exists>i < length (page_apps pg). in_rect (icon_rect i) p")
  case True
  then obtain i where "i < length (page_apps pg)" "in_rect (icon_rect i) p" by blast
  with page_find [of i "page_apps pg" p] assms show ?thesis by (auto simp: get_tapped_app_def)
next
  case False
  then have "find (\<lambda>(i, n). in_rect (icon_rect i) p) (enum (page_apps pg)) = None"
    by (auto simp: find_None_iff set_enum_iff)
  with assms obtain i where "find (\<lambda>(i, n). in_rect (dock_rect i) p) (enum dock_apps) = Some (i, n)"
    by (auto simp: get_tapped_app_def split: option.splits)
  then obtain k where "k < length (enum dock_apps)" "in_rect (dock_rect i) p" "(i, n) = enum dock_apps ! k"
    by (auto simp: find_Some_iff)
  then have "(i, n) \<in> set (enum dock_apps)" "in_rect (dock_rect i) p" by (simp_all only: nth_mem)
  then have "i < 4" "n = dock_apps ! i" "in_rect (dock_rect i) p"
    by (auto simp: set_enum_iff dock_apps_eq)
  with False show ?thesis by blast
qed

lemma icon_on_screen: "in_rect (icon_rect i) p \<Longrightarrow> snd p < H \<Longrightarrow> i < 16"
proof -
  assume a: "in_rect (icon_rect i) p" "snd p < H"
  then have "int (i div 4) * 93 < 348" by (cases p) (auto simp: icon_rect_def icon_size H_def)
  then have "i div 4 < 4" by linarith
  then show "i < 16" by (simp add: div_less_iff_less_mult)
qed

definition offscreen :: "string list" where
  "offscreen = [''AI'', ''Drop'', ''Cloud'', ''USB'', ''Radio'', ''Maps'', ''Settings'']"

lemma page_visible:
  assumes "pg \<le> 1"
  shows "16 \<le> length (page_apps pg)" "list_all (\<lambda>m. m \<notin> set offscreen) (take 16 (page_apps pg))"
proof -
  have "16 \<le> length (page_apps 0)" "16 \<le> length (page_apps 1)"
    "list_all (\<lambda>m. m \<notin> set offscreen) (take 16 (page_apps 0))"
    "list_all (\<lambda>m. m \<notin> set offscreen) (take 16 (page_apps 1))"
    by code_simp+
  moreover have "pg = 0 \<or> pg = 1" using assms by auto
  ultimately show "16 \<le> length (page_apps pg)" "list_all (\<lambda>m. m \<notin> set offscreen) (take 16 (page_apps pg))"
    by (elim disjE; simp only:)+
qed

subsection \<open>Properties\<close>

text \<open>
  Touching an icon of the page in front opens the application drawn there: icons do
  not overlap, and the page is searched before the dock.
\<close>

theorem icon_tap:
  "i < length (page_apps pg) \<Longrightarrow> in_rect (icon_rect i) p \<Longrightarrow> get_tapped_app pg p = Some (page_apps pg ! i)"
  by (simp add: get_tapped_app_def page_find)

theorem icon_tap_witness: "get_tapped_app 0 (130, 260) = Some ''Transfer''"
  using icon_tap [of 5 0 "(130, 260)"] by (simp add: page_apps_eq icon_rect_def icon_size)

text \<open>
  No touch on the screen opens AI, Drop, Cloud, USB, Radio or Maps from the home
  screen: their icons lie below its edge or, for AI in the dock, under the last row of the
  page. Settings is reached through a strip two pixels wide.
\<close>

theorem unreachable_icons:
  "pg \<le> 1 \<Longrightarrow> snd p < H \<Longrightarrow> get_tapped_app pg p = Some n \<Longrightarrow>
     n \<notin> {''AI'', ''Drop'', ''Cloud'', ''USB'', ''Radio'', ''Maps''} \<and> (n = ''Settings'' \<longrightarrow> fst p \<in> {238, 239})"
proof -
  assume pg: "pg \<le> 1" and y: "snd p < H" and tap: "get_tapped_app pg p = Some n"
  note page = page_visible [OF pg]
  from tapped_cases [OF tap] show ?thesis
  proof (elim disjE exE conjE)
    fix i assume i: "i < length (page_apps pg)" "in_rect (icon_rect i) p" "n = page_apps pg ! i"
    with icon_on_screen [OF i(2) y] page(1) have "n \<in> set (take 16 (page_apps pg))"
      using nth_mem [of i "take 16 (page_apps pg)"] by simp
    with page(2) have "n \<notin> set offscreen" unfolding list_all_iff by blast
    then show ?thesis by (simp add: offscreen_def)
  next
    fix i assume i: "i < 4" "in_rect (dock_rect i) p" "n = dock_apps ! i"
      and none: "\<forall>j < length (page_apps pg). \<not> in_rect (icon_rect j) p"
    have "\<not> in_rect (icon_rect (12 + i)) p" using none i(1) page(1) by simp
    with dock_shadowed [of i p] i(2) have "i \<notin> {1, 2}" by blast
    with i(1) have "i = 0 \<or> i = 3" by auto
    moreover have "i = 3 \<Longrightarrow> fst p \<in> {238, 239}"
      using i(2) none [rule_format, of 15] page(1) by (cases p) (simp add: dock_rect_eq icon_rect_def icon_size, linarith)
    ultimately show ?thesis using i(3) by (elim disjE) (simp_all add: dock_apps_eq)
  qed
qed

theorem unreachable_icons_witness: "get_tapped_app 1 (238, 420) = Some ''Settings'' \<and> (238::int) \<in> {238, 239}"
proof -
  have tap: "get_tapped_app 1 (238, 420) = Some ''Settings''" by code_simp
  from unreachable_icons [OF _ _ tap] tap show ?thesis by (simp add: H_def)
qed

end
