(* ===== verification/Launchers.thy ===== *)
theory Launchers
  imports Complex_Main Julius_Prelude
begin

text \<open>
  The two launchers of the small screen: \<^verbatim>\<open>src/src/run.py\<close> with its gestures and list of
  recent applications, and \<^verbatim>\<open>src/src/launcher/launcher.py\<close>. The applications are a parameter:
  a function for \<open>handle_input\<close>, which may raise, and one for \<open>draw\<close>, over a value that holds
  the states of all of them. The time is an argument of a frame, as \<open>time.time()\<close> is read
  once per frame.
\<close>

subsection \<open>The cards\<close>

definition LW :: int where "LW = 240"
definition LH :: int where "LH = 240"
definition PAD :: int where "PAD = 8"

definition CARD_APPS :: "string list" where
  "CARD_APPS =
     [''Terminal'', ''WiFi'', ''IR'', ''Bluetooth'', ''GPIO'', ''Connect'', ''Transfer'', ''Clipboard'',
      ''Hotspot'', ''Scanner'', ''Files'', ''SysMon'', ''SSH'', ''Notes'', ''NetTools'', ''Packets'',
      ''WakeOnLAN'', ''SpeedTest'', ''Calc'', ''Todo'', ''Passwords'', ''Weather'', ''Hasher'', ''Encoder'',
      ''NetMon'', ''Editor'', ''Timer'', ''ProcKill'', ''NetMapper'', ''SysInfo'', ''Firewall'', ''Logs'',
      ''USB'', ''Settings'']"

definition card_w :: int where "card_w = (LW - PAD * 3) div 2"
definition card_h :: int where "card_h = (LH - 28 - PAD * 4) div 3"

definition get_max_scroll :: int where
  "get_max_scroll = max 0 ((int (length CARD_APPS) + 1) div 2 * (card_h + PAD) - (LH - 28))"

definition card_at :: "int \<Rightarrow> nat \<Rightarrow> rect" where
  "card_at scroll i =
     (PAD + int (i mod 2) * (card_w + PAD), 28 + PAD + int (i div 2) * (card_h + PAD) - scroll, card_w, card_h)"

definition tapped_card :: "int \<Rightarrow> pos \<Rightarrow> string option" where
  "tapped_card scroll p =
     map_option snd (find (\<lambda>(i, n). collidepoint (card_at scroll i) p) (enum CARD_APPS))"

definition recent_at :: "nat \<Rightarrow> rect" where
  "recent_at i = (PAD + int (i mod 2) * (card_w + PAD), 32 + int (i div 2) * (50 + PAD), card_w, 50)"

definition tapped_recent :: "string list \<Rightarrow> pos \<Rightarrow> string option" where
  "tapped_recent recent p = map_option snd (find (\<lambda>(i, n). collidepoint (recent_at i) p) (enum (take 6 recent)))"

text \<open>The cards \<open>draw_launcher\<close> draws: those not wholly above or below the list.\<close>

definition drawn_cards :: "int \<Rightarrow> (rect \<times> string) list" where
  "drawn_cards scroll =
     map (\<lambda>(i, n). (card_at scroll i, n))
       (filter (\<lambda>(i, n). let y = fst (snd (card_at scroll i)) in \<not> (y + card_h < 28 \<or> y > LH)) (enum CARD_APPS))"

subsection \<open>run.py\<close>

record 'w run_state =
  rn_current :: "string option"
  rn_scroll :: int
  rn_recent :: "string list"
  rn_show_recent :: bool
  rn_drag :: pos
  rn_drag_time :: rat
  rn_dragging :: bool
  rn_drag_scroll :: int
  rn_running :: bool
  rn_apps :: 'w

definition run_init :: "'w \<Rightarrow> 'w run_state" where
  "run_init w = \<lparr>rn_current = None, rn_scroll = 0, rn_recent = [], rn_show_recent = False, rn_drag = (0, 0),
     rn_drag_time = 0, rn_dragging = False, rn_drag_scroll = 0, rn_running = True, rn_apps = w\<rparr>"

definition run_open_app :: "string \<Rightarrow> 'w run_state \<Rightarrow> 'w run_state" where
  "run_open_app n s =
     (let r = n # (if n \<in> set (rn_recent s) then remove1 n (rn_recent s) else rn_recent s)
      in s\<lparr>rn_current := Some n, rn_show_recent := False, rn_recent := (if length r > 6 then take 6 r else r)\<rparr>)"

definition run_mouse_down :: "rat \<Rightarrow> pos \<Rightarrow> 'w run_state \<Rightarrow> 'w run_state" where
  "run_mouse_down now p s =
     s\<lparr>rn_drag := p, rn_drag_time := now, rn_drag_scroll := rn_scroll s, rn_dragging := False\<rparr>"

definition run_mouse_motion :: "pos \<Rightarrow> bool \<Rightarrow> 'w run_state \<Rightarrow> 'w run_state" where
  "run_mouse_motion p pressed s =
     (if pressed then
        (let dx = fst p - fst (rn_drag s); dy = snd p - snd (rn_drag s);
             s1 = (if \<bar>dy\<bar> > 5 \<or> \<bar>dx\<bar> > 5 then s\<lparr>rn_dragging := True\<rparr> else s)
         in if rn_current s1 = None \<and> \<not> rn_show_recent s1
            then s1\<lparr>rn_scroll := max 0 (min (rn_drag_scroll s1 - dy) get_max_scroll)\<rparr> else s1)
      else s)"

definition go_home :: "'w run_state \<Rightarrow> 'w run_state" where
  "go_home s = s\<lparr>rn_current := None, rn_show_recent := False\<rparr>"

definition run_tap :: "pos \<Rightarrow> 'w run_state \<Rightarrow> 'w run_state" where
  "run_tap p s =
     (if rn_show_recent s then
        (case tapped_recent (rn_recent s) p of Some n \<Rightarrow> run_open_app n s | None \<Rightarrow> s)
      else if rn_current s = None then
        (case tapped_card (rn_scroll s) p of Some n \<Rightarrow> run_open_app n s | None \<Rightarrow> s)
      else s)"

definition run_mouse_up :: "rat \<Rightarrow> pos \<Rightarrow> 'w run_state \<Rightarrow> 'w run_state" where
  "run_mouse_up now p s =
     (let dx = fst p - fst (rn_drag s); dy = snd p - snd (rn_drag s); sy = snd (rn_drag s);
          speed = of_int \<bar>dy\<bar> / max (now - rn_drag_time s) (1 / 1000)
      in if sy > 200 \<and> dy < - 40 \<and> speed > 100 then s\<lparr>rn_show_recent := True, rn_current := None\<rparr>
         else if sy < 50 \<and> dy > 40 then go_home s
         else if dx > 60 \<and> \<bar>dy\<bar> < 40 \<and> rn_current s \<noteq> None then go_home s
         else if dy > 80 \<and> \<bar>dx\<bar> < 40 \<and> rn_current s \<noteq> None then go_home s
         else if dy > 40 \<and> rn_show_recent s then s\<lparr>rn_show_recent := False\<rparr>
         else if \<not> rn_dragging s \<or> (\<bar>dx\<bar> < 10 \<and> \<bar>dy\<bar> < 10) then run_tap p s
         else s)"

text \<open>Handing an event to the current application; what it raises leaves the loop.\<close>

definition to_app :: "(string \<Rightarrow> event \<Rightarrow> 'w \<Rightarrow> 'w res) \<Rightarrow> event \<Rightarrow> 'w run_state \<Rightarrow> 'w run_state res" where
  "to_app handle e s =
     (case rn_current s of
        None \<Rightarrow> Inr s
      | Some n \<Rightarrow> res_bind (handle n e (rn_apps s)) (\<lambda>w. Inr (s\<lparr>rn_apps := w\<rparr>)))"

definition run_event :: "(string \<Rightarrow> event \<Rightarrow> 'w \<Rightarrow> 'w res) \<Rightarrow> rat \<Rightarrow> 'w run_state \<Rightarrow> event \<Rightarrow> 'w run_state res" where
  "run_event handle now s e =
     (if \<not> rn_running s then Inr s
      else (case e of
              Quit \<Rightarrow> Inr (s\<lparr>rn_running := False\<rparr>)
            | MouseDown p \<Rightarrow> to_app handle e (run_mouse_down now p s)
            | MouseMotion p pressed \<Rightarrow> Inr (run_mouse_motion p pressed s)
            | MouseUp p \<Rightarrow> Inr (run_mouse_up now p s)
            | KeyDown k u c \<Rightarrow> to_app handle e s
            | MouseWheel y \<Rightarrow> Inr s))"

text \<open>The drawing of a frame: an application that raises while drawing is closed.\<close>

definition run_draw :: "(string \<Rightarrow> 'w \<Rightarrow> 'w res) \<Rightarrow> 'w run_state \<Rightarrow> 'w run_state" where
  "run_draw draw s =
     (if \<not> rn_running s \<or> rn_show_recent s then s
      else (case rn_current s of
              None \<Rightarrow> s
            | Some n \<Rightarrow> (case draw n (rn_apps s) of
                           Inr w \<Rightarrow> s\<lparr>rn_apps := w\<rparr>
                         | Inl e \<Rightarrow> s\<lparr>rn_current := None\<rparr>)))"

definition run_frame ::
    "(string \<Rightarrow> event \<Rightarrow> 'w \<Rightarrow> 'w res) \<Rightarrow> (string \<Rightarrow> 'w \<Rightarrow> 'w res) \<Rightarrow> 'w run_state \<Rightarrow> rat \<times> event list \<Rightarrow> 'w run_state res" where
  "run_frame handle draw s f =
     res_bind (run_events (run_event handle (fst f)) s (snd f)) (\<lambda>s'. Inr (run_draw draw s'))"

subsection \<open>launcher.py\<close>

record 'w launch_state =
  la_current :: "string option"
  la_scroll :: int
  la_running :: bool
  la_apps :: 'w

definition launch_init :: "'w \<Rightarrow> 'w launch_state" where
  "launch_init w = \<lparr>la_current = None, la_scroll = 0, la_running = True, la_apps = w\<rparr>"

definition launch_key :: "key \<Rightarrow> 'w launch_state \<Rightarrow> 'w launch_state" where
  "launch_key k s =
     (let s1 = (if k = K_ESCAPE then s\<lparr>la_current := None\<rparr> else s)
      in if la_current s1 = None then
           (if k = K_DOWN then s1\<lparr>la_scroll := min (la_scroll s1 + card_h + PAD) get_max_scroll\<rparr>
            else if k = K_UP then s1\<lparr>la_scroll := max (la_scroll s1 - card_h - PAD) 0\<rparr>
            else s1)
         else s1)"

definition launch_open :: "pos \<Rightarrow> 'w launch_state \<Rightarrow> 'w launch_state" where
  "launch_open p s =
     (if la_current s = None
      then (case tapped_card (la_scroll s) p of Some n \<Rightarrow> s\<lparr>la_current := Some n\<rparr> | None \<Rightarrow> s) else s)"

definition launch_event :: "(string \<Rightarrow> event \<Rightarrow> 'w \<Rightarrow> 'w res) \<Rightarrow> 'w launch_state \<Rightarrow> event \<Rightarrow> 'w launch_state res" where
  "launch_event handle s e =
     (if \<not> la_running s then Inr s
      else if e = Quit then Inr (s\<lparr>la_running := False\<rparr>)
      else
        (let s1 = (case e of KeyDown k u c \<Rightarrow> launch_key k s | MouseDown p \<Rightarrow> launch_open p s | _ \<Rightarrow> s)
         in case la_current s1 of
              None \<Rightarrow> Inr s1
            | Some n \<Rightarrow> res_bind (handle n e (la_apps s1)) (\<lambda>w. Inr (s1\<lparr>la_apps := w\<rparr>))))"

text \<open>Here nothing catches what drawing an application raises.\<close>

definition launch_draw :: "(string \<Rightarrow> 'w \<Rightarrow> 'w res) \<Rightarrow> 'w launch_state \<Rightarrow> 'w launch_state res" where
  "launch_draw draw s =
     (if \<not> la_running s then Inr s
      else (case la_current s of
              None \<Rightarrow> Inr s
            | Some n \<Rightarrow> res_bind (draw n (la_apps s)) (\<lambda>w. Inr (s\<lparr>la_apps := w\<rparr>))))"

definition launch_frame ::
    "(string \<Rightarrow> event \<Rightarrow> 'w \<Rightarrow> 'w res) \<Rightarrow> (string \<Rightarrow> 'w \<Rightarrow> 'w res) \<Rightarrow> 'w launch_state \<Rightarrow> event list \<Rightarrow> 'w launch_state res" where
  "launch_frame handle draw s es = res_bind (run_events (launch_event handle) s es) (launch_draw draw)"

subsection \<open>Geometry\<close>

lemma card_dims: "card_w = 108" "card_h = 60" "PAD = 8" "LW = 240" "LH = 240"
  by (simp_all add: card_w_def card_h_def PAD_def LW_def LH_def)

lemma max_scroll_eq: "get_max_scroll = 944"
  by (simp add: get_max_scroll_def card_dims CARD_APPS_def)

lemma card_at_index:
  assumes "collidepoint (card_at sc i) p"
  shows "int i = (snd p + sc - 36) div 68 * 2 + (fst p - 8) div 116"
proof -
  obtain x y where p: "p = (x, y)" by (cases p)
  from assms have x: "116 * int (i mod 2) \<le> x - 8" "x - 8 < 116 * int (i mod 2) + 116"
    and y: "68 * int (i div 2) \<le> y + sc - 36" "y + sc - 36 < 68 * int (i div 2) + 68"
    by (simp_all add: p card_at_def card_dims)
  have "(x - 8) div 116 = int (i mod 2)" using x by linarith
  moreover have "(y + sc - 36) div 68 = int (i div 2)" using y by linarith
  moreover have "int i = int (i div 2) * 2 + int (i mod 2)"
    by (metis div_mult_mod_eq of_nat_add of_nat_mult of_nat_numeral)
  ultimately show ?thesis by (simp add: p)
qed

lemma find_first_index:
  assumes "i < length xs" "P i" "\<And>j. P j \<Longrightarrow> j = i"
  shows "find (\<lambda>(i, n). P i) (enum xs) = Some (i, xs ! i)"
proof -
  have "(i, xs ! i) \<in> set (enum xs)" using assms(1) by (simp add: set_enum_iff)
  then have "find (\<lambda>(i, n). P i) (enum xs) \<noteq> None"
    using assms(2) unfolding find_None_iff by force
  then obtain j n where f: "find (\<lambda>(i, n). P i) (enum xs) = Some (j, n)" by auto
  then obtain k where "k < length (enum xs)" "P j" "(j, n) = enum xs ! k"
    by (auto simp: find_Some_iff)
  then have "(j, n) \<in> set (enum xs)" "P j" by (simp_all only: nth_mem)
  moreover from this assms(3) have "j = i" by blast
  ultimately show ?thesis using f by (simp add: set_enum_iff)
qed

lemma tapped_card_hit:
  assumes "i < length CARD_APPS" "collidepoint (card_at sc i) p"
  shows "tapped_card sc p = Some (CARD_APPS ! i)"
proof -
  have "j = i" if "collidepoint (card_at sc j) p" for j
    using card_at_index [OF that] card_at_index [OF assms(2)] by simp
  from find_first_index [where P = "\<lambda>i. collidepoint (card_at sc i) p", OF assms this]
  show ?thesis by (simp add: tapped_card_def)
qed

lemma find_enum_mem:
  assumes "find P (enum xs) = Some (i, n)"
  shows "n \<in> set xs"
proof -
  from assms obtain k where "k < length (enum xs)" "(i, n) = enum xs ! k"
    unfolding find_Some_iff by blast
  then have "(i, n) \<in> set (enum xs)" by (simp only: nth_mem)
  then show ?thesis by (auto simp: set_enum_iff)
qed

lemma tapped_card_mem: "tapped_card sc p = Some n \<Longrightarrow> n \<in> set CARD_APPS"
  by (auto simp: tapped_card_def dest: find_enum_mem)

lemma tapped_recent_mem: "tapped_recent rs p = Some n \<Longrightarrow> n \<in> set rs"
  by (auto simp: tapped_recent_def dest!: find_enum_mem in_set_takeD)

subsection \<open>The state of run.py\<close>

definition run_ok :: "'w run_state \<Rightarrow> bool" where
  "run_ok s \<longleftrightarrow>
     distinct (rn_recent s) \<and> length (rn_recent s) \<le> 6 \<and> set (rn_recent s) \<subseteq> set CARD_APPS
     \<and> 0 \<le> rn_scroll s \<and> rn_scroll s \<le> get_max_scroll
     \<and> (rn_current s \<noteq> None \<longrightarrow> rn_recent s \<noteq> [] \<and> rn_current s = Some (hd (rn_recent s)))
     \<and> (rn_show_recent s \<longrightarrow> rn_current s = None)"

lemma run_ok_init: "run_ok (run_init w)"
  by (simp add: run_ok_def run_init_def max_scroll_eq)

lemma run_open_app_ok: "run_ok s \<Longrightarrow> n \<in> set CARD_APPS \<Longrightarrow> run_ok (run_open_app n s)"
  by (auto simp: run_ok_def run_open_app_def Let_def length_remove1 distinct_remove1
      dest: in_set_takeD notin_set_remove1 split: option.splits)

lemma run_ok_apps [simp]: "run_ok (s\<lparr>rn_apps := w\<rparr>) = run_ok s" "run_ok (s\<lparr>rn_running := b\<rparr>) = run_ok s"
  by (simp_all add: run_ok_def)

lemma run_tap_ok:
  assumes "run_ok s"
  shows "run_ok (run_tap p s)"
proof -
  have "tapped_recent (rn_recent s) p = Some n \<Longrightarrow> n \<in> set CARD_APPS" for n
    using assms tapped_recent_mem [of "rn_recent s" p n] by (auto simp: run_ok_def)
  then show ?thesis
    using assms tapped_card_mem [of "rn_scroll s" p] by (auto simp: run_tap_def run_open_app_ok split: option.split)
qed

lemma run_mouse_up_ok: "run_ok s \<Longrightarrow> run_ok (run_mouse_up now p s)"
  using run_tap_ok [of s p] by (auto simp: run_mouse_up_def go_home_def Let_def run_ok_def)

lemma run_mouse_motion_ok: "run_ok s \<Longrightarrow> run_ok (run_mouse_motion p b s)"
  by (auto simp: run_mouse_motion_def Let_def run_ok_def max_scroll_eq)

lemma run_mouse_down_ok [simp]: "run_ok (run_mouse_down now p s) = run_ok s"
  by (simp add: run_ok_def run_mouse_down_def)

subsection \<open>What the launchers need of the applications\<close>

text \<open>
  The applications behind a launcher: \<open>good\<close> states are kept by handling and drawing, and an
  application that is not \<open>risky\<close> does not raise while it handles an event.
\<close>

locale app_host =
  fixes handle :: "string \<Rightarrow> event \<Rightarrow> 'w \<Rightarrow> 'w res"
    and draw :: "string \<Rightarrow> 'w \<Rightarrow> 'w res"
    and good :: "'w \<Rightarrow> bool"
    and risky :: "string \<Rightarrow> 'w \<Rightarrow> bool"
  assumes handle_good: "good w \<Longrightarrow> handle n e w = Inr w' \<Longrightarrow> good w'"
    and draw_good: "good w \<Longrightarrow> draw n w = Inr w' \<Longrightarrow> good w'"
    and calm: "good w \<Longrightarrow> handle n e w = Inl x \<Longrightarrow> risky n w"
begin

definition host_ok :: "'w run_state \<Rightarrow> bool" where
  "host_ok s \<longleftrightarrow> run_ok s \<and> good (rn_apps s)"

lemma apps_fields:
  "rn_apps (run_mouse_down now p s) = rn_apps s" "rn_apps (run_mouse_motion p b s) = rn_apps s"
  "rn_apps (run_mouse_up now p s) = rn_apps s"
  by (simp_all add: run_mouse_down_def run_mouse_motion_def run_mouse_up_def go_home_def run_tap_def
      run_open_app_def Let_def split: option.split)

lemma to_app_ok: "host_ok s \<Longrightarrow> to_app handle e s = Inr s' \<Longrightarrow> host_ok s'"
  by (auto simp: to_app_def host_ok_def res_bind_Inr_iff dest: handle_good split: option.splits)

lemma event_ok: "host_ok s \<Longrightarrow> run_event handle now s e = Inr s' \<Longrightarrow> host_ok s'"
proof -
  assume ok: "host_ok s" and step: "run_event handle now s e = Inr s'"
  have down: "host_ok (run_mouse_down now p s)" for p using ok by (simp add: host_ok_def apps_fields)
  have rest: "host_ok (run_mouse_up now p s)" "host_ok (run_mouse_motion p b s)" "host_ok (s\<lparr>rn_running := False\<rparr>)" for p b
    using ok by (simp_all add: host_ok_def apps_fields run_mouse_up_ok run_mouse_motion_ok)
  show ?thesis
  proof (cases "rn_running s")
    case False
    with ok step show ?thesis by (simp add: run_event_def)
  next
    case True
    with step ok down rest to_app_ok show ?thesis
      by (cases e) (simp_all add: run_event_def, blast+)
  qed
qed

lemma draw_ok: "host_ok s \<Longrightarrow> host_ok (run_draw draw s)"
  by (auto simp: run_draw_def host_ok_def run_ok_def dest: draw_good split: option.splits sum.splits)

lemma event_raises:
  "host_ok s \<Longrightarrow> run_event handle now s e = Inl x \<Longrightarrow>
     \<exists>n. rn_current s = Some n \<and> risky n (rn_apps s) \<and> handle n e (rn_apps s) = Inl x"
  using calm
  by (auto simp: run_event_def to_app_def host_ok_def res_bind_Inl_iff run_mouse_down_def
      split: if_splits event.splits option.splits)

end

sublocale app_host \<subseteq> events: stepping_app "run_event handle now" host_ok for now
  by unfold_locales (rule event_ok)

context app_host
begin

lemma frame_ok: "host_ok s \<Longrightarrow> run_frame handle draw s f = Inr s' \<Longrightarrow> host_ok s'"
  using events.run_invar [of s "fst f" "snd f"] by (auto simp: run_frame_def res_bind_Inr_iff intro: draw_ok)

lemma frame_raises:
  "host_ok s \<Longrightarrow> run_frame handle draw s f = Inl x \<Longrightarrow>
     \<exists>t n e. e \<in> set (snd f) \<and> host_ok t \<and> rn_current t = Some n \<and> risky n (rn_apps t) \<and> handle n e (rn_apps t) = Inl x"
  using events.run_raises [of s "fst f" "snd f" x] event_raises by (fastforce simp: run_frame_def res_bind_Inl_iff)

end

sublocale app_host \<subseteq> frames: stepping_app "run_frame handle draw" host_ok
  by unfold_locales (rule frame_ok)

subsection \<open>Properties\<close>

text \<open>
  Every application of the small-screen launchers can be reached: for each card there
  is a scroll position the launcher allows and a point on the screen, between the status
  bar and the gesture bar, where a tap opens it.
\<close>

theorem cards_reachable:
  "i < length CARD_APPS \<Longrightarrow>
     \<exists>sc p. 0 \<le> sc \<and> sc \<le> get_max_scroll \<and> 0 \<le> fst p \<and> fst p < LW \<and> 28 \<le> snd p \<and> snd p < 228
        \<and> tapped_card sc p = Some (CARD_APPS ! i)"
proof -
  assume i: "i < length CARD_APPS"
  define sc where "sc = min 944 (68 * int (i div 2))"
  define p where "p = (8 + int (i mod 2) * 116, 36 + int (i div 2) * 68 - sc)"
  have "i div 2 \<le> 16" using i by (simp add: CARD_APPS_def)
  then have y: "36 \<le> snd p" "snd p < 228" by (auto simp: p_def sc_def)
  have x: "0 \<le> fst p" "fst p < LW" by (auto simp: p_def card_dims)
  have "collidepoint (card_at sc i) p" by (simp add: card_at_def p_def card_dims)
  from tapped_card_hit [OF i this] x y show ?thesis
    by (intro exI [of _ sc] exI [of _ p]) (simp add: max_scroll_eq sc_def)
qed

theorem cards_reachable_witness:
  "\<exists>sc p. 0 \<le> sc \<and> sc \<le> get_max_scroll \<and> tapped_card sc p = Some ''Settings''"
  using cards_reachable [of 33] by (auto simp: CARD_APPS_def)

text \<open>
  In launcher.py no application ever sees the escape key, and the press that opens an
  application is also handed to it.
\<close>

theorem launch_event_dispatch:
  "la_running s \<Longrightarrow>
     launch_event handle s (KeyDown K_ESCAPE u c) = Inr (s\<lparr>la_current := None\<rparr>)
     \<and> (\<forall>p n. la_current s = None \<longrightarrow> tapped_card (la_scroll s) p = Some n \<longrightarrow>
          launch_event handle s (MouseDown p) =
            res_bind (handle n (MouseDown p) (la_apps s)) (\<lambda>w. Inr (s\<lparr>la_current := Some n, la_apps := w\<rparr>)))"
  by (simp add: launch_event_def launch_key_def launch_open_def Let_def)

theorem launch_event_dispatch_witness:
  "launch_event (\<lambda>n e w. Inr (w + (1::nat))) ((launch_init 0)\<lparr>la_current := Some ''Notes''\<rparr>) (KeyDown K_ESCAPE [] False)
     = Inr (launch_init 0)"
  using launch_event_dispatch [of "(launch_init (0::nat))\<lparr>la_current := Some ''Notes''\<rparr>" "\<lambda>n e w. Inr (w + 1)" "[]" False]
  by (simp add: launch_init_def)

end
