(* ===== verification/Passwords.thy ===== *)
theory Passwords
  imports Julius_Prelude
begin

text \<open>
  The password manager (\<^verbatim>\<open>src/src/apps/passwords/passwords.py\<close>): the three screens, masking,
  the staged input of a new entry, and the file.
\<close>

record pw_entry =
  pw_site :: string
  pw_user :: string
  pw_pass :: string

datatype pw_mode = PList | PAdd | PView
datatype pw_stage = StSite | StUser | StPass

record pw_state =
  pdata :: "pw_entry list"
  pselected :: int
  pmode :: pw_mode
  pscroll :: int
  pstatus :: string
  pinputs :: pw_entry
  pstage :: pw_stage
  pshow :: bool
  pw_file :: "pw_entry list option"

definition no_inputs :: pw_entry where
  "no_inputs = \<lparr>pw_site = [], pw_user = [], pw_pass = []\<rparr>"

definition pw_load :: "pw_entry list option \<Rightarrow> pw_entry list" where
  "pw_load f = (case f of Some d \<Rightarrow> d | None \<Rightarrow> [])"

definition pw_init :: "pw_entry list option \<Rightarrow> pw_state" where
  "pw_init f = \<lparr>pdata = pw_load f, pselected = 0, pmode = PList, pscroll = 0, pstatus = [],
                pinputs = no_inputs, pstage = StSite, pshow = False, pw_file = f\<rparr>"

definition pw_save :: "pw_state \<Rightarrow> pw_state" where
  "pw_save s = s\<lparr>pw_file := Some (pdata s)\<rparr>"

definition pw_mask :: "string \<Rightarrow> string" where
  "pw_mask t = replicate (length t) CHR ''*''"

definition pw_get_input :: "pw_stage \<Rightarrow> pw_entry \<Rightarrow> string" where
  "pw_get_input st i = (case st of StSite \<Rightarrow> pw_site i | StUser \<Rightarrow> pw_user i | StPass \<Rightarrow> pw_pass i)"

definition pw_set_input :: "pw_stage \<Rightarrow> string \<Rightarrow> pw_entry \<Rightarrow> pw_entry" where
  "pw_set_input st t i =
     (case st of StSite \<Rightarrow> i\<lparr>pw_site := t\<rparr> | StUser \<Rightarrow> i\<lparr>pw_user := t\<rparr> | StPass \<Rightarrow> i\<lparr>pw_pass := t\<rparr>)"

subsection \<open>Screens\<close>

definition pw_draw_list :: "pw_state \<Rightarrow> draw_cmd list" where
  "pw_draw_list s =
     [Fill BG, DText ''Passwords'' ACCENT (8, 8), DText (py_str_int (int (length (pdata s)))) DIM (210, 8),
      DLine ACCENT (0, 24) (240, 24)]
     @ (if pstatus s \<noteq> [] then [DText (pstatus s) GREEN (8, 27)] else [])
     @ [DLine DIM (0, 38) (240, 38)]
     @ (if pdata s = [] then [DText ''No passwords. Press N to add'' DIM (8, 120)]
        else draw_rows (pscroll s) 9 42 30
               (\<lambda>idx y e.
                  (if idx = pselected s then [highlight y 26] else [])
                  @ [DText (take 18 (pw_site e)) (if idx = pselected s then ACCENT else TEXT) (8, y),
                     DText (take 18 (pw_user e)) DIM (8, y + 13)])
               (pdata s))
     @ app_footer ''N=add  V=view  D=del''"

definition pw_draw_field :: "pw_state \<Rightarrow> int \<Rightarrow> pw_stage \<Rightarrow> string \<Rightarrow> draw_cmd list" where
  "pw_draw_field s y st label =
     (let v = pw_get_input st (pinputs s);
          shown = (if st = StPass \<and> \<not> pshow s then pw_mask v else v);
          val = shown @ (if st = pstage s then ''_'' else [])
      in [DText label (if st = pstage s then GREEN else DIM) (8, y), DText (take 26 val) TEXT (8, y + 14)])"

definition pw_draw_add :: "pw_state \<Rightarrow> draw_cmd list" where
  "pw_draw_add s =
     app_header ''Add Password''
     @ pw_draw_field s 40 StSite ''Website/App:'' @ pw_draw_field s 80 StUser ''Username:''
     @ pw_draw_field s 120 StPass ''Password:''
     @ app_footer ''ENTER=next  ESC=cancel''"

definition pw_draw_view :: "pw_state \<Rightarrow> draw_cmd list res" where
  "pw_draw_view s =
     res_bind (py_get (pdata s) (pselected s)) (\<lambda>e.
       Inr (app_header ''View Password''
         @ [DText (''Site : '' @ pw_site e) TEXT (8, 40), DText (''User : '' @ pw_user e) TEXT (8, 60),
            DText (''Pass : '' @ take 20 (if pshow s then pw_pass e else pw_mask (pw_pass e))) GREEN (8, 80),
            DText (if pshow s then ''H=hide'' else ''S=show password'') DIM (8, 110)]
         @ app_footer ''ESC=back''))"

definition pw_draw :: "pw_state \<Rightarrow> draw_cmd list res" where
  "pw_draw s =
     (case pmode s of PList \<Rightarrow> Inr (pw_draw_list s) | PAdd \<Rightarrow> Inr (pw_draw_add s) | PView \<Rightarrow> pw_draw_view s)"

subsection \<open>Input\<close>

definition pw_key_list :: "pw_state \<Rightarrow> key \<Rightarrow> pw_state res" where
  "pw_key_list s k =
     (if k = K_DOWN then
        (let c = nav_down 9 (int (length (pdata s))) (pselected s, pscroll s)
         in Inr (s\<lparr>pselected := fst c, pscroll := snd c\<rparr>))
      else if k = K_UP then
        (let c = nav_up (pselected s, pscroll s) in Inr (s\<lparr>pselected := fst c, pscroll := snd c\<rparr>))
      else if k = K_n then Inr (s\<lparr>pmode := PAdd, pstage := StSite, pinputs := no_inputs\<rparr>)
      else if k = K_v then
        (if pdata s \<noteq> [] then Inr (s\<lparr>pmode := PView, pshow := False\<rparr>) else Inr s)
      else if k = K_d then
        (if pdata s \<noteq> [] then
           res_bind (py_pop (pdata s) (pselected s))
             (\<lambda>d. Inr ((pw_save (s\<lparr>pdata := d, pselected := max 0 (pselected s - 1)\<rparr>))\<lparr>pstatus := ''Deleted''\<rparr>))
         else Inr s)
      else Inr s)"

definition pw_key_add :: "pw_state \<Rightarrow> key \<Rightarrow> string \<Rightarrow> pw_state" where
  "pw_key_add s k u =
     (if k = K_RETURN then
        (if pw_get_input (pstage s) (pinputs s) \<noteq> [] then
           (case pstage s of
              StSite \<Rightarrow> s\<lparr>pstage := StUser\<rparr>
            | StUser \<Rightarrow> s\<lparr>pstage := StPass\<rparr>
            | StPass \<Rightarrow>
                (pw_save (s\<lparr>pdata := pdata s @ [pinputs s]\<rparr>))
                  \<lparr>pmode := PList, pstatus := ''Saved '' @ pw_site (pinputs s)\<rparr>)
         else s)
      else if k = K_BACKSPACE then
        s\<lparr>pinputs := pw_set_input (pstage s) (butlast (pw_get_input (pstage s) (pinputs s))) (pinputs s)\<rparr>
      else if k = K_ESCAPE then s\<lparr>pmode := PList\<rparr>
      else s\<lparr>pinputs := pw_set_input (pstage s) (pw_get_input (pstage s) (pinputs s) @ u) (pinputs s)\<rparr>)"

definition pw_key_view :: "pw_state \<Rightarrow> key \<Rightarrow> pw_state" where
  "pw_key_view s k =
     (if k = K_ESCAPE then s\<lparr>pmode := PList\<rparr>
      else if k = K_s then s\<lparr>pshow := True\<rparr>
      else if k = K_h then s\<lparr>pshow := False\<rparr>
      else s)"

definition pw_handle_input :: "pw_state \<Rightarrow> event \<Rightarrow> pw_state res" where
  "pw_handle_input s e =
     (case e of
        KeyDown k u _ \<Rightarrow>
          (case pmode s of
             PList \<Rightarrow> pw_key_list s k
           | PAdd \<Rightarrow> Inr (pw_key_add s k u)
           | PView \<Rightarrow> Inr (pw_key_view s k))
      | _ \<Rightarrow> Inr s)"

subsection \<open>Lemmas\<close>

definition pw_ok :: "pw_state \<Rightarrow> bool" where
  "pw_ok s \<longleftrightarrow> 0 \<le> pscroll s \<and> sel_ok (int (length (pdata s))) (pselected s) \<and> (pmode s = PView \<longrightarrow> pdata s \<noteq> [])"

lemma pw_ok_init: "pw_ok (pw_init f)"
  by (simp add: pw_ok_def pw_init_def)

lemma pw_save_simps [simp]:
  "pdata (pw_save s) = pdata s" "pselected (pw_save s) = pselected s" "pmode (pw_save s) = pmode s"
  "pscroll (pw_save s) = pscroll s" "pw_file (pw_save s) = Some (pdata s)"
  by (simp_all add: pw_save_def)

lemma pw_key_list_ok:
  assumes ok: "pw_ok s" and m: "pmode s = PList"
  shows "\<exists>s'. pw_key_list s k = Inr s' \<and> pw_ok s'"
proof -
  from ok have sel: "sel_ok (int (length (pdata s))) (pselected s)" and scr: "0 \<le> pscroll s"
    by (simp_all add: pw_ok_def)
  show ?thesis
    using m scr sel py_pop_sel [OF sel] sel_ok_nav_down [OF sel, of 9 "pscroll s"] sel_ok_nav_up [OF sel, of "pscroll s"]
      nav_down_scroll_nonneg [of "(pselected s, pscroll s)" 9 "int (length (pdata s))"]
      nav_up_scroll_nonneg [of "(pselected s, pscroll s)"]
    by (auto simp: pw_key_list_def pw_ok_def Let_def sel_ok_def [of _ "pselected s"])
qed

lemma pw_key_add_ok: "pw_ok s \<Longrightarrow> pmode s = PAdd \<Longrightarrow> pw_ok (pw_key_add s k u)"
  by (auto simp: pw_key_add_def pw_ok_def intro: sel_ok_grow split: pw_stage.splits)

lemma pw_key_view_ok: "pw_ok s \<Longrightarrow> pw_ok (pw_key_view s k)"
  by (auto simp: pw_key_view_def pw_ok_def)

interpretation pw_app: event_app pw_handle_input pw_ok
proof
  fix s e
  assume "pw_ok s"
  then show "\<exists>s'. pw_handle_input s e = Inr s' \<and> pw_ok s'"
    using pw_key_list_ok pw_key_add_ok pw_key_view_ok
    by (auto simp: pw_handle_input_def split: event.splits pw_mode.splits)
qed

lemma pw_draw_ok: "pw_ok s \<Longrightarrow> is_ok (pw_draw s)"
  by (auto simp: pw_draw_def pw_draw_view_def pw_ok_def sel_ok_def py_simps split: pw_mode.split)

text \<open>Two states that differ in passwords only, of the same lengths.\<close>

definition same_entry :: "pw_entry \<Rightarrow> pw_entry \<Rightarrow> bool" where
  "same_entry a b \<longleftrightarrow> pw_site a = pw_site b \<and> pw_user a = pw_user b \<and> length (pw_pass a) = length (pw_pass b)"

definition same_screen :: "pw_state \<Rightarrow> pw_state \<Rightarrow> bool" where
  "same_screen s t \<longleftrightarrow>
     list_all2 same_entry (pdata s) (pdata t) \<and> same_entry (pinputs s) (pinputs t)
     \<and> pselected s = pselected t \<and> pmode s = pmode t \<and> pscroll s = pscroll t \<and> pstatus s = pstatus t
     \<and> pstage s = pstage t \<and> pshow s = pshow t"

lemma pw_mask_same: "length a = length b \<Longrightarrow> pw_mask a = pw_mask b"
  by (simp add: pw_mask_def)

lemma same_site_user:
  assumes "list_all2 same_entry xs ys"
  shows "map pw_site xs = map pw_site ys" "map pw_user xs = map pw_user ys" "length xs = length ys"
  using assms by (induction rule: list_all2_induct) (simp_all add: same_entry_def)

lemma draw_rows_cong:
  assumes "map g xs = map g ys" "\<And>i y x. f i y x = h i y (g x)"
  shows "draw_rows a w y0 dy f xs = draw_rows a w y0 dy f ys"
proof -
  have len: "length xs = length ys" using assms(1) by (rule map_eq_imp_length_eq)
  have "map g (py_slice xs p q) = map g (py_slice ys p q)" for p q
    using assms(1) by (simp add: py_slice_def len take_map [symmetric] drop_map [symmetric])
  then have g: "map g (py_slice xs a (a + w)) = map g (py_slice ys a (a + w))" .
  have rows: "draw_rows a w y0 dy f zs =
      concat (map (\<lambda>(i, x). h (int i + a) (y0 + int i * dy) x) (enum (map g (py_slice zs a (a + w)))))" for zs
    by (simp add: draw_rows_def enum_def zip_map2 comp_def case_prod_unfold assms(2))
  show ?thesis by (simp only: rows g)
qed

lemma pw_input_simps [simp]:
  "pw_get_input st (pw_set_input st t i) = t" "pw_set_input st a (pw_set_input st b i) = pw_set_input st a i"
  "pw_set_input st (pw_get_input st i) i = i"
  by (cases st; simp add: pw_get_input_def pw_set_input_def)+

lemma pw_type:
  "pmode s = PAdd \<Longrightarrow> run_events pw_handle_input s (type_text t) =
     Inr (s\<lparr>pinputs := pw_set_input (pstage s) (pw_get_input (pstage s) (pinputs s) @ t) (pinputs s)\<rparr>)"
  by (rule run_type_text [where P = "\<lambda>s. pmode s = PAdd" and
        app = "\<lambda>s t. s\<lparr>pinputs := pw_set_input (pstage s) (pw_get_input (pstage s) (pinputs s) @ t) (pinputs s)\<rparr>"])
    (simp_all add: pw_handle_input_def pw_key_add_def)

subsection \<open>Properties\<close>

text \<open>
  Neither \<open>handle_input\<close> nor \<open>draw\<close> of the password manager ever raises, whatever the
  file holds and whatever the user does.
\<close>

theorem pw_never_raises:
  "\<exists>s'. run_events pw_handle_input (pw_init f) es = Inr s' \<and> is_ok (pw_draw s')"
  using pw_app.run_ok [OF pw_ok_init, of f es] pw_draw_ok by blast

text \<open>
  (C29) With masking on, what the screen shows does not depend on any password beyond its
  length, in the list, while a password is typed and in the detail view.
\<close>

theorem pw_masked_screen:
  "same_screen s t \<Longrightarrow> \<not> pshow s \<Longrightarrow> pw_draw s = pw_draw t"
proof -
  assume same: "same_screen s t" and hide: "\<not> pshow s"
  then have data: "list_all2 same_entry (pdata s) (pdata t)" and inp: "same_entry (pinputs s) (pinputs t)"
    and eqs: "pselected s = pselected t" "pmode s = pmode t" "pscroll s = pscroll t" "pstatus s = pstatus t"
      "pstage s = pstage t" "\<not> pshow t"
    by (simp_all add: same_screen_def)
  have len: "length (pdata s) = length (pdata t)" using data by (rule list_all2_lengthD)
  have "map (\<lambda>e. (pw_site e, pw_user e)) (pdata s) = map (\<lambda>e. (pw_site e, pw_user e)) (pdata t)"
    using data by (induction rule: list_all2_induct) (simp_all add: same_entry_def)
  note rows = draw_rows_cong [OF this, where h = "\<lambda>idx y e.
      (if idx = pselected t then [highlight y 26] else [])
      @ [DText (take 18 (fst e)) (if idx = pselected t then ACCENT else TEXT) (8, y), DText (take 18 (snd e)) DIM (8, y + 13)]"]
  have "pw_draw_list s = pw_draw_list t"
    using rows len by (simp add: pw_draw_list_def eqs, cases "pdata s"; cases "pdata t"; simp)
  moreover have "pw_draw_field s y st l = pw_draw_field t y st l" for y st l
    using inp hide eqs
    by (cases st) (simp_all add: pw_draw_field_def same_entry_def pw_get_input_def pw_mask_def Let_def)
  then have "pw_draw_add s = pw_draw_add t" by (simp add: pw_draw_add_def)
  moreover have "pw_draw_view s = pw_draw_view t"
  proof (cases "py_index (length (pdata t)) (pselected t)")
    case None
    with len show ?thesis by (simp add: pw_draw_view_def py_get_def eqs)
  next
    case (Some k)
    have "same_entry (pdata s ! k) (pdata t ! k)"
      using data py_index_SomeD [OF Some] len by (simp add: list_all2_conv_all_nth)
    with Some len hide eqs show ?thesis
      by (simp add: pw_draw_view_def py_get_def same_entry_def pw_mask_def)
  qed
  ultimately show ?thesis using eqs(2) by (simp add: pw_draw_def split: pw_mode.split)
qed

theorem pw_masked_screen_witness:
  "pw_draw (pw_init (Some [\<lparr>pw_site = ''x'', pw_user = ''u'', pw_pass = ''secret''\<rparr>]))
   = pw_draw (pw_init (Some [\<lparr>pw_site = ''x'', pw_user = ''u'', pw_pass = ''hidden''\<rparr>]))"
  by (rule pw_masked_screen) (simp_all add: same_screen_def same_entry_def pw_init_def pw_load_def no_inputs_def)

text \<open>
  Typing a site, a user and a password, each followed by ENTER, appends exactly that
  entry and writes the whole list to the file, the passwords in clear.
\<close>

theorem pw_add_saves_plaintext:
  "pmode s = PList \<Longrightarrow> site \<noteq> [] \<Longrightarrow> user \<noteq> [] \<Longrightarrow> pass \<noteq> [] \<Longrightarrow>
     \<exists>s'. run_events pw_handle_input s
            ([press K_n] @ type_text site @ [press K_RETURN] @ type_text user @ [press K_RETURN]
             @ type_text pass @ [press K_RETURN]) = Inr s'
        \<and> pdata s' = pdata s @ [\<lparr>pw_site = site, pw_user = user, pw_pass = pass\<rparr>]
        \<and> pw_file s' = Some (pdata s') \<and> pmode s' = PList"
proof -
  assume m: "pmode s = PList" and ne: "site \<noteq> []" "user \<noteq> []" "pass \<noteq> []"
  have start: "pw_handle_input s (press K_n) = Inr (s\<lparr>pmode := PAdd, pstage := StSite, pinputs := no_inputs\<rparr>)"
    using m by (simp add: press_def pw_handle_input_def pw_key_list_def)
  show ?thesis
    using ne
    by (simp add: run_events_append start pw_type)
      (simp add: press_def pw_handle_input_def pw_key_add_def pw_type run_events_append pw_get_input_def
        pw_set_input_def no_inputs_def)
qed

theorem pw_add_saves_plaintext_witness:
  "\<exists>s'. run_events pw_handle_input (pw_init None)
          ([press K_n] @ type_text ''x.org'' @ [press K_RETURN] @ type_text ''me'' @ [press K_RETURN]
           @ type_text ''pw1'' @ [press K_RETURN]) = Inr s'
      \<and> pw_file s' = Some [\<lparr>pw_site = ''x.org'', pw_user = ''me'', pw_pass = ''pw1''\<rparr>]"
proof -
  have "pmode (pw_init None) = PList" "pdata (pw_init None) = []" by (simp_all add: pw_init_def pw_load_def)
  with pw_add_saves_plaintext [of "pw_init None" "''x.org''" "''me''" "''pw1''"] show ?thesis by auto
qed

text \<open>
  The flag that shows a password in the detail view survives it: after showing one and
  going back, the next new password is shown in clear while it is typed.
\<close>

theorem pw_show_leaks_into_add:
  "pmode s = PView \<Longrightarrow>
     \<exists>s'. run_events pw_handle_input s [press K_s, press K_ESCAPE, press K_n] = Inr s'
        \<and> pmode s' = PAdd \<and> pshow s'
        \<and> (\<forall>t. take 26 t \<in> set (texts (pw_draw_field (s'\<lparr>pinputs := (pinputs s')\<lparr>pw_pass := t\<rparr>\<rparr>) 120 StPass ''Password:'')))"
  by (simp add: press_def pw_handle_input_def pw_key_view_def pw_key_list_def pw_draw_field_def pw_get_input_def
      texts_def List.map_filter_def Let_def)

theorem pw_show_leaks_into_add_witness:
  "\<exists>s'. run_events pw_handle_input ((pw_init (Some [no_inputs]))\<lparr>pmode := PView\<rparr>) [press K_s, press K_ESCAPE, press K_n] = Inr s'
     \<and> pmode s' = PAdd \<and> pshow s'"
  using pw_show_leaks_into_add [of "(pw_init (Some [no_inputs]))\<lparr>pmode := PView\<rparr>"] by fastforce

end
