(* ===== verification/Text_Editor.thy ===== *)
theory Text_Editor
  imports Julius_Prelude
begin

text \<open>
  The text editor (\<^verbatim>\<open>src/src/apps/texteditor/texteditor.py\<close>): a list of lines with a cursor,
  the editing operations, saving and loading, the two screens and the key handler; and its
  refinement of a text split at the cursor. Cursor and scroll are never decremented below
  zero by the code, so they are natural numbers; indexing the lines may still raise. Whether
  the file system refuses to open a file, and with which message, is a parameter.
\<close>

datatype te_mode = InputName | EditText

record text_editor =
  te_lines :: "string list"
  te_cx :: nat
  te_cy :: nat
  te_scroll :: nat
  te_filename :: string
  te_mode :: te_mode
  te_status :: string
  te_modified :: bool
  te_files :: "string \<rightharpoonup> string"

record te_fs =
  fs_write_error :: "string \<Rightarrow> string option"
  fs_read_error :: "string \<Rightarrow> string option"

definition te_init :: "(string \<rightharpoonup> string) \<Rightarrow> text_editor" where
  "te_init files = \<lparr>te_lines = [[]], te_cx = 0, te_cy = 0, te_scroll = 0, te_filename = [],
     te_mode = InputName, te_status = ''Enter filename'', te_modified = False, te_files = files\<rparr>"

definition current_line :: "text_editor \<Rightarrow> string res" where
  "current_line s = py_get (te_lines s) (int (te_cy s))"

definition insert_char :: "string \<Rightarrow> text_editor \<Rightarrow> text_editor res" where
  "insert_char ch s =
     res_bind (py_get (te_lines s) (int (te_cy s))) (\<lambda>line.
     res_bind (py_set (te_lines s) (int (te_cy s)) (take (te_cx s) line @ ch @ drop (te_cx s) line)) (\<lambda>ls.
       Inr (s\<lparr>te_lines := ls, te_cx := te_cx s + 1, te_modified := True\<rparr>)))"

definition backspace :: "text_editor \<Rightarrow> text_editor res" where
  "backspace s =
     (if te_cx s > 0 then
        res_bind (py_get (te_lines s) (int (te_cy s))) (\<lambda>line.
        res_bind (py_set (te_lines s) (int (te_cy s)) (take (te_cx s - 1) line @ drop (te_cx s) line)) (\<lambda>ls.
          Inr (s\<lparr>te_lines := ls, te_cx := te_cx s - 1, te_modified := True\<rparr>)))
      else if te_cy s > 0 then
        res_bind (py_get (te_lines s) (int (te_cy s) - 1)) (\<lambda>prev.
        res_bind (py_get (te_lines s) (int (te_cy s))) (\<lambda>line.
        res_bind (py_set (te_lines s) (int (te_cy s) - 1) (prev @ line)) (\<lambda>ls.
        res_bind (py_pop ls (int (te_cy s))) (\<lambda>ls'.
          Inr (s\<lparr>te_lines := ls', te_cx := length prev, te_cy := te_cy s - 1, te_modified := True\<rparr>)))))
      else Inr s)"

definition newline :: "text_editor \<Rightarrow> text_editor res" where
  "newline s =
     res_bind (py_get (te_lines s) (int (te_cy s))) (\<lambda>line.
     res_bind (py_set (te_lines s) (int (te_cy s)) (take (te_cx s) line)) (\<lambda>ls.
       Inr (s\<lparr>te_lines := py_insert ls (te_cy s + 1) (drop (te_cx s) line),
              te_cy := te_cy s + 1, te_cx := 0, te_modified := True\<rparr>)))"

definition te_save :: "te_fs \<Rightarrow> text_editor \<Rightarrow> text_editor" where
  "te_save fs s =
     (case fs_write_error fs (te_filename s) of
        None \<Rightarrow> s\<lparr>te_files := (te_files s)(te_filename s \<mapsto> py_join newline_char (te_lines s)),
                   te_status := ''Saved '' @ te_filename s, te_modified := False\<rparr>
      | Some e \<Rightarrow> s\<lparr>te_status := ''Error: '' @ e\<rparr>)"

definition te_load :: "te_fs \<Rightarrow> text_editor \<Rightarrow> text_editor" where
  "te_load fs s =
     (case te_files s (te_filename s) of
        Some content \<Rightarrow>
          (case fs_read_error fs (te_filename s) of
             None \<Rightarrow> s\<lparr>te_lines := py_split newline_char (universal_newlines content),
                        te_status := ''Opened '' @ te_filename s, te_cx := 0, te_cy := 0, te_mode := EditText\<rparr>
           | Some e \<Rightarrow> s\<lparr>te_status := ''Error: '' @ e\<rparr>)
      | None \<Rightarrow> s\<lparr>te_lines := [[]], te_status := ''New file: '' @ te_filename s, te_cx := 0, te_cy := 0,
                   te_mode := EditText\<rparr>)"

subsection \<open>Screens\<close>

definition te_draw_input_name :: "text_editor \<Rightarrow> draw_cmd list" where
  "te_draw_input_name s =
     app_header ''Text Editor''
     @ [DText ''Filename:'' GREEN (8, 40), DText (te_filename s @ ''_'') TEXT (8, 58)]
     @ app_footer ''ENTER=open/create  ESC=cancel''"

definition te_draw_edit :: "text_editor \<Rightarrow> draw_cmd list" where
  "te_draw_edit s =
     [Fill BG,
      DText (drop (length (te_filename s) - 20) (te_filename s) @ (if te_modified s then '' *'' else [])) ACCENT (8, 8),
      DLine ACCENT (0, 24) (240, 24)]
     @ draw_rows (int (te_scroll s)) 13 28 14
         (\<lambda>row y line.
            (if row = int (te_cy s) then [highlight y 13] else [])
            @ [DText (take 28 line) TEXT (8, y)]
            @ (if row = int (te_cy s) then [DRect CURSOR (8 + int (te_cx s) * 7, y, 2, 11)] else []))
         (te_lines s)
     @ [DText (''L'' @ py_str_int (int (te_cy s) + 1) @ '':C'' @ py_str_int (int (te_cx s) + 1)) DIM (8, 226),
        DText (take 20 (te_status s)) GREEN (60, 226),
        DText ''CTRL+S=save  ESC=menu'' DIM (8, 214), Flip]"

definition te_draw :: "text_editor \<Rightarrow> draw_cmd list" where
  "te_draw s = (case te_mode s of InputName \<Rightarrow> te_draw_input_name s | EditText \<Rightarrow> te_draw_edit s)"

subsection \<open>Input\<close>

definition te_key_name :: "te_fs \<Rightarrow> text_editor \<Rightarrow> key \<Rightarrow> string \<Rightarrow> text_editor" where
  "te_key_name fs s k u =
     (if k = K_RETURN \<and> te_filename s \<noteq> [] then te_load fs s
      else if k = K_BACKSPACE then s\<lparr>te_filename := butlast (te_filename s)\<rparr>
      else if k = K_ESCAPE then s\<lparr>te_filename := []\<rparr>
      else s\<lparr>te_filename := te_filename s @ u\<rparr>)"

definition te_up :: "text_editor \<Rightarrow> text_editor res" where
  "te_up s =
     res_bind
       (if te_cy s > 0 then
          (let s1 = s\<lparr>te_cy := te_cy s - 1\<rparr>
           in res_bind (current_line s1) (\<lambda>l. Inr (s1\<lparr>te_cx := min (te_cx s) (length l)\<rparr>)))
        else Inr s)
       (\<lambda>s2. Inr (if te_cy s2 < te_scroll s2 then s2\<lparr>te_scroll := te_scroll s2 - 1\<rparr> else s2))"

definition te_down :: "text_editor \<Rightarrow> text_editor res" where
  "te_down s =
     res_bind
       (if te_cy s + 1 < length (te_lines s) then
          (let s1 = s\<lparr>te_cy := te_cy s + 1\<rparr>
           in res_bind (current_line s1) (\<lambda>l. Inr (s1\<lparr>te_cx := min (te_cx s) (length l)\<rparr>)))
        else Inr s)
       (\<lambda>s2. Inr (if te_cy s2 \<ge> te_scroll s2 + 13 then s2\<lparr>te_scroll := te_scroll s2 + 1\<rparr> else s2))"

definition te_key_edit :: "te_fs \<Rightarrow> text_editor \<Rightarrow> key \<Rightarrow> string \<Rightarrow> bool \<Rightarrow> text_editor res" where
  "te_key_edit fs s k u ctrl =
     (if k = K_ESCAPE then
        Inr (s\<lparr>te_mode := InputName, te_filename := [], te_lines := [[]], te_cx := 0, te_cy := 0\<rparr>)
      else if k = K_s \<and> ctrl then Inr (te_save fs s)
      else if k = K_RETURN then newline s
      else if k = K_BACKSPACE then backspace s
      else if k = K_LEFT then Inr (s\<lparr>te_cx := te_cx s - 1\<rparr>)
      else if k = K_RIGHT then
        res_bind (current_line s) (\<lambda>l. Inr (s\<lparr>te_cx := min (length l) (te_cx s + 1)\<rparr>))
      else if k = K_UP then te_up s
      else if k = K_DOWN then te_down s
      else if u \<noteq> [] then insert_char u s
      else Inr s)"

definition te_handle_input :: "te_fs \<Rightarrow> text_editor \<Rightarrow> event \<Rightarrow> text_editor res" where
  "te_handle_input fs s e =
     (case e of
        KeyDown k u ctrl \<Rightarrow>
          (case te_mode s of InputName \<Rightarrow> Inr (te_key_name fs s k u) | EditText \<Rightarrow> te_key_edit fs s k u ctrl)
      | _ \<Rightarrow> Inr s)"

subsection \<open>The cursor stays in the text\<close>

definition te_ok :: "text_editor \<Rightarrow> bool" where
  "te_ok s \<longleftrightarrow> te_cy s < length (te_lines s) \<and> te_cx s \<le> length (te_lines s ! te_cy s)"

lemma te_ok_init: "te_ok (te_init files)"
  by (simp add: te_ok_def te_init_def)

lemma get_line [simp]: "te_ok s \<Longrightarrow> py_get (te_lines s) (int (te_cy s)) = Inr (te_lines s ! te_cy s)"
  by (simp add: te_ok_def py_simps)

lemma set_line [simp]: "te_ok s \<Longrightarrow> py_set (te_lines s) (int (te_cy s)) v = Inr ((te_lines s)[te_cy s := v])"
  by (simp add: te_ok_def py_simps)

lemma insert_char_eq:
  "te_ok s \<Longrightarrow> insert_char ch s = Inr (s\<lparr>te_lines := (te_lines s)[te_cy s := take (te_cx s) (te_lines s ! te_cy s) @ ch
     @ drop (te_cx s) (te_lines s ! te_cy s)], te_cx := te_cx s + 1, te_modified := True\<rparr>)"
  by (simp add: insert_char_def)

lemma newline_eq:
  "te_ok s \<Longrightarrow> newline s = Inr (s\<lparr>te_lines := py_insert ((te_lines s)[te_cy s := take (te_cx s) (te_lines s ! te_cy s)])
     (te_cy s + 1) (drop (te_cx s) (te_lines s ! te_cy s)), te_cy := te_cy s + 1, te_cx := 0, te_modified := True\<rparr>)"
  by (simp add: newline_def)

lemma backspace_eq:
  assumes "te_ok s"
  shows "backspace s = Inr
    (if te_cx s > 0 then
       s\<lparr>te_lines := (te_lines s)[te_cy s := take (te_cx s - 1) (te_lines s ! te_cy s) @ drop (te_cx s) (te_lines s ! te_cy s)],
         te_cx := te_cx s - 1, te_modified := True\<rparr>
     else if te_cy s > 0 then
       s\<lparr>te_lines := del_nth ((te_lines s)[te_cy s - 1 := te_lines s ! (te_cy s - 1) @ te_lines s ! te_cy s]) (te_cy s),
         te_cx := length (te_lines s ! (te_cy s - 1)), te_cy := te_cy s - 1, te_modified := True\<rparr>
     else s)"
proof (cases "te_cx s = 0 \<and> te_cy s > 0")
  case True
  then obtain k where k: "te_cy s = Suc k" by (cases "te_cy s") auto
  have lt: "Suc k < length (te_lines s)" using assms k by (simp add: te_ok_def)
  have "py_get (te_lines s) (int (te_cy s) - 1) = Inr (te_lines s ! k)"
    and "py_set (te_lines s) (int (te_cy s) - 1) v = Inr ((te_lines s)[k := v])"
    and "py_pop ((te_lines s)[k := v]) (int (te_cy s)) = Inr (del_nth ((te_lines s)[k := v]) (te_cy s))" for v
    using lt by (simp_all add: k py_simps nat_add_distrib)
  with get_line [OF assms] True show ?thesis by (simp add: backspace_def k)
next
  case False
  then show ?thesis using assms by (auto simp: backspace_def)
qed

subsection \<open>The text before and after the cursor\<close>

text \<open>The interface of an editable text: what typing and erasing do to a text split at the cursor.\<close>

locale text_buffer =
  fixes abs :: "'s \<Rightarrow> string \<times> string"
    and invar :: "'s \<Rightarrow> bool"
    and put :: "char \<Rightarrow> 's \<Rightarrow> 's res"
    and erase :: "'s \<Rightarrow> 's res"
  assumes put: "invar s \<Longrightarrow> \<exists>s'. put c s = Inr s' \<and> invar s' \<and> abs s' = (fst (abs s) @ [c], snd (abs s))"
    and erase: "invar s \<Longrightarrow> \<exists>s'. erase s = Inr s' \<and> invar s' \<and> abs s' = (butlast (fst (abs s)), snd (abs s))"
begin

lemma put_run:
  "invar s \<Longrightarrow> \<exists>s'. run_events (\<lambda>s c. put c s) s t = Inr s' \<and> invar s' \<and> abs s' = (fst (abs s) @ t, snd (abs s))"
proof (induction t arbitrary: s)
  case Nil
  then show ?case by (cases "abs s") simp
next
  case (Cons c t)
  from put [OF Cons.prems, of c] obtain s1 where s1: "put c s = Inr s1" "invar s1" "abs s1 = (fst (abs s) @ [c], snd (abs s))"
    by blast
  from Cons.IH [OF s1(2)] s1 show ?case by simp
qed

lemma erase_run:
  "invar s \<Longrightarrow> \<exists>s'. run_events (\<lambda>s _. erase s) s (replicate n ()) = Inr s' \<and> invar s'
     \<and> abs s' = (take (length (fst (abs s)) - n) (fst (abs s)), snd (abs s))"
proof (induction n arbitrary: s)
  case 0
  then show ?case by (cases "abs s") simp
next
  case (Suc n)
  from erase [OF Suc.prems] obtain s1 where s1: "erase s = Inr s1" "invar s1" "abs s1 = (butlast (fst (abs s)), snd (abs s))"
    by blast
  have "take (length (butlast xs) - n) (butlast xs) = take (length xs - Suc n) xs" for xs :: string
    by (cases "xs = []") (simp_all add: butlast_conv_take)
  with Suc.IH [OF s1(2)] s1 show ?case by simp
qed

end

definition te_before :: "text_editor \<Rightarrow> string" where
  "te_before s = concat (map (\<lambda>l. l @ [newline_char]) (take (te_cy s) (te_lines s))) @ take (te_cx s) (te_lines s ! te_cy s)"

definition te_after :: "text_editor \<Rightarrow> string" where
  "te_after s = drop (te_cx s) (te_lines s ! te_cy s) @ concat (map (\<lambda>l. newline_char # l) (drop (Suc (te_cy s)) (te_lines s)))"

definition te_abs :: "text_editor \<Rightarrow> string \<times> string" where
  "te_abs s = (te_before s, te_after s)"

lemma te_split:
  assumes "te_ok s"
  obtains xs a b ys where "te_lines s = xs @ (a @ b) # ys" "te_cy s = length xs" "te_cx s = length a"
proof
  let ?l = "te_lines s ! te_cy s"
  show "te_lines s = take (te_cy s) (te_lines s) @ (take (te_cx s) ?l @ drop (te_cx s) ?l) # drop (Suc (te_cy s)) (te_lines s)"
    using assms id_take_nth_drop [of "te_cy s" "te_lines s"] by (simp add: te_ok_def)
  show "te_cy s = length (take (te_cy s) (te_lines s))" "te_cx s = length (take (te_cx s) ?l)"
    using assms by (simp_all add: te_ok_def)
qed

lemma te_abs_split:
  "te_lines s = xs @ (a @ b) # ys \<Longrightarrow> te_cy s = length xs \<Longrightarrow> te_cx s = length a \<Longrightarrow>
     te_ok s \<and> te_abs s = (concat (map (\<lambda>l. l @ [newline_char]) xs) @ a, b @ concat (map (\<lambda>l. newline_char # l) ys))"
  by (simp add: te_ok_def te_abs_def te_before_def te_after_def)

lemma py_join_split_lines:
  "py_join sep (xs @ l # ys) = concat (map (\<lambda>l. l @ [sep]) xs) @ l @ concat (map (\<lambda>l. sep # l) ys)"
proof (induction xs)
  case Nil
  have "py_join sep (l # ys) = l @ concat (map (\<lambda>l. sep # l) ys)"
    by (induction ys arbitrary: l) simp_all
  then show ?case by simp
next
  case (Cons x xs)
  then show ?case by (simp add: py_join_Cons)
qed

text \<open>The text of the editor is what stands before and after the cursor.\<close>

lemma te_text: "te_ok s \<Longrightarrow> py_join newline_char (te_lines s) = te_before s @ te_after s"
proof -
  assume "te_ok s"
  then obtain xs a b ys where l: "te_lines s = xs @ (a @ b) # ys" and c: "te_cy s = length xs" "te_cx s = length a"
    by (rule te_split)
  from te_abs_split [OF l c] show ?thesis by (simp add: te_abs_def l py_join_split_lines)
qed

lemma insert_char_abs:
  assumes "te_ok s"
  shows "\<exists>s'. insert_char [c] s = Inr s' \<and> te_ok s' \<and> te_abs s' = (fst (te_abs s) @ [c], snd (te_abs s)) \<and> te_mode s' = te_mode s"
proof -
  from assms obtain xs a b ys where l: "te_lines s = xs @ (a @ b) # ys" and c: "te_cy s = length xs" "te_cx s = length a"
    by (rule te_split)
  define s' where "s' = s\<lparr>te_lines := xs @ ((a @ [c]) @ b) # ys, te_cx := te_cx s + 1, te_modified := True\<rparr>"
  have "insert_char [c] s = Inr s'" using assms by (simp add: insert_char_eq s'_def l c)
  moreover have "te_ok s' \<and> te_abs s' = (concat (map (\<lambda>l. l @ [newline_char]) xs) @ (a @ [c]), b @ concat (map (\<lambda>l. newline_char # l) ys))"
    by (rule te_abs_split) (simp_all add: s'_def c)
  ultimately show ?thesis using te_abs_split [OF l c] by (simp add: s'_def)
qed

lemma newline_abs:
  assumes "te_ok s"
  shows "\<exists>s'. newline s = Inr s' \<and> te_ok s' \<and> te_abs s' = (fst (te_abs s) @ [newline_char], snd (te_abs s)) \<and> te_mode s' = te_mode s"
proof -
  from assms obtain xs a b ys where l: "te_lines s = xs @ (a @ b) # ys" and c: "te_cy s = length xs" "te_cx s = length a"
    by (rule te_split)
  define s' where "s' = s\<lparr>te_lines := (xs @ [a]) @ ([] @ b) # ys, te_cy := te_cy s + 1, te_cx := 0, te_modified := True\<rparr>"
  have "newline s = Inr s'" using assms by (simp add: newline_eq s'_def l c py_insert_def)
  moreover have "te_ok s' \<and> te_abs s' = (concat (map (\<lambda>l. l @ [newline_char]) (xs @ [a])) @ [], b @ concat (map (\<lambda>l. newline_char # l) ys))"
    by (rule te_abs_split) (simp_all add: s'_def c)
  ultimately show ?thesis using te_abs_split [OF l c] by (simp add: s'_def)
qed

lemma backspace_abs:
  assumes "te_ok s"
  shows "\<exists>s'. backspace s = Inr s' \<and> te_ok s' \<and> te_abs s' = (butlast (fst (te_abs s)), snd (te_abs s)) \<and> te_mode s' = te_mode s"
proof -
  from assms obtain xs a b ys where l: "te_lines s = xs @ (a @ b) # ys" and c: "te_cy s = length xs" "te_cx s = length a"
    by (rule te_split)
  note old = te_abs_split [OF l c]
  consider (char) a' ch where "a = a' @ [ch]" | (line) xs' p where "a = []" "xs = xs' @ [p]" | (origin) "a = []" "xs = []"
    by (metis rev_exhaust)
  then show ?thesis
  proof cases
    case char
    define s' where "s' = s\<lparr>te_lines := xs @ (a' @ b) # ys, te_cx := te_cx s - 1, te_modified := True\<rparr>"
    have "backspace s = Inr s'" using assms by (simp add: backspace_eq s'_def l c char)
    moreover have "te_ok s' \<and> te_abs s' = (concat (map (\<lambda>l. l @ [newline_char]) xs) @ a', b @ concat (map (\<lambda>l. newline_char # l) ys))"
      by (rule te_abs_split) (simp_all add: s'_def c char)
    ultimately show ?thesis using old by (simp add: s'_def char butlast_append)
  next
    case line
    define s' where "s' = s\<lparr>te_lines := xs' @ (p @ b) # ys, te_cx := length p, te_cy := te_cy s - 1, te_modified := True\<rparr>"
    have "backspace s = Inr s'" using assms by (simp add: backspace_eq s'_def l c line nth_append del_nth_def list_update_append)
    moreover have "te_ok s' \<and> te_abs s' = (concat (map (\<lambda>l. l @ [newline_char]) xs') @ p, b @ concat (map (\<lambda>l. newline_char # l) ys))"
      by (rule te_abs_split) (simp_all add: s'_def c line)
    ultimately show ?thesis using old by (simp add: s'_def line butlast_append)
  next
    case origin
    have "backspace s = Inr s" using assms by (simp add: backspace_eq c origin)
    with old assms show ?thesis by (simp add: origin)
  qed
qed

text \<open>Typing a character: the line feed of ENTER, any other character through its key.\<close>

definition te_put :: "char \<Rightarrow> text_editor \<Rightarrow> text_editor res" where
  "te_put c s = (if c = newline_char then newline s else insert_char [c] s)"

definition te_editing :: "text_editor \<Rightarrow> bool" where
  "te_editing s \<longleftrightarrow> te_ok s \<and> te_mode s = EditText"

interpretation te_buffer: text_buffer te_abs te_editing te_put backspace
proof
  show "\<exists>s'. te_put c s = Inr s' \<and> te_editing s' \<and> te_abs s' = (fst (te_abs s) @ [c], snd (te_abs s))"
    if "te_editing s" for s c
    using that insert_char_abs [of s c] newline_abs [of s] by (auto simp: te_put_def te_editing_def)
  show "\<exists>s'. backspace s = Inr s' \<and> te_editing s' \<and> te_abs s' = (butlast (fst (te_abs s)), snd (te_abs s))"
    if "te_editing s" for s
    using that backspace_abs [of s] by (auto simp: te_editing_def)
qed

subsection \<open>The key handler never raises\<close>

lemma te_up_ok:
  assumes "te_ok s"
  shows "\<exists>s'. te_up s = Inr s' \<and> te_ok s' \<and> te_lines s' = te_lines s \<and> te_mode s' = te_mode s"
proof -
  have "py_get (te_lines s) (int k) = Inr (te_lines s ! k)" if "k \<le> te_cy s" for k
    using assms that by (simp add: te_ok_def py_simps)
  with assms show ?thesis
    by (cases "te_cy s") (auto simp: te_up_def current_line_def te_ok_def Let_def)
qed

lemma te_down_ok:
  assumes "te_ok s"
  shows "\<exists>s'. te_down s = Inr s' \<and> te_ok s' \<and> te_lines s' = te_lines s \<and> te_mode s' = te_mode s"
proof (cases "te_cy s + 1 < length (te_lines s)")
  case True
  then have "py_get (te_lines s) (int (te_cy s + 1)) = Inr (te_lines s ! (te_cy s + 1))"
    by (simp only: py_get_ok of_nat_0_le_iff of_nat_less_iff nat_int)
  with True show ?thesis by (simp add: te_down_def current_line_def te_ok_def Let_def)
next
  case False
  with assms show ?thesis by (simp add: te_down_def te_ok_def)
qed

lemma te_key_edit_ok:
  assumes ok: "te_ok s"
  shows "\<exists>s'. te_key_edit fs s k u ctrl = Inr s' \<and> te_ok s'"
proof -
  note ok
  moreover have "te_ok (te_save fs s)" using ok by (simp add: te_save_def te_ok_def split: option.split)
  moreover have "\<exists>s'. insert_char u s = Inr s' \<and> te_ok s'" if "u \<noteq> []"
    using ok that by (cases u) (auto simp: insert_char_eq [OF ok] te_ok_def)
  moreover have "te_ok (s\<lparr>te_cx := te_cx s - 1\<rparr>)" using ok by (auto simp: te_ok_def)
  moreover have "\<exists>s'. res_bind (current_line s) (\<lambda>l. Inr (s\<lparr>te_cx := min (length l) (te_cx s + 1)\<rparr>)) = Inr s' \<and> te_ok s'"
    using ok by (simp add: current_line_def) (simp add: te_ok_def)
  ultimately show ?thesis
    using newline_abs [OF ok] backspace_abs [OF ok] te_up_ok [OF ok] te_down_ok [OF ok]
    by (auto simp: te_key_edit_def te_ok_def [of "s\<lparr>te_mode := InputName, te_filename := [], te_lines := [[]], te_cx := 0, te_cy := 0\<rparr>"])
qed

lemma te_key_name_ok: "te_ok s \<Longrightarrow> te_ok (te_key_name fs s k u)"
  by (auto simp: te_key_name_def te_load_def te_ok_def split: option.split)

interpretation te_app: event_app "te_handle_input fs" te_ok for fs
proof
  fix s e
  assume "te_ok s"
  then show "\<exists>s'. te_handle_input fs s e = Inr s' \<and> te_ok s'"
    using te_key_edit_ok te_key_name_ok by (auto simp: te_handle_input_def split: event.splits te_mode.splits)
qed

subsection \<open>Properties\<close>

text \<open>
  No sequence of events makes the text editor raise, for any files and any failures of
  the file system, and the cursor always stands inside the text.
\<close>

theorem te_never_raises:
  "\<exists>s'. run_events (te_handle_input fs) (te_init files) es = Inr s'
     \<and> te_cy s' < length (te_lines s') \<and> te_cx s' \<le> length (te_lines s' ! te_cy s')"
  using te_app.run_ok [OF te_ok_init, of fs files es] by (auto simp: te_ok_def)

text \<open>
  (C23) The editor refines a text split at the cursor: typing a text, line breaks included,
  inserts exactly that text before the cursor, and erasing as many characters restores what
  was there.
\<close>

theorem te_type_and_erase:
  "te_ok s \<Longrightarrow> te_mode s = EditText \<Longrightarrow>
     \<exists>s1 s2. run_events (\<lambda>s c. te_put c s) s t = Inr s1 \<and> te_abs s1 = (te_before s @ t, te_after s)
        \<and> py_join newline_char (te_lines s1) = te_before s @ t @ te_after s
        \<and> run_events (\<lambda>s _. backspace s) s1 (replicate (length t) ()) = Inr s2 \<and> te_abs s2 = te_abs s"
proof -
  assume "te_ok s" "te_mode s = EditText"
  then have "te_editing s" by (simp add: te_editing_def)
  from te_buffer.put_run [OF this] obtain s1 where s1: "run_events (\<lambda>s c. te_put c s) s t = Inr s1" "te_editing s1"
    "te_abs s1 = (te_before s @ t, te_after s)" by (auto simp: te_abs_def)
  from te_buffer.erase_run [OF s1(2), of "length t"] obtain s2 where
    "run_events (\<lambda>s _. backspace s) s1 (replicate (length t) ()) = Inr s2"
    "te_abs s2 = (take (length (fst (te_abs s1)) - length t) (fst (te_abs s1)), snd (te_abs s1))" by blast
  then have "run_events (\<lambda>s _. backspace s) s1 (replicate (length t) ()) = Inr s2" "te_abs s2 = te_abs s"
    unfolding s1(3) by (simp_all add: te_abs_def)
  moreover have "py_join newline_char (te_lines s1) = te_before s @ t @ te_after s"
    using s1 te_text [of s1] by (simp add: te_editing_def te_abs_def)
  ultimately show ?thesis using s1 by blast
qed

theorem te_type_and_erase_witness:
  "\<exists>s1. run_events (\<lambda>s c. te_put c s) ((te_init Map.empty)\<lparr>te_mode := EditText\<rparr>) (''ab'' @ [newline_char] @ ''c'') = Inr s1
     \<and> py_join newline_char (te_lines s1) = ''ab'' @ [newline_char] @ ''c''"
  using te_type_and_erase [of "(te_init Map.empty)\<lparr>te_mode := EditText\<rparr>" "''ab'' @ [newline_char] @ ''c''"]
  by (auto simp: te_ok_def te_init_def te_before_def te_after_def)

text \<open>
  Saving and opening again gives back the same lines, when no line holds a carriage
  return or a line feed and the file system accepts both operations.
\<close>

theorem te_save_load:
  "te_lines s \<noteq> [] \<Longrightarrow> \<forall>l\<in>set (te_lines s). newline_char \<notin> set l \<and> cr_char \<notin> set l \<Longrightarrow>
   fs_write_error fs (te_filename s) = None \<Longrightarrow> fs_read_error fs (te_filename s) = None \<Longrightarrow>
     te_lines (te_load fs (te_save fs s)) = te_lines s \<and> \<not> te_modified (te_load fs (te_save fs s))
     \<and> te_mode (te_load fs (te_save fs s)) = EditText"
proof -
  assume ne: "te_lines s \<noteq> []" and l: "\<forall>l\<in>set (te_lines s). newline_char \<notin> set l \<and> cr_char \<notin> set l"
    and fs: "fs_write_error fs (te_filename s) = None" "fs_read_error fs (te_filename s) = None"
  have "set (py_join sep ls) \<subseteq> insert sep (\<Union>l\<in>set ls. set l)" for sep :: char and ls
    by (induction sep ls rule: py_join.induct) auto
  from this [of newline_char "te_lines s"] l have "cr_char \<notin> set (py_join newline_char (te_lines s))" by auto
  then have "universal_newlines (py_join newline_char (te_lines s)) = py_join newline_char (te_lines s)"
    by (rule universal_newlines_id)
  moreover have "py_split newline_char (py_join newline_char (te_lines s)) = te_lines s"
    using ne l by (intro py_split_join) auto
  ultimately show ?thesis by (simp add: te_save_def te_load_def fs)
qed

theorem te_save_load_witness:
  "te_lines (te_load \<lparr>fs_write_error = \<lambda>_. None, fs_read_error = \<lambda>_. None\<rparr>
     (te_save \<lparr>fs_write_error = \<lambda>_. None, fs_read_error = \<lambda>_. None\<rparr>
        ((te_init Map.empty)\<lparr>te_filename := ''f'', te_lines := [''ab'', [], ''c'']\<rparr>))) = [''ab'', [], ''c'']"
  using te_save_load [of "(te_init Map.empty)\<lparr>te_filename := ''f'', te_lines := [''ab'', [], ''c'']\<rparr>"
      "\<lparr>fs_write_error = \<lambda>_. None, fs_read_error = \<lambda>_. None\<rparr>"]
  by simp

end
