(* ===== verification/Todo.thy ===== *)
theory Todo
  imports Julius_Prelude
begin

text \<open>
  The Todo application (\<^verbatim>\<open>src/src/apps/todo/todo.py\<close>). A task is a dictionary that the
  filtered view shares with the full list: the view is modelled as the list of positions in
  \<open>self.tasks\<close>, so that toggling a task of the view changes the task itself.
\<close>

record task =
  tk_text :: string
  tk_done :: bool

datatype todo_mode = TList | TAdd
datatype todo_filter = FAll | FPending | FDone

record todo_state =
  ttasks :: "task list"
  tselected :: int
  tmode :: todo_mode
  tinput :: string
  tscroll :: int
  tfilter :: todo_filter
  todo_file :: "task list option"

definition todo_load :: "task list option \<Rightarrow> task list" where
  "todo_load f = (case f of Some ts \<Rightarrow> ts | None \<Rightarrow> [])"

definition todo_init :: "task list option \<Rightarrow> todo_state" where
  "todo_init f = \<lparr>ttasks = todo_load f, tselected = 0, tmode = TList, tinput = [], tscroll = 0,
                  tfilter = FAll, todo_file = f\<rparr>"

definition todo_save :: "todo_state \<Rightarrow> todo_state" where
  "todo_save s = s\<lparr>todo_file := Some (ttasks s)\<rparr>"

definition filter_keeps :: "todo_filter \<Rightarrow> task \<Rightarrow> bool" where
  "filter_keeps f t = (case f of FAll \<Rightarrow> True | FPending \<Rightarrow> \<not> tk_done t | FDone \<Rightarrow> tk_done t)"

definition filtered :: "todo_state \<Rightarrow> nat list" where
  "filtered s = filter (\<lambda>i. filter_keeps (tfilter s) (ttasks s ! i)) [0..<length (ttasks s)]"

definition filter_name :: "todo_filter \<Rightarrow> string" where
  "filter_name f = (case f of FAll \<Rightarrow> ''all'' | FPending \<Rightarrow> ''pending'' | FDone \<Rightarrow> ''done'')"

definition filter_next :: "todo_filter \<Rightarrow> todo_filter" where
  "filter_next f = (case f of FAll \<Rightarrow> FPending | FPending \<Rightarrow> FDone | FDone \<Rightarrow> FAll)"

subsection \<open>Screens\<close>

definition todo_draw_list :: "todo_state \<Rightarrow> draw_cmd list" where
  "todo_draw_list s =
     [Fill BG, DText ''Todo List'' ACCENT (8, 8),
      DText (py_str_int (int (length (filter tk_done (ttasks s)))) @ ''/'' @ py_str_int (int (length (ttasks s))))
        GREEN (200, 8),
      DLine ACCENT (0, 24) (240, 24),
      DText (''Filter: '' @ filter_name (tfilter s)) DIM (8, 27), DLine DIM (0, 38) (240, 38)]
     @ (if filtered s = [] then [DText ''No tasks. Press N to add'' DIM (8, 120)]
        else draw_rows (tscroll s) 10 42 16
               (\<lambda>idx y t.
                  (if idx = tselected s then [highlight y 15] else [])
                  @ [DText (if tk_done t then ''[X]'' else ''[ ]'') (if tk_done t then GREEN else DIM) (8, y),
                     DText (take 22 (tk_text t)) (if idx = tselected s then ACCENT else TEXT) (40, y)])
               (map (\<lambda>i. ttasks s ! i) (filtered s)))
     @ app_footer ''N=add ENTER=done D=del F=filter''"

definition todo_draw_add :: "todo_state \<Rightarrow> draw_cmd list" where
  "todo_draw_add s =
     app_header ''New Task''
     @ [DText ''Task:'' GREEN (8, 40), DText (tinput s @ ''_'') TEXT (8, 60)]
     @ app_footer ''ENTER=save  ESC=cancel''"

definition todo_draw :: "todo_state \<Rightarrow> draw_cmd list" where
  "todo_draw s = (case tmode s of TList \<Rightarrow> todo_draw_list s | TAdd \<Rightarrow> todo_draw_add s)"

subsection \<open>Input\<close>

definition toggle_done :: "nat \<Rightarrow> task list \<Rightarrow> task list" where
  "toggle_done i ts = ts[i := (ts ! i)\<lparr>tk_done := \<not> tk_done (ts ! i)\<rparr>]"

definition todo_key_list :: "todo_state \<Rightarrow> key \<Rightarrow> todo_state res" where
  "todo_key_list s k =
     (let tasks = filtered s
      in if k = K_DOWN then
           (let c = nav_down 10 (int (length tasks)) (tselected s, tscroll s)
            in Inr (s\<lparr>tselected := fst c, tscroll := snd c\<rparr>))
         else if k = K_UP then
           (let c = nav_up (tselected s, tscroll s) in Inr (s\<lparr>tselected := fst c, tscroll := snd c\<rparr>))
         else if k = K_n then Inr (s\<lparr>tmode := TAdd, tinput := []\<rparr>)
         else if k = K_RETURN then
           (if tasks \<noteq> [] then
              res_bind (py_get tasks (tselected s))
                (\<lambda>i. Inr (todo_save (s\<lparr>ttasks := toggle_done i (ttasks s)\<rparr>)))
            else Inr s)
         else if k = K_d then
           (if tasks \<noteq> [] then
              res_bind (py_get tasks (tselected s)) (\<lambda>i.
              res_bind (py_remove (ttasks s) (ttasks s ! i)) (\<lambda>ts.
                Inr (todo_save (s\<lparr>ttasks := ts, tselected := max 0 (tselected s - 1)\<rparr>))))
            else Inr s)
         else if k = K_f then
           Inr (s\<lparr>tfilter := filter_next (tfilter s), tselected := 0, tscroll := 0\<rparr>)
         else Inr s)"

definition todo_key_add :: "todo_state \<Rightarrow> key \<Rightarrow> string \<Rightarrow> todo_state" where
  "todo_key_add s k u =
     (if k = K_RETURN \<and> tinput s \<noteq> [] then
        (todo_save (s\<lparr>ttasks := ttasks s @ [\<lparr>tk_text = tinput s, tk_done = False\<rparr>]\<rparr>))
          \<lparr>tmode := TList, tinput := []\<rparr>
      else if k = K_BACKSPACE then s\<lparr>tinput := butlast (tinput s)\<rparr>
      else if k = K_ESCAPE then s\<lparr>tmode := TList, tinput := []\<rparr>
      else s\<lparr>tinput := tinput s @ u\<rparr>)"

definition todo_handle_input :: "todo_state \<Rightarrow> event \<Rightarrow> todo_state res" where
  "todo_handle_input s e =
     (case e of
        KeyDown k u _ \<Rightarrow>
          (case tmode s of TList \<Rightarrow> todo_key_list s k | TAdd \<Rightarrow> Inr (todo_key_add s k u))
      | _ \<Rightarrow> Inr s)"

subsection \<open>Lemmas\<close>

lemma filtered_mem: "i \<in> set (filtered s) \<Longrightarrow> i < length (ttasks s)"
  by (auto simp: filtered_def)

lemma filtered_all: "tfilter s = FAll \<Longrightarrow> filtered s = [0..<length (ttasks s)]"
  by (simp add: filtered_def filter_keeps_def)

lemma todo_save_simps [simp]:
  "ttasks (todo_save s) = ttasks s" "tselected (todo_save s) = tselected s" "tmode (todo_save s) = tmode s"
  "tscroll (todo_save s) = tscroll s" "tfilter (todo_save s) = tfilter s" "tinput (todo_save s) = tinput s"
  "todo_file (todo_save s) = Some (ttasks s)"
  by (simp_all add: todo_save_def)

lemma length_toggle_done [simp]: "length (toggle_done i ts) = length ts"
  by (simp add: toggle_done_def)

lemma toggle_done_twice: "i < length ts \<Longrightarrow> toggle_done i (toggle_done i ts) = ts"
  by (simp add: toggle_done_def)

definition todo_ok :: "todo_state \<Rightarrow> bool" where
  "todo_ok s \<longleftrightarrow> 0 \<le> tscroll s \<and> 0 \<le> tselected s
     \<and> (tfilter s = FAll \<longrightarrow> sel_ok (int (length (ttasks s))) (tselected s))"

lemma todo_ok_init: "todo_ok (todo_init f)"
  by (simp add: todo_ok_def todo_init_def)

lemma todo_key_list_ok:
  assumes ok: "todo_ok s" and r: "todo_key_list s k = Inr s'"
  shows "todo_ok s'"
proof -
  let ?n = "int (length (filtered s))"
  have all: "tfilter s = FAll \<Longrightarrow> ?n = int (length (ttasks s))" by (simp add: filtered_all)
  from ok have nn: "0 \<le> tscroll s" "0 \<le> tselected s" by (simp_all add: todo_ok_def)
  have nav: "0 \<le> fst (nav_down 10 ?n (tselected s, tscroll s))" "0 \<le> snd (nav_down 10 ?n (tselected s, tscroll s))"
      "0 \<le> fst (nav_up (tselected s, tscroll s))" "0 \<le> snd (nav_up (tselected s, tscroll s))"
    using nn by (auto simp: nav_down_def nav_up_def Let_def)
  have rm: "sel_ok (int (length ts)) (max 0 (tselected s - 1))"
    if "py_remove (ttasks s) x = Inr ts" "sel_ok (int (length (ttasks s))) (tselected s)" for x ts
    using that by (cases "ttasks s") (auto simp: py_remove_def length_remove1 sel_ok_def split: if_splits)
  from r ok nn nav all rm sel_ok_nav_down [of ?n "tselected s" 10 "tscroll s"] sel_ok_nav_up [of ?n "tselected s" "tscroll s"]
  show ?thesis
    by (auto simp: todo_key_list_def todo_ok_def Let_def res_bind_Inr_iff split: if_splits)
qed

lemma todo_key_add_ok: "todo_ok s \<Longrightarrow> todo_ok (todo_key_add s k u)"
  by (auto simp: todo_key_add_def todo_ok_def intro: sel_ok_grow)

interpretation todo_app: stepping_app todo_handle_input todo_ok
  by unfold_locales
    (auto simp: todo_handle_input_def todo_key_add_ok dest: todo_key_list_ok split: event.splits todo_mode.splits)

text \<open>When a key raises: the selection lies behind the end of the filtered view.\<close>

lemma py_get_raises_iff: "0 \<le> i \<Longrightarrow> (py_get xs i = Inl x) = (int (length xs) \<le> i \<and> x = IndexError)"
  by (auto simp: py_get_def py_index_def split: option.splits)

lemma todo_remove_ok: "i \<in> set (filtered s) \<Longrightarrow> \<exists>ts. py_remove (ttasks s) (ttasks s ! i) = Inr ts"
  using filtered_mem by (auto simp: py_remove_def)

lemma todo_raises_iff:
  assumes "0 \<le> tselected s"
  shows "todo_handle_input s e = Inl x \<longleftrightarrow>
     x = IndexError \<and> tmode s = TList \<and> filtered s \<noteq> [] \<and> int (length (filtered s)) \<le> tselected s
     \<and> (\<exists>k u c. e = KeyDown k u c \<and> k \<in> {K_RETURN, K_d})"
proof -
  have "py_remove (ttasks s) (ttasks s ! i) \<noteq> Inl y" if "py_get (filtered s) (tselected s) = Inr i" for i y
    using todo_remove_ok [OF py_get_mem [OF that]] by auto
  then show ?thesis
    using assms py_get_raises_iff [OF assms, of "filtered s" x]
    by (cases e; cases "tmode s")
      (auto simp: todo_handle_input_def todo_key_list_def Let_def res_bind_Inl_iff)
qed

subsection \<open>Properties\<close>

text \<open>
  The only way the Todo application can raise: with a filter set, completing a task
  drops it from the view and leaves the selection behind its end; the next ENTER or D
  then indexes out of range. With the filter at "all" no event raises.
\<close>

theorem todo_raises_only_filtered:
  "run_events todo_handle_input (todo_init f) es = Inl x \<Longrightarrow>
     x = IndexError \<and> (\<exists>s e. e \<in> set es \<and> todo_handle_input s e = Inl x \<and> tfilter s \<noteq> FAll
        \<and> filtered s \<noteq> [] \<and> int (length (filtered s)) \<le> tselected s)"
proof -
  assume "run_events todo_handle_input (todo_init f) es = Inl x"
  from todo_app.run_raises [OF todo_ok_init this]
  obtain s e where s: "e \<in> set es" "todo_ok s" "todo_handle_input s e = Inl x" by blast
  then have sel: "0 \<le> tselected s" by (simp add: todo_ok_def)
  from s(3) have r: "x = IndexError" "filtered s \<noteq> []" "int (length (filtered s)) \<le> tselected s"
    unfolding todo_raises_iff [OF sel] by blast+
  have "tfilter s \<noteq> FAll"
    using s(2) r(2,3) by (auto simp: todo_ok_def sel_ok_def filtered_all)
  with s r show ?thesis by blast
qed

theorem todo_raises_only_filtered_witness:
  "run_events todo_handle_input
     (todo_init (Some [\<lparr>tk_text = ''a'', tk_done = False\<rparr>, \<lparr>tk_text = ''b'', tk_done = False\<rparr>]))
     [press K_f, press K_DOWN, press K_RETURN, press K_RETURN] = Inl IndexError
   \<and> (IndexError::py_error) = IndexError"
proof -
  let ?f = "Some [\<lparr>tk_text = ''a'', tk_done = False\<rparr>, \<lparr>tk_text = ''b'', tk_done = False\<rparr>]"
  have run: "run_events todo_handle_input (todo_init ?f) [press K_f, press K_DOWN, press K_RETURN, press K_RETURN] = Inl IndexError"
    by (simp add: press_def todo_init_def todo_load_def todo_handle_input_def todo_key_list_def filtered_def filter_keeps_def
        filter_next_def nav_down_def py_get_def py_index_def toggle_done_def todo_save_def upt_rec Let_def)
  from todo_raises_only_filtered [OF run] run show ?thesis by blast
qed

text \<open>
  Deleting the selected task takes away exactly one task equal to it and saves the
  rest; completing a task twice in the unfiltered list restores the list.
\<close>

theorem todo_delete_and_toggle:
  "tmode s = TList \<Longrightarrow> 0 \<le> tselected s \<Longrightarrow> tselected s < int (length (filtered s)) \<Longrightarrow>
   (\<exists>s'. todo_handle_input s (KeyDown K_d u c) = Inr s'
      \<and> add_mset (ttasks s ! (filtered s ! nat (tselected s))) (mset (ttasks s')) = mset (ttasks s)
      \<and> todo_file s' = Some (ttasks s'))
   \<and> (tfilter s = FAll \<longrightarrow>
        (\<exists>s'. run_events todo_handle_input s [KeyDown K_RETURN u c, KeyDown K_RETURN u c] = Inr s'
           \<and> ttasks s' = ttasks s \<and> todo_file s' = Some (ttasks s)))"
proof -
  assume m: "tmode s = TList" and sel: "0 \<le> tselected s" "tselected s < int (length (filtered s))"
  let ?i = "filtered s ! nat (tselected s)"
  have get: "py_get (filtered s) (tselected s) = Inr ?i" using sel by (simp add: py_simps)
  have i: "?i < length (ttasks s)" by (rule filtered_mem [OF py_get_mem [OF get]])
  have ne: "filtered s \<noteq> []" using sel by auto
  have del: "\<exists>s'. todo_handle_input s (KeyDown K_d u c) = Inr s'
      \<and> add_mset (ttasks s ! ?i) (mset (ttasks s')) = mset (ttasks s) \<and> todo_file s' = Some (ttasks s')"
    using i by (simp add: todo_handle_input_def m todo_key_list_def Let_def ne get py_remove_def)
  have twice: "\<exists>s'. run_events todo_handle_input s [KeyDown K_RETURN u c, KeyDown K_RETURN u c] = Inr s'
      \<and> ttasks s' = ttasks s \<and> todo_file s' = Some (ttasks s)" if all: "tfilter s = FAll"
  proof -
    let ?s1 = "todo_save (s\<lparr>ttasks := toggle_done ?i (ttasks s)\<rparr>)"
    have f1: "filtered ?s1 = filtered s" using all by (simp add: filtered_all)
    show ?thesis
      using i by (simp add: todo_handle_input_def m todo_key_list_def Let_def ne get f1 toggle_done_twice)
  qed
  from del twice show ?thesis by blast
qed

theorem todo_delete_and_toggle_witness:
  "\<exists>s'. todo_handle_input (todo_init (Some [\<lparr>tk_text = ''a'', tk_done = False\<rparr>])) (KeyDown K_d [] False) = Inr s'
      \<and> mset (ttasks s') = {#}"
proof -
  let ?s = "todo_init (Some [\<lparr>tk_text = ''a'', tk_done = False\<rparr>])"
  have hyp: "tmode ?s = TList" "0 \<le> tselected ?s" "tselected ?s < int (length (filtered ?s))"
    and tasks: "ttasks ?s = [\<lparr>tk_text = ''a'', tk_done = False\<rparr>]" and view: "filtered ?s ! nat (tselected ?s) = 0"
    by (simp_all add: todo_init_def todo_load_def filtered_def filter_keeps_def)
  from todo_delete_and_toggle [OF hyp, THEN conjunct1, of "[]" False]
  obtain s' where "todo_handle_input ?s (KeyDown K_d [] False) = Inr s'"
    and "add_mset \<lparr>tk_text = ''a'', tk_done = False\<rparr> (mset (ttasks s')) = {#\<lparr>tk_text = ''a'', tk_done = False\<rparr>#}"
    unfolding tasks view by auto
  then show ?thesis by auto
qed

end
