(* ===== verification/App_Suite.thy ===== *)
theory App_Suite
  imports Launchers Notes Passwords Text_Editor Todo
begin

text \<open>
  The modelled applications behind the launchers: their states side by side, the dispatch of
  \<open>app_instances[current_app].handle_input\<close> and \<open>draw\<close> by name, and what follows for
  \<^verbatim>\<open>src/src/run.py\<close>. The other applications are a parameter.
\<close>

record 'o suite =
  su_notes :: notes_state
  su_passwords :: pw_state
  su_editor :: text_editor
  su_todo :: todo_state
  su_other :: 'o

definition modelled :: "string list" where
  "modelled = [''Notes'', ''Passwords'', ''Editor'', ''Todo'']"

definition suite_handle ::
    "te_fs \<Rightarrow> (string \<Rightarrow> event \<Rightarrow> 'o \<Rightarrow> 'o res) \<Rightarrow> string \<Rightarrow> event \<Rightarrow> 'o suite \<Rightarrow> 'o suite res" where
  "suite_handle fs other n e w =
     (if n = ''Notes'' then res_bind (notes_handle_input (su_notes w) e) (\<lambda>s. Inr (w\<lparr>su_notes := s\<rparr>))
      else if n = ''Passwords'' then res_bind (pw_handle_input (su_passwords w) e) (\<lambda>s. Inr (w\<lparr>su_passwords := s\<rparr>))
      else if n = ''Editor'' then res_bind (te_handle_input fs (su_editor w) e) (\<lambda>s. Inr (w\<lparr>su_editor := s\<rparr>))
      else if n = ''Todo'' then res_bind (todo_handle_input (su_todo w) e) (\<lambda>s. Inr (w\<lparr>su_todo := s\<rparr>))
      else res_bind (other n e (su_other w)) (\<lambda>s. Inr (w\<lparr>su_other := s\<rparr>)))"

text \<open>Drawing changes no state of the modelled applications, but may raise.\<close>

definition suite_draw :: "(string \<Rightarrow> 'o \<Rightarrow> 'o res) \<Rightarrow> string \<Rightarrow> 'o suite \<Rightarrow> 'o suite res" where
  "suite_draw other n w =
     (if n = ''Notes'' then res_bind (notes_draw (su_notes w)) (\<lambda>_. Inr w)
      else if n = ''Passwords'' then res_bind (pw_draw (su_passwords w)) (\<lambda>_. Inr w)
      else if n \<in> {''Editor'', ''Todo''} then Inr w
      else res_bind (other n (su_other w)) (\<lambda>s. Inr (w\<lparr>su_other := s\<rparr>)))"

definition suite_good :: "'o suite \<Rightarrow> bool" where
  "suite_good w \<longleftrightarrow> notes_ok (su_notes w) \<and> pw_ok (su_passwords w) \<and> te_ok (su_editor w) \<and> todo_ok (su_todo w)"

definition suite_risky :: "string \<Rightarrow> 'o suite \<Rightarrow> bool" where
  "suite_risky n w \<longleftrightarrow> n \<notin> set modelled \<or> (n = ''Todo'' \<and> tfilter (su_todo w) \<noteq> FAll)"

definition suite_init :: "note_entry list option \<Rightarrow> pw_entry list option \<Rightarrow> (string \<rightharpoonup> string) \<Rightarrow> task list option \<Rightarrow> 'o \<Rightarrow> 'o suite" where
  "suite_init nf pf files tf w =
     \<lparr>su_notes = notes_init nf, su_passwords = pw_init pf, su_editor = te_init files, su_todo = todo_init tf, su_other = w\<rparr>"

lemma suite_good_init: "suite_good (suite_init nf pf files tf w)"
  by (simp add: suite_good_def suite_init_def notes_ok_init pw_ok_init te_ok_init todo_ok_init)

lemma todo_calm:
  assumes "todo_ok s" "todo_handle_input s e = Inl x"
  shows "tfilter s \<noteq> FAll"
proof -
  have sel: "0 \<le> tselected s" using assms(1) by (simp add: todo_ok_def)
  from assms(2) have "filtered s \<noteq> []" "int (length (filtered s)) \<le> tselected s"
    unfolding todo_raises_iff [OF sel] by blast+
  with assms(1) show ?thesis by (auto simp: todo_ok_def sel_ok_def filtered_all)
qed

interpretation suite: app_host "suite_handle fs oh" "suite_draw od" suite_good suite_risky for fs oh od
proof
  fix n e and w w' :: "'a suite"
  assume good: "suite_good w" and step: "suite_handle fs oh n e w = Inr w'"
  from good have ok: "notes_ok (su_notes w)" "pw_ok (su_passwords w)" "te_ok (su_editor w)" "todo_ok (su_todo w)"
    by (simp_all add: suite_good_def)
  from step show "suite_good w'"
    using good notes_app.step_invar [OF ok(1)] pw_app.step_invar [OF ok(2)] te_app.step_invar [OF ok(3)]
      todo_app.step_invar [OF ok(4)]
    by (auto simp: suite_handle_def suite_good_def res_bind_Inr_iff split: if_splits)
next
  fix n and w w' :: "'a suite"
  assume "suite_good w" "suite_draw od n w = Inr w'"
  then show "suite_good w'"
    by (auto simp: suite_draw_def suite_good_def res_bind_Inr_iff split: if_splits)
next
  fix n e x and w :: "'a suite"
  assume good: "suite_good w" and step: "suite_handle fs oh n e w = Inl x"
  from good have ok: "notes_ok (su_notes w)" "pw_ok (su_passwords w)" "te_ok (su_editor w)" "todo_ok (su_todo w)"
    by (simp_all add: suite_good_def)
  from step show "suite_risky n w"
    using notes_app.step_not_Inl [OF ok(1)] pw_app.step_not_Inl [OF ok(2)] te_app.step_not_Inl [OF ok(3)] todo_calm [OF ok(4)]
    by (auto simp: suite_handle_def suite_risky_def modelled_def res_bind_Inl_iff split: if_splits)
qed

subsection \<open>Properties\<close>



text \<open>
  Once a note is open, Notes cannot be used from run.py: drawing the note raises, the
  launcher closes the application, and because Notes stays on the note, every frame in which
  it is opened again without a key press closes it again.
\<close>

theorem notes_view_closes_app:
  "rn_running s \<Longrightarrow> \<not> rn_show_recent s \<Longrightarrow> rn_current s = Some ''Notes'' \<Longrightarrow> nmode (su_notes (rn_apps s)) = NView \<Longrightarrow>
     rn_current (run_draw (suite_draw od) s) = None
     \<and> nmode (su_notes (rn_apps (run_draw (suite_draw od) s))) = NView"
  by (auto simp: run_draw_def suite_draw_def notes_draw_def notes_draw_view_def res_bind_Inr_iff res_bind_Inl_iff
      split: sum.split)

theorem notes_view_closes_app_witness:
  "rn_current (run_draw (suite_draw (\<lambda>n w. Inr w))
     ((run_init (suite_init None None Map.empty None ()))\<lparr>rn_current := Some ''Notes'',
        rn_apps := (suite_init None None Map.empty None ())
          \<lparr>su_notes := (notes_init (Some [\<lparr>note_title = ''t'', note_body = ''b''\<rparr>]))\<lparr>nmode := NView\<rparr>\<rparr>\<rparr>)) = None"
  by (rule notes_view_closes_app [THEN conjunct1]) (simp_all add: run_init_def)

end
