(* ===== verification/Py_Numbers.thy ===== *)
theory Py_Numbers
  imports Julius_Prelude
begin

text \<open>
  Numbers as Python reads and prints them: \<open>int(s)\<close>, \<open>float(s)\<close> for decimal notation, rounding
  to the nearest number with ties to even, and one decimal place. A number read by \<open>float\<close> is
  kept as an exact decimal \<open>(n, k)\<close>, standing for \<open>n / 10^k\<close>; the rounding of binary
  floating-point arithmetic, far below the last digit shown, is left out.
\<close>

subsection \<open>Integers\<close>

text \<open>\<open>int(s)\<close>: an optional sign and decimal digits, single underscores between them.\<close>

definition is_digit :: "char \<Rightarrow> bool" where
  "is_digit c \<longleftrightarrow> 48 \<le> (of_char c :: nat) \<and> (of_char c :: nat) \<le> 57"

fun digits_val :: "nat \<Rightarrow> string \<Rightarrow> nat option" where
  "digits_val acc [] = Some acc"
| "digits_val acc (c # cs) =
     (if is_digit c then digits_val (acc * 10 + (of_char c - 48)) cs
      else if c = CHR ''_'' \<and> cs \<noteq> [] \<and> is_digit (hd cs) then digits_val acc cs
      else None)"

definition py_int :: "string \<Rightarrow> int option" where
  "py_int s0 =
     (let s = py_strip s0;
          neg = (s \<noteq> [] \<and> hd s = CHR ''-'');
          ds = (if s \<noteq> [] \<and> hd s \<in> {CHR ''-'', CHR ''+''} then tl s else s)
      in if ds = [] \<or> \<not> is_digit (hd ds) then None
         else map_option (\<lambda>n. if neg then - int n else int n) (digits_val 0 ds))"

subsection \<open>Decimals\<close>

type_synonym decimal = "int \<times> nat"

text \<open>\<open>float(s)\<close> for an optional sign and digits around at most one point; \<open>None\<close> raises.\<close>

definition py_decimal :: "string \<Rightarrow> decimal option" where
  "py_decimal s0 =
     (let s = py_strip s0;
          neg = (s \<noteq> [] \<and> hd s = CHR ''-'');
          ds = (if s \<noteq> [] \<and> hd s \<in> {CHR ''-'', CHR ''+''} then tl s else s)
      in (case py_split (CHR ''.'') ds of
            [i] \<Rightarrow> (if i \<noteq> [] \<and> list_all is_digit i then Some (if neg then - int (num_val i) else int (num_val i), 0) else None)
          | [i, f] \<Rightarrow>
              (if i @ f \<noteq> [] \<and> list_all is_digit (i @ f)
               then Some (if neg then - int (num_val (i @ f)) else int (num_val (i @ f)), length f) else None)
          | _ \<Rightarrow> None))"

text \<open>The integer nearest to \<open>n / d\<close>, the even one of two: \<open>round\<close>.\<close>

definition round_div :: "int \<Rightarrow> int \<Rightarrow> int" where
  "round_div n d =
     (let q = n div d; r = n mod d in if 2 * r < d \<or> (2 * r = d \<and> even q) then q else q + 1)"

text \<open>A number of tenths with its decimal: \<open>f"{x:.1f}"\<close> and \<open>str(round(x, 1))\<close>.\<close>

definition tenths_text :: "int \<Rightarrow> string" where
  "tenths_text k =
     (if k < 0 then ''-'' else []) @ py_str_int (\<bar>k\<bar> div 10) @ ''.'' @ py_str_int (\<bar>k\<bar> mod 10)"

subsection \<open>Lemmas\<close>

lemma round_div_near: "0 < d \<Longrightarrow> \<bar>2 * (round_div n d * d - n)\<bar> \<le> d"
proof -
  assume d: "0 < d"
  have m: "0 \<le> n mod d" "n mod d < d" using d by simp_all
  show ?thesis
  proof (cases "2 * (n mod d) < d \<or> (2 * (n mod d) = d \<and> even (n div d))")
    case True
    then have "round_div n d = n div d" by (simp add: round_div_def)
    then have e: "round_div n d * d - n = - (n mod d)" using minus_div_mult_eq_mod [of n d] by simp
    show ?thesis unfolding e using True m by auto
  next
    case False
    then have "round_div n d = n div d + 1" by (auto simp: round_div_def)
    then have e: "round_div n d * d - n = d - n mod d" using minus_div_mult_eq_mod [of n d] by (simp add: distrib_right)
    show ?thesis unfolding e using False m by auto
  qed
qed

lemma round_div_mono_zero: "0 < d \<Longrightarrow> 0 \<le> n \<Longrightarrow> 0 \<le> round_div n d"
  by (auto simp: round_div_def Let_def pos_imp_zdiv_nonneg_iff intro: add_nonneg_nonneg)

lemma round_div_le: "0 < d \<Longrightarrow> n \<le> m * d \<Longrightarrow> round_div n d \<le> m"
proof -
  assume d: "0 < d" and n: "n \<le> m * d"
  then have q: "n div d \<le> m" using zdiv_mono1 [OF n d] by simp
  show ?thesis
  proof (cases "n div d = m")
    case True
    then have "n = m * d + n mod d" using div_mult_mod_eq [of n d] by simp
    moreover have "0 \<le> n mod d" using d by simp
    ultimately have "n mod d = 0" using n by linarith
    with True d show ?thesis by (simp add: round_div_def)
  next
    case False
    with q show ?thesis by (simp add: round_div_def Let_def)
  qed
qed

lemma round_div_exact [simp]: "0 < d \<Longrightarrow> round_div (m * d) d = m"
  by (simp add: round_div_def)

text \<open>Reading a printed number.\<close>

lemma py_digits_is_digit: "\<forall>c\<in>set (py_digits n). is_digit c"
proof (induction n rule: py_digits.induct)
  case (1 n)
  have d: "is_digit (char_of (48 + k :: nat))" if "k < 10" for k using that by (simp add: is_digit_def of_char_of)
  show ?case
  proof (cases "n < 10")
    case True
    then show ?thesis using d [of n] by (subst py_digits.simps) simp
  next
    case False
    then have "py_digits n = py_digits (n div 10) @ [char_of (48 + n mod 10)]" by (subst py_digits.simps) simp
    with 1 [OF False] d [of "n mod 10"] show ?thesis by auto
  qed
qed

lemma digits_val_all: "list_all is_digit ds \<Longrightarrow> digits_val acc ds = Some (foldl (\<lambda>n c. 10 * n + (of_char c - 48)) acc ds)"
  by (induction ds arbitrary: acc) (simp_all add: mult.commute)

lemma py_int_digits: "py_int (py_digits n) = Some (int n)"
proof -
  let ?d = "py_digits n"
  have ds: "list_all is_digit ?d" using py_digits_is_digit by (simp add: list_all_iff)
  have sp: "\<not> py_isspace_char c" "c \<noteq> CHR ''-''" "c \<noteq> CHR ''+''" if "is_digit c" for c
    using that by (auto simp: is_digit_def py_isspace_char_def Let_def)
  have hd: "is_digit (hd ?d)" "is_digit (last ?d)" using ds py_digits_ne [of n] by (auto simp: list_all_iff)
  have "py_strip ?d = ?d" using py_strip_pad [of ?d "[]"] py_digits_ne sp hd by simp
  with hd sp(2,3) [OF hd(1)] py_digits_ne [of n] digits_val_all [OF ds, of 0] num_val_digits [of n] show ?thesis
    by (simp add: py_int_def Let_def num_val_def)
qed

lemma is_word_digits: "is_word (py_digits n)"
  using py_digits_is_digit [of n] py_digits_ne [of n] by (fastforce simp: is_word_def is_digit_def py_isspace_char_def Let_def)

end
