(* ===== verification/Julius_Bridge.thy ===== *)
theory Julius_Bridge
  imports Codecs Py_Numbers
begin

text \<open>
  The bridge to the system services (\<^verbatim>\<open>src/src/system/julius_bridge.py\<close>): the framing of
  messages on the IPC socket, the dispatch to subscribers, the listener reading a stream, the
  state files, and the requests to the push, permission and keychain services. The sockets
  themselves are outside: a connection that fails or an answer is an argument.
\<close>

subsection \<open>Bytes\<close>

text \<open>\<open>bytes.ljust(n, b'\x00')\<close> pads and never truncates; \<open>bytes.rstrip(b'\x00')\<close>.\<close>

definition ljust :: "nat \<Rightarrow> byte list \<Rightarrow> byte list" where
  "ljust n bs = bs @ replicate (n - length bs) 0"

definition rstrip0 :: "byte list \<Rightarrow> byte list" where
  "rstrip0 bs = rev (dropWhile (\<lambda>b. b = 0) (rev bs))"

text \<open>\<open>struct.pack('I', n)\<close> and \<open>struct.pack('Q', n)\<close>: little endian, an error out of range.\<close>

definition le_bytes :: "nat \<Rightarrow> nat \<Rightarrow> byte list" where
  "le_bytes k n = map (\<lambda>i. of_nat (n div 256 ^ i)) [0..<k]"

definition pack_uint :: "nat \<Rightarrow> int \<Rightarrow> byte list option" where
  "pack_uint k n = (if 0 \<le> n \<and> n < 256 ^ k then Some (le_bytes k (nat n)) else None)"

definition unpack_uint :: "byte list \<Rightarrow> nat" where
  "unpack_uint bs = foldr (\<lambda>b acc. unat b + 256 * acc) bs 0"

subsection \<open>The IPC connection\<close>

record bridge =
  br_sock :: bool
  br_callbacks :: "(string \<times> nat list) list"
  br_running :: bool

definition bridge_init :: "bool \<Rightarrow> bridge" where
  "bridge_init connected = \<lparr>br_sock = connected, br_callbacks = [], br_running = True\<rparr>"

text \<open>
  \<open>_send_ipc\<close>: the bytes handed to \<open>sendall\<close>, cut after 8272. The clock and the process id
  are arguments; \<open>None\<close> when packing raises, which drops the connection.
\<close>

definition ipc_message :: "string \<Rightarrow> byte list \<Rightarrow> int \<Rightarrow> int \<Rightarrow> byte list option" where
  "ipc_message topic data pid now =
     (case (pack_uint 4 (int (length data)), pack_uint 4 pid, pack_uint 8 now, pack_uint 4 0) of
        (Some l, Some p, Some t, Some f) \<Rightarrow>
          Some (take 8272 (ljust 64 (utf8 topic) @ ljust 8192 data @ l @ p @ t @ f))
      | _ \<Rightarrow> None)"

definition send_ipc :: "string \<Rightarrow> byte list \<Rightarrow> int \<Rightarrow> int \<Rightarrow> bool \<Rightarrow> bridge \<Rightarrow> byte list \<times> bridge" where
  "send_ipc topic data pid now send_fails b =
     (if \<not> br_sock b then ([], b)
      else (case ipc_message topic data pid now of
              None \<Rightarrow> ([], b\<lparr>br_sock := False\<rparr>)
            | Some m \<Rightarrow> (if send_fails then ([], b\<lparr>br_sock := False\<rparr>) else (m, b))))"

fun add_callback :: "string \<Rightarrow> nat \<Rightarrow> (string \<times> nat list) list \<Rightarrow> (string \<times> nat list) list" where
  "add_callback t cb [] = [(t, [cb])]"
| "add_callback t cb ((t', cbs) # rest) =
     (if t' = t then (t', cbs @ [cb]) # rest else (t', cbs) # add_callback t cb rest)"

definition subscribe :: "string \<Rightarrow> nat \<Rightarrow> int \<Rightarrow> int \<Rightarrow> bool \<Rightarrow> bridge \<Rightarrow> byte list \<times> bridge" where
  "subscribe topic cb pid now fails b =
     send_ipc ''__subscribe__'' (utf8 topic) pid now fails
       (b\<lparr>br_callbacks := add_callback topic cb (br_callbacks b)\<rparr>)"

text \<open>\<open>publish\<close> of a string; a dictionary is first dumped to one.\<close>

definition publish :: "string \<Rightarrow> string \<Rightarrow> int \<Rightarrow> int \<Rightarrow> bool \<Rightarrow> bridge \<Rightarrow> byte list \<times> bridge" where
  "publish topic data pid now fails b = send_ipc topic (utf8 data) pid now fails b"

text \<open>
  \<open>_handle_message\<close>: the callbacks invoked, each with topic and payload. The topic bytes are
  decoded before the lookup; a decoded topic equals a subscribed one exactly when its bytes
  are the encoding of it, and bytes that do not decode raise inside the \<open>try\<close>, so that no
  callback runs. What a callback raises is caught too.
\<close>

type_synonym call = "nat \<times> string \<times> byte list"

definition msg_topic :: "byte list \<Rightarrow> byte list" where
  "msg_topic data = rstrip0 (take 64 data)"

definition msg_payload :: "byte list \<Rightarrow> byte list" where
  "msg_payload data = rstrip0 (take 8192 (drop 64 data))"

definition handle_message :: "byte list \<Rightarrow> bridge \<Rightarrow> call list" where
  "handle_message data b =
     (case find (\<lambda>(t, cbs). utf8 t = msg_topic data) (br_callbacks b) of
        None \<Rightarrow> []
      | Some (t, cbs) \<Rightarrow> map (\<lambda>cb. (cb, t, msg_payload data)) cbs)"

text \<open>
  The listener thread on bytes that are already in the socket buffer: each \<open>recv(8256)\<close>
  takes as many as there are, up to 8256, and an empty result ends the loop.
\<close>

function listen :: "bridge \<Rightarrow> byte list \<Rightarrow> call list" where
  "listen b stream =
     (if stream = [] then [] else handle_message (take 8256 stream) b @ listen b (drop 8256 stream))"
  by pat_completeness auto

termination listen
  by (relation "measure (\<lambda>(b, s). length s)") auto

declare listen.simps [simp del]

subsection \<open>State files\<close>

text \<open>\<open>line.split('=', 1)\<close> when the line holds a \<open>=\<close>.\<close>

definition split_eq :: "string \<Rightarrow> string \<times> string" where
  "split_eq l = (takeWhile (\<lambda>c. c \<noteq> CHR ''='') l, tl (dropWhile (\<lambda>c. c \<noteq> CHR ''='') l))"

definition read_state_line :: "(string \<rightharpoonup> string) \<Rightarrow> string \<Rightarrow> (string \<rightharpoonup> string)" where
  "read_state_line st l0 =
     (let l = py_strip l0
      in if CHR ''='' \<in> set l then (let (k, v) = split_eq l in st(py_strip k \<mapsto> py_strip v)) else st)"

text \<open>\<open>read_state\<close>: the content of the file, \<open>None\<close> when it does not exist or cannot be read.\<close>

definition read_state :: "string option \<Rightarrow> (string \<rightharpoonup> string)" where
  "read_state f = (case f of None \<Rightarrow> Map.empty | Some c \<Rightarrow> foldl read_state_line Map.empty (file_lines c))"

definition state_get :: "(string \<rightharpoonup> string) \<Rightarrow> string \<Rightarrow> string \<Rightarrow> string" where
  "state_get st k d = (case st k of Some v \<Rightarrow> v | None \<Rightarrow> d)"

definition int_state :: "string \<Rightarrow> int \<Rightarrow> (string \<rightharpoonup> string) \<Rightarrow> int" where
  "int_state k d st =
     (case st k of None \<Rightarrow> d | Some v \<Rightarrow> (case py_int v of Some n \<Rightarrow> n | None \<Rightarrow> d))"

definition get_battery_level :: "string option \<Rightarrow> int" where
  "get_battery_level power_file = int_state ''level'' 85 (read_state power_file)"

definition get_charging :: "string option \<Rightarrow> bool" where
  "get_charging power_file \<longleftrightarrow> state_get (read_state power_file) ''charging'' ''0'' = ''1''"

definition get_health_score :: "string option \<Rightarrow> int" where
  "get_health_score health_file = int_state ''score'' 100 (read_state health_file)"

subsection \<open>Requests to the other services\<close>

text \<open>The answer of a service: \<open>None\<close> when connecting, sending or receiving fails.\<close>

definition push_request :: "string \<Rightarrow> string \<Rightarrow> string \<Rightarrow> int \<Rightarrow> byte list option" where
  "push_request app title body priority =
     (case pack_uint 4 priority of
        None \<Rightarrow> None
      | Some prio \<Rightarrow>
          Some (le_bytes 4 1 @ ljust 64 (utf8 app) @ ljust 128 (utf8 title) @ ljust 256 (utf8 body)
                @ replicate 64 0 @ le_bytes 4 0 @ le_bytes 4 1 @ prio @ le_bytes 4 0))"

definition send_notification :: "int \<Rightarrow> byte list option \<Rightarrow> int" where
  "send_notification priority answer =
     (case pack_uint 4 priority of
        None \<Rightarrow> - 1
      | Some _ \<Rightarrow> (case answer of Some r \<Rightarrow> (if length r = 4 then int (unpack_uint r) else - 1) | None \<Rightarrow> - 1))"

definition permission_request :: "string \<Rightarrow> int \<Rightarrow> byte list option" where
  "permission_request app perm_type =
     (case pack_uint 4 perm_type of
        None \<Rightarrow> None | Some p \<Rightarrow> Some (le_bytes 4 1 @ ljust 64 (utf8 app) @ p))"

definition check_permission :: "int \<Rightarrow> byte list option \<Rightarrow> bool" where
  "check_permission perm_type answer =
     (case (pack_uint 4 perm_type, answer) of
        (Some _, Some r) \<Rightarrow> length r = 8 \<and> unpack_uint (drop 4 r) = 1
      | _ \<Rightarrow> False)"

definition keychain_save_request :: "string \<Rightarrow> string \<Rightarrow> byte list \<Rightarrow> byte list option" where
  "keychain_save_request service account data =
     (case pack_uint 4 (int (length data)) of
        None \<Rightarrow> None
      | Some dlen \<Rightarrow>
          Some (le_bytes 4 1 @ ljust 64 (utf8 service) @ ljust 64 (utf8 account) @ ljust 512 data
                @ dlen @ replicate 128 0))"

definition keychain_save :: "byte list option \<Rightarrow> bool" where
  "keychain_save answer =
     (case answer of Some r \<Rightarrow> 4 \<le> length r \<and> unpack_uint (take 4 r) = 0 | None \<Rightarrow> False)"

definition keychain_get_request :: "string \<Rightarrow> string \<Rightarrow> byte list" where
  "keychain_get_request service account =
     le_bytes 4 2 @ ljust 64 (utf8 service) @ ljust 64 (utf8 account) @ replicate (512 + 4 + 128) 0"

text \<open>The bytes that are then decoded, or \<open>None\<close>.\<close>

definition keychain_get :: "byte list option \<Rightarrow> byte list option" where
  "keychain_get answer =
     (case answer of
        None \<Rightarrow> None
      | Some r \<Rightarrow>
          (if 8 \<le> length r \<and> unpack_uint (take 4 r) = 0 \<and> unpack_uint (take 4 (drop 4 r)) > 0
           then Some (take (unpack_uint (take 4 (drop 4 r))) (drop 8 r)) else None))"

subsection \<open>Lemmas on bytes\<close>

lemma length_ljust [simp]: "length (ljust n bs) = max n (length bs)"
  by (simp add: ljust_def)

lemma length_le_bytes [simp]: "length (le_bytes k n) = k"
  by (simp add: le_bytes_def)

lemma length_pack: "pack_uint k n = Some bs \<Longrightarrow> length bs = k"
  by (auto simp: pack_uint_def split: if_splits)

lemma rstrip0_zeros [simp]: "rstrip0 (bs @ replicate n 0) = rstrip0 bs"
  by (induction n arbitrary: bs) (simp_all add: rstrip0_def dropWhile_append)

lemma rstrip0_id: "bs = [] \<or> last bs \<noteq> 0 \<Longrightarrow> rstrip0 bs = bs"
  by (cases bs rule: rev_cases) (simp_all add: rstrip0_def)

lemma rstrip0_prefix: "\<exists>n. bs = rstrip0 bs @ replicate n 0"
proof (induction bs rule: rev_induct)
  case Nil
  then show ?case by (simp add: rstrip0_def)
next
  case (snoc b bs)
  show ?case
  proof (cases "b = 0")
    case True
    from snoc obtain n where n: "bs = rstrip0 bs @ replicate n 0" by blast
    have "rstrip0 (bs @ [b]) = rstrip0 bs" using True by (simp add: rstrip0_def)
    moreover have "bs @ [b] = rstrip0 bs @ replicate (Suc n) 0"
      using n True by (metis append.assoc replicate_Suc replicate_append_same)
    ultimately show ?thesis by metis
  next
    case False
    then have "rstrip0 (bs @ [b]) = bs @ [b]" by (simp add: rstrip0_def)
    then have "bs @ [b] = rstrip0 (bs @ [b]) @ replicate 0 0" by simp
    then show ?thesis by blast
  qed
qed

lemma byte_eq_iff: "m < 256 \<Longrightarrow> n < 256 \<Longrightarrow> (of_nat m :: byte) = of_nat n \<longleftrightarrow> m = n"
  using unat_byte by metis

text \<open>UTF-8 is injective: the first byte tells the length of a character.\<close>

lemma utf8_char_append_inj:
  assumes "utf8_char c @ xs = utf8_char d @ ys"
  shows "c = d \<and> xs = ys"
proof -
  define m n where "m = (of_char c :: nat)" and "n = (of_char d :: nat)"
  have lt: "m < 256" "n < 256" by (simp_all add: m_def n_def)
  have eq: "c = d" if "m = n" using that by (simp add: m_def n_def)
  have d1: "192 + k div 64 < 256" "128 + k mod 64 < 256" if "k < 256" for k :: nat using that by auto
  consider "m < 128" "n < 128" | "m < 128" "\<not> n < 128" | "\<not> m < 128" "n < 128" | "\<not> m < 128" "\<not> n < 128" by blast
  then show ?thesis
  proof cases
    case 1
    with assms have "(of_nat m :: byte) = of_nat n" "xs = ys" by (simp_all add: utf8_char_def m_def n_def Let_def)
    with lt byte_eq_iff eq show ?thesis by blast
  next
    case 2
    with assms have "(of_nat m :: byte) = of_nat (192 + n div 64)" by (simp add: utf8_char_def m_def n_def Let_def)
    with 2 lt d1 [OF lt(2)] byte_eq_iff show ?thesis by fastforce
  next
    case 3
    with assms have "(of_nat (192 + m div 64) :: byte) = of_nat n" by (simp add: utf8_char_def m_def n_def Let_def)
    with 3 lt d1 [OF lt(1)] byte_eq_iff show ?thesis by fastforce
  next
    case 4
    with assms have e: "(of_nat (192 + m div 64) :: byte) = of_nat (192 + n div 64)"
      "(of_nat (128 + m mod 64) :: byte) = of_nat (128 + n mod 64)" and r: "xs = ys"
      by (simp_all add: utf8_char_def m_def n_def Let_def)
    from e(1) d1 [OF lt(1)] d1 [OF lt(2)] byte_eq_iff have "m div 64 = n div 64" by fastforce
    moreover from e(2) d1 [OF lt(1)] d1 [OF lt(2)] byte_eq_iff have "m mod 64 = n mod 64" by fastforce
    ultimately have "m = n" by (metis div_mult_mod_eq)
    with eq r show ?thesis by blast
  qed
qed

lemma utf8_char_not_Nil: "utf8_char c \<noteq> []"
  by (simp add: utf8_char_def Let_def)

lemma utf8_inj: "utf8 s = utf8 t \<longleftrightarrow> s = t"
proof (induction s arbitrary: t)
  case Nil
  then show ?case by (cases t) (simp_all add: utf8_def utf8_char_not_Nil)
next
  case (Cons c s)
  show ?case
  proof (cases t)
    case Nil
    then show ?thesis by (simp add: utf8_def utf8_char_not_Nil)
  next
    case (Cons d t')
    have "utf8 (c # s) = utf8 (d # t') \<longleftrightarrow> c = d \<and> utf8 s = utf8 t'"
      using utf8_char_append_inj [of c "utf8 s" d "utf8 t'"] by (auto simp: utf8_def)
    with Cons Cons.IH show ?thesis by simp
  qed
qed

subsection \<open>Lemmas on messages\<close>

text \<open>A topic as the code uses them: it fits its field and holds no NUL character.\<close>

definition topic_ok :: "string \<Rightarrow> bool" where
  "topic_ok t \<longleftrightarrow> length (utf8 t) \<le> 64 \<and> 0 \<notin> set (utf8 t)"

lemma ipc_message_split:
  assumes "ipc_message topic data pid now = Some m" "length (utf8 topic) \<le> 64" "length data \<le> 8192"
  obtains l p ts where "m = ljust 64 (utf8 topic) @ ljust 8192 data @ l @ p @ ts"
    "pack_uint 4 (int (length data)) = Some l" "length l = 4" "length p = 4" "length ts = 8"
proof -
  from assms(1) obtain l p ts f where pk: "pack_uint 4 (int (length data)) = Some l" "pack_uint 4 pid = Some p"
    "pack_uint 8 now = Some ts" and m: "m = take 8272 (ljust 64 (utf8 topic) @ ljust 8192 data @ l @ p @ ts @ f)"
    by (auto simp: ipc_message_def split: option.splits)
  have len: "length l = 4" "length p = 4" "length ts = 8" using pk length_pack by blast+
  have "m = ljust 64 (utf8 topic) @ ljust 8192 data @ l @ p @ ts"
    using assms(2,3) len by (simp add: m)
  with that pk(1) len show thesis by blast
qed

lemma message_length:
  "ipc_message topic data pid now = Some m \<Longrightarrow> length (utf8 topic) \<le> 64 \<Longrightarrow> length data \<le> 8192 \<Longrightarrow> length m = 8272"
  by (erule ipc_message_split) simp_all

lemma message_topic:
  assumes "ipc_message topic data pid now = Some m" "topic_ok topic" "length data \<le> 8192"
  shows "msg_topic m = utf8 topic" "msg_payload m = rstrip0 data"
proof -
  have t: "length (utf8 topic) \<le> 64" "utf8 topic = [] \<or> last (utf8 topic) \<noteq> 0"
    using assms(2) by (auto simp: topic_ok_def dest: last_in_set)
  from assms(1) t(1) assms(3) obtain l p ts where m: "m = ljust 64 (utf8 topic) @ ljust 8192 data @ l @ p @ ts"
    by (rule ipc_message_split)
  show "msg_topic m = utf8 topic"
    using t assms(3) by (simp add: msg_topic_def m ljust_def rstrip0_id)
  show "msg_payload m = rstrip0 data"
    using t(1) assms(3) by (simp add: msg_payload_def m ljust_def)
qed

lemma find_callbacks:
  "find (\<lambda>(t, cbs). utf8 t = utf8 topic) cbs = map_option (\<lambda>cb. (topic, cb)) (map_of cbs topic)"
  by (induction cbs) (auto simp: utf8_inj)

lemma message_delivered:
  "ipc_message topic data pid now = Some m \<Longrightarrow> topic_ok topic \<Longrightarrow> length data \<le> 8192 \<Longrightarrow>
     handle_message m b =
       map (\<lambda>cb. (cb, topic, rstrip0 data)) (case map_of (br_callbacks b) topic of None \<Rightarrow> [] | Some cbs \<Rightarrow> cbs)"
  using message_topic [of topic data pid now m] by (auto simp: handle_message_def find_callbacks split: option.split)

lemma add_callback_map_of:
  "map_of (add_callback t cb cbs) t' = (if t' = t then Some ((case map_of cbs t of None \<Rightarrow> [] | Some l \<Rightarrow> l) @ [cb]) else map_of cbs t')"
  by (induction t cb cbs rule: add_callback.induct) (auto split: option.splits)

lemma le_bytes_nth: "i < k \<Longrightarrow> le_bytes k n ! i = of_nat (n div 256 ^ i)"
  by (simp add: le_bytes_def)

text \<open>Bytes with a NUL at the third place: they are no topic of three or more bytes.\<close>

lemma not_topic:
  assumes "bs ! 2 = 0" "2 < length bs" "0 \<notin> set (utf8 t)" "3 \<le> length (utf8 t)"
  shows "utf8 t \<noteq> rstrip0 bs"
proof
  assume eq: "utf8 t = rstrip0 bs"
  obtain n where n: "bs = rstrip0 bs @ replicate n 0" using rstrip0_prefix by blast
  have "(rstrip0 bs @ replicate n 0) ! 2 = rstrip0 bs ! 2" using assms(4) eq by (simp add: nth_append)
  with n assms(1) eq have "utf8 t ! 2 = 0" by metis
  moreover have "utf8 t ! 2 \<in> set (utf8 t)" using assms(4) by (intro nth_mem) simp
  ultimately show False using assms(3) by simp
qed

lemma handle_no_topic:
  assumes "\<forall>t\<in>fst ` set (br_callbacks b). 0 \<notin> set (utf8 t) \<and> 3 \<le> length (utf8 t)"
    and "data ! 2 = 0" "2 < length data"
  shows "handle_message data b = []"
proof -
  have "take 64 data ! 2 = 0" "2 < length (take 64 data)" using assms(2,3) by simp_all
  from not_topic [OF this] assms(1)
  have "find (\<lambda>(t, cbs). utf8 t = msg_topic data) (br_callbacks b) = None"
    by (force simp: find_None_iff msg_topic_def)
  then show ?thesis by (simp add: handle_message_def)
qed

subsection \<open>Lemmas on state files\<close>

definition plain_field :: "string \<Rightarrow> bool" where
  "plain_field v \<longleftrightarrow> py_strip v = v \<and> newline_char \<notin> set v \<and> cr_char \<notin> set v"

definition plain_key :: "string \<Rightarrow> bool" where
  "plain_key k \<longleftrightarrow> plain_field k \<and> k \<noteq> [] \<and> CHR ''='' \<notin> set k"

lemma py_lstrip_id: "s = [] \<or> \<not> py_isspace_char (hd s) \<Longrightarrow> py_lstrip s = s"
  by (cases s) (auto simp: py_lstrip_def)

lemma py_strip_ends:
  assumes "py_strip s = s" "s \<noteq> []"
  shows "\<not> py_isspace_char (hd s)" "\<not> py_isspace_char (last s)"
proof -
  have drop: "dropWhile P xs = xs \<Longrightarrow> xs \<noteq> [] \<Longrightarrow> \<not> P (hd xs)" for P and xs :: string
    by (metis hd_dropWhile)
  have len: "length (dropWhile py_isspace_char xs) \<le> length xs" for xs by (rule length_dropWhile_le)
  let ?l = "dropWhile py_isspace_char s"
  have "length s = length (dropWhile py_isspace_char (rev ?l))"
    using assms(1) by (metis length_rev py_lstrip_def py_strip_def)
  with len [of "rev ?l"] len [of s] have eq: "length ?l = length s" by simp
  have l: "?l = s" using eq by (metis append_Nil length_0_conv length_append self_append_conv2 takeWhile_dropWhile_id add_cancel_left_left)
  then show "\<not> py_isspace_char (hd s)" using drop assms(2) by blast
  have "dropWhile py_isspace_char (rev s) = rev s"
    using assms(1) l by (metis py_lstrip_def py_strip_def rev_swap)
  then show "\<not> py_isspace_char (last s)" using drop [of _ "rev s"] assms(2) by (simp add: hd_rev)
qed

definition state_line :: "string \<times> string \<Rightarrow> string" where
  "state_line kv = fst kv @ ''='' @ snd kv @ [newline_char]"

lemma py_strip_line:
  assumes "s \<noteq> []" "\<not> py_isspace_char (hd s)" "\<not> py_isspace_char (last s)"
  shows "py_strip (s @ [newline_char]) = s" "py_strip s = s"
proof -
  have nl: "py_isspace_char newline_char" by (simp add: py_isspace_char_def)
  have l: "py_lstrip (s @ xs) = s @ xs" for xs using assms by (intro py_lstrip_id) simp
  have r: "py_lstrip (rev s) = rev s" using assms by (intro py_lstrip_id) (simp add: hd_rev)
  from l [of "[newline_char]"] r nl show "py_strip (s @ [newline_char]) = s" by (simp add: py_strip_def) (simp add: py_lstrip_def)
  from l [of "[]"] r show "py_strip s = s" by (simp add: py_strip_def)
qed

lemma split_eq_pair: "CHR ''='' \<notin> set k \<Longrightarrow> split_eq (k @ CHR ''='' # v) = (k, v)"
proof -
  assume k: "CHR ''='' \<notin> set k"
  then have "\<forall>c\<in>set k. c \<noteq> CHR ''=''" by metis
  then show ?thesis by (simp add: split_eq_def takeWhile_append2 dropWhile_append2)
qed

lemma read_state_line_pair:
  assumes "plain_key k" "plain_field v"
  shows "read_state_line st (state_line (k, v)) = st(k \<mapsto> v)"
proof -
  let ?s = "k @ CHR ''='' # v"
  have k: "k \<noteq> []" "py_strip k = k" "CHR ''='' \<notin> set k" and v: "py_strip v = v"
    using assms by (simp_all add: plain_key_def plain_field_def)
  have "\<not> py_isspace_char (hd ?s)" using py_strip_ends(1) [OF k(2,1)] k(1) by simp
  moreover have "\<not> py_isspace_char (last ?s)"
    using py_strip_ends(2) [OF v] by (cases "v = []") (simp_all add: py_isspace_char_def)
  ultimately have "py_strip (?s @ [newline_char]) = ?s" using k(1) by (intro py_strip_line) simp_all
  then show ?thesis using k(2,3) v split_eq_pair [OF k(3), of v] by (simp add: read_state_line_def state_line_def Let_def)
qed

lemma foldl_read_state:
  "\<forall>(k, v)\<in>set kvs. plain_key k \<and> plain_field v \<Longrightarrow>
     foldl read_state_line st (map state_line kvs) = st ++ map_of (rev kvs)"
proof (induction kvs arbitrary: st)
  case Nil
  then show ?case by simp
next
  case (Cons kv kvs)
  obtain k v where kv: "kv = (k, v)" by (cases kv)
  with Cons.prems have "read_state_line st (state_line kv) = st(k \<mapsto> v)"
    by (simp add: read_state_line_pair)
  moreover have "st(k \<mapsto> v) ++ map_of (rev kvs) = st ++ map_of (rev (kv # kvs))"
    by (auto simp: kv map_add_def fun_eq_iff split: option.split)
  moreover have "foldl read_state_line (st(k \<mapsto> v)) (map state_line kvs) = st(k \<mapsto> v) ++ map_of (rev kvs)"
    using Cons.prems by (intro Cons.IH) simp
  ultimately show ?case by (simp only: list.map foldl_Cons)
qed

lemma file_lines_written:
  assumes "\<forall>(k, v)\<in>set kvs. plain_key k \<and> plain_field v"
  shows "file_lines (concat (map state_line kvs)) =
     map state_line kvs"
proof -
  let ?f = state_line
  have "cr_char \<notin> set (concat (map ?f kvs))"
    using assms by (induction kvs) (auto simp: plain_key_def plain_field_def state_line_def)
  moreover have "py_lines_acc [] (concat (map ?f kvs)) = map ?f kvs"
    using assms
  proof (induction kvs)
    case (Cons kv kvs)
    obtain k v where kv: "kv = (k, v)" by (cases kv)
    with Cons.prems have "newline_char \<notin> set (k @ ''='' @ v)" by (auto simp: plain_key_def plain_field_def)
    from py_lines_acc_line [OF this, of "[]" "concat (map ?f kvs)"]
    have "py_lines_acc [] (?f kv @ concat (map ?f kvs)) = ?f kv # py_lines_acc [] (concat (map ?f kvs))"
      by (simp add: kv state_line_def [of "(k, v)"])
    with Cons show ?case by simp
  qed simp
  ultimately show ?thesis by (simp add: file_lines_def universal_newlines_id)
qed

lemma handle_prefix: "handle_message (take 8256 data) b = handle_message data b"
proof -
  have "msg_topic (take 8256 data) = msg_topic data" "msg_payload (take 8256 data) = msg_payload data"
    by (simp_all add: msg_topic_def msg_payload_def drop_take min_def)
  then show ?thesis unfolding handle_message_def by (simp only:)
qed

lemma listen_chunk: "stream \<noteq> [] \<Longrightarrow> listen b stream = handle_message (take 8256 stream) b @ listen b (drop 8256 stream)"
  by (subst listen.simps) simp

subsection \<open>Properties\<close>

text \<open>
  (C17) A message sent with a topic and a payload that fit their fields reaches exactly the
  subscribers of the topic, in the order they subscribed, with the payload less its
  trailing NUL bytes; the message is 8272 bytes long.
\<close>

theorem message_roundtrip:
  "ipc_message topic data pid now = Some m \<Longrightarrow> topic_ok topic \<Longrightarrow> length data \<le> 8192 \<Longrightarrow>
     length m = 8272 \<and>
     handle_message m b =
       map (\<lambda>cb. (cb, topic, rstrip0 data)) (case map_of (br_callbacks b) topic of None \<Rightarrow> [] | Some cbs \<Rightarrow> cbs)"
  using message_length [of topic data pid now m] message_delivered [of topic data pid now m b]
  by (auto simp: topic_ok_def)

theorem message_roundtrip_witness:
  "\<exists>m. ipc_message ''WIFI'' [1, 2, 0] 7 1000 = Some m \<and>
     handle_message m ((bridge_init True)\<lparr>br_callbacks := [(''BT'', [1]), (''WIFI'', [2, 3])]\<rparr>)
       = [(2, ''WIFI'', [1, 2]), (3, ''WIFI'', [1, 2])]"
proof -
  have ok: "topic_ok ''WIFI''" by (simp add: topic_ok_def utf8_def utf8_char_def)
  have strip: "rstrip0 [1, 2, 0] = [1, 2]" by (simp add: rstrip0_def)
  obtain m where m: "ipc_message ''WIFI'' [1, 2, 0] 7 1000 = Some m"
    by (simp add: ipc_message_def pack_uint_def)
  from message_roundtrip [OF m ok, of "(bridge_init True)\<lparr>br_callbacks := [(''BT'', [1]), (''WIFI'', [2, 3])]\<rparr>"] m strip
  show ?thesis by auto
qed

text \<open>
  (C19) The listener loses messages: it reads 8256 bytes at a time while a message is 8272
  bytes long, so of two messages waiting in the socket only the first is delivered; the
  second is cut across two reads and its topic is never recognised.
\<close>

theorem second_message_lost:
  "ipc_message t1 d1 pid1 now1 = Some m1 \<Longrightarrow> topic_ok t1 \<Longrightarrow> length d1 \<le> 8192 \<Longrightarrow>
   ipc_message t2 d2 pid2 now2 = Some m2 \<Longrightarrow> topic_ok t2 \<Longrightarrow> length d2 \<le> 8176 \<Longrightarrow>
   \<forall>t\<in>fst ` set (br_callbacks b). 0 \<notin> set (utf8 t) \<and> 3 \<le> length (utf8 t) \<Longrightarrow>
     listen b (m1 @ m2) = handle_message m1 b"
proof -
  assume m1: "ipc_message t1 d1 pid1 now1 = Some m1" and t1: "topic_ok t1" and d1: "length d1 \<le> 8192"
    and m2: "ipc_message t2 d2 pid2 now2 = Some m2" and t2: "topic_ok t2" and d2: "length d2 \<le> 8176"
    and subs: "\<forall>t\<in>fst ` set (br_callbacks b). 0 \<notin> set (utf8 t) \<and> 3 \<le> length (utf8 t)"
  have u1: "length (utf8 t1) \<le> 64" and u2: "length (utf8 t2) \<le> 64" using t1 t2 by (simp_all add: topic_ok_def)
  from m1 u1 d1 obtain l p ts where e1: "m1 = ljust 64 (utf8 t1) @ ljust 8192 d1 @ l @ p @ ts"
    and l: "pack_uint 4 (int (length d1)) = Some l" and len1: "length l = 4" "length p = 4" "length ts = 8"
    by (rule ipc_message_split)
  from d2 have d2': "length d2 \<le> 8192" by simp
  from m2 u2 d2' obtain l' p' ts' where e2: "m2 = ljust 64 (utf8 t2) @ ljust 8192 d2 @ l' @ p' @ ts'"
    and len2: "length l' = 4" "length p' = 4" "length ts' = 8"
    by (rule ipc_message_split)
  let ?rest = "l @ p @ ts @ m2"
  have lm: "length m1 = 8272" "length m2 = 8272" using message_length m1 m2 u1 u2 d1 d2 by simp_all
  have c1: "drop 8256 (m1 @ m2) = ?rest" using u1 d1 len1 by (simp add: e1)
  have h1: "handle_message (take 8256 (m1 @ m2)) b = handle_message m1 b"
    using lm handle_prefix [of m1 b] by simp
  have "l ! 2 = 0" using l d1 by (auto simp: pack_uint_def le_bytes_nth split: if_splits)
  then have h2: "handle_message (take 8256 ?rest) b = []"
    using len1 lm by (intro handle_no_topic subs) (simp_all add: nth_append)
  have c3: "drop 8256 ?rest = drop 8240 m2" using len1 by simp
  have z: "drop 8240 m2 = replicate 16 0 @ l' @ p' @ ts'"
    using u2 d2 by (simp add: e2 ljust_def)
  have h3: "handle_message (drop 8240 m2) b = []"
    unfolding z using len2 by (intro handle_no_topic subs) (simp_all add: nth_append)
  have s3: "listen b (drop 8240 m2) = []"
    using h3 lm by (simp add: listen.simps [of b "drop 8240 m2"] listen.simps [of b "[]"])
  have s2: "listen b ?rest = []"
    using h2 c3 s3 len1 by (subst listen.simps) simp
  have "m1 @ m2 \<noteq> []" using lm by auto
  from listen_chunk [OF this, of b] show ?thesis by (simp only: h1 c1 s2 append_Nil2)
qed

theorem second_message_lost_witness:
  "\<exists>m1 m2. ipc_message ''BATTERY'' [85] 7 1000 = Some m1 \<and> ipc_message ''WIFI_STATE'' [1] 7 1000 = Some m2 \<and>
     listen ((bridge_init True)\<lparr>br_callbacks := [(''BATTERY'', [0]), (''WIFI_STATE'', [1])]\<rparr>) (m1 @ m2)
       = [(0, ''BATTERY'', [85])]"
proof -
  let ?b = "(bridge_init True)\<lparr>br_callbacks := [(''BATTERY'', [0]), (''WIFI_STATE'', [1])]\<rparr>"
  have ok: "topic_ok ''BATTERY''" "topic_ok ''WIFI_STATE''" by (simp_all add: topic_ok_def utf8_def utf8_char_def)
  have subs: "\<forall>t\<in>fst ` set (br_callbacks ?b). 0 \<notin> set (utf8 t) \<and> 3 \<le> length (utf8 t)"
    by (simp add: utf8_def utf8_char_def)
  obtain m1 where m1: "ipc_message ''BATTERY'' [85] 7 1000 = Some m1" by (simp add: ipc_message_def pack_uint_def)
  obtain m2 where m2: "ipc_message ''WIFI_STATE'' [1] 7 1000 = Some m2" by (simp add: ipc_message_def pack_uint_def)
  have "handle_message m1 ?b = [(0, ''BATTERY'', [85])]"
    using message_topic [OF m1 ok(1)] by (simp add: handle_message_def find_callbacks rstrip0_def)
  with second_message_lost [OF m1 ok(1) _ m2 ok(2) _ subs] m1 m2 show ?thesis by simp
qed

text \<open>
  A state file of \<open>key=value\<close> lines is read back as the mapping it was written from, a
  later line winning over an earlier one with the same key.
\<close>

theorem read_state_written:
  "\<forall>(k, v)\<in>set kvs. plain_key k \<and> plain_field v \<Longrightarrow>
     read_state (Some (concat (map state_line kvs))) = map_of (rev kvs)"
  by (simp add: read_state_def file_lines_written foldl_read_state)

theorem read_state_written_witness:
  "read_state (Some (''level=42'' @ [newline_char] @ ''charging=1'' @ [newline_char] @ ''level=7'' @ [newline_char]))
     = map_of (rev [(''level'', ''42''), (''charging'', ''1''), (''level'', ''7'')])"
proof -
  have "\<forall>(k, v)\<in>set [(''level'', ''42''), (''charging'', ''1''), (''level'', ''7'')]. plain_key k \<and> plain_field v"
    by (simp add: plain_key_def plain_field_def py_strip_def py_lstrip_def py_isspace_char_def)
  from read_state_written [OF this] show ?thesis by (simp add: state_line_def)
qed

text \<open>
  A permission is granted only on a complete answer that says so: whatever goes wrong
  with the request or the connection, the bridge denies.
\<close>

theorem permission_fails_closed:
  "check_permission p answer \<longleftrightarrow>
     (0 \<le> p \<and> p < 2 ^ 32 \<and> (\<exists>r. answer = Some r \<and> length r = 8 \<and> unpack_uint (drop 4 r) = 1))"
  by (auto simp: check_permission_def pack_uint_def split: option.splits)

end
