(* ===== verification/Julius_Status.thy ===== *)
theory Julius_Status
  imports Complex_Main Julius_Bridge Json_Lines
begin

text \<open>
  The system status (\<^verbatim>\<open>src/src/system/julius_status.py\<close>) and what the status bar of the main
  interface reads from it (\<^verbatim>\<open>src/src/julius_ui.py\<close>): the polled values, the handlers of the
  bridge's messages, and the readers of the system files. The contents of the files are
  arguments, \<open>None\<close> for a file that cannot be read. The handlers store what the JSON of a message
  holds without looking at its type, so these attributes are JSON values.
\<close>

record status =
  st_battery_level :: int
  st_charging :: bool
  st_wifi_connected :: json
  st_wifi_ssid :: json
  st_wifi_signal :: json
  st_bt_connected :: json
  st_bt_enabled :: bool
  st_health_score :: int
  st_cpu_usage :: int
  st_mem_available :: int
  st_net_rx :: int
  st_net_tx :: int
  st_last_update :: rat
  st_bridge :: bool

definition status_init :: "bool \<Rightarrow> status" where
  "status_init bridge =
     \<lparr>st_battery_level = 85, st_charging = False, st_wifi_connected = JBool False, st_wifi_ssid = JStr [],
      st_wifi_signal = JInt 0, st_bt_connected = JBool False, st_bt_enabled = True, st_health_score = 100,
      st_cpu_usage = 0, st_mem_available = 0, st_net_rx = 0, st_net_tx = 0, st_last_update = 0, st_bridge = bridge\<rparr>"

subsection \<open>Messages\<close>

definition on_battery :: "byte list \<Rightarrow> status \<Rightarrow> status" where
  "on_battery data s =
     (if length (take 4 data) = 4 then s\<lparr>st_battery_level := int (unpack_uint (take 4 data))\<rparr> else s)"

text \<open>
  \<open>json.loads(data.decode())\<close> and \<open>info.get(k, d)\<close>. What is not a dictionary has no \<open>get\<close>; that and
  every other exception ends the handler before it has stored anything.
\<close>

definition message_dict :: "byte list \<Rightarrow> (string \<rightharpoonup> json) option" where
  "message_dict data =
     (case Option.bind (Option.bind (utf8_decode data) latin1) json_loads of Some (JObj kvs) \<Rightarrow> Some (map_of kvs) | _ \<Rightarrow> None)"

definition dict_get :: "(string \<rightharpoonup> json) \<Rightarrow> string \<Rightarrow> json \<Rightarrow> json" where
  "dict_get d k v = (case d k of Some x \<Rightarrow> x | None \<Rightarrow> v)"

definition on_wifi :: "byte list \<Rightarrow> status \<Rightarrow> status" where
  "on_wifi data s =
     (case message_dict data of
        None \<Rightarrow> s
      | Some info \<Rightarrow>
          s\<lparr>st_wifi_connected := dict_get info ''connected'' (JBool False),
            st_wifi_ssid := dict_get info ''ssid'' (JStr []),
            st_wifi_signal := dict_get info ''signal'' (JInt 0)\<rparr>)"

definition on_bt :: "byte list \<Rightarrow> status \<Rightarrow> status" where
  "on_bt data s =
     (case message_dict data of
        None \<Rightarrow> s
      | Some info \<Rightarrow> s\<lparr>st_bt_connected := dict_get info ''connected'' (JBool False)\<rparr>)"

subsection \<open>Reading the system files\<close>

record sys_files =
  f_power :: "string option"
  f_wifi :: "string option"
  f_bt :: "string option"
  f_health :: "string option"
  f_capacity :: "string option"
  f_charge_status :: "string option"
  f_stat :: "string option"

text \<open>The level is stored before the second file is opened; any exception ends the method.\<close>

definition read_battery :: "sys_files \<Rightarrow> status \<Rightarrow> status" where
  "read_battery fs s =
     (case f_capacity fs of
        None \<Rightarrow> s
      | Some c \<Rightarrow>
          (case py_int (universal_newlines c) of
             None \<Rightarrow> s
           | Some n \<Rightarrow>
               (let s1 = s\<lparr>st_battery_level := n\<rparr>
                in case f_charge_status fs of
                     None \<Rightarrow> s1
                   | Some t \<Rightarrow>
                       s1\<lparr>st_charging := (py_strip (universal_newlines t) \<in> {''Charging'', ''Full''})\<rparr>)))"

text \<open>\<open>line.strip().split("=")[1]\<close> on a line that starts with a key and \<open>=\<close>.\<close>

definition second_field :: "string \<Rightarrow> string" where
  "second_field line = py_split CHR ''='' (py_strip line) ! 1"

definition read_wifi_line :: "status \<Rightarrow> string \<Rightarrow> status" where
  "read_wifi_line s line =
     (if py_prefix ''connected='' line then s\<lparr>st_wifi_connected := JBool (second_field line = ''1'')\<rparr>
      else if py_prefix ''ssid='' line then s\<lparr>st_wifi_ssid := JStr (second_field line)\<rparr>
      else if py_prefix ''signal='' line then
        (case py_int (second_field line) of Some n \<Rightarrow> s\<lparr>st_wifi_signal := JInt n\<rparr> | None \<Rightarrow> s)
      else s)"

definition read_wifi :: "sys_files \<Rightarrow> status \<Rightarrow> status" where
  "read_wifi fs s = (case f_wifi fs of None \<Rightarrow> s | Some c \<Rightarrow> foldl read_wifi_line s (file_lines c))"

fun all_some :: "'a option list \<Rightarrow> 'a list option" where
  "all_some [] = Some []"
| "all_some (None # xs) = None"
| "all_some (Some x # xs) = map_option ((#) x) (all_some xs)"

text \<open>
  \<open>int(idle*100/total)\<close> divides in floating point; the quotient is rounded towards zero. The
  model uses the exact quotient, which agrees as long as the counters stay below \<open>2 ^ 44\<close>.
\<close>

definition cpu_percent :: "int \<Rightarrow> int \<Rightarrow> int" where
  "cpu_percent idle tot = max 0 (min 100 (100 - sgn (idle * 100) * sgn tot * (\<bar>idle * 100\<bar> div \<bar>tot\<bar>)))"

definition read_cpu :: "sys_files \<Rightarrow> status \<Rightarrow> status" where
  "read_cpu fs s =
     (case f_stat fs of
        None \<Rightarrow> s
      | Some c \<Rightarrow>
          (let line = (case file_lines c of [] \<Rightarrow> [] | l # _ \<Rightarrow> l)
           in case all_some (map py_int (tl (py_words line))) of
                None \<Rightarrow> s
              | Some ns \<Rightarrow>
                  (if length ns \<le> 3 \<or> sum_list ns = 0 then s
                   else s\<lparr>st_cpu_usage := cpu_percent (ns ! 3) (sum_list ns)\<rparr>)))"

subsection \<open>Polling\<close>

definition status_update :: "rat \<Rightarrow> sys_files \<Rightarrow> status \<Rightarrow> status" where
  "status_update now fs s =
     (if now - st_last_update s < 5 then s
      else
        (let s1 = s\<lparr>st_last_update := now\<rparr>
         in if st_bridge s then
              (let wifi = read_state (f_wifi fs); bt = read_state (f_bt fs)
               in s1\<lparr>st_battery_level := get_battery_level (f_power fs),
                     st_charging := get_charging (f_power fs),
                     st_wifi_connected := JBool (state_get wifi ''connected'' ''0'' = ''1''),
                     st_wifi_ssid := JStr (state_get wifi ''ssid'' []),
                     st_bt_enabled := (state_get bt ''enabled'' ''0'' = ''1''),
                     st_health_score := get_health_score (f_health fs)\<rparr>)
            else read_cpu fs (read_wifi fs (read_battery fs s1))))"

text \<open>The truth value of a JSON value, and its number for a comparison with one.\<close>

definition json_truthy :: "json \<Rightarrow> bool" where
  "json_truthy j \<longleftrightarrow> j \<notin> {JNull, JBool False, JInt 0, JStr [], JList [], JObj []}"

definition json_num :: "json \<Rightarrow> int res" where
  "json_num j = (case j of JInt i \<Rightarrow> Inr i | JBool b \<Rightarrow> Inr (if b then 1 else 0) | _ \<Rightarrow> Inl TypeError)"

definition status_wifi_bars :: "status \<Rightarrow> int res" where
  "status_wifi_bars s =
     (if \<not> json_truthy (st_wifi_connected s) then Inr 0
      else res_bind (json_num (st_wifi_signal s)) (\<lambda>g.
             Inr (if g > - 50 then 4 else if g > - 60 then 3 else if g > - 70 then 2 else if g > - 80 then 1 else 0)))"

definition status_check_permission :: "int \<Rightarrow> byte list option \<Rightarrow> status \<Rightarrow> bool" where
  "status_check_permission p answer s = (if st_bridge s then check_permission p answer else True)"

subsection \<open>What the status bar shows\<close>

definition ui_get_battery_level :: "rat \<Rightarrow> sys_files \<Rightarrow> status option \<Rightarrow> int \<times> status option" where
  "ui_get_battery_level now fs st =
     (case st of
        Some s \<Rightarrow> (let s' = status_update now fs s in (st_battery_level s', Some s'))
      | None \<Rightarrow>
          ((case f_capacity fs of
              None \<Rightarrow> 85
            | Some c \<Rightarrow> (case py_int (universal_newlines c) of Some n \<Rightarrow> n | None \<Rightarrow> 85)), None))"

definition ui_is_charging :: "sys_files \<Rightarrow> status option \<Rightarrow> bool" where
  "ui_is_charging fs st =
     (case st of
        Some s \<Rightarrow> st_charging s
      | None \<Rightarrow>
          (case f_charge_status fs of
             None \<Rightarrow> False | Some t \<Rightarrow> py_strip (universal_newlines t) \<in> {''Charging'', ''Full''}))"

definition ui_get_wifi_bars :: "sys_files \<Rightarrow> status option \<Rightarrow> int res" where
  "ui_get_wifi_bars fs st =
     (case st of
        Some s \<Rightarrow> status_wifi_bars s
      | None \<Rightarrow>
          Inr (case f_wifi fs of
                 None \<Rightarrow> 3
               | Some c \<Rightarrow>
                   (case find (py_prefix ''connected='') (file_lines c) of
                      None \<Rightarrow> 3
                    | Some l \<Rightarrow> (if py_strip l = ''connected=1'' then 3 else 0))))"

definition ui_get_health_score :: "status option \<Rightarrow> int" where
  "ui_get_health_score st = (case st of Some s \<Rightarrow> st_health_score s | None \<Rightarrow> 100)"

definition battery_fill :: "int \<Rightarrow> int" where
  "battery_fill level = sgn level * (\<bar>22 * level\<bar> div 100)"

subsection \<open>Lemmas\<close>

lemma le_bytes_4: "le_bytes 4 n = [of_nat n, of_nat (n div 256), of_nat (n div 256 ^ 2), of_nat (n div 256 ^ 3)]"
  by (simp add: le_bytes_def upt_rec)

lemma rstrip0_snoc: "rstrip0 (bs @ [0]) = rstrip0 bs"
  using rstrip0_zeros [of bs 1] by simp

lemma length_rstrip0: "length (rstrip0 bs) \<le> length bs"
  using length_dropWhile_le [of "\<lambda>b. b = 0" "rev bs"] by (simp add: rstrip0_def)

lemma stripped_uint: "n < 2 ^ 24 \<Longrightarrow> length (rstrip0 (le_bytes 4 n)) < 4"
proof -
  assume "n < 2 ^ 24"
  then have "le_bytes 4 n = [of_nat n, of_nat (n div 256), of_nat (n div 256 ^ 2)] @ [0]" by (simp add: le_bytes_4)
  then show ?thesis
    using length_rstrip0 [of "[of_nat n, of_nat (n div 256), of_nat (n div 256 ^ 2)]"]
    by (simp add: rstrip0_snoc [of "[of_nat n, of_nat (n div 256), of_nat (n div 256 ^ 2)]", simplified])
qed

lemma update_signal:
  "st_bridge s \<Longrightarrow> st_wifi_signal (status_update now fs s) = st_wifi_signal s \<and> st_bridge (status_update now fs s)"
  by (simp add: status_update_def Let_def)

subsection \<open>Properties\<close>

text \<open>
  A battery message never changes the battery level: the level is sent as four bytes,
  the dispatcher strips the trailing NUL bytes from the payload, and for every level below
  \<open>2 ^ 24\<close> fewer than the four bytes remain that the handler unpacks.
\<close>

theorem battery_message_ignored:
  "ipc_message ''BATTERY'' (le_bytes 4 level) pid now = Some m \<Longrightarrow> level < 2 ^ 24 \<Longrightarrow>
     on_battery (msg_payload m) s = s"
proof -
  assume m: "ipc_message ''BATTERY'' (le_bytes 4 level) pid now = Some m" and level: "level < 2 ^ 24"
  have "topic_ok ''BATTERY''" by (simp add: topic_ok_def utf8_def utf8_char_def)
  from message_topic(2) [OF m this] have "msg_payload m = rstrip0 (le_bytes 4 level)" by simp
  with stripped_uint [OF level] show ?thesis by (simp add: on_battery_def)
qed

theorem battery_message_ignored_witness:
  "\<exists>m. ipc_message ''BATTERY'' (le_bytes 4 42) 7 1000 = Some m
     \<and> st_battery_level (on_battery (msg_payload m) (status_init True)) = 85"
proof -
  obtain m where m: "ipc_message ''BATTERY'' (le_bytes 4 42) 7 1000 = Some m" by (simp add: ipc_message_def pack_uint_def)
  from battery_message_ignored [OF m, of "status_init True"] m show ?thesis by (simp add: status_init_def)
qed

text \<open>
  Polling through the bridge never reads the signal strength: from the start on, for
  any files and any times, the WiFi indicator shows no bar or all four.
\<close>

theorem polled_bars_all_or_none:
  "let s = foldl (\<lambda>s (now, fs). status_update now fs s) (status_init True) polls
   in st_wifi_signal s = JInt 0 \<and> status_wifi_bars s = Inr (if json_truthy (st_wifi_connected s) then 4 else 0)"
proof -
  have "st_bridge (foldl (\<lambda>s (now, fs). status_update now fs s) s polls) \<and>
      st_wifi_signal (foldl (\<lambda>s (now, fs). status_update now fs s) s polls) = st_wifi_signal s" if "st_bridge s" for s
    using that by (induction polls arbitrary: s) (auto simp: update_signal split: prod.split)
  from this [of "status_init True"] show ?thesis by (simp add: status_init_def status_wifi_bars_def json_num_def Let_def)
qed

text \<open>Without a bridge every permission is granted; with one, a missing answer denies it.\<close>

lemma permission_without_bridge:
  "status_check_permission p None s \<longleftrightarrow> \<not> st_bridge s"
  by (simp add: status_check_permission_def check_permission_def split: option.split)

end
