(* ===== verification/Haptic.thy ===== *)
theory Haptic
  imports Complex_Main Julius_Prelude
begin

text \<open>
  Haptic feedback (\<^verbatim>\<open>src/src/system/haptic.py\<close>). A vibration pattern is a list of
  (duration, pause) in seconds, as exact rationals. The trace of a vibration thread is the
  sequence of writes to the motor pin and of sleeps; \<open>fail\<close> says which writes raise.
\<close>

record haptic =
  hp_enabled :: bool
  hp_intensity :: int
  hp_motor_pin :: int

definition hp_init :: haptic where
  "hp_init = \<lparr>hp_enabled = True, hp_intensity = 100, hp_motor_pin = 18\<rparr>"

type_synonym pattern = "(rat \<times> rat) list"

datatype gpio_act = PinWrite bool | Sleep rat

text \<open>
  \<open>_vibrate_gpio\<close>: write 1, sleep, write 0. \<open>w1\<close> and \<open>w0\<close> say whether the two writes
  succeed; a failure ends the method silently, so a failing second write leaves the motor on.
\<close>

definition vibrate_gpio :: "bool \<Rightarrow> bool \<Rightarrow> rat \<Rightarrow> gpio_act list" where
  "vibrate_gpio w1 w0 duration =
     (if \<not> w1 then []
      else [PinWrite True, Sleep duration] @ (if w0 then [PinWrite False] else []))"

fun vibrate_thread :: "haptic \<Rightarrow> bool \<Rightarrow> bool \<Rightarrow> pattern \<Rightarrow> gpio_act list" where
  "vibrate_thread h w1 w0 [] = []"
| "vibrate_thread h w1 w0 ((duration, pause) # ps) =
     vibrate_gpio w1 w0 (duration * (of_int (hp_intensity h) / 100))
     @ (if pause > 0 then [Sleep pause] else [])
     @ vibrate_thread h w1 w0 ps"

definition hp_vibrate :: "haptic \<Rightarrow> bool \<Rightarrow> bool \<Rightarrow> pattern option \<Rightarrow> gpio_act list" where
  "hp_vibrate h w1 w0 p =
     (if \<not> hp_enabled h then []
      else vibrate_thread h w1 w0 (case p of None \<Rightarrow> [(1 / 20, 0)] | Some ps \<Rightarrow> ps))"

text \<open>The patterns of \<open>tap\<close>, \<open>double_tap\<close>, \<open>heavy\<close>, \<open>success\<close>, \<open>error\<close>, \<open>unlock\<close>,
  \<open>notification\<close>, \<open>swipe\<close> and \<open>long_press\<close>.\<close>

definition hp_pattern :: "string \<Rightarrow> pattern option" where
  "hp_pattern = map_of
     [(''tap'', [(3 / 100, 0)]),
      (''double_tap'', [(3 / 100, 1 / 20), (3 / 100, 0)]),
      (''heavy'', [(1 / 10, 0)]),
      (''success'', [(1 / 20, 1 / 20), (1 / 20, 1 / 20), (1 / 10, 0)]),
      (''error'', [(1 / 10, 1 / 20), (1 / 10, 1 / 20), (1 / 10, 0)]),
      (''unlock'', [(1 / 20, 3 / 100), (1 / 20, 3 / 100), (3 / 20, 0)]),
      (''notification'', [(1 / 20, 1 / 10), (1 / 20, 0)]),
      (''swipe'', [(1 / 50, 0)]),
      (''long_press'', [(2 / 25, 0)])]"

text \<open>The motor after a trace, and for how long it was on.\<close>

fun motor :: "bool \<Rightarrow> gpio_act list \<Rightarrow> bool" where
  "motor b [] = b"
| "motor b (PinWrite v # as) = motor v as"
| "motor b (Sleep d # as) = motor b as"

fun on_time :: "bool \<Rightarrow> gpio_act list \<Rightarrow> rat" where
  "on_time b [] = 0"
| "on_time b (PinWrite v # as) = on_time v as"
| "on_time b (Sleep d # as) = (if b then d else 0) + on_time b as"

lemma motor_append: "motor b (xs @ ys) = motor (motor b xs) ys"
  by (induction b xs rule: motor.induct) auto

lemma on_time_append: "on_time b (xs @ ys) = on_time b xs + on_time (motor b xs) ys"
  by (induction b xs rule: on_time.induct) auto

lemma vibrate_thread_off: "motor False (vibrate_thread h True True ps) = False"
  by (induction ps) (auto simp: vibrate_gpio_def motor_append split: if_splits)

lemma vibrate_thread_on_time:
  "on_time False (vibrate_thread h True True ps) =
     (\<Sum>d\<leftarrow>map fst ps. d * (of_int (hp_intensity h) / 100))"
  by (induction ps) (auto simp: vibrate_gpio_def motor_append on_time_append vibrate_thread_off algebra_simps)

subsection \<open>Properties\<close>

text \<open>
  A vibration whose writes succeed ends with the motor off and keeps it on for the sum
  of the durations scaled by the intensity; a disabled device does nothing.
\<close>

theorem hp_vibrate_off_and_time:
  "motor False (hp_vibrate h True True (Some ps)) = False \<and>
   on_time False (hp_vibrate h True True (Some ps)) =
     (if hp_enabled h then (\<Sum>d\<leftarrow>map fst ps. d * (of_int (hp_intensity h) / 100)) else 0)"
  by (simp add: hp_vibrate_def vibrate_thread_off vibrate_thread_on_time del: map_map)

end
