(* ===== verification/Backend.thy ===== *)
theory Backend
  imports Julius_Status
begin

text \<open>
  The backend of the interface put together: the requests of \<^verbatim>\<open>src/src/system/julius_bridge.py\<close> to
  the services, its listener thread with reconnection, the module-level instances of bridge and
  status, the subscriptions of \<^verbatim>\<open>src/src/system/julius_status.py\<close>, and the start in
  \<^verbatim>\<open>src/src/julius_ui.py\<close>. What the network does in a round of the listener is an argument, as
  are the process id, the clock, and whether sending fails.
\<close>

subsection \<open>Requests\<close>

definition WIFI_STATE :: string where "WIFI_STATE = ''/var/run/julius_wifi.state''"
definition BT_STATE :: string where "BT_STATE = ''/var/run/julius_bt.state''"
definition POWER_STATE :: string where "POWER_STATE = ''/var/run/julius_power.state''"
definition HEALTH_STATE :: string where "HEALTH_STATE = ''/var/run/julius_health.state''"
definition NET_STATE :: string where "NET_STATE = ''/var/run/julius_net.state''"

text \<open>The files that exist and can be read.\<close>

type_synonym run_files = "string \<rightharpoonup> string"

definition get_wifi_state :: "run_files \<Rightarrow> (string \<rightharpoonup> string)" where "get_wifi_state fs = read_state (fs WIFI_STATE)"
definition get_bt_state :: "run_files \<Rightarrow> (string \<rightharpoonup> string)" where "get_bt_state fs = read_state (fs BT_STATE)"
definition get_power_state :: "run_files \<Rightarrow> (string \<rightharpoonup> string)" where "get_power_state fs = read_state (fs POWER_STATE)"
definition get_health_state :: "run_files \<Rightarrow> (string \<rightharpoonup> string)" where "get_health_state fs = read_state (fs HEALTH_STATE)"
definition get_net_state :: "run_files \<Rightarrow> (string \<rightharpoonup> string)" where "get_net_state fs = read_state (fs NET_STATE)"

text \<open>\<open>publish\<close> of a dictionary dumps it first.\<close>

definition publish_dict :: "string \<Rightarrow> (string \<times> json) list \<Rightarrow> int \<Rightarrow> int \<Rightarrow> bool \<Rightarrow> bridge \<Rightarrow> byte list \<times> bridge" where
  "publish_dict topic d = publish topic (json_dumps (JObj d))"

definition wifi_connect :: "string \<Rightarrow> string \<Rightarrow> int \<Rightarrow> int \<Rightarrow> bool \<Rightarrow> bridge \<Rightarrow> byte list \<times> bridge" where
  "wifi_connect ssid password = publish_dict ''WIFI_CONNECT'' [(''ssid'', JStr ssid), (''password'', JStr password)]"

definition wifi_disconnect :: "int \<Rightarrow> int \<Rightarrow> bool \<Rightarrow> bridge \<Rightarrow> byte list \<times> bridge" where
  "wifi_disconnect = publish_dict ''WIFI_DISCONNECT'' []"

definition request_wifi_scan :: "int \<Rightarrow> int \<Rightarrow> bool \<Rightarrow> bridge \<Rightarrow> byte list \<times> bridge" where
  "request_wifi_scan = publish_dict ''WIFI_SCAN'' []"

definition request_bt_scan :: "int \<Rightarrow> int \<Rightarrow> bool \<Rightarrow> bridge \<Rightarrow> byte list \<times> bridge" where
  "request_bt_scan = publish_dict ''BT_SCAN'' []"

definition bt_connect :: "string \<Rightarrow> int \<Rightarrow> int \<Rightarrow> bool \<Rightarrow> bridge \<Rightarrow> byte list \<times> bridge" where
  "bt_connect addr = publish_dict ''BT_CONNECT'' [(''addr'', JStr addr)]"

text \<open>\<open>stop\<close>: whether the socket is closed, and the bridge after it.\<close>

definition bridge_stop :: "bridge \<Rightarrow> bool \<times> bridge" where
  "bridge_stop b = (br_sock b, b\<lparr>br_running := False\<rparr>)"

subsection \<open>The listener thread\<close>

text \<open>
  What the network does in one round of \<open>while self._running\<close>: with no socket the thread tries to
  connect, with one it waits in \<open>recv(8256)\<close>, which gives bytes, none at the end of the stream, or
  raises.
\<close>

datatype net_event = Connect bool | Recv "byte list" | RecvFails

definition connect_ipc :: "net_event \<Rightarrow> bridge \<Rightarrow> bridge" where
  "connect_ipc ev b = b\<lparr>br_sock := (ev = Connect True)\<rparr>"

definition listener_round :: "net_event \<Rightarrow> bridge \<Rightarrow> bool \<times> bridge \<times> call list" where
  "listener_round ev b =
     (if \<not> br_running b then (False, b, [])
      else if \<not> br_sock b then (True, connect_ipc ev b, [])
      else (case ev of
              Recv data \<Rightarrow> (if data = [] then (False, b, []) else (True, b, handle_message (take 8256 data) b))
            | _ \<Rightarrow> (True, b\<lparr>br_sock := False\<rparr>, [])))"

text \<open>The thread and the calls of the other threads, one after the other.\<close>

record listener =
  ls_alive :: bool
  ls_bridge :: bridge
  ls_calls :: "call list"

datatype bridge_act =
    Round net_event
  | Publish string string int int bool
  | Subscribe string nat int int bool
  | Stop

fun bridge_step :: "listener \<Rightarrow> bridge_act \<Rightarrow> listener" where
  "bridge_step l (Round ev) =
     (if ls_alive l then
        (let (alive, b, cs) = listener_round ev (ls_bridge l)
         in \<lparr>ls_alive = alive, ls_bridge = b, ls_calls = ls_calls l @ cs\<rparr>)
      else l)"
| "bridge_step l (Publish topic data pid now fails) =
     l\<lparr>ls_bridge := snd (publish topic data pid now fails (ls_bridge l))\<rparr>"
| "bridge_step l (Subscribe topic cb pid now fails) =
     l\<lparr>ls_bridge := snd (subscribe topic cb pid now fails (ls_bridge l))\<rparr>"
| "bridge_step l Stop = l\<lparr>ls_bridge := snd (bridge_stop (ls_bridge l))\<rparr>"

definition bridge_run :: "listener \<Rightarrow> bridge_act list \<Rightarrow> listener" where
  "bridge_run l acts = foldl bridge_step l acts"

subsection \<open>The status behind the bridge\<close>

text \<open>The callbacks by number: \<open>_on_battery\<close>, \<open>_on_wifi\<close> and \<open>_on_bt\<close>.\<close>

definition run_call :: "status \<Rightarrow> call \<Rightarrow> status" where
  "run_call s c =
     (case c of (cb, topic, data) \<Rightarrow>
        (if cb = 0 then on_battery data s else if cb = 1 then on_wifi data s else if cb = 2 then on_bt data s else s))"

definition receive :: "bridge \<Rightarrow> byte list \<Rightarrow> status \<Rightarrow> status" where
  "receive b data s = foldl run_call s (handle_message data b)"

definition subscribe_events :: "(nat \<Rightarrow> bool) \<Rightarrow> int \<Rightarrow> int \<Rightarrow> bridge \<Rightarrow> byte list \<times> bridge" where
  "subscribe_events fails pid now b =
     (let (m0, b0) = subscribe ''BATTERY'' 0 pid now (fails 0) b;
          (m1, b1) = subscribe ''WIFI_STATE'' 1 pid now (fails 1) b0;
          (m2, b2) = subscribe ''BT_STATE'' 2 pid now (fails 2) b1
      in (m0 @ m1 @ m2, b2))"

definition status_send_notification :: "string \<Rightarrow> string \<Rightarrow> string \<Rightarrow> status \<Rightarrow> byte list option" where
  "status_send_notification app title body s = (if st_bridge s then push_request app title body 1 else None)"

definition save_to_keychain :: "byte list option \<Rightarrow> status \<Rightarrow> bool" where
  "save_to_keychain answer s = (if st_bridge s then keychain_save answer else False)"

definition get_from_keychain :: "byte list option \<Rightarrow> status \<Rightarrow> byte list option" where
  "get_from_keychain answer s = (if st_bridge s then keychain_get answer else None)"

subsection \<open>The instances\<close>

record modules =
  mod_bridge :: "bridge option"
  mod_status :: "status option"

definition get_bridge :: "bool \<Rightarrow> modules \<Rightarrow> bridge \<times> modules" where
  "get_bridge up m =
     (case mod_bridge m of
        Some b \<Rightarrow> (b, m)
      | None \<Rightarrow> (let b = bridge_init up in (b, m\<lparr>mod_bridge := Some b\<rparr>)))"

text \<open>
  \<open>get_status\<close>: the constructor of the status takes the bridge, if its module could be imported,
  and subscribes. The bytes sent come first.
\<close>

definition get_status :: "bool \<Rightarrow> bool \<Rightarrow> (nat \<Rightarrow> bool) \<Rightarrow> int \<Rightarrow> int \<Rightarrow> modules \<Rightarrow> byte list \<times> status \<times> modules" where
  "get_status available up fails pid now m =
     (case mod_status m of
        Some s \<Rightarrow> ([], s, m)
      | None \<Rightarrow>
          (if available then
             (let (b, m1) = get_bridge up m; (sent, b1) = subscribe_events fails pid now b; s = status_init True
              in (sent, s, m1\<lparr>mod_bridge := Some b1, mod_status := Some s\<rparr>))
           else (let s = status_init False in ([], s, m\<lparr>mod_status := Some s\<rparr>))))"

text \<open>The start of the interface: \<open>BACKEND\<close> is false only if the two modules cannot be imported.\<close>

definition start_backend :: "bool \<Rightarrow> bool \<Rightarrow> bool \<Rightarrow> (nat \<Rightarrow> bool) \<Rightarrow> int \<Rightarrow> int \<Rightarrow> byte list \<times> modules \<times> bool" where
  "start_backend importable available up fails pid now =
     (let m = \<lparr>mod_bridge = None, mod_status = None\<rparr>
      in if importable then
           (let (sent, s, m1) = get_status available up fails pid now m; (b, m2) = get_bridge up m1 in (sent, m2, True))
         else ([], m, False))"

subsection \<open>Lemmas\<close>

lemma send_callbacks: "br_callbacks (snd (send_ipc topic data pid now fails b)) = br_callbacks b"
  by (simp add: send_ipc_def split: option.split)

lemma subscribe_callbacks: "br_callbacks (snd (subscribe topic cb pid now fails b)) = add_callback topic cb (br_callbacks b)"
  by (simp add: subscribe_def send_callbacks)

lemma subscribed:
  "br_callbacks (snd (subscribe_events fails pid now (bridge_init c))) = [(''BATTERY'', [0]), (''WIFI_STATE'', [1]), (''BT_STATE'', [2])]"
  by (simp add: subscribe_events_def Let_def split_beta subscribe_callbacks bridge_init_def)

lemma started:
  "start_backend True True up fails pid now =
     (fst (subscribe_events fails pid now (bridge_init up)),
      \<lparr>mod_bridge = Some (snd (subscribe_events fails pid now (bridge_init up))), mod_status = Some (status_init True)\<rparr>, True)"
  by (simp add: start_backend_def get_status_def get_bridge_def Let_def split_beta)

lemma rstrip0_dumps: "rstrip0 (utf8 (json_dumps (JObj kvs))) = utf8 (json_dumps (JObj kvs))"
  by (rule rstrip0_id) (simp add: utf8_append [of _ "''}''", simplified] utf8_append [of "''{''" "_ @ _", simplified] utf8_def utf8_char_def)

lemma message_dict_dumps: "json_ok (JObj kvs) \<Longrightarrow> message_dict (utf8 (json_dumps (JObj kvs))) = Some (map_of kvs)"
  using json_loads_dumps [of "JObj kvs"] by (simp add: message_dict_def latin1_code_points del: json_dumps.simps)

lemma bridge_run_simps [simp]:
  "bridge_run l [] = l" "bridge_run l (a # acts) = bridge_run (bridge_step l a) acts"
  "bridge_run l (acts @ acts') = bridge_run (bridge_run l acts) acts'"
  by (simp_all add: bridge_run_def)

lemma dead_run: "\<not> ls_alive l \<Longrightarrow> \<not> ls_alive (bridge_run l acts) \<and> ls_calls (bridge_run l acts) = ls_calls l"
proof (induction acts arbitrary: l)
  case (Cons a acts)
  have "\<not> ls_alive (bridge_step l a) \<and> ls_calls (bridge_step l a) = ls_calls l" using Cons.prems by (cases a) simp_all
  with Cons.IH show ?case by simp
qed simp

subsection \<open>Properties\<close>

lemma topics_ok: "topic_ok ''WIFI_STATE''" "topic_ok ''BT_STATE''"
  by (simp_all add: topic_ok_def utf8_def utf8_char_def)

lemma wifi_received:
  assumes "br_callbacks b = [(''BATTERY'', [0]), (''WIFI_STATE'', [1]), (''BT_STATE'', [2])]"
    and "json_ok (JObj kvs)" "length (utf8 (json_dumps (JObj kvs))) \<le> 8192"
    and "ipc_message ''WIFI_STATE'' (utf8 (json_dumps (JObj kvs))) pid now = Some msg"
  shows "receive b msg s = s\<lparr>st_wifi_connected := dict_get (map_of kvs) ''connected'' (JBool False),
      st_wifi_ssid := dict_get (map_of kvs) ''ssid'' (JStr []), st_wifi_signal := dict_get (map_of kvs) ''signal'' (JInt 0)\<rparr>"
  using message_delivered [OF assms(4) topics_ok(1) assms(3), of b] message_dict_dumps [OF assms(2)]
  by (simp add: assms(1) rstrip0_dumps receive_def run_call_def on_wifi_def del: json_dumps.simps)


definition demo_wifi :: "(string \<times> json) list" where
  "demo_wifi = [(''connected'', JBool True), (''ssid'', JStr ''home''), (''signal'', JInt (- 65))]"

lemma demo_message: "\<exists>m. ipc_message topic (utf8 (json_dumps (JObj demo_wifi))) 7 1000 = Some m"
  "length (utf8 (json_dumps (JObj demo_wifi))) \<le> 8192"
proof -
  show len: "length (utf8 (json_dumps (JObj demo_wifi))) \<le> 8192" by code_simp
  then show "\<exists>m. ipc_message topic (utf8 (json_dumps (JObj demo_wifi))) 7 1000 = Some m"
    by (simp add: ipc_message_def pack_uint_def del: json_dumps.simps)
qed


text \<open>
  (C20) The listener survives an error of its socket, however often the service refuses the
  connection before it answers again, but not the end of the stream: when the service closes the
  connection, as it does when it is restarted, the thread ends, and no message is delivered any
  more, whatever is sent, received, subscribed or published later.
\<close>

theorem listener_dies_on_close:
  assumes "ls_alive l" "br_running (ls_bridge l)" "br_sock (ls_bridge l)" "data \<noteq> []"
  shows "ls_calls (bridge_run l ([Round RecvFails] @ replicate n (Round (Connect False)) @ [Round (Connect True), Round (Recv data)]))
        = ls_calls l @ handle_message (take 8256 data) (ls_bridge l)
    \<and> ls_calls (bridge_run l (Round (Recv []) # acts)) = ls_calls l"
proof -
  let ?b = "ls_bridge l"
  let ?down = "\<lparr>ls_alive = True, ls_bridge = ?b\<lparr>br_sock := False\<rparr>, ls_calls = ls_calls l\<rparr>"
  have refused: "bridge_run ?down (replicate n (Round (Connect False))) = ?down"
    using assms(2) by (induction n) (simp_all add: listener_round_def connect_ipc_def)
  have down: "bridge_step l (Round RecvFails) = ?down" using assms by (simp add: listener_round_def)
  have same: "handle_message x (?b\<lparr>br_sock := v\<rparr>) = handle_message x ?b" for x v by (simp add: handle_message_def)
  have "ls_calls (bridge_run l ([Round RecvFails] @ replicate n (Round (Connect False)) @ [Round (Connect True), Round (Recv data)]))
        = ls_calls (bridge_run ?down [Round (Connect True), Round (Recv data)])"
    by (simp only: bridge_run_simps down refused)
  also have "\<dots> = ls_calls l @ handle_message (take 8256 data) ?b"
    using assms by (simp add: listener_round_def connect_ipc_def same)
  moreover have "\<not> ls_alive (bridge_step l (Round (Recv []))) \<and> ls_calls (bridge_step l (Round (Recv []))) = ls_calls l"
    using assms by (simp add: listener_round_def)
  ultimately show ?thesis using dead_run [of "bridge_step l (Round (Recv []))" acts] by simp
qed

definition demo_listener :: listener where
  "demo_listener = \<lparr>ls_alive = True, ls_bridge = (bridge_init True)\<lparr>br_callbacks := [(''BT'', [2])]\<rparr>, ls_calls = []\<rparr>"

definition demo_bytes :: "byte list" where
  "demo_bytes = [66, 84] @ replicate 62 0 @ [123, 125]"

theorem listener_dies_on_close_witness:
  "ls_calls (bridge_run demo_listener [Round RecvFails, Round (Connect False), Round (Connect True), Round (Recv demo_bytes)])
     = [(2, ''BT'', [123, 125])]
   \<and> ls_calls (bridge_run demo_listener [Round (Recv []), Round (Connect True), Round (Recv demo_bytes)]) = []"
proof -
  have h: "handle_message (take 8256 demo_bytes) (ls_bridge demo_listener) = [(2, ''BT'', [123, 125])]" by code_simp
  have "ls_alive demo_listener" "br_running (ls_bridge demo_listener)" "br_sock (ls_bridge demo_listener)" "demo_bytes \<noteq> []" 
    and calls: "ls_calls demo_listener = []"
    by (simp_all add: demo_listener_def bridge_init_def demo_bytes_def)
  from listener_dies_on_close [OF this(1-4), of 1 "[Round (Connect True), Round (Recv demo_bytes)]"] calls h
  show ?thesis by (simp only: append.simps replicate.simps One_nat_def)
qed

end
