(* ===== verification/Icons.thy ===== *)
theory Icons
  imports Graphics Julius_UI
begin

text \<open>
  The icons of the applications (\<^verbatim>\<open>src/src/julius_ui.py\<close>, \<open>draw_icon\<close>): one definition per branch
  of the function, in its order, with the tile at \<open>(x, y)\<close>, its size and the colour \<open>ac\<close> of the
  application. \<open>trig\<close> gives the cosine and sine of an angle in degrees as \<open>math\<close> computes them.
  Each icon is shown to draw inside its tile and never to raise, for every tile of at least 36
  pixels: the home screen uses 68 and the dock 46.
\<close>

subsection \<open>Colours of the applications\<close>

definition APP_COLOURS :: "(string \<times> rgba \<times> rgba) list" where
  "APP_COLOURS =
     [(''Terminal'', [0, 50, 25], [0, 255, 128]), (''WiFi'', [0, 25, 70], [64, 156, 255]),
      (''IR'', [70, 0, 0], [255, 100, 90]), (''Bluetooth'', [25, 0, 75], [191, 90, 242]),
      (''Connect'', [0, 55, 50], [99, 230, 190]), (''Transfer'', [40, 0, 75], [218, 143, 255]),
      (''Scanner'', [0, 45, 30], [48, 209, 88]), (''Files'', [25, 45, 0], [168, 255, 120]),
      (''SysMon'', [0, 45, 65], [100, 210, 255]), (''SSH'', [50, 30, 0], [255, 159, 10]),
      (''Notes'', [50, 42, 0], [255, 224, 102]), (''NetTools'', [0, 20, 60], [90, 200, 250]),
      (''Packets'', [65, 0, 48], [255, 45, 120]), (''Clipboard'', [20, 30, 0], [200, 255, 120]),
      (''Hotspot'', [65, 0, 15], [255, 107, 107]), (''GPIO'', [70, 48, 0], [255, 214, 10]),
      (''Calc'', [0, 22, 22], [0, 229, 255]), (''Todo'', [0, 48, 0], [105, 255, 71]),
      (''Passwords'', [48, 0, 15], [255, 92, 138]), (''Weather'', [0, 15, 48], [116, 185, 255]),
      (''Hasher'', [22, 0, 48], [224, 64, 251]), (''Encoder'', [0, 48, 0], [0, 230, 118]),
      (''NetMon'', [0, 15, 48], [64, 196, 255]), (''Editor'', [42, 30, 0], [255, 215, 64]),
      (''Timer'', [48, 15, 0], [255, 109, 0]), (''WakeOnLAN'', [0, 48, 30], [105, 255, 218]),
      (''SpeedTest'', [0, 22, 0], [118, 255, 3]), (''ProcKill'', [48, 0, 0], [255, 23, 68]),
      (''NetMapper'', [0, 15, 48], [68, 138, 255]), (''SysInfo'', [22, 0, 22], [234, 128, 252]),
      (''Firewall'', [48, 8, 0], [255, 110, 64]), (''Logs'', [0, 22, 0], [185, 246, 202]),
      (''USB'', [22, 15, 0], [255, 229, 127]), (''Drop'', [0, 30, 50], [90, 200, 250]),
      (''Cloud'', [20, 0, 50], [191, 90, 242]), (''AI'', [26, 0, 51], [191, 90, 242]),
      (''Radio'', [50, 0, 20], [255, 45, 85]), (''Maps'', [0, 30, 50], [0, 200, 255]),
      (''Settings'', [28, 28, 32], [142, 142, 147])]"

lemma APP_COLOURS_names: "map fst APP_COLOURS = map fst APPS"
  by code_simp

lemma APP_COLOURS_ok: "list_all (\<lambda>(n, bg, ac). colour_ok bg \<and> colour_ok ac \<and> length bg = 3 \<and> length ac = 3) APP_COLOURS"
  by code_simp

subsection \<open>The branches\<close>

text \<open>The tile: its left and upper edge and its size; \<open>cx2\<close> and \<open>cy2\<close> are its middle.\<close>

record tile =
  tx :: int
  ty :: int
  tsize :: int
  tac :: rgba

definition cx2 :: "tile \<Rightarrow> int" where
  "cx2 t = tx t + tsize t div 2"

definition cy2 :: "tile \<Rightarrow> int" where
  "cy2 t = ty t + tsize t div 2"

definition faded :: "tile \<Rightarrow> int \<Rightarrow> rgba" where
  "faded t a = with_alpha (tac t) a"

definition ray_end :: "trig \<Rightarrow> tile \<Rightarrow> int \<Rightarrow> int \<Rightarrow> pos" where
  "ray_end trig t ang k =
     (cx2 t + trunc (fst (trig ang) * of_int k), cy2 t + trunc (snd (trig ang) * of_int k))"

definition icon_terminal :: "tile \<Rightarrow> gfx list" where
  "icon_terminal t =
     [GLines (tac t) False [(tx t + 8, cy2 t - 4), (cx2 t - 4, cy2 t), (tx t + 8, cy2 t + 4)] 2,
      GLine (tac t) (cx2 t + 2, cy2 t + 4) (tx t + tsize t - 8, cy2 t + 4) 2]"

definition icon_wifi :: "tile \<Rightarrow> gfx list" where
  "icon_wifi t =
     map (\<lambda>(rad, a). GBlit (tsize t * 2, tsize t * 2) None [GArc (faded t a) (tsize t - rad, tsize t - rad div 2, rad * 2, rad) 0 1 2]
       (tx t - tsize t div 2, ty t - tsize t div 2)) [(14, 60), (10, 130), (6, 200)]
     @ [GCircle (tac t) (cx2 t, cy2 t + 5) 2 0]"

definition icon_ir :: "trig \<Rightarrow> tile \<Rightarrow> gfx list" where
  "icon_ir trig t =
     [GCircle (tac t) (cx2 t, cy2 t) 5 0]
     @ map (\<lambda>ang. GLine (faded t 120) (ray_end trig t ang 7) (ray_end trig t ang 13) 2) [0, 90, 180, 270]"

definition icon_bluetooth :: "tile \<Rightarrow> gfx list" where
  "icon_bluetooth t =
     (let mid = cx2 t; t2 = cy2 t - 10; b2 = cy2 t + 10
      in [GLines (tac t) False [(mid - 6, t2 + 4), (mid + 6, cy2 t), (mid - 6, b2 - 4), (mid - 6, t2 + 4), (mid, t2), (mid + 6, cy2 t), (mid, b2), (mid - 6, b2 - 4)] 2])"

definition icon_gpio :: "tile \<Rightarrow> gfx list" where
  "icon_gpio t =
     [GRect (tac t) (cx2 t - 8, cy2 t - 8, 16, 16) 2 0]
     @ concat (map (\<lambda>dy2. [GCircle (tac t) (cx2 t - 13, cy2 t + dy2) 2 0,
      GCircle (tac t) (cx2 t + 13, cy2 t + dy2) 2 0,
      GLine (tac t) (cx2 t - 8, cy2 t + dy2) (cx2 t - 13, cy2 t + dy2) 1,
      GLine (tac t) (cx2 t + 8, cy2 t + dy2) (cx2 t + 13, cy2 t + dy2) 1]) [-4, 4])"

definition icon_connect :: "tile \<Rightarrow> gfx list" where
  "icon_connect t =
     [GCircle (tac t) (cx2 t - 10, cy2 t) 4 2,
      GCircle (tac t) (cx2 t + 8, cy2 t - 7) 3 2,
      GCircle (tac t) (cx2 t + 8, cy2 t + 7) 3 2,
      GLine (faded t 150) (cx2 t - 6, cy2 t) (cx2 t + 5, cy2 t - 5) 1,
      GLine (faded t 150) (cx2 t - 6, cy2 t) (cx2 t + 5, cy2 t + 5) 1]"

definition icon_transfer :: "tile \<Rightarrow> gfx list" where
  "icon_transfer t =
     [GLine (tac t) (tx t + 8, cy2 t - 4) (tx t + tsize t - 8, cy2 t - 4) 2,
      GLines (tac t) False [(tx t + tsize t - 13, cy2 t - 8), (tx t + tsize t - 8, cy2 t - 4), (tx t + tsize t - 13, cy2 t)] 2,
      GLine (faded t 150) (tx t + 8, cy2 t + 4) (tx t + tsize t - 8, cy2 t + 4) 2,
      GLines (faded t 150) False [(tx t + 12, cy2 t), (tx t + 8, cy2 t + 4), (tx t + 12, cy2 t + 8)] 2]"

definition icon_scanner :: "tile \<Rightarrow> gfx list" where
  "icon_scanner t =
     [GCircle (tac t) (cx2 t - 3, cy2 t - 3) 8 2,
      GLine (tac t) (cx2 t + 3, cy2 t + 3) (cx2 t + 10, cy2 t + 10) 2,
      GLine (faded t 150) (cx2 t - 7, cy2 t - 3) (cx2 t + 1, cy2 t - 3) 1,
      GLine (faded t 150) (cx2 t - 3, cy2 t - 7) (cx2 t - 3, cy2 t + 1) 1]"

definition icon_files :: "tile \<Rightarrow> gfx list" where
  "icon_files t =
     [GPolygon (tac t) [(tx t + 8, ty t + 8), (tx t + tsize t - 8, ty t + 8), (tx t + tsize t - 8, ty t + tsize t - 8), (tx t + 8, ty t + tsize t - 8)] 2]
     @ map (\<lambda>(i2, ly2). GLine (faded t (200 - int i2 * 60)) (tx t + 13, ly2) (tx t + tsize t - 13, ly2) 2) (enum [cy2 t - 4, cy2 t + 1, cy2 t + 6])"

definition icon_sysmon :: "tile \<Rightarrow> gfx list" where
  "icon_sysmon t =
     [GLines (tac t) False [(tx t + 4, cy2 t + 4), (tx t + 9, cy2 t - 4), (tx t + 14, cy2 t + 2), (cx2 t, cy2 t - 8), (cx2 t + 7, cy2 t), (cx2 t + 13, cy2 t - 4), (tx t + tsize t - 4, cy2 t + 2)] 2]"

definition icon_ssh :: "metrics \<Rightarrow> tile \<Rightarrow> gfx list" where
  "icon_ssh tm t =
     [GRect (tac t) (tx t + 6, ty t + 10, tsize t - 12, tsize t - 20) 2 3,
      text_middle tm font_small ''SSH'' (tac t) (cx2 t) (cy2 t)]"

definition icon_notes :: "tile \<Rightarrow> gfx list" where
  "icon_notes t =
     [GPolygon (tac t) [(tx t + 8, ty t + 8), (tx t + tsize t - 8, ty t + 8), (tx t + tsize t - 8, ty t + tsize t - 10), (tx t + tsize t - 14, ty t + tsize t - 8), (tx t + 8, ty t + tsize t - 8)] 2]
     @ map (\<lambda>(i2, ly2). GLine (faded t (220 - int i2 * 55)) (tx t + 12, ly2) (tx t + tsize t - 12, ly2) 1) (enum [cy2 t - 6, cy2 t - 1, cy2 t + 4, cy2 t + 9])"

definition icon_passwords :: "tile \<Rightarrow> gfx list" where
  "icon_passwords t =
     [GRect (tac t) (cx2 t - 9, cy2 t - 2, 18, 12) 2 3,
      GArc (tac t) (cx2 t - 7, cy2 t - 12, 14, 14) 0 1 2,
      GCircle (tac t) (cx2 t, cy2 t + 3) 3 0]"

definition icon_calc :: "tile \<Rightarrow> gfx list" where
  "icon_calc t =
     [GRect (tac t) (tx t + 8, ty t + 8, tsize t - 16, tsize t - 16) 2 4,
      GRect (faded t 60) (tx t + 10, ty t + 10, tsize t - 20, 10) 0 0]
     @ concat (map (\<lambda>r3. map (\<lambda>c3. GCircle (tac t) (tx t + 14 + c3 * 8, cy2 t + 2 + r3 * 7) 2 0) [0, 1, 2]) [0, 1, 2])"

definition icon_todo :: "tile \<Rightarrow> gfx list" where
  "icon_todo t =
     concat (map (\<lambda>(ly2, op). [GLines (faded t op) False [(tx t + 10, ly2), (tx t + 15, ly2 + 5), (tx t + 21, ly2 - 2)] 2,
      GLine (faded t (op div 2)) (tx t + 24, ly2) (tx t + tsize t - 10, ly2) 2]) [(cy2 t - 7, 255), (cy2 t, 180), (cy2 t + 7, 100)])"

definition icon_weather :: "tile \<Rightarrow> gfx list" where
  "icon_weather t =
     [GCircle (tac t) (cx2 t - 4, cy2 t - 3) 7 2,
      GArc (tac t) (cx2 t - 2, cy2 t - 9, 16, 14) (4 / 5) 2 2]
     @ map (\<lambda>(i2, rx2). GLine (faded t (160 - int i2 * 40)) (rx2, cy2 t + 7) (rx2 - 2, cy2 t + 13) 2) (enum [cx2 t - 8, cx2 t - 2, cx2 t + 4])"

definition icon_hasher :: "tile \<Rightarrow> gfx list" where
  "icon_hasher t =
     [GLine (tac t) (cx2 t - 6, cy2 t - 10) (cx2 t - 8, cy2 t + 10) 2,
      GLine (tac t) (cx2 t + 2, cy2 t - 10) (cx2 t, cy2 t + 10) 2,
      GLine (faded t 180) (cx2 t - 10, cy2 t - 3) (cx2 t + 6, cy2 t - 3) 2,
      GLine (faded t 180) (cx2 t - 11, cy2 t + 4) (cx2 t + 5, cy2 t + 4) 2]"

definition icon_encoder :: "tile \<Rightarrow> gfx list" where
  "icon_encoder t =
     [GRect (tac t) (tx t + 6, ty t + 12, 12, 14) 2 2,
      GRect (tac t) (tx t + tsize t - 18, ty t + 12, 12, 14) 2 2,
      GLine (tac t) (tx t + 18, cy2 t - 2) (tx t + tsize t - 18, cy2 t - 2) 2,
      GLine (faded t 150) (tx t + 18, cy2 t + 3) (tx t + tsize t - 18, cy2 t + 3) 1]"

definition icon_netmon :: "tile \<Rightarrow> gfx list" where
  "icon_netmon t =
     [GRect (tac t) (tx t + 4, ty t + 8, tsize t - 8, tsize t - 20) 2 3,
      GLines (tac t) False [(tx t + 8, cy2 t - 2), (tx t + 13, cy2 t - 7), (tx t + 18, cy2 t - 1), (cx2 t, cy2 t - 10), (cx2 t + 7, cy2 t - 3), (cx2 t + 13, cy2 t - 6), (tx t + tsize t - 8, cy2 t - 2)] 2]"

definition icon_editor :: "tile \<Rightarrow> gfx list" where
  "icon_editor t =
     [GLines (tac t) False [(cx2 t + 8, cy2 t - 10), (cx2 t - 8, cy2 t + 8), (cx2 t - 10, cy2 t + 10), (cx2 t - 8, cy2 t + 8)] 2,
      GLine (faded t 100) (cx2 t - 10, cy2 t + 12) (cx2 t + 4, cy2 t + 12) 1]"

definition icon_timer :: "tile \<Rightarrow> gfx list" where
  "icon_timer t =
     [GCircle (tac t) (cx2 t, cy2 t + 2) 10 2,
      GLine (tac t) (cx2 t, cy2 t + 2) (cx2 t, cy2 t - 4) 2,
      GLine (tac t) (cx2 t, cy2 t + 2) (cx2 t + 5, cy2 t + 5) 2,
      GLine (faded t 150) (cx2 t - 5, ty t + 8) (cx2 t + 5, ty t + 8) 2]"

definition icon_wakeonlan :: "tile \<Rightarrow> gfx list" where
  "icon_wakeonlan t =
     [GRect (tac t) (tx t + 6, ty t + 12, tsize t - 12, tsize t - 24) 2 3]
     @ map (\<lambda>i2. GLine (tac t) (tx t + 11 + i2 * 7, cy2 t - 3) (tx t + 13 + i2 * 7, cy2 t + 3) 2) [0, 1, 2, 3]"

definition icon_speedtest :: "tile \<Rightarrow> gfx list" where
  "icon_speedtest t =
     [GArc (tac t) (tx t + 6, ty t + 10, tsize t - 12, tsize t - 12) 1 0 3,
      GLine (tac t) (cx2 t, cy2 t) (cx2 t + 8, cy2 t - 8) 2,
      GCircle (tac t) (cx2 t, cy2 t) 3 0]"

definition icon_prockill :: "tile \<Rightarrow> gfx list" where
  "icon_prockill t =
     [GRect (tac t) (tx t + 6, ty t + 10, tsize t - 12, tsize t - 20) 2 3,
      GLine (tac t) (cx2 t - 7, cy2 t - 5) (cx2 t + 7, cy2 t + 5) 2,
      GLine (tac t) (cx2 t + 7, cy2 t - 5) (cx2 t - 7, cy2 t + 5) 2]"

definition icon_netmapper :: "tile \<Rightarrow> gfx list" where
  "icon_netmapper t =
     map (\<lambda>(rad2, op). GCircle (faded t op) (cx2 t, cy2 t) rad2 1) [(12, 50), (8, 120), (4, 200)]
     @ [GCircle (tac t) (cx2 t, cy2 t) 2 0,
      GLine (faded t 60) (tx t + 4, cy2 t) (tx t + tsize t - 4, cy2 t) 1,
      GLine (faded t 60) (cx2 t, ty t + 4) (cx2 t, ty t + tsize t - 4) 1]"

definition icon_sysinfo :: "tile \<Rightarrow> gfx list" where
  "icon_sysinfo t =
     [GCircle (tac t) (cx2 t, cy2 t) 11 2,
      GLine (tac t) (cx2 t, cy2 t - 2) (cx2 t, cy2 t + 7) 3,
      GCircle (tac t) (cx2 t, cy2 t - 6) 2 0]"

definition icon_firewall :: "tile \<Rightarrow> gfx list" where
  "icon_firewall t =
     [GPolygon (tac t) [(cx2 t, ty t + 6), (tx t + tsize t - 8, cy2 t - 6), (tx t + tsize t - 8, cy2 t + 4), (cx2 t, ty t + tsize t - 6), (tx t + 8, cy2 t + 4), (tx t + 8, cy2 t - 6), (cx2 t, ty t + 6)] 2,
      GLine (tac t) (cx2 t, cy2 t - 5) (cx2 t, cy2 t + 5) 2]"

definition icon_logs :: "tile \<Rightarrow> gfx list" where
  "icon_logs t =
     [GRect (tac t) (tx t + 8, ty t + 8, tsize t - 16, tsize t - 16) 2 3]
     @ map (\<lambda>(i2, ly2). GLine (faded t (210 - int i2 * 50)) (tx t + 12, ly2) (tx t + tsize t - 12, ly2) 2) (enum [cy2 t - 6, cy2 t - 1, cy2 t + 4, cy2 t + 9])"

definition icon_usb :: "tile \<Rightarrow> gfx list" where
  "icon_usb t =
     [GLine (tac t) (cx2 t, ty t + 8) (cx2 t, ty t + tsize t - 10) 2,
      GLines (tac t) False [(cx2 t - 6, ty t + 13), (cx2 t, ty t + 8), (cx2 t + 6, ty t + 13)] 2,
      GRect (tac t) (cx2 t - 5, cy2 t - 6, 10, 6) 2 0,
      GRect (tac t) (cx2 t - 5, cy2 t + 2, 10, 6) 2 0,
      GCircle (tac t) (cx2 t, ty t + tsize t - 10) 4 2]"

definition icon_clipboard :: "tile \<Rightarrow> gfx list" where
  "icon_clipboard t =
     [GRect (tac t) (tx t + 8, ty t + 10, tsize t - 16, tsize t - 18) 2 3,
      GRect (tac t) (cx2 t - 6, ty t + 7, 12, 6) 2 2]
     @ map (\<lambda>(i2, ly2). GLine (faded t (200 - int i2 * 60)) (tx t + 13, ly2) (tx t + tsize t - 13, ly2) 1) (enum [cy2 t - 4, cy2 t + 1, cy2 t + 6])"

definition icon_hotspot :: "tile \<Rightarrow> gfx list" where
  "icon_hotspot t =
     [GArc (tac t) (tx t + 4, ty t + 8, tsize t - 8, tsize t - 8) (1 / 10) (9 / 10) 2,
      GCircle (tac t) (cx2 t, cy2 t + 4) 3 0,
      GLine (faded t 150) (cx2 t, cy2 t + 7) (cx2 t, cy2 t + 13) 2]"

definition icon_nettools :: "tile \<Rightarrow> gfx list" where
  "icon_nettools t =
     [GRect (tac t) (cx2 t - 8, ty t + 8, 10, 8) 2 0,
      GRect (tac t) (tx t + 8, cy2 t, 10, 8) 2 0,
      GRect (tac t) (tx t + tsize t - 18, cy2 t, 10, 8) 2 0,
      GLine (tac t) (cx2 t - 3, ty t + 16) (cx2 t - 3, cy2 t) 1,
      GLine (tac t) (cx2 t - 3, cy2 t + 4) (tx t + 18, cy2 t + 4) 1,
      GLine (tac t) (cx2 t - 3, cy2 t + 4) (tx t + tsize t - 13, cy2 t + 4) 1]"

definition icon_packets :: "tile \<Rightarrow> gfx list" where
  "icon_packets t =
     [GRect (tac t) (tx t + 4, ty t + 12, 10, 8) 2 0,
      GRect (tac t) (tx t + tsize t - 14, ty t + 12, 10, 8) 2 0,
      GLine (tac t) (tx t + 14, cy2 t) (tx t + tsize t - 14, cy2 t) 2,
      GLines (tac t) False [(tx t + tsize t - 16, cy2 t - 3), (tx t + tsize t - 14, cy2 t), (tx t + tsize t - 16, cy2 t + 3)] 2]"

definition icon_drop :: "tile \<Rightarrow> gfx list" where
  "icon_drop t =
     map (\<lambda>rad2. GCircle (faded t (100 + rad2 * 10)) (cx2 t, cy2 t) rad2 1) [12, 8, 4]
     @ [GLine (tac t) (cx2 t, cy2 t - 6) (cx2 t, cy2 t + 4) 2,
      GLines (tac t) False [(cx2 t - 4, cy2 t + 1), (cx2 t, cy2 t + 5), (cx2 t + 4, cy2 t + 1)] 2]"

definition icon_cloud :: "tile \<Rightarrow> gfx list" where
  "icon_cloud t =
     [GArc (tac t) (cx2 t - 14, cy2 t - 8, 16, 16) 0 1 2,
      GArc (tac t) (cx2 t - 4, cy2 t - 12, 16, 16) 0 1 2,
      GRect (tac t) (cx2 t - 14, cy2 t, 28, 8) 2 0,
      GLine (tac t) (cx2 t, cy2 t + 8) (cx2 t, cy2 t + 14) 2,
      GLines (tac t) False [(cx2 t - 4, cy2 t + 11), (cx2 t, cy2 t + 15), (cx2 t + 4, cy2 t + 11)] 2]"

definition icon_ai :: "metrics \<Rightarrow> trig \<Rightarrow> tile \<Rightarrow> gfx list" where
  "icon_ai tm trig t =
     [GCircle (tac t) (cx2 t, cy2 t) 10 2,
      text_middle tm font_small ''AI'' (tac t) (cx2 t) (cy2 t)]
     @ map (\<lambda>ang. GLine (faded t 120) (ray_end trig t ang 10) (ray_end trig t ang 16) 2) [0, 120, 240]"

definition icon_radio :: "tile \<Rightarrow> gfx list" where
  "icon_radio t =
     map (\<lambda>(rad2, op). GArc (faded t op) (cx2 t - rad2, cy2 t - rad2, rad2 * 2, rad2) 0 1 2) [(12, 80), (8, 150), (4, 220)]
     @ [GLine (tac t) (cx2 t, cy2 t) (cx2 t, cy2 t + 10) 2,
      GLine (tac t) (cx2 t - 4, cy2 t + 10) (cx2 t + 4, cy2 t + 10) 2]"

definition icon_maps :: "tile \<Rightarrow> gfx list" where
  "icon_maps t =
     map (\<lambda>(rad2, op). GCircle (faded t op) (cx2 t, cy2 t) rad2 1) [(12, 50), (8, 120), (4, 200)]
     @ [GCircle (tac t) (cx2 t, cy2 t) 2 0,
      GLine (faded t 80) (tx t + 4, cy2 t) (tx t + tsize t - 4, cy2 t) 1,
      GLine (faded t 80) (cx2 t, ty t + 4) (cx2 t, ty t + tsize t - 4) 1,
      GCircle (tac t) (cx2 t + 4, cy2 t - 4) 3 0]"

definition icon_settings :: "trig \<Rightarrow> tile \<Rightarrow> gfx list" where
  "icon_settings trig t =
     [GCircle (tac t) (cx2 t, cy2 t) 5 2]
     @ map (\<lambda>ang. GLine (tac t) (ray_end trig t ang 8) (ray_end trig t ang 12) 2) [0, 45, 90, 135, 180, 225, 270, 315]"

text \<open>The chain of comparisons: the branch of a name, or its first three letters.\<close>

definition icon_branches :: "metrics \<Rightarrow> trig \<Rightarrow> (string \<times> (tile \<Rightarrow> gfx list)) list" where
  "icon_branches tm trig =
     [(''Terminal'', icon_terminal),
      (''WiFi'', icon_wifi),
      (''IR'', icon_ir trig),
      (''Bluetooth'', icon_bluetooth),
      (''GPIO'', icon_gpio),
      (''Connect'', icon_connect),
      (''Transfer'', icon_transfer),
      (''Scanner'', icon_scanner),
      (''Files'', icon_files),
      (''SysMon'', icon_sysmon),
      (''SSH'', icon_ssh tm),
      (''Notes'', icon_notes),
      (''Passwords'', icon_passwords),
      (''Calc'', icon_calc),
      (''Todo'', icon_todo),
      (''Weather'', icon_weather),
      (''Hasher'', icon_hasher),
      (''Encoder'', icon_encoder),
      (''NetMon'', icon_netmon),
      (''Editor'', icon_editor),
      (''Timer'', icon_timer),
      (''WakeOnLAN'', icon_wakeonlan),
      (''SpeedTest'', icon_speedtest),
      (''ProcKill'', icon_prockill),
      (''NetMapper'', icon_netmapper),
      (''SysInfo'', icon_sysinfo),
      (''Firewall'', icon_firewall),
      (''Logs'', icon_logs),
      (''USB'', icon_usb),
      (''Clipboard'', icon_clipboard),
      (''Hotspot'', icon_hotspot),
      (''NetTools'', icon_nettools),
      (''Packets'', icon_packets),
      (''Drop'', icon_drop),
      (''Cloud'', icon_cloud),
      (''AI'', icon_ai tm trig),
      (''Radio'', icon_radio),
      (''Maps'', icon_maps),
      (''Settings'', icon_settings trig)]"

definition draw_icon :: "metrics \<Rightarrow> trig \<Rightarrow> string \<times> rgba \<times> rgba \<Rightarrow> int \<Rightarrow> int \<Rightarrow> int \<Rightarrow> gfx list" where
  "draw_icon tm trig app x y sz =
     (let name = fst app; bg = fst (snd app); t = \<lparr>tx = x, ty = y, tsize = sz, tac = snd (snd app)\<rparr>
      in round_rect bg (x, y, sz, sz) (sz div 6)
         @ (case map_of (icon_branches tm trig) name of
              Some f \<Rightarrow> f t
            | None \<Rightarrow> [text_middle tm font_small (take 3 name) (tac t) (cx2 t) (cy2 t)]))"

lemmas icon_defs =
  icon_terminal_def icon_wifi_def icon_ir_def icon_bluetooth_def icon_gpio_def icon_connect_def icon_transfer_def icon_scanner_def icon_files_def icon_sysmon_def icon_ssh_def icon_notes_def icon_passwords_def icon_calc_def icon_todo_def icon_weather_def icon_hasher_def icon_encoder_def icon_netmon_def icon_editor_def icon_timer_def icon_wakeonlan_def icon_speedtest_def icon_prockill_def icon_netmapper_def icon_sysinfo_def icon_firewall_def icon_logs_def icon_usb_def icon_clipboard_def icon_hotspot_def icon_nettools_def icon_packets_def icon_drop_def icon_cloud_def icon_ai_def icon_radio_def icon_maps_def icon_settings_def

subsection \<open>Icons stay in their tile\<close>

definition tile_rect :: "tile \<Rightarrow> rect" where
  "tile_rect t = (tx t, ty t, tsize t, tsize t)"

definition tile_ok :: "tile \<Rightarrow> bool" where
  "tile_ok t \<longleftrightarrow> 36 \<le> tsize t \<and> colour_ok (tac t) \<and> length (tac t) = 3"

text \<open>What a branch must draw: calls that do not raise, inside the tile.\<close>

definition glyph_ok :: "metrics \<Rightarrow> tile \<Rightarrow> gfx list \<Rightarrow> bool" where
  "glyph_ok tm t cs \<longleftrightarrow> list_all (\<lambda>g. gfx_ok g \<and> gfx_in tm (tile_rect t) g) cs"

lemma faded_ok: "tile_ok t \<Longrightarrow> 0 \<le> a \<Longrightarrow> a \<le> 255 \<Longrightarrow> colour_ok (faded t a)"
  by (simp add: tile_ok_def faded_def colour_ok_alpha)

lemma tile_middle:
  assumes "tile_ok t"
  obtains h where "cx2 t = tx t + h" "cy2 t = ty t + h" "tsize t div 2 = h" "18 \<le> h" "2 * h \<le> tsize t" "tsize t \<le> 2 * h + 1"
proof
  have "36 \<le> tsize t" using assms by (simp add: tile_ok_def)
  then show "18 \<le> tsize t div 2" "2 * (tsize t div 2) \<le> tsize t" "tsize t \<le> 2 * (tsize t div 2) + 1" by linarith+
qed (simp_all add: cx2_def cy2_def)

lemmas glyph_simps = glyph_ok_def tile_rect_def rect_in_def pos_in_def shift_rect_def enum_def upt_rec

lemma plain_icons:
  assumes "tile_ok t"
  shows "glyph_ok tm t (icon_terminal t)"
    "glyph_ok tm t (icon_wifi t)"
    "glyph_ok tm t (icon_bluetooth t)"
    "glyph_ok tm t (icon_gpio t)"
    "glyph_ok tm t (icon_connect t)"
    "glyph_ok tm t (icon_transfer t)"
    "glyph_ok tm t (icon_scanner t)"
    "glyph_ok tm t (icon_files t)"
    "glyph_ok tm t (icon_sysmon t)"
    "glyph_ok tm t (icon_notes t)"
    "glyph_ok tm t (icon_passwords t)"
    "glyph_ok tm t (icon_calc t)"
    "glyph_ok tm t (icon_todo t)"
    "glyph_ok tm t (icon_weather t)"
    "glyph_ok tm t (icon_hasher t)"
    "glyph_ok tm t (icon_encoder t)"
    "glyph_ok tm t (icon_netmon t)"
    "glyph_ok tm t (icon_editor t)"
    "glyph_ok tm t (icon_timer t)"
    "glyph_ok tm t (icon_wakeonlan t)"
    "glyph_ok tm t (icon_speedtest t)"
    "glyph_ok tm t (icon_prockill t)"
    "glyph_ok tm t (icon_netmapper t)"
    "glyph_ok tm t (icon_sysinfo t)"
    "glyph_ok tm t (icon_firewall t)"
    "glyph_ok tm t (icon_logs t)"
    "glyph_ok tm t (icon_usb t)"
    "glyph_ok tm t (icon_clipboard t)"
    "glyph_ok tm t (icon_hotspot t)"
    "glyph_ok tm t (icon_nettools t)"
    "glyph_ok tm t (icon_packets t)"
    "glyph_ok tm t (icon_drop t)"
    "glyph_ok tm t (icon_cloud t)"
    "glyph_ok tm t (icon_radio t)"
    "glyph_ok tm t (icon_maps t)"
proof -
  from tile_middle [OF assms] obtain h where
    "cx2 t = tx t + h" "cy2 t = ty t + h" "tsize t div 2 = h" "18 \<le> h" "2 * h \<le> tsize t" "tsize t \<le> 2 * h + 1" .
  note h = this
  have ac: "colour_ok (tac t)" using assms by (simp add: tile_ok_def)
  show "glyph_ok tm t (icon_terminal t)"
    "glyph_ok tm t (icon_wifi t)"
    "glyph_ok tm t (icon_bluetooth t)"
    "glyph_ok tm t (icon_gpio t)"
    "glyph_ok tm t (icon_connect t)"
    "glyph_ok tm t (icon_transfer t)"
    "glyph_ok tm t (icon_scanner t)"
    "glyph_ok tm t (icon_files t)"
    "glyph_ok tm t (icon_sysmon t)"
    "glyph_ok tm t (icon_notes t)"
    "glyph_ok tm t (icon_passwords t)"
    "glyph_ok tm t (icon_calc t)"
    "glyph_ok tm t (icon_todo t)"
    "glyph_ok tm t (icon_weather t)"
    "glyph_ok tm t (icon_hasher t)"
    "glyph_ok tm t (icon_encoder t)"
    "glyph_ok tm t (icon_netmon t)"
    "glyph_ok tm t (icon_editor t)"
    "glyph_ok tm t (icon_timer t)"
    "glyph_ok tm t (icon_wakeonlan t)"
    "glyph_ok tm t (icon_speedtest t)"
    "glyph_ok tm t (icon_prockill t)"
    "glyph_ok tm t (icon_netmapper t)"
    "glyph_ok tm t (icon_sysinfo t)"
    "glyph_ok tm t (icon_firewall t)"
    "glyph_ok tm t (icon_logs t)"
    "glyph_ok tm t (icon_usb t)"
    "glyph_ok tm t (icon_clipboard t)"
    "glyph_ok tm t (icon_hotspot t)"
    "glyph_ok tm t (icon_nettools t)"
    "glyph_ok tm t (icon_packets t)"
    "glyph_ok tm t (icon_drop t)"
    "glyph_ok tm t (icon_cloud t)"
    "glyph_ok tm t (icon_radio t)"
    "glyph_ok tm t (icon_maps t)"
    using h(4-6) by (simp_all add: icon_defs glyph_simps Let_def h(1-3) faded_ok [OF assms] ac)
qed

text \<open>The rays of four icons, and the texts of two, given what a sine and a font promise.\<close>

definition texts_fit :: "metrics \<Rightarrow> int \<Rightarrow> bool" where
  "texts_fit tm sz \<longleftrightarrow> metrics_ok tm \<and>
     (\<forall>t. length t \<le> 3 \<longrightarrow> get_width tm font_small t \<le> sz \<and> get_height tm font_small t \<le> sz)"

lemma ray_end_in:
  assumes "trig_ok trig" "tile_ok t" "0 \<le> k" "k \<le> 18"
  shows "pos_in (tile_rect t) (ray_end trig t ang k)"
proof -
  from tile_middle [OF assms(2)] obtain h where h:
    "cx2 t = tx t + h" "cy2 t = ty t + h" "18 \<le> h" "2 * h \<le> tsize t" by blast
  have "\<bar>trunc (fst (trig ang) * of_int k)\<bar> \<le> k" "\<bar>trunc (snd (trig ang) * of_int k)\<bar> \<le> k"
    using assms(1,3) by (auto intro!: trunc_le simp: trig_ok_def)
  then show ?thesis using h(3,4) assms(4) by (simp add: ray_end_def tile_rect_def pos_in_def h(1,2)) linarith
qed

lemma tile_text:
  assumes "texts_fit tm (tsize t)" "tile_ok t" "length s \<le> 3"
  shows "glyph_ok tm t [text_middle tm font_small s (tac t) (cx2 t) (cy2 t)]"
proof -
  have "gfx_in tm (tile_rect t) (text_middle tm font_small s (tac t) (cx2 t) (cy2 t))"
    using assms(1,3) unfolding tile_rect_def cx2_def cy2_def by (intro text_middle_in) (simp_all add: texts_fit_def)
  then show ?thesis using assms(2) by (simp add: glyph_ok_def text_ok tile_ok_def)
qed

lemma glyph_ok_append [simp]: "glyph_ok tm t (xs @ ys) \<longleftrightarrow> glyph_ok tm t xs \<and> glyph_ok tm t ys"
  by (simp add: glyph_ok_def)

lemma glyph_ok_Cons: "glyph_ok tm t (x # xs) \<longleftrightarrow> glyph_ok tm t [x] \<and> glyph_ok tm t xs"
  by (simp add: glyph_ok_def)

lemma glyph_rays:
  assumes "trig_ok trig" "tile_ok t" "0 \<le> a" "a \<le> 18" "0 \<le> b" "b \<le> 18" "colour_ok c"
  shows "glyph_ok tm t (map (\<lambda>ang. GLine c (ray_end trig t ang a) (ray_end trig t ang b) w) angs)"
  using assms(3-7) ray_end_in [OF assms(1,2)] by (simp add: glyph_ok_def list_all_iff)

lemma ring_in:
  assumes "tile_ok t" "0 \<le> k" "k \<le> 18"
  shows "glyph_ok tm t [GCircle (tac t) (cx2 t, cy2 t) k w]"
proof -
  from tile_middle [OF assms(1)] obtain h where "cx2 t = tx t + h" "cy2 t = ty t + h" "18 \<le> h" "2 * h \<le> tsize t" by blast
  then show ?thesis using assms by (simp add: glyph_simps tile_ok_def)
qed

lemma other_icons:
  assumes "tile_ok t" "trig_ok trig" "texts_fit tm (tsize t)"
  shows "glyph_ok tm t (icon_ir trig t)" "glyph_ok tm t (icon_settings trig t)"
    "glyph_ok tm t (icon_ai tm trig t)" "glyph_ok tm t (icon_ssh tm t)"
proof -
  have ac: "colour_ok (tac t)" using assms(1) by (simp add: tile_ok_def)
  note rays = glyph_rays [OF assms(2,1)] ring_in [OF assms(1)] faded_ok [OF assms(1)] tile_text [OF assms(3,1)]
  show "glyph_ok tm t (icon_ir trig t)" "glyph_ok tm t (icon_settings trig t)"
    unfolding icon_ir_def icon_settings_def glyph_ok_append by (intro conjI rays ac; simp add: rays)+
  show "glyph_ok tm t (icon_ai tm trig t)"
    unfolding icon_ai_def glyph_ok_append glyph_ok_Cons [of _ _ _ "[_]"] by (intro conjI rays ac; simp add: rays)
  have "glyph_ok tm t [GRect (tac t) (tx t + 6, ty t + 10, tsize t - 12, tsize t - 20) 2 3]"
    using assms(1) by (simp add: glyph_simps tile_ok_def)
  then show "glyph_ok tm t (icon_ssh tm t)"
    unfolding icon_ssh_def glyph_ok_Cons [of _ _ _ "[_]"] by (intro conjI rays) simp_all
qed

lemma icon_branches_ok:
  assumes "tile_ok t" "trig_ok trig" "texts_fit tm (tsize t)" "(n, f) \<in> set (icon_branches tm trig)"
  shows "glyph_ok tm t (f t)"
  using assms(4) plain_icons [OF assms(1)] other_icons [OF assms(1-3)] unfolding icon_branches_def by auto

text \<open>Every application has a branch of its own.\<close>

lemma icon_branches_cover: "n \<in> fst ` set APPS \<Longrightarrow> map_of (icon_branches tm trig) n \<noteq> None"
proof -
  have "list_all (\<lambda>n. n \<in> set (map fst (icon_branches tm trig))) (map fst APPS)"
    unfolding icon_branches_def list.map fst_conv by code_simp
  then show "n \<in> fst ` set APPS \<Longrightarrow> map_of (icon_branches tm trig) n \<noteq> None"
    by (auto simp: list_all_iff map_of_eq_None_iff)
qed

theorem draw_icon_ok:
  assumes "36 \<le> sz" "colour_ok bg" "colour_ok ac" "length ac = 3" "trig_ok trig" "texts_fit tm sz"
  shows "list_all (\<lambda>g. gfx_ok g \<and> gfx_in tm (x, y, sz, sz) g) (draw_icon tm trig (name, bg, ac) x y sz)"
proof -
  let ?t = "\<lparr>tx = x, ty = y, tsize = sz, tac = ac\<rparr>"
  have t: "tile_ok ?t" "texts_fit tm (tsize ?t)" "tile_rect ?t = (x, y, sz, sz)"
    using assms by (simp_all add: tile_ok_def tile_rect_def)
  have "glyph_ok tm ?t (round_rect bg (x, y, sz, sz) (sz div 6))"
    using round_rect_in [of "(x, y, sz, sz)" x y sz sz "sz div 6" tm bg] round_rect_ok [OF assms(2)] assms(1)
    by (simp add: glyph_ok_def t(3) list_all_iff rect_in_def pos_in_def)
  moreover have "glyph_ok tm ?t (case map_of (icon_branches tm trig) name of Some f \<Rightarrow> f ?t
      | None \<Rightarrow> [text_middle tm font_small (take 3 name) (tac ?t) (cx2 ?t) (cy2 ?t)])"
    using icon_branches_ok [OF t(1) assms(5) t(2)] tile_text [OF t(2,1), of "take 3 name"]
    by (auto split: option.split dest: map_of_SomeD)
  ultimately show ?thesis unfolding draw_icon_def glyph_ok_def t(3) Let_def fst_conv snd_conv by simp
qed

end
