(* ===== verification/Ui_Screens.thy ===== *)
theory Ui_Screens
  imports Icons Home_Screen Backend Ui_Crash
begin

text \<open>
  The screens of the main interface (\<^verbatim>\<open>src/src/julius_ui.py\<close>): status bar, home bar, lock screen,
  home screen, application screen and settings, call by call. What the screen shows at a point is
  compared with what a touch there does.
\<close>

subsection \<open>Colours and fonts\<close>

definition ui_BG :: rgba where "ui_BG = [8, 8, 18]"
definition ui_CARD :: rgba where "ui_CARD = [28, 28, 32]"
definition ui_WHITE :: rgba where "ui_WHITE = [255, 255, 255]"
definition ui_DOCK_BG :: rgba where "ui_DOCK_BG = [24, 24, 28]"
definition ui_GREEN :: rgba where "ui_GREEN = [48, 209, 88]"
definition ui_BLUE :: rgba where "ui_BLUE = [10, 132, 255]"
definition ui_RED :: rgba where "ui_RED = [255, 69, 58]"
definition ui_ORANGE :: rgba where "ui_ORANGE = [255, 159, 10]"

definition font_clock :: font where "font_clock = SysFont ''helvetica'' 72 False"
definition font_date :: font where "font_date = SysFont ''helvetica'' 15 False"
definition font_status :: font where "font_status = SysFont ''helvetica'' 13 True"
definition font_label :: font where "font_label = SysFont ''helvetica'' 10 False"
definition font_hint :: font where "font_hint = SysFont ''helvetica'' 12 False"

lemmas ui_colours = ui_BG_def ui_CARD_def ui_WHITE_def ui_DOCK_BG_def ui_GREEN_def ui_BLUE_def ui_RED_def ui_ORANGE_def

text \<open>
  What a frame takes from outside: the fonts, the cosine and sine, the sine of the pulse, the
  clock as \<open>strftime\<close> prints it for \<open>%H:%M\<close>, \<open>%A, %d %B\<close> and \<open>%A, %B %d\<close>, the time in seconds, and
  the files the status reads.
\<close>

record frame_env =
  fr_tm :: metrics
  fr_trig :: trig
  fr_sine :: "rat \<Rightarrow> rat"
  fr_time :: string
  fr_date_lock :: string
  fr_date_home :: string
  fr_now :: rat
  fr_files :: sys_files

subsection \<open>Status bar\<close>

definition draw_battery_part :: "frame_env \<Rightarrow> int \<Rightarrow> bool \<Rightarrow> gfx list" where
  "draw_battery_part fr level charging =
     (let bat_col = (if charging then ui_GREEN else if level > 20 then ui_WHITE else ui_RED);
          pct = (if charging then ''+'' else []) @ py_str_int level @ ''%'';
          bat_x = W - 52
      in [text_at font_small pct bat_col (W - get_width (fr_tm fr) font_small pct - 58, 12),
          GRect ui_WHITE (bat_x, 12, 28, 13) 1 3, GRect ui_WHITE (bat_x + 28, 15, 3, 7) 0 1,
          GRect bat_col (bat_x + 2, 14, battery_fill level, 9) 0 2]
         @ (if charging then [text_at font_small ''+'' [0, 0, 0] (bat_x + 10, 14)] else []))"

definition draw_wifi_bars :: "int \<Rightarrow> gfx list" where
  "draw_wifi_bars bars =
     map (\<lambda>i. let bh = 4 + i * 3
               in GRect (with_alpha ui_WHITE (if i < bars then 200 else 40)) (W - 92 + i * 7, 18 - bh div 2, 5, bh) 0 1) [0, 1, 2, 3]"

definition draw_status_bar :: "frame_env \<Rightarrow> bool \<Rightarrow> notif_center \<Rightarrow> status option \<Rightarrow> (status option \<times> gfx list) res" where
  "draw_status_bar fr backend nc st =
     (let (level, st1) = ui_get_battery_level (fr_now fr) (fr_files fr) st;
          charging = ui_is_charging (fr_files fr) st1;
          unread = unread_count nc;
          score = ui_get_health_score st1
      in res_bind (ui_get_wifi_bars (fr_files fr) st1) (\<lambda>bars.
         Inr (st1,
          [text_at font_status (fr_time fr) ui_WHITE (16, 12)]
          @ draw_battery_part fr level charging
          @ draw_wifi_bars bars
          @ (if unread > 0 then
               round_rect ui_RED (W div 2 - 8, 10, 16, 16) 8
               @ [text_centred (fr_tm fr) font_small (py_str_int (int unread)) ui_WHITE (W div 2) 12] else [])
          @ [GCircle (if score > 80 then ui_GREEN else if score > 50 then ui_ORANGE else ui_RED) (W div 2, 18) 3 0]
          @ (if backend then [text_at font_small ''.'' ui_GREEN (W div 2 + 8, 10)] else []))))"

definition draw_home_bar :: "gfx list" where
  "draw_home_bar = [GRect (with_alpha ui_WHITE 90) (W div 2 - 50, H - 8, 100, 4) 0 2]"

subsection \<open>Lock screen\<close>

definition draw_lock_screen :: "frame_env \<Rightarrow> nat \<Rightarrow> lock_anim \<Rightarrow> lock_anim \<times> gfx list" where
  "draw_lock_screen fr swipes la =
     (let tm = fr_tm fr; (la', anim) = la_draw tm (fr_trig fr) (fr_sine fr) W H (fr_now fr) la
      in (la',
          [GFill ui_BG, text_centred tm font_clock (fr_time fr) ui_WHITE (W div 2) (H div 2 - 140),
           text_centred tm font_date (fr_date_lock fr) (with_alpha ui_WHITE 180) (W div 2) (H div 2 - 60)]
          @ anim
          @ [if swipes = 0 then text_centred tm font_hint ''swipe left twice to unlock'' (with_alpha ui_WHITE 100) (W div 2) (H - 50)
             else if swipes = 1 then text_centred tm font_hint ''swipe left once more'' (with_alpha ui_WHITE 160) (W div 2) (H - 50)
             else text_centred tm font_hint [] ui_WHITE (W div 2) (H - 50)]
          @ map (\<lambda>i. GCircle (if i < swipes then ui_WHITE else with_alpha ui_WHITE 40) (W div 2 - 8 + int i * 8, H - 30) 3 0) [0, 1, 2]
          @ draw_home_bar))"

subsection \<open>Home screen\<close>

definition app_look :: "string \<Rightarrow> string \<times> rgba \<times> rgba" where
  "app_look n = (case find (\<lambda>a. fst a = n) APP_COLOURS of Some a \<Rightarrow> a | None \<Rightarrow> (n, [], []))"

definition icon_cell :: "frame_env \<Rightarrow> nat \<times> string \<Rightarrow> gfx list" where
  "icon_cell fr e =
     (case icon_rect (fst e) of (ix, iy, sz, _) \<Rightarrow>
        draw_icon (fr_tm fr) (fr_trig fr) (app_look (snd e)) ix iy sz
        @ [text_centred (fr_tm fr) font_label (snd e) (with_alpha ui_WHITE 200) (ix + sz div 2) (iy + sz + 2)])"

definition dock_cell :: "frame_env \<Rightarrow> nat \<times> string \<Rightarrow> gfx list" where
  "dock_cell fr e =
     (case dock_rect (fst e) of (dx, dy, dsz, _) \<Rightarrow> draw_icon (fr_tm fr) (fr_trig fr) (app_look (snd e)) dx dy dsz)"

definition draw_home_screen :: "frame_env \<Rightarrow> bool \<Rightarrow> notif_center \<Rightarrow> nat \<Rightarrow> status option \<Rightarrow> (status option \<times> gfx list) res" where
  "draw_home_screen fr backend nc pg st =
     (let tm = fr_tm fr; dock_y = H - 70
      in res_bind (draw_status_bar fr backend nc st) (\<lambda>(st1, bar).
         Inr (st1,
          [GFill ui_BG] @ bar
          @ [text_centred tm font_clock (fr_time fr) ui_WHITE (W div 2) 36,
             text_centred tm font_date (fr_date_home fr) (with_alpha ui_WHITE 160) (W div 2) 108]
          @ concat (map (icon_cell fr) (enum (page_apps pg)))
          @ map (\<lambda>i. GCircle (if i = pg then ui_WHITE else with_alpha ui_WHITE 70) (W div 2 - 6 + int i * 12, H - 78) (if i = pg then 4 else 3) 0) [0, 1]
          @ round_rect ui_DOCK_BG (12, dock_y, W - 24, 60) 18
          @ concat (map (dock_cell fr) (enum dock_apps))
          @ draw_home_bar)))"

subsection \<open>Application screen\<close>

text \<open>
  \<open>shown\<close> is what the application's \<open>draw\<close> put on the screen and \<open>raised\<close> the text of the
  exception that ended it, if any: it is caught and its first 28 characters are shown.
\<close>

definition draw_app_screen :: "frame_env \<Rightarrow> bool \<Rightarrow> notif_center \<Rightarrow> string \<Rightarrow> gfx list \<Rightarrow> string option \<Rightarrow> status option \<Rightarrow> (status option \<times> gfx list) res" where
  "draw_app_screen fr backend nc app shown raised st =
     res_bind (draw_status_bar fr backend nc st) (\<lambda>(st1, bar).
     Inr (st1,
          [GFill ui_BG] @ bar
          @ [GLine [40, 40, 55] (0, 36) (W, 36) 1, text_centred (fr_tm fr) font_title app ui_WHITE (W div 2) 42]
          @ shown
          @ (case raised of Some e \<Rightarrow> [text_at font_body (''Error: '' @ take 28 e) ui_RED (10, H div 2)] | None \<Rightarrow> [])
          @ draw_home_bar))"

subsection \<open>Settings\<close>

definition settings_value_gfx :: "metrics \<Rightarrow> int \<Rightarrow> row_view \<Rightarrow> gfx list" where
  "settings_value_gfx tm y v =
     (case v of
        ToggleRow on \<Rightarrow>
          round_rect (if on then ui_GREEN else [80, 80, 90]) (W - 58, y + 8, 40, 20) 10
          @ [GCircle ui_WHITE (if on then W - 38 + 10 else W - 58 + 10, y + 18) 8 0]
      | SliderRow fw2 \<Rightarrow>
          [GRect [60, 60, 70] (W - 100, y + 14, 80, 8) 0 4, GRect ui_BLUE (W - 100, y + 14, fw2, 8) 0 4,
           GCircle ui_WHITE (W - 100 + fw2, y + 18) 6 0]
      | TextRow t \<Rightarrow> [text_at font_small t (with_alpha ui_WHITE 140) (W - get_width tm font_small t - 16, y + 12)])"

definition settings_item_gfx :: "metrics \<Rightarrow> config \<Rightarrow> int \<Rightarrow> setting_item \<Rightarrow> gfx list res" where
  "settings_item_gfx tm c y it =
     (if row_drawn y then
        res_bind (draw_row c it) (\<lambda>v.
          Inr (round_rect ui_CARD (12, y, W - 24, 36) 8 @ [text_at font_body (item_label it) ui_WHITE (20, y + 10)] @ settings_value_gfx tm y v))
      else Inr [])"

fun settings_items_gfx :: "metrics \<Rightarrow> config \<Rightarrow> int \<Rightarrow> setting_item list \<Rightarrow> gfx list res" where
  "settings_items_gfx tm c y [] = Inr []"
| "settings_items_gfx tm c y (it # its) =
     res_bind (settings_item_gfx tm c y it) (\<lambda>g. res_bind (settings_items_gfx tm c (y + 44) its) (\<lambda>gs. Inr (g @ gs)))"

fun settings_sections_gfx :: "metrics \<Rightarrow> config \<Rightarrow> int \<Rightarrow> setting_section list \<Rightarrow> gfx list res" where
  "settings_sections_gfx tm c y [] = Inr []"
| "settings_sections_gfx tm c y (sec # secs) =
     res_bind (settings_items_gfx tm c (y + 22) (sec_items sec)) (\<lambda>g.
     res_bind (settings_sections_gfx tm c (y + 22 + 44 * int (length (sec_items sec)) + 8) secs) (\<lambda>gs.
       Inr ((if row_drawn y then [text_at font_hint (py_upper_ascii (sec_title sec)) (with_alpha ui_WHITE 100) (16, y)] else []) @ g @ gs)))"

definition settings_screen :: "frame_env \<Rightarrow> bool \<Rightarrow> notif_center \<Rightarrow> config \<Rightarrow> int \<Rightarrow> status option \<Rightarrow> (status option \<times> gfx list) res" where
  "settings_screen fr backend nc c scroll st =
     res_bind (draw_status_bar fr backend nc st) (\<lambda>(st1, bar).
         res_bind (settings_sections_gfx (fr_tm fr) c (70 - scroll) SETTINGS_SECTIONS) (\<lambda>rows.
           Inr (st1, [GFill ui_BG] @ bar
             @ [GLine [40, 40, 55] (0, 36) (W, 36) 1, text_centred (fr_tm fr) font_title ''Settings'' ui_WHITE (W div 2) 42]
             @ rows
             @ (if backend then [text_at font_small ''Backend: Connected'' ui_GREEN (16, H - 24)] else [])
             @ draw_home_bar)))"

subsection \<open>What the fonts and the sine promise\<close>

definition frame_sound :: "frame_env \<Rightarrow> bool" where
  "frame_sound fr \<longleftrightarrow> trig_ok (fr_trig fr) \<and> texts_fit (fr_tm fr) 46 \<and> (\<forall>x. \<bar>fr_sine fr x\<bar> \<le> 1)"

lemma texts_fit_mono: "texts_fit tm a \<Longrightarrow> a \<le> b \<Longrightarrow> texts_fit tm b"
  by (auto simp: texts_fit_def dest!: spec)

lemma app_look_ok:
  assumes "n \<in> fst ` set APPS"
  obtains bg ac where "app_look n = (n, bg, ac)" "colour_ok bg" "colour_ok ac" "length ac = 3"
proof -
  have "n \<in> set (map fst APP_COLOURS)" using assms unfolding APP_COLOURS_names by auto
  then obtain a where a: "find (\<lambda>a. fst a = n) APP_COLOURS = Some a"
    by (cases "find (\<lambda>a. fst a = n) APP_COLOURS") (auto simp: find_None_iff)
  then have "a \<in> set APP_COLOURS" "fst a = n" by (auto simp: find_Some_iff in_set_conv_nth)
  with that [of "fst (snd a)" "snd (snd a)"] a APP_COLOURS_ok show thesis by (auto simp: list_all_iff app_look_def)
qed

lemma page_apps_in_APPS: "set (page_apps pg) \<subseteq> fst ` set APPS"
  by (auto simp: page_apps_def)

lemma dock_apps_in_APPS: "set dock_apps \<subseteq> fst ` set APPS"
  by (auto simp: dock_apps_def)

text \<open>Every icon of the page and of the dock stays in the rectangle a touch is compared with.\<close>

lemma tile_drawn:
  assumes "frame_sound fr" "n \<in> fst ` set APPS" "46 \<le> sz"
  shows "list_all (\<lambda>g. gfx_ok g \<and> gfx_in (fr_tm fr) (x, y, sz, sz) g) (draw_icon (fr_tm fr) (fr_trig fr) (app_look n) x y sz)"
proof -
  from app_look_ok [OF assms(2)] obtain bg ac where l: "app_look n = (n, bg, ac)" "colour_ok bg" "colour_ok ac" "length ac = 3" .
  have "texts_fit (fr_tm fr) sz" using assms(1,3) by (auto simp: frame_sound_def intro: texts_fit_mono)
  with l assms(1,3) show ?thesis using draw_icon_ok [of sz bg ac "fr_trig fr" "fr_tm fr" x y n] by (simp add: frame_sound_def)
qed

subsection \<open>No drawing call raises\<close>

lemma ui_colours_ok:
  "colour_ok ui_BG" "colour_ok ui_CARD" "colour_ok ui_WHITE" "colour_ok ui_DOCK_BG" "colour_ok ui_GREEN" "colour_ok ui_BLUE"
  "colour_ok ui_RED" "colour_ok ui_ORANGE"
  by (simp_all add: ui_colours gfx_simps)

lemma white_alpha: "colour_ok (with_alpha ui_WHITE a) \<longleftrightarrow> 0 \<le> a \<and> a \<le> 255"
  by (simp add: ui_WHITE_def with_alpha_def gfx_simps)

lemmas screen_ok_simps = ui_colours_ok white_alpha round_rect_ok gfx_simps

lemma status_bar_ok: "draw_status_bar fr backend nc st = Inr (st1, bar) \<Longrightarrow> list_all gfx_ok bar"
  by (auto simp: draw_status_bar_def draw_battery_part_def draw_wifi_bars_def Let_def screen_ok_simps split_beta res_bind_Inr_iff)

lemma home_bar_ok: "list_all gfx_ok draw_home_bar"
  by (simp add: draw_home_bar_def screen_ok_simps)

lemma lock_screen_ok:
  assumes "frame_sound fr" "la_ok la"
  shows "list_all gfx_ok (snd (draw_lock_screen fr n la))"
  using la_draw_ok [OF assms(2), of "fr_sine fr" "fr_tm fr" "fr_trig fr" W H "fr_now fr"] assms(1) home_bar_ok
  by (auto simp: draw_lock_screen_def Let_def screen_ok_simps split_beta frame_sound_def)

lemma enum_snd: "e \<in> set (enum xs) \<Longrightarrow> snd e \<in> set xs"
  by (metis prod.collapse set_enum_iff nth_mem)

lemma icon_cells_ok:
  assumes "frame_sound fr"
  shows "list_all gfx_ok (concat (map (icon_cell fr) (enum (page_apps pg))))"
    "list_all gfx_ok (concat (map (dock_cell fr) (enum dock_apps)))"
proof -
  have "list_all gfx_ok (icon_cell fr e)" if "e \<in> set (enum (page_apps pg))" for e
  proof -
    have "snd e \<in> fst ` set APPS" using enum_snd [OF that] page_apps_in_APPS [of pg] by blast
    from tile_drawn [OF assms this, of icon_size] show ?thesis
      by (simp add: icon_cell_def icon_rect_def icon_size list_all_iff screen_ok_simps)
  qed
  then show "list_all gfx_ok (concat (map (icon_cell fr) (enum (page_apps pg))))" by (auto simp: list_all_iff)
  have "list_all gfx_ok (dock_cell fr e)" if "e \<in> set (enum dock_apps)" for e
  proof -
    have "snd e \<in> fst ` set APPS" using enum_snd [OF that] dock_apps_in_APPS by blast
    from tile_drawn [OF assms this, of 46] show ?thesis by (simp add: dock_cell_def dock_rect_eq list_all_iff)
  qed
  then show "list_all gfx_ok (concat (map (dock_cell fr) (enum dock_apps)))" by (auto simp: list_all_iff)
qed

lemma home_screen_ok:
  assumes "frame_sound fr"
  shows "draw_home_screen fr backend nc pg st = Inr (st1, shown) \<Longrightarrow> list_all gfx_ok shown"
  using icon_cells_ok [OF assms] status_bar_ok home_bar_ok
  by (auto simp: draw_home_screen_def Let_def split_beta screen_ok_simps res_bind_Inr_iff)

subsection \<open>Settings: the pixels and the rows\<close>

lemma layout_items_snd: "snd (layout_items y its) = y + 44 * int (length its)"
  by (induction its arbitrary: y) (simp_all add: Let_def split_beta)

lemma draw_rows_append:
  "draw_settings_rows c (xs @ ys) = Inl e \<longleftrightarrow>
     draw_settings_rows c xs = Inl e \<or> (\<exists>r. draw_settings_rows c xs = Inr r) \<and> draw_settings_rows c ys = Inl e"
proof (induction xs)
  case (Cons x xs)
  then show ?case by (cases x) (auto simp: res_bind_Inl_iff res_bind_Inr_iff)
qed simp

lemma items_gfx_error:
  "settings_items_gfx tm c y its = Inl e \<longleftrightarrow> draw_settings_rows c (fst (layout_items y its)) = Inl e"
proof (induction its arbitrary: y)
  case (Cons it its)
  then show ?case by (auto simp: settings_item_gfx_def res_bind_Inl_iff res_bind_Inr_iff Let_def split_beta)
qed simp

lemma sections_gfx_error:
  "settings_sections_gfx tm c y secs = Inl e \<longleftrightarrow> draw_settings_rows c (layout_sections y secs) = Inl e"
proof (induction secs arbitrary: y)
  case (Cons sec secs)
  have ok: "(\<exists>g. settings_items_gfx tm c z its = Inr g) \<longleftrightarrow> (\<exists>r. draw_settings_rows c (fst (layout_items z its)) = Inr r)" for z its
    using items_gfx_error [of tm c z its] by (metis sum.exhaust sum.distinct(1))
  have y: "snd (layout_items (y + 22) (sec_items sec)) + 8 = y + 22 + 44 * int (length (sec_items sec)) + 8"
    by (simp add: layout_items_snd)
  show ?case
    using Cons.IH [of "y + 22 + 44 * int (length (sec_items sec)) + 8"] ok [of "y + 22" "sec_items sec"] items_gfx_error [of tm c "y + 22" "sec_items sec"]
    by (auto simp: res_bind_Inl_iff draw_rows_append Let_def split_beta y)
qed simp

text \<open>What \<open>get_wifi_bars\<close> gives in a frame: the battery level is asked first, which polls the status.\<close>

definition frame_bars :: "frame_env \<Rightarrow> status option \<Rightarrow> int res" where
  "frame_bars fr st = ui_get_wifi_bars (fr_files fr) (snd (ui_get_battery_level (fr_now fr) (fr_files fr) st))"

lemma status_bar_error: "draw_status_bar fr backend nc st = Inl e \<longleftrightarrow> frame_bars fr st = Inl e"
  by (simp add: draw_status_bar_def frame_bars_def Let_def split_beta res_bind_Inl_iff)

lemma home_screen_error: "draw_home_screen fr backend nc pg st = Inl e \<longleftrightarrow> frame_bars fr st = Inl e"
  by (simp add: draw_home_screen_def Let_def split_beta res_bind_Inl_iff status_bar_error)

lemma app_screen_error: "draw_app_screen fr backend nc app shown raised st = Inl e \<longleftrightarrow> frame_bars fr st = Inl e"
  by (simp add: draw_app_screen_def split_beta res_bind_Inl_iff status_bar_error)

lemma settings_screen_error:
  "settings_screen fr backend nc c scroll st = Inl e \<longleftrightarrow>
     frame_bars fr st = Inl e \<or> is_ok (frame_bars fr st) \<and> draw_settings c scroll = Inl e"
proof (cases "draw_status_bar fr backend nc st")
  case (Inl x)
  then have "frame_bars fr st = Inl x" using status_bar_error by blast
  with Inl show ?thesis by (auto simp: settings_screen_def)
next
  case (Inr x)
  then have "\<exists>n. frame_bars fr st = Inr n" using status_bar_error [of fr backend nc st] by (cases "frame_bars fr st") auto
  then obtain n where "frame_bars fr st = Inr n" ..
  with Inr show ?thesis
    by (simp add: settings_screen_def draw_settings_def settings_items_def res_bind_Inl_iff sections_gfx_error split_beta)
qed

lemma value_gfx_ok: "list_all gfx_ok (settings_value_gfx tm y v)"
  by (cases v) (auto simp: settings_value_gfx_def screen_ok_simps)

lemma items_gfx_ok: "settings_items_gfx tm c y its = Inr g \<Longrightarrow> list_all gfx_ok g"
proof (induction its arbitrary: y g)
  case (Cons it its)
  then show ?case
    by (cases "draw_row c it"; cases "settings_items_gfx tm c (y + 44) its")
      (auto simp: settings_item_gfx_def res_bind_def screen_ok_simps value_gfx_ok split: if_splits)
qed simp

lemma sections_gfx_ok: "settings_sections_gfx tm c y secs = Inr g \<Longrightarrow> list_all gfx_ok g"
proof (induction secs arbitrary: y g)
  case (Cons sec secs)
  from Cons.prems obtain a b where
    "settings_items_gfx tm c (y + 22) (sec_items sec) = Inr a"
    "settings_sections_gfx tm c (y + 22 + 44 * int (length (sec_items sec)) + 8) secs = Inr b"
    "g = (if row_drawn y then [text_at font_hint (py_upper_ascii (sec_title sec)) (with_alpha ui_WHITE 100) (16, y)] else []) @ a @ b"
    by (auto simp: res_bind_def split: sum.splits)
  with items_gfx_ok Cons.IH show ?case by (auto simp: screen_ok_simps)
qed simp

subsection \<open>Properties\<close>

text \<open>
  Drawing a page raises exactly when the state model says so: for a number of WiFi bars that cannot
  be computed, and on the settings page for a slider in sight whose value is not a number; otherwise
  every call the settings page makes is valid.
\<close>

theorem settings_screen_raises_iff:
  assumes "en_bars env = frame_bars fr st"
  shows "(case ui_state s of
       SLock \<Rightarrow> is_ok (draw_page env now s)
     | SHome \<Rightarrow> draw_page env now s = Inl e \<longleftrightarrow> draw_home_screen fr backend nc (current_page s) st = Inl e
     | SApp \<Rightarrow> draw_page env now s = Inl e \<longleftrightarrow> draw_app_screen fr backend nc app shown raised st = Inl e
     | SSettings \<Rightarrow> draw_page env now s = Inl e \<longleftrightarrow> settings_screen fr backend nc (ui_cfg s) (settings_scroll s) st = Inl e)
   \<and> (\<forall>st' g. settings_screen fr backend nc c scroll st = Inr (st', g) \<longrightarrow> list_all gfx_ok g)"
proof
  show "case ui_state s of
       SLock \<Rightarrow> is_ok (draw_page env now s)
     | SHome \<Rightarrow> draw_page env now s = Inl e \<longleftrightarrow> draw_home_screen fr backend nc (current_page s) st = Inl e
     | SApp \<Rightarrow> draw_page env now s = Inl e \<longleftrightarrow> draw_app_screen fr backend nc app shown raised st = Inl e
     | SSettings \<Rightarrow> draw_page env now s = Inl e \<longleftrightarrow> settings_screen fr backend nc (ui_cfg s) (settings_scroll s) st = Inl e"
    using assms by (auto simp: draw_page_def home_screen_error app_screen_error settings_screen_error res_bind_Inl_iff is_ok_iff split: screen_state.split)
  show "\<forall>st' g. settings_screen fr backend nc c scroll st = Inr (st', g) \<longrightarrow> list_all gfx_ok g"
    using sections_gfx_ok status_bar_ok home_bar_ok
    by (auto simp: settings_screen_def split_beta res_bind_Inr_iff screen_ok_simps)
qed

definition demo_frame :: frame_env where
  "demo_frame = \<lparr>fr_tm = (\<lambda>f t. (6 * int (length t), 11)), fr_trig = (\<lambda>_. (1, 0)), fr_sine = (\<lambda>_. 0), fr_time = ''12:00'',
     fr_date_lock = ''Monday, 01 June'', fr_date_home = ''Monday, June 01'', fr_now = 0,
     fr_files = \<lparr>f_power = None, f_wifi = None, f_bt = None, f_health = None, f_capacity = None, f_charge_status = None, f_stat = None\<rparr>\<rparr>"

lemma demo_frame_ok: "frame_sound demo_frame"
  by (auto simp: frame_sound_def demo_frame_def trig_ok_def texts_fit_def metrics_ok_def)

text \<open>
  (C32) What the home screen shows is what it opens: the icon of every application of the page
  is drawn, by valid calls that stay inside its tile, and a touch anywhere on the tile finds
  that application.
\<close>

theorem home_icons_drawn_and_opened:
  assumes "frame_sound fr" "i < length (page_apps pg)" "in_rect (icon_rect i) p"
    and drawn: "draw_home_screen fr backend nc pg st = Inr (st', shown)"
  shows "get_tapped_app pg p = Some (page_apps pg ! i)
    \<and> (case icon_rect i of (x, y, sz, sz') \<Rightarrow>
        set (draw_icon (fr_tm fr) (fr_trig fr) (app_look (page_apps pg ! i)) x y sz) \<subseteq> set shown
        \<and> list_all (\<lambda>g. gfx_ok g \<and> gfx_in (fr_tm fr) (icon_rect i) g) (draw_icon (fr_tm fr) (fr_trig fr) (app_look (page_apps pg ! i)) x y sz))"
proof -
  have "page_apps pg ! i \<in> fst ` set APPS" using assms(2) page_apps_in_APPS [of pg] by auto
  note inside = tile_drawn [OF assms(1) this, of icon_size]
  have "set (icon_cell fr (i, page_apps pg ! i)) \<subseteq> set shown"
    using assms(2) drawn by (auto simp: draw_home_screen_def Let_def split_beta set_enum_iff res_bind_Inr_iff)
  with inside icon_tap [OF assms(2,3)] show ?thesis
    by (auto simp: icon_cell_def icon_rect_def icon_size split: prod.splits)
qed

theorem home_icons_drawn_and_opened_witness:
  "get_tapped_app 0 (130, 260) = Some ''Transfer''
   \<and> (\<exists>st' shown. draw_home_screen demo_frame False (nc_init ''12:00'' NoFile) 0 None = Inr (st', shown)
        \<and> set (draw_icon (fr_tm demo_frame) (fr_trig demo_frame) (app_look ''Transfer'') 86 225 68) \<subseteq> set shown)"
proof -
  obtain st' shown where d: "draw_home_screen demo_frame False (nc_init ''12:00'' NoFile) 0 None = Inr (st', shown)"
    using home_screen_error [of demo_frame False "nc_init ''12:00'' NoFile" 0 None]
    by (cases "draw_home_screen demo_frame False (nc_init ''12:00'' NoFile) 0 None") (auto simp: frame_bars_def ui_get_battery_level_def ui_get_wifi_bars_def)
  from home_icons_drawn_and_opened [OF demo_frame_ok _ _ d, of 5 "(130, 260)"] d show ?thesis
    by (simp add: page_apps_eq icon_rect_def icon_size)
qed

text \<open>
  The tiles of the home screen in the order in which they are painted, so that the last one
  at a point is the one seen there.
\<close>

definition home_tiles :: "nat \<Rightarrow> (rect \<times> string) list" where
  "home_tiles pg = map (\<lambda>(i, n). (icon_rect i, n)) (enum (page_apps pg)) @ map (\<lambda>(i, n). (dock_rect i, n)) (enum dock_apps)"

definition seen_at :: "nat \<Rightarrow> pos \<Rightarrow> string option" where
  "seen_at pg p = map_option snd (find (\<lambda>(r, n). in_rect r p) (rev (home_tiles pg)))"

lemma home_tiles_painted:
  "draw_status_bar fr backend nc st = Inr (st1, bar) \<Longrightarrow> draw_home_screen fr backend nc pg st = Inr (st1,
     [GFill ui_BG] @ bar
     @ [text_centred (fr_tm fr) font_clock (fr_time fr) ui_WHITE (W div 2) 36,
        text_centred (fr_tm fr) font_date (fr_date_home fr) (with_alpha ui_WHITE 160) (W div 2) 108]
     @ concat (map (icon_cell fr) (enum (page_apps pg)))
     @ map (\<lambda>i. GCircle (if i = pg then ui_WHITE else with_alpha ui_WHITE 70) (W div 2 - 6 + int i * 12, H - 78) (if i = pg then 4 else 3) 0) [0, 1]
     @ round_rect ui_DOCK_BG (12, H - 70, W - 24, 60) 18
     @ concat (map (dock_cell fr) (enum dock_apps)) @ draw_home_bar)"
  by (simp add: draw_home_screen_def Let_def split_beta)

lemma find_append: "find P (xs @ ys) = (case find P xs of Some x \<Rightarrow> Some x | None \<Rightarrow> find P ys)"
  by (induction xs) auto

lemma dock_rect_disjoint: "in_rect (dock_rect i) p \<Longrightarrow> in_rect (dock_rect j) p \<Longrightarrow> i = j"
  by (cases p) (auto simp: dock_rect_eq)

lemma seen_dock:
  assumes "i < length dock_apps" "in_rect (dock_rect i) p"
  shows "seen_at pg p = Some (dock_apps ! i)"
proof -
  have "find (\<lambda>(r, n). in_rect r p) (rev (map (\<lambda>(i, n). (dock_rect i, n)) (enum dock_apps))) = Some (dock_rect i, dock_apps ! i)"
  proof (rule find_unique)
    show "(dock_rect i, dock_apps ! i) \<in> set (rev (map (\<lambda>(i, n). (dock_rect i, n)) (enum dock_apps)))"
      using assms(1) by (auto simp: set_enum_iff image_iff intro!: bexI [of _ "(i, dock_apps ! i)"])
    show "y = (dock_rect i, dock_apps ! i)" if "y \<in> set (rev (map (\<lambda>(i, n). (dock_rect i, n)) (enum dock_apps)))" "case y of (r, n) \<Rightarrow> in_rect r p" for y
      using that assms(2) by (auto simp: set_enum_iff dest: dock_rect_disjoint)
  qed (use assms(2) in simp)
  then show ?thesis by (simp add: seen_at_def home_tiles_def find_append)
qed

text \<open>
  (C33) The dock is painted over the last row of the page but searched after it: at every
  point of its two middle icons the screen shows WiFi or AI, and a touch there opens the
  application hidden underneath.
\<close>

theorem dock_covers_other_apps:
  assumes "pg \<le> 1" "i \<in> {1, 2}" "in_rect (dock_rect i) p"
  shows "seen_at pg p = Some (dock_apps ! i) \<and> get_tapped_app pg p = Some (page_apps pg ! (12 + i)) \<and> seen_at pg p \<noteq> get_tapped_app pg p"
proof -
  have i: "i < length dock_apps" "12 + i < length (page_apps pg)" using assms(1,2) page_visible(1) [of pg] by (auto simp: dock_apps_eq)
  from icon_tap [OF i(2) dock_shadowed [OF assms(2,3)]] have "get_tapped_app pg p = Some (page_apps pg ! (12 + i))" .
  moreover from seen_dock [OF i(1) assms(3)] have "seen_at pg p = Some (dock_apps ! i)" .
  moreover have "pg = 0 \<or> pg = 1" using assms(1) by auto
  then have "dock_apps ! i \<noteq> page_apps pg ! (12 + i)" using assms(2) by (elim disjE insertE) (simp_all add: dock_apps_eq page_apps_eq page_apps_eq(2) [simplified])
  ultimately show ?thesis by simp
qed

theorem dock_covers_other_apps_witness:
  "seen_at 0 (120, 440) = Some ''WiFi'' \<and> get_tapped_app 0 (120, 440) = Some ''Clipboard''"
  using dock_covers_other_apps [of 0 1 "(120, 440)"] by (simp add: dock_apps_eq page_apps_eq dock_rect_eq)

text \<open>
  (C8) The animation of a successful unlock is not seen when it happens, because the home
  screen replaces the lock screen at once. It is kept, and played when the device is locked
  again: the lock screen of a device just locked says that it is unlocked.
\<close>

theorem relocked_says_unlocked:
  assumes "ui_running s" "locked s" "swipe_count s = 1" "touch_start s = Some a"
    and "fst p - fst a < - 50" "\<bar>snd p - snd a\<bar> < 60"
  shows "\<exists>s1 s2. ui_step env s (t, MouseUp p) = Inr s1 \<and> ui_state s1 = SHome
    \<and> ui_step env s1 (t', KeyDown K_ESCAPE u c) = Inr s2 \<and> ui_state s2 = SLock
    \<and> text_centred (fr_tm fr) (la_font 14 True) ''Unlocked'' LA_GREEN (W div 2) (H div 2 + 58)
        \<in> set (snd (draw_lock_screen fr (swipe_count s2) (ui_la s2)))"
proof -
  let ?la = "set_result W H (en_sparks env) t True (start_scan t (ui_la s))"
  have shown: "text_centred (fr_tm fr) (la_font 14 True) ''Unlocked'' LA_GREEN (W div 2) (H div 2 + 58)
        \<in> set (snd (draw_lock_screen fr n ?la))" for n
    by (simp add: draw_lock_screen_def la_draw_def la_draw_result_def la_fresh_result Let_def split_beta)
  have "is_swipe_left (mk_gesture a p el)" for el using assms(5,6) by (simp add: mk_gesture_def Let_def)
  with assms(1-4) shown show ?thesis
    by (simp add: ui_step_def mouse_up_def up_lock_def locked_def no_overlay_iff end_touch_def key_down_def key_escape_def
        fx_as_emit ui_simps Let_def)
qed

definition relock_start :: ui where
  "relock_start = demo_start\<lparr>swipe_count := 1, touch_start := Some (200, 200)\<rparr>"

theorem relocked_says_unlocked_witness:
  "\<exists>s1 s2. ui_step demo_env relock_start (1, MouseUp (100, 200)) = Inr s1 \<and> ui_state s1 = SHome
    \<and> ui_step demo_env s1 (60, KeyDown K_ESCAPE [] False) = Inr s2 \<and> ui_state s2 = SLock
    \<and> text_centred (fr_tm demo_frame) (la_font 14 True) ''Unlocked'' LA_GREEN (W div 2) (H div 2 + 58)
        \<in> set (snd (draw_lock_screen demo_frame (swipe_count s2) (ui_la s2)))"
  by (rule relocked_says_unlocked [where a = "(200, 200)"])
    (simp_all add: relock_start_def demo_start_def ui_init_def locked_def no_overlay_iff Let_def)

subsection \<open>A message the status bar cannot draw\<close>

definition wifi_up :: "sys_files \<Rightarrow> bool" where
  "wifi_up fs \<longleftrightarrow> state_get (read_state (f_wifi fs)) ''connected'' ''0'' = ''1''"

definition text_signal :: "status \<Rightarrow> bool" where
  "text_signal s \<longleftrightarrow> st_bridge s \<and> json_truthy (st_wifi_connected s) \<and> (\<exists>t. st_wifi_signal s = JStr t)"

lemma text_signal_update: "text_signal s \<Longrightarrow> wifi_up fs \<Longrightarrow> text_signal (status_update now fs s)"
  by (auto simp: text_signal_def status_update_def wifi_up_def json_truthy_def Let_def)

lemma text_signal_polls:
  "text_signal s \<Longrightarrow> \<forall>(now, fs)\<in>set polls. wifi_up fs \<Longrightarrow> text_signal (foldl (\<lambda>s (now, fs). status_update now fs s) s polls)"
  by (induction polls arbitrary: s) (auto intro: text_signal_update)

lemma text_signal_bars: "text_signal s \<Longrightarrow> wifi_up (fr_files fr) \<Longrightarrow> frame_bars fr (Some s) = Inl TypeError"
  using text_signal_update [of s "fr_files fr" "fr_now fr"]
  by (auto simp: frame_bars_def ui_get_battery_level_def ui_get_wifi_bars_def status_wifi_bars_def text_signal_def json_num_def Let_def)

text \<open>
  (C10) One message with a signal strength given as a text stops the interface: the handler stores
  it unchecked, polling never overwrites it, and while WiFi is connected every frame of the home
  screen, of an application or of the settings raises \<open>TypeError\<close>, which the main loop does not
  catch.
\<close>

theorem wifi_text_stops_ui:
  assumes "start_backend True True up fails pid now = (sent, m, ok)" "mod_bridge m = Some b"
    and "json_ok (JObj kvs)" "length (utf8 (json_dumps (JObj kvs))) \<le> 8192"
    and "ipc_message ''WIFI_STATE'' (utf8 (json_dumps (JObj kvs))) pid' now' = Some msg"
    and "map_of kvs ''connected'' = Some (JBool True)" "map_of kvs ''signal'' = Some (JStr t)"
    and "st_bridge st" "\<forall>(now, fs)\<in>set polls. wifi_up fs" "wifi_up (fr_files fr)"
    and "en_bars env = frame_bars fr (Some (foldl (\<lambda>s (now, fs). status_update now fs s) (receive b msg st) polls))"
    and "ui_running s" "ui_state s \<noteq> SLock"
  shows "ui_draw env now'' s = Inl TypeError"
proof -
  have cbs: "br_callbacks b = [(''BATTERY'', [0]), (''WIFI_STATE'', [1]), (''BT_STATE'', [2])]"
    using assms(1,2) subscribed [of fails pid now up] by (auto simp: started)
  have "text_signal (receive b msg st)"
    using assms(6-8) by (simp add: wifi_received [OF cbs assms(3-5)] text_signal_def json_truthy_def dict_get_def)
  from text_signal_bars [OF text_signal_polls [OF this assms(9)] assms(10)] assms(11)
  have "en_bars env = Inl TypeError" by simp
  with assms(12,13) show ?thesis by (cases "ui_state s") (simp_all add: ui_draw_def draw_page_def)
qed

definition text_wifi :: "(string \<times> json) list" where
  "text_wifi = [(''connected'', JBool True), (''signal'', JStr ''-65'')]"

definition text_frame :: frame_env where
  "text_frame = demo_frame\<lparr>fr_files := (fr_files demo_frame)\<lparr>f_wifi := Some (''connected=1'' @ [newline_char])\<rparr>\<rparr>"

definition demo_bridge :: bridge where
  "demo_bridge = snd (subscribe_events (\<lambda>_. False) 7 1000 (bridge_init True))"

lemma text_message: "\<exists>m. ipc_message ''WIFI_STATE'' (utf8 (json_dumps (JObj text_wifi))) 7 1000 = Some m"
  "length (utf8 (json_dumps (JObj text_wifi))) \<le> 8192"
proof -
  show "length (utf8 (json_dumps (JObj text_wifi))) \<le> 8192" by code_simp
  then show "\<exists>m. ipc_message ''WIFI_STATE'' (utf8 (json_dumps (JObj text_wifi))) 7 1000 = Some m"
    by (simp add: ipc_message_def pack_uint_def del: json_dumps.simps)
qed

theorem wifi_text_stops_ui_witness:
  "\<exists>msg. ipc_message ''WIFI_STATE'' (utf8 (json_dumps (JObj text_wifi))) 7 1000 = Some msg
     \<and> ui_draw (demo_env\<lparr>en_bars := frame_bars text_frame (Some (receive demo_bridge msg (status_init True)))\<rparr>) 0
         (demo_start\<lparr>ui_state := SHome\<rparr>) = Inl TypeError"
proof -
  obtain msg where msg: "ipc_message ''WIFI_STATE'' (utf8 (json_dumps (JObj text_wifi))) 7 1000 = Some msg" using text_message(1) ..
  have up: "wifi_up (fr_files text_frame)" unfolding wifi_up_def text_frame_def by code_simp
  have "ui_draw (demo_env\<lparr>en_bars := frame_bars text_frame (Some (receive demo_bridge msg (status_init True)))\<rparr>) 0
         (demo_start\<lparr>ui_state := SHome\<rparr>) = Inl TypeError"
    by (rule wifi_text_stops_ui [OF started [of True "\<lambda>_. False" 7 1000] _ _ text_message(2) msg, where polls = "[]", OF _ _ _ _ _ _ up])
      (simp_all add: demo_bridge_def text_wifi_def status_init_def demo_start_def ui_init_def Let_def)
  with msg show ?thesis by blast
qed

end
