(* ===== verification/Panel_Screens.thy ===== *)
theory Panel_Screens
  imports Control_Center Notification_Center Spotlight Julius_Drop Julius_Cloud Julius_Bridge
begin

text \<open>
  What the panels of \<^verbatim>\<open>src/src/system\<close> draw, call by call: control centre, notifications, spotlight,
  Drop and Cloud. The theories of the panels have what their \<open>draw\<close> methods write; here are the
  pixels, with the proof that drawing raises exactly when the state model says so and that what a
  panel shows is where its touch handler looks for it, or by how much it is not. Signs outside
  Latin-1 are written with ASCII characters.
\<close>

definition p_WHITE :: rgba where "p_WHITE = [255, 255, 255]"
definition p_DIM :: rgba where "p_DIM = [120, 120, 130]"
definition p_GREEN :: rgba where "p_GREEN = [48, 209, 88]"
definition p_BLUE :: rgba where "p_BLUE = [10, 132, 255]"
definition p_ORANGE :: rgba where "p_ORANGE = [255, 159, 10]"
definition p_PURPLE :: rgba where "p_PURPLE = [191, 90, 242]"
definition p_RED :: rgba where "p_RED = [255, 69, 58]"
definition p_TEAL :: rgba where "p_TEAL = [90, 200, 250]"

lemmas p_colours = p_WHITE_def p_DIM_def p_GREEN_def p_BLUE_def p_ORANGE_def p_PURPLE_def p_RED_def p_TEAL_def

lemma p_colours_ok:
  "colour_ok p_WHITE" "colour_ok p_DIM" "colour_ok p_GREEN" "colour_ok p_BLUE" "colour_ok p_ORANGE" "colour_ok p_PURPLE"
  "colour_ok p_RED" "colour_ok p_TEAL" "colour_ok (with_alpha p_DIM 150)" "colour_ok (with_alpha p_GREEN 200)"
  by (simp_all add: p_colours with_alpha_def gfx_simps)

text \<open>A text that ends at a column: \<open>x - t.get_width()\<close>.\<close>

definition text_right :: "metrics \<Rightarrow> font \<Rightarrow> string \<Rightarrow> rgba \<Rightarrow> int \<Rightarrow> int \<Rightarrow> gfx" where
  "text_right tm f t col x y = GText f t col None (x - get_width tm f t, y)"

lemma text_right_ok [gfx_simps]: "gfx_ok (text_right tm f t c x y) = colour_ok c"
  by (simp add: text_right_def)

definition dim_overlay :: "int \<Rightarrow> gfx" where
  "dim_overlay a = GBlit (W, H) None [GFill [0, 0, 0, a]] (0, 0)"

lemma dim_overlay_ok [gfx_simps]: "gfx_ok (dim_overlay a) \<longleftrightarrow> 0 \<le> a \<and> a \<le> 255"
  by (simp add: dim_overlay_def gfx_simps W_def H_def)

lemmas panel_ok_simps = p_colours_ok round_rect_ok gfx_simps

subsection \<open>Control centre\<close>

definition cc_read_state :: "string option \<Rightarrow> (string \<rightharpoonup> string)" where
  "cc_read_state f = (case f of None \<Rightarrow> Map.empty | Some c \<Rightarrow> foldl read_state_line Map.empty (file_lines c))"

definition draw_toggle :: "metrics \<Rightarrow> rect \<Rightarrow> string \<Rightarrow> string \<Rightarrow> bool \<Rightarrow> rgba \<Rightarrow> gfx list" where
  "draw_toggle tm r icon label active color =
     (case r of (x, y, sz, _) \<Rightarrow>
        round_rect (if active then color else [50, 50, 58]) (x, y, sz, sz) 16
        @ [text_at font_small icon p_WHITE (x + sz div 2 - get_width tm font_small icon div 2, y + sz div 2 - get_height tm font_small icon div 2 - 4),
           text_centred tm font_small label (if active then p_WHITE else p_DIM) (x + sz div 2) (y + sz - 14)])"

definition cval_num :: "cval \<Rightarrow> int res" where
  "cval_num v = (case v of VInt i \<Rightarrow> Inr i | VBool b \<Rightarrow> Inr (if b then 1 else 0) | VStr _ \<Rightarrow> Inl TypeError)"

definition draw_slider :: "metrics \<Rightarrow> rect \<Rightarrow> cval \<Rightarrow> rgba \<Rightarrow> string \<Rightarrow> gfx list res" where
  "draw_slider tm r val color label =
     (case r of (x, y, w, h) \<Rightarrow>
        res_bind (cval_num val) (\<lambda>n.
          Inr (round_rect [32, 32, 38] (x, y, w, h) (h div 2)
            @ round_rect color (x + 4, y + 4, trunc_div ((w - 8) * n) 100, h - 8) ((h - 8) div 2)
            @ [text_at font_small label p_WHITE (x, y - 16), text_right tm font_small (py_str val @ ''%'') p_DIM (x + w) (y - 16)])))"

text \<open>The eight toggles: label, sign, setting with its default, and colour. The sign of \<open>Air\<close> is U+2708.\<close>

definition cc_toggles :: "(string \<times> string \<times> string \<times> bool \<times> rgba) list" where
  "cc_toggles =
     [(''WiFi'', ''W'', ''wifi'', True, p_BLUE), (''BT'', ''B'', ''bluetooth'', True, p_BLUE),
      (''Air'', ''A'', ''airplane'', False, p_ORANGE), (''Spot'', ''H'', ''hotspot'', False, p_GREEN),
      (''Dark'', ''D'', ''dark_mode'', True, p_PURPLE), (''Notif'', ''N'', ''notifications'', True, p_TEAL),
      (''FP'', ''F'', ''fingerprint'', True, p_GREEN), (''OTA'', ''O'', ''ota_enabled'', True, p_ORANGE)]"

definition cc_screen :: "metrics \<Rightarrow> string \<Rightarrow> (string \<rightharpoonup> string) \<Rightarrow> config \<Rightarrow> control_center \<Rightarrow> gfx list res" where
  "cc_screen tm now wifi_state c s0 =
     (if \<not> cc_visible s0 then Inr []
      else
        (let s = cc_anim s0; py = cc_panel_y s; (bright, vol) = cc_drawn_sliders s
         in res_bind (draw_slider tm bright (cc_brightness s) p_WHITE ''Brightness'') (\<lambda>sl1.
            res_bind (draw_slider tm vol (cc_volume s) p_TEAL ''Volume'') (\<lambda>sl2.
              Inr ([dim_overlay 140]
                @ round_rect [22, 22, 28] (0, py, W, 320 + 10) 20
                @ [GLine [50, 50, 60] (0, py) (W, py) 1, GRect [80, 80, 90] (W div 2 - 25, py + 8, 50, 4) 0 2,
                   text_centred tm font_title now p_WHITE (W div 2) (py + 20)]
                @ concat (map (\<lambda>((r, _), (label, icon, key, dflt, col)).
                      draw_toggle tm r icon label (truthy (cfg_get c key (VBool dflt))) col) (zip (cc_rects py) cc_toggles))
                @ sl1 @ sl2
                @ (if truthy (cfg_get c ''wifi'' (VBool True)) \<and> wifi_state ''connected'' = Some ''1'' then
                     [text_at font_small (''WiFi: '' @ state_get wifi_state ''ssid'' [] @ ''  '' @ state_get wifi_state ''ip'' [])
                        (with_alpha p_GREEN 200) (16, fst (snd bright) + 80)]
                   else []))))))"

subsection \<open>Notifications\<close>

definition nc_row :: "metrics \<Rightarrow> int \<Rightarrow> notif \<Rightarrow> gfx list" where
  "nc_row tm y n =
     (let col = nt_color n; alpha = (if nt_read n then 140 else 255)
      in round_rect (if nt_read n then [28, 28, 34] else [38, 38, 46]) (8, y, W - 16, 66) 12
         @ [GRect col (8, y, 3, 66) 0 3,
            text_at font_small (nt_app n) (with_alpha col alpha) (18, y + 6),
            text_right tm font_small (nt_time n) (with_alpha p_DIM alpha) (W - 16) (y + 6),
            text_at font_body (take 28 (nt_title n)) (with_alpha p_WHITE alpha) (18, y + 22),
            text_at font_small (take 34 (nt_body n)) (with_alpha p_DIM alpha) (18, y + 42)])"

definition nc_screen :: "metrics \<Rightarrow> notif_center \<Rightarrow> gfx list" where
  "nc_screen tm s0 =
     (if \<not> nc_visible s0 then []
      else
        (let s = nc_anim s0; ph = nc_panel_h s; py = nc_y_offset s + 36; unread = unread_count s; n = int (length (nc_notifs s));
             bx = 16 + get_width tm font_body ''Notifications'' + 8;
             badge = py_str_int (int unread)
         in [dim_overlay 140] @ round_rect [22, 22, 28] (0, py, W, ph) 20
            @ [GLine [50, 50, 60] (0, py + ph) (W, py + ph) 1, text_at font_body ''Notifications'' p_WHITE (16, py + 12)]
            @ (if unread > 0 then round_rect p_RED (bx - 4, py + 14, get_width tm font_small badge + 8, 18) 9
                 @ [text_at font_small badge p_WHITE (bx, py + 16)] else [])
            @ [text_right tm font_small ''Clear'' p_BLUE (W - 16) (py + 16), GLine [50, 50, 60] (0, py + 40) (W, py + 40) 1]
            @ (if nc_notifs s = [] then [text_centred tm font_small ''No notifications'' p_DIM (W div 2) (py + 60)]
               else
                 concat (map (\<lambda>(r, nt). case r of None \<Rightarrow> [] | Some (_, y, _) \<Rightarrow> nc_row tm y nt) (zip (nc_row_rects s) (nc_notifs s)))
                 @ (if n > 4 then
                      (let sb_h = ph * ph div (n * 72)
                       in [GRect [80, 80, 90] (W - 4, py + 40 + trunc (of_int (nc_scroll s) / of_int (n * 72 - ph) * of_int (ph - sb_h)), 3, sb_h) 0 2])
                    else []))))"

subsection \<open>Spotlight\<close>

definition result_colour :: "result_type \<Rightarrow> rgba" where
  "result_colour t = (case t of RApp \<Rightarrow> p_BLUE | RCommand \<Rightarrow> p_GREEN | RSetting \<Rightarrow> [255, 159, 10])"

definition result_word :: "result_type \<Rightarrow> string" where
  "result_word t = (case t of RApp \<Rightarrow> ''APP'' | RCommand \<Rightarrow> ''COMMAND'' | RSetting \<Rightarrow> ''SETTING'')"

definition sp_row :: "metrics \<Rightarrow> bool \<Rightarrow> rect \<times> sp_entry \<Rightarrow> gfx list" where
  "sp_row tm sel e =
     (case fst e of (x, y, w, h) \<Rightarrow>
        round_rect (if sel then [42, 42, 52] else [28, 28, 36]) (x, y, w, h) 10
        @ [GRect (result_colour (res_type (snd e))) (12, y, 3, 46) 0 2,
           text_at font_body (take 24 (res_name (snd e))) p_WHITE (24, y + 6),
           text_at font_small (res_desc (snd e)) [100, 100, 110] (24, y + 28),
           text_right tm font_small (result_word (res_type (snd e))) (result_colour (res_type (snd e))) (W - 20) (y + 16)])"

definition sp_screen :: "metrics \<Rightarrow> spotlight \<Rightarrow> gfx list" where
  "sp_screen tm s =
     (if \<not> sp_visible s then []
      else
        [dim_overlay 180] @ round_rect [32, 32, 40] (12, 50, W - 24, 44) 12
        @ [GRect p_BLUE (12, 50, W - 24, 44) 1 12, text_at font_small ''Search'' [100, 100, 110] (24, 64),
           if sp_query s \<noteq> [] then text_at font_body (sp_query s @ ''_'') p_WHITE (80, 60)
           else text_at font_body ''Search apps, commands...'' [60, 60, 70] (80, 60)]
        @ (if sp_results s = [] then
             (if sp_query s \<noteq> [] then [text_centred tm font_small ''No results'' [100, 100, 110] (W div 2) 120] else [])
           else concat (map (\<lambda>(i, e). sp_row tm (int i = sp_selected s) e) (enum (sp_row_rects (sp_results s))))))"

subsection \<open>Drop\<close>

definition dr_device_gfx :: "metrics \<Rightarrow> int \<Rightarrow> jdict \<Rightarrow> gfx list res" where
  "dr_device_gfx tm y d =
     res_bind (dr_row d) (\<lambda>ip.
       Inr (round_rect [28, 28, 34] (8, y, W - 16, 46) 10
         @ [text_at font_body (case map_of d ''name'' of Some (JStr n) \<Rightarrow> take 20 n | _ \<Rightarrow> []) p_WHITE (18, y + 6),
            text_at font_small ip p_DIM (18, y + 28)]
         @ round_rect p_BLUE (W - 60, y + 10, 52, 28) 8
         @ [text_middle tm font_small ''Send'' p_WHITE (W - 60 + 26) (y + 10 + 14)]))"

fun dr_devices_gfx :: "metrics \<Rightarrow> int \<Rightarrow> jdict list \<Rightarrow> gfx list res" where
  "dr_devices_gfx tm y [] = Inr []"
| "dr_devices_gfx tm y (d # ds) =
     res_bind (dr_device_gfx tm y d) (\<lambda>g. res_bind (dr_devices_gfx tm (y + 52) ds) (\<lambda>gs. Inr (g @ gs)))"

text \<open>The arrows of the transfers are U+2193 and U+2191.\<close>

definition dr_transfers_gfx :: "julius_drop \<Rightarrow> gfx list" where
  "dr_transfers_gfx s =
     (if dr_transfers s = [] then []
      else
        (let ty = 116 + max (int (length (dr_nearby s))) 1 * 52 + 10
         in [text_at font_body ''Recent'' p_WHITE (12, ty), GLine [50, 50, 60] (0, ty + 18) (W, ty + 18) 1]
            @ map (\<lambda>(i, tr). text_at font_small ((if tf_received tr then ''v '' else ''^ '') @ take 20 (tf_name tr))
                (if tf_received tr then p_GREEN else p_BLUE) (12, ty + 24 * (int i + 1))) (enum (last_n 3 (dr_transfers s)))))"

definition dr_screen :: "metrics \<Rightarrow> string \<Rightarrow> string \<Rightarrow> julius_drop \<Rightarrow> gfx list res" where
  "dr_screen tm my_name my_ip s =
     (if \<not> dr_visible s then Inr []
      else
        res_bind (dr_devices_gfx tm 116 (take 4 (dr_nearby s))) (\<lambda>rows.
          Inr ([GFill [18, 18, 22], GRect [22, 22, 28] (0, 0, W, 50) 0 0, GLine [50, 50, 60] (0, 50) (W, 50) 1,
                text_centred tm font_body ''Julius Drop'' p_WHITE (W div 2) 14, text_centred tm font_small (dr_status s) p_TEAL (W div 2) 36,
                text_at font_small (''This device: '' @ my_name) p_DIM (12, 58), text_at font_small (''IP: '' @ my_ip) (with_alpha p_DIM 150) (12, 72),
                text_at font_body ''Nearby Devices'' p_WHITE (12, 94), GLine [50, 50, 60] (0, 112) (W, 112) 1]
            @ (if dr_nearby s = [] then [text_at font_small ''Scanning for Julius devices...'' p_DIM (12, 122)] else rows)
            @ dr_transfers_gfx s)))"

subsection \<open>Cloud\<close>

text \<open>\<open>ticks\<close> is \<open>int(time.time()*2)\<close>.\<close>

definition cl_screen :: "metrics \<Rightarrow> nat \<Rightarrow> julius_cloud \<Rightarrow> gfx list" where
  "cl_screen tm ticks s =
     (if \<not> cl_visible s then []
      else
        [GFill [18, 18, 22], GRect [22, 22, 28] (0, 0, W, 50) 0 0, GLine [50, 50, 60] (0, 50) (W, 50) 1,
         text_centred tm font_body ''Julius Cloud'' p_WHITE (W div 2) 14,
         text_centred tm font_small (cl_status s @ (if cl_syncing s then take (ticks mod 4) ''...'' else []))
           (if cl_syncing s then p_PURPLE else p_GREEN) (W div 2) 36]
        @ round_rect [28, 28, 34] (8, 58, W - 16, 48) 10
        @ [text_at font_small (''Server: '' @ (if cl_server_ip s = [] then ''Not configured'' else cl_server_ip s)) p_WHITE (16, 66),
           text_at font_small (''Last sync: '' @ cl_last_sync s) p_DIM (16, 84)]
        @ round_rect p_BLUE (W - 90, 63, 80, 36) 10
        @ [text_middle tm font_small ''Sync Now'' p_WHITE (W - 90 + 40) (63 + 18),
           text_at font_body (''Files ('' @ py_str_int (int (length (cl_files s))) @ '')'') p_WHITE (12, 116), GLine [50, 50, 60] (0, 134) (W, 134) 1]
        @ (if cl_files s = [] then [text_at font_small ''No files synced yet'' p_DIM (12, 138)]
           else concat (map (\<lambda>(i, f). let y = 138 + 46 * int i
                  in round_rect [28, 28, 34] (8, y, W - 16, 40) 8
                     @ [text_at font_small (take 24 (cf_name f)) p_WHITE (16, y + 6),
                        text_right tm font_small (py_str_int (cf_size f div 1024) @ ''KB'') p_DIM (W - 16) (y + 6)]) (enum (take 6 (cl_files s))))))"

subsection \<open>Drawing raises where the state model says so\<close>

lemma draw_slider_numeric:
  "(\<exists>g. draw_slider tm r v col l = Inr g) \<longleftrightarrow> numeric v" "draw_slider tm r v col l = Inl e \<longleftrightarrow> \<not> numeric v \<and> e = TypeError"
  by (cases r; cases v; auto simp: draw_slider_def cval_num_def numeric_def res_bind_def)+

lemma draw_slider_ok: "draw_slider tm r v col l = Inr g \<Longrightarrow> colour_ok col \<Longrightarrow> list_all gfx_ok g"
  by (cases r) (auto simp: draw_slider_def res_bind_Inr_iff panel_ok_simps)

lemma draw_toggle_ok: "colour_ok col \<Longrightarrow> list_all gfx_ok (draw_toggle tm r ic lb b col)"
  by (cases r) (auto simp: draw_toggle_def panel_ok_simps)

lemma cc_toggles_ok: "t \<in> set cc_toggles \<Longrightarrow> colour_ok (snd (snd (snd (snd t))))"
  by (auto simp: cc_toggles_def p_colours_ok)

theorem cc_screen_raises_iff:
  "cc_screen tm now ws c s = Inl e \<longleftrightarrow> cc_draw s = Inl e"
  by (auto simp: cc_screen_def cc_draw_def cc_anim_def Let_def split_beta res_bind_Inl_iff draw_slider_numeric)

theorem cc_screen_ok:
  assumes "cc_screen tm now ws c s = Inr g"
  shows "list_all gfx_ok g"
proof -
  have tog: "list_all gfx_ok (concat (map (\<lambda>((r, _), (label, icon, key, dflt, col)).
      draw_toggle tm r icon label (truthy (cfg_get c key (VBool dflt))) col) (zip rs cc_toggles)))" for rs :: "(rect \<times> cc_action) list"
    using draw_toggle_ok cc_toggles_ok by (fastforce simp: list_all_iff dest: set_zip_rightD)
  show ?thesis
  proof (cases "cc_visible s")
    case True
    with assms show ?thesis
      by (auto simp: cc_screen_def Let_def split_beta res_bind_Inr_iff tog panel_ok_simps dest!: draw_slider_ok)
  qed (use assms in \<open>simp add: cc_screen_def\<close>)
qed

lemma nc_row_ok: "nt_colour_ok n \<Longrightarrow> list_all gfx_ok (nc_row tm y n)"
  by (auto simp: nc_row_def Let_def nt_colour_ok_def panel_ok_simps intro!: colour_ok_alpha) (simp_all add: p_colours)

text \<open>Whenever the notification panel is drawn without an exception, every call was valid.\<close>

theorem nc_screen_ok:
  assumes "nc_draw cw s = Inr s'"
  shows "list_all gfx_ok (nc_screen tm s)"
proof (cases "nc_visible s \<and> nc_notifs s \<noteq> []")
  case True
  let ?s = "nc_anim s"
  have "\<not> nc_bad_row ?s"
    using assms True by (auto simp: nc_draw_def Let_def nc_bad_row_def nc_row_rects_def nc_panel_h_def split: if_splits)
  then have "list_all gfx_ok (concat (map (\<lambda>(r, nt). case r of None \<Rightarrow> [] | Some (_, y, _) \<Rightarrow> nc_row tm y nt) (zip (nc_row_rects ?s) (nc_notifs ?s))))"
    using nc_row_ok by (auto simp: nc_bad_row_def list_all_iff list_ex_iff split: option.splits)
  then show ?thesis using True by (simp add: nc_screen_def Let_def panel_ok_simps)
qed (auto simp: nc_screen_def Let_def panel_ok_simps)

lemma dr_devices_error: "dr_devices_gfx tm y ds = Inl e \<longleftrightarrow> dr_rows y ds = Inl e"
  by (induction ds arbitrary: y) (auto simp: dr_device_gfx_def res_bind_Inl_iff res_bind_Inr_iff)

theorem dr_screen_raises_iff: "dr_screen tm my_name my_ip s = Inl e \<longleftrightarrow> dr_draw s = Inl e"
  by (auto simp: dr_screen_def dr_draw_def res_bind_Inl_iff dr_devices_error)

lemma dr_devices_ok: "dr_devices_gfx tm y ds = Inr g \<Longrightarrow> list_all gfx_ok g"
  by (induction ds arbitrary: y g) (auto simp: dr_device_gfx_def res_bind_Inr_iff panel_ok_simps)

theorem dr_screen_ok: "dr_screen tm my_name my_ip s = Inr g \<Longrightarrow> list_all gfx_ok g"
  by (auto simp: dr_screen_def res_bind_Inr_iff dr_transfers_gfx_def Let_def panel_ok_simps list_all_map dr_devices_ok split: if_splits)

theorem sp_screen_ok: "list_all gfx_ok (sp_screen tm s)"
proof -
  have "list_all gfx_ok (sp_row tm b e)" for b e
    by (cases e; cases "res_type (snd e)") (auto simp: sp_row_def result_colour_def panel_ok_simps)
  then show ?thesis by (simp add: sp_screen_def panel_ok_simps list_all_concat split_beta)
qed

theorem cl_screen_ok: "list_all gfx_ok (cl_screen tm ticks s)"
  by (simp add: cl_screen_def Let_def panel_ok_simps list_all_concat split_beta)

subsection \<open>Properties\<close>

text \<open>
  The sliders of the control centre react ten pixels below where they are drawn: with the
  panel at rest, a touch on the upper ten rows of a slider changes nothing, and one on the ten
  rows below it sets the value.
\<close>

theorem cc_sliders_shifted:
  assumes "cc_y_offset s = 0" "16 \<le> x" "x \<le> W - 16"
  shows "(\<forall>y. fst (snd (fst (cc_drawn_sliders s))) \<le> y \<and> y < fst (snd (fst (cc_drawn_sliders s))) + 10 \<longrightarrow>
      cc_touch_sliders c s (x, y) = (True, c, s, []))
    \<and> (\<forall>y. fst (snd (fst (cc_drawn_sliders s))) + 16 < y \<and> y \<le> fst (snd (fst (cc_drawn_sliders s))) + 26 \<longrightarrow>
      fst (snd (cc_touch_sliders c s (x, y))) = c(''brightness'' \<mapsto> VInt (cc_slider x)))
    \<and> (\<forall>y. fst (snd (snd (cc_drawn_sliders s))) \<le> y \<and> y < fst (snd (snd (cc_drawn_sliders s))) + 10 \<longrightarrow>
      cc_touch_sliders c s (x, y) = (True, c, s, []))"
  using assms by (auto simp: cc_drawn_sliders_def cc_panel_y_def cc_touch_sliders_def cc_touch_sy1_def Let_def H_def)

theorem cc_sliders_shifted_witness:
  "cc_touch_sliders DEFAULT_SETTINGS ((cc_init DEFAULT_SETTINGS)\<lparr>cc_y_offset := 0\<rparr>) (100, 380) =
     (True, DEFAULT_SETTINGS, (cc_init DEFAULT_SETTINGS)\<lparr>cc_y_offset := 0\<rparr>, [])
   \<and> fst (snd (cc_touch_sliders DEFAULT_SETTINGS ((cc_init DEFAULT_SETTINGS)\<lparr>cc_y_offset := 0\<rparr>) (100, 395))) =
     DEFAULT_SETTINGS(''brightness'' \<mapsto> VInt (cc_slider 100))"
  using cc_sliders_shifted [of "(cc_init DEFAULT_SETTINGS)\<lparr>cc_y_offset := 0\<rparr>" 100 DEFAULT_SETTINGS]
  by (simp add: cc_drawn_sliders_def cc_panel_y_def Let_def H_def W_def)

end
