(* ===== verification/AI_Screen.thy ===== *)
theory AI_Screen
  imports Julius_AI Graphics
begin

text \<open>
  The screen of the assistant (\<^verbatim>\<open>src/src/system/julius_ai.py\<close>, \<open>draw\<close>): the wrapping of a message into
  lines, the bubbles of the conversation and the input field.
\<close>

subsection \<open>Wrapping\<close>

text \<open>
  The loop over the words of a message. \<open>wd\<close> is the width of a text in pixels
  (\<open>self.font_small.size(test)[0]\<close>), \<open>line\<close> the line being filled.
\<close>

fun ai_wrap :: "(string \<Rightarrow> int) \<Rightarrow> string \<Rightarrow> string list \<Rightarrow> string list" where
  "ai_wrap wd line [] = (if line \<noteq> [] then [line] else [])"
| "ai_wrap wd line (word # words) =
     (let test = line @ (if line \<noteq> [] then '' '' else []) @ word
      in if wd test > 200 then (if line \<noteq> [] then [line] else []) @ ai_wrap wd word words
         else ai_wrap wd test words)"

definition ai_lines :: "(string \<Rightarrow> int) \<Rightarrow> string \<Rightarrow> string list" where
  "ai_lines wd t = ai_wrap wd [] (py_words t)"

subsection \<open>Bubbles\<close>

definition ai_CARD :: rgba where "ai_CARD = [28, 28, 34]"
definition ai_WHITE :: rgba where "ai_WHITE = [255, 255, 255]"
definition ai_BLUE :: rgba where "ai_BLUE = [10, 132, 255]"
definition ai_PURPLE :: rgba where "ai_PURPLE = [191, 90, 242]"

definition bubble_h :: "string list \<Rightarrow> int" where
  "bubble_h ls = int (length ls) * 16 + 16"

definition ai_bubble :: "int \<Rightarrow> bool \<Rightarrow> string list \<Rightarrow> gfx list" where
  "ai_bubble y is_user ls =
     (if y + bubble_h ls > 55 \<and> y < H - 60 then
        (if is_user then
           round_rect ai_BLUE (W - 220, y, 210, bubble_h ls) 12
           @ map (\<lambda>(j, ln). text_at font_small ln ai_WHITE (W - 220 + 8, y + 8 + int j * 16)) (enum ls)
         else
           round_rect ai_CARD (10, y, 210, bubble_h ls) 12
           @ map (\<lambda>(j, ln). text_at font_small ln ai_WHITE (18, y + 8 + int j * 16)) (enum ls))
      else [])"

fun ai_bubbles :: "(string \<Rightarrow> int) \<Rightarrow> int \<Rightarrow> ai_msg list \<Rightarrow> gfx list" where
  "ai_bubbles wd y [] = []"
| "ai_bubbles wd y (m # ms) =
     (let ls = ai_lines wd (snd m)
      in ai_bubble y (fst m = RoleUser) ls @ ai_bubbles wd (y + bubble_h ls + 10) ms)"

text \<open>\<open>ticks\<close> is \<open>int(pygame.time.get_ticks()/300)\<close>.\<close>

definition ai_screen :: "metrics \<Rightarrow> nat \<Rightarrow> julius_ai \<Rightarrow> gfx list" where
  "ai_screen tm ticks s =
     (if \<not> ai_visible s then []
      else
        (let thinking = ''Thinking'' @ take (ticks mod 4) ''...''
         in [GFill [18, 18, 22], GRect [22, 22, 28] (0, 0, W, 50) 0 0, GLine [50, 50, 60] (0, 50) (W, 50) 1]
            @ round_rect ai_PURPLE (12, 10, 30, 30) 8
            @ [text_middle tm font_body ''J'' ai_WHITE (12 + 15) (10 + 15), text_at font_body ''Julius AI'' ai_WHITE (50, 15)]
            @ (if ai_thinking s then [text_at font_small thinking ai_PURPLE (W - get_width tm font_small thinking - 12, 18)] else [])
            @ ai_bubbles (\<lambda>t. get_width tm font_small t) (60 - ai_scroll s) (ai_messages s)
            @ [GRect [22, 22, 28] (0, H - 52, W, 52) 0 0, GLine [50, 50, 60] (0, H - 52) (W, H - 52) 1]
            @ round_rect ai_CARD (8, H - 44, W - 60, 36) 10
            @ [if ai_input s \<noteq> [] then text_at font_small (take 32 (ai_input s @ ''_'')) ai_WHITE (16, H - 36)
               else text_at font_small ''Ask Julius...'' [60, 60, 70] (16, H - 36)]
            @ round_rect ai_BLUE (W - 52, H - 46, 44, 38) 10
            @ [text_middle tm font_small ''Go'' ai_WHITE (W - 52 + 22) (H - 46 + 19)]))"

subsection \<open>Lemmas\<close>

abbreviation (input) "words_text ws \<equiv> py_join (CHR '' '') ws"

lemma py_join_snoc: "ws \<noteq> [] \<Longrightarrow> py_join s (ws @ [w]) = py_join s ws @ s # w"
proof (induction ws)
  case (Cons v vs)
  then show ?case by (cases vs) simp_all
qed simp

lemma py_join_Nil_iff: "\<forall>w\<in>set ws. w \<noteq> [] \<Longrightarrow> py_join s ws = [] \<longleftrightarrow> ws = []"
  by (cases ws; cases "tl ws") auto

text \<open>
  A division of words into lines as the loop makes it: each line fits or is a single word, and
  no line could have taken the first word of the next.
\<close>

fun greedy :: "(string \<Rightarrow> int) \<Rightarrow> string list list \<Rightarrow> bool" where
  "greedy wd [] = True"
| "greedy wd [g] = (g \<noteq> [] \<and> (length g = 1 \<or> wd (words_text g) \<le> 200))"
| "greedy wd (g # h # gs) =
     (g \<noteq> [] \<and> (length g = 1 \<or> wd (words_text g) \<le> 200) \<and> wd (words_text (g @ [hd h])) > 200 \<and> greedy wd (h # gs))"

lemma ai_wrap_groups:
  assumes "\<forall>w\<in>set (g @ ws). w \<noteq> []" "g \<noteq> [] \<Longrightarrow> length g = 1 \<or> wd (words_text g) \<le> 200"
  shows "\<exists>gs. ai_wrap wd (words_text g) ws = map words_text gs \<and> concat gs = g @ ws \<and> greedy wd gs
    \<and> (g \<noteq> [] \<longrightarrow> gs \<noteq> [] \<and> hd (hd gs) = hd g)"
  using assms
proof (induction ws arbitrary: g)
  case Nil
  then show ?case
    by (cases "g = []") (auto simp: py_join_Nil_iff intro!: exI [of _ "[g]"])
next
  case (Cons w ws)
  have line: "words_text g \<noteq> [] \<longleftrightarrow> g \<noteq> []" using Cons.prems(1) by (simp add: py_join_Nil_iff)
  have test: "words_text g @ (if words_text g \<noteq> [] then '' '' else []) @ w = words_text (g @ [w])"
    using line by (auto simp: py_join_snoc)
  show ?case
  proof (cases "wd (words_text (g @ [w])) > 200")
    case False
    with Cons.IH [of "g @ [w]"] Cons.prems(1) obtain gs where
      "ai_wrap wd (words_text (g @ [w])) ws = map words_text gs" "concat gs = (g @ [w]) @ ws" "greedy wd gs" "gs \<noteq> []" "hd (hd gs) = hd (g @ [w])"
      by auto
    with False show ?thesis unfolding ai_wrap.simps Let_def test by (intro exI [of _ gs]) auto
  next
    case True
    with Cons.IH [of "[w]"] Cons.prems(1) obtain gs where
      gs: "ai_wrap wd w ws = map words_text gs" "concat gs = w # ws" "greedy wd gs" "gs \<noteq> []" "hd (hd gs) = w"
      by auto
    then obtain h hs where h: "gs = h # hs" by (cases gs) auto
    show ?thesis
    proof (cases "g = []")
      case True
      with gs \<open>wd (words_text (g @ [w])) > 200\<close> show ?thesis by (intro exI [of _ gs]) simp
    next
      case False
      with gs h True Cons.prems(2) line show ?thesis
        unfolding ai_wrap.simps Let_def test by (intro exI [of _ "g # gs"]) simp
    qed
  qed
qed

lemma py_words_acc_nonempty: "w \<in> set (py_words_acc a t) \<Longrightarrow> w \<noteq> []"
  by (induction a t rule: py_words_acc.induct) (auto split: if_splits)

lemma py_words_nonempty: "\<forall>w\<in>set (py_words t). w \<noteq> []"
  using py_words_acc_nonempty by (simp add: py_words_def)

lemma ai_bubbles_ok: "list_all gfx_ok (ai_bubbles wd y ms)"
proof (induction ms arbitrary: y)
  case (Cons m ms)
  have "colour_ok ai_BLUE" "colour_ok ai_CARD" "colour_ok ai_WHITE" by (simp_all add: ai_BLUE_def ai_CARD_def ai_WHITE_def gfx_simps)
  with Cons show ?case by (simp add: Let_def ai_bubble_def round_rect_ok list_all_map split_beta gfx_simps)
qed simp

theorem ai_screen_ok: "list_all gfx_ok (ai_screen tm ticks s)"
  using ai_bubbles_ok
  by (simp add: ai_screen_def Let_def round_rect_ok gfx_simps ai_BLUE_def ai_CARD_def ai_WHITE_def ai_PURPLE_def)

text \<open>Bubbles of one line each that all end above row 55 draw nothing.\<close>

lemma ai_bubbles_gone:
  assumes "\<forall>m\<in>set ms. length (ai_lines wd (snd m)) = 1" "y + 42 * int (length ms) - 10 \<le> 55"
  shows "ai_bubbles wd y ms = []"
  using assms
proof (induction ms arbitrary: y)
  case (Cons m ms)
  then have "bubble_h (ai_lines wd (snd m)) = 32" by (simp add: bubble_h_def)
  moreover from Cons have "ai_bubbles wd (y + 42) ms = []" by simp
  ultimately show ?case using Cons.prems(2) by (simp add: Let_def ai_bubble_def add.commute)
qed simp

subsection \<open>Properties\<close>

text \<open>
  (C37) A message is shown with all its words in their order, in lines that fit the bubble
  unless a single word is wider than it, and no line ends before it has to.
\<close>

theorem ai_lines_greedy:
  "\<exists>gs. ai_lines wd t = map words_text gs \<and> concat gs = py_words t \<and> greedy wd gs"
  using ai_wrap_groups [of "[]" "py_words t" wd] py_words_nonempty [of t] by (auto simp: ai_lines_def)


definition ai_demo :: julius_ai where
  "ai_demo = ai_init\<lparr>ai_messages := replicate 15 (RoleUser, ''hello''), ai_threads := [Waiting ''hello'']\<rparr>"


end
