(* ===== verification/Boot_Screens.thy ===== *)
theory Boot_Screens
  imports Graphics Ui_Config
begin

text \<open>
  The two boot screens: \<open>BootAnimation.play\<close> of \<^verbatim>\<open>src/src/system/boot_animation.py\<close>, which the main
  interface runs before its loop, and \<open>boot_screen\<close> of \<^verbatim>\<open>src/src/launcher/boot.py\<close>. Every frame is the
  list of its drawing calls; \<open>play\<close> polls the events once per frame and returns on \<open>QUIT\<close>.
\<close>

subsection \<open>The logo\<close>

definition ba_WHITE :: rgba where "ba_WHITE = [255, 255, 255]"
definition ba_BG :: rgba where "ba_BG = [8, 8, 18]"
definition ba_ACCENT :: rgba where "ba_ACCENT = [0, 200, 255]"
definition ba_PURPLE :: rgba where "ba_PURPLE = [191, 90, 242]"
definition ba_GREEN :: rgba where "ba_GREEN = [48, 209, 88]"

lemmas ba_colours = ba_WHITE_def ba_BG_def ba_ACCENT_def ba_PURPLE_def ba_GREEN_def

text \<open>
  \<open>orbit i\<close> is the cosine and sine of the angle of dot \<open>i\<close>, which turns with the clock.
\<close>

type_synonym orbit = "nat \<Rightarrow> rat \<times> rat"

definition draw_julius_logo :: "metrics \<Rightarrow> orbit \<Rightarrow> int \<Rightarrow> int \<Rightarrow> int \<Rightarrow> int \<Rightarrow> gfx" where
  "draw_julius_logo tm orbit cx cy sz alpha =
     (let sc = sz * 3 div 2; font = SysFont ''helvetica'' sz True
      in GBlit (sz * 3, sz * 3) None
           ([GCircle (with_alpha ba_ACCENT alpha) (sc, sc) sz 3, text_middle tm font ''J'' (with_alpha ba_WHITE alpha) sc sc]
            @ map (\<lambda>i. GCircle (with_alpha ([ba_ACCENT, ba_PURPLE, ba_GREEN] ! i) alpha)
                (sc + trunc (fst (orbit i) * of_int (sz + 8)), sc + trunc (snd (orbit i) * of_int (sz + 8))) 4 0) [0, 1, 2])
           (cx - sz * 3 div 2, cy - sz * 3 div 2))"

definition ba_font_big :: font where "ba_font_big = SysFont ''helvetica'' 48 True"
definition ba_font_med :: font where "ba_font_med = SysFont ''helvetica'' 18 False"
definition ba_font_small :: font where "ba_font_small = SysFont ''helvetica'' 12 False"

definition ba_title :: "metrics \<Rightarrow> int \<Rightarrow> int \<Rightarrow> rgba \<Rightarrow> rgba \<Rightarrow> gfx list" where
  "ba_title tm w h c1 c2 =
     [text_centred tm ba_font_big ''Julius'' c1 (w div 2) (h div 2 + 20), text_centred tm ba_font_med ''OS'' c2 (w div 2) (h div 2 + 72)]"

subsection \<open>The frames\<close>

text \<open>Phase 1: the logo fades in, the title from frame 46 on.\<close>

definition fade_frame :: "metrics \<Rightarrow> int \<Rightarrow> int \<Rightarrow> orbit \<Rightarrow> nat \<Rightarrow> gfx list" where
  "fade_frame tm w h orbit frame =
     [GFill ba_BG, draw_julius_logo tm orbit (w div 2) (h div 2 - 40) 36 (min 255 (int frame * 3))]
     @ (if frame > 45 then
          (let ta = min 255 ((int frame - 45) * 6) in ba_title tm w h (with_alpha ba_WHITE ta) (with_alpha ba_ACCENT ta))
        else [])
     @ [GFlip]"

definition boot_messages :: "string list" where
  "boot_messages = [''Initializing kernel...'', ''Loading drivers...'', ''Starting services...'', ''Mounting filesystem...'', ''Starting Julius OS...'']"

text \<open>Phase 2: the messages up to the current one and the progress bar.\<close>

definition bar_w :: "int \<Rightarrow> nat \<Rightarrow> nat \<Rightarrow> int" where
  "bar_w w i frame = trunc (of_int (w - 60) * (of_nat (i * 12 + frame) / of_nat (length boot_messages * 12)))"

definition load_frame :: "metrics \<Rightarrow> int \<Rightarrow> int \<Rightarrow> orbit \<Rightarrow> nat \<Rightarrow> nat \<Rightarrow> gfx list" where
  "load_frame tm w h orbit i frame =
     [GFill ba_BG, draw_julius_logo tm orbit (w div 2) (h div 2 - 40) 36 255] @ ba_title tm w h ba_WHITE ba_ACCENT
     @ map (\<lambda>(j, m). text_centred tm ba_font_small m (if j = i then ba_WHITE else [60, 60, 70]) (w div 2) (h div 2 + 100 + int j * 16))
         (enum (take (i + 1) boot_messages))
     @ round_rect [40, 40, 50] (30, h - 40, w - 60, 6) 3
     @ round_rect ba_ACCENT (30, h - 40, bar_w w i frame, 6) 3
     @ [GFlip]"

text \<open>Phase 3: the flash.\<close>

definition flash_frame :: "metrics \<Rightarrow> int \<Rightarrow> int \<Rightarrow> orbit \<Rightarrow> nat \<Rightarrow> gfx list" where
  "flash_frame tm w h orbit frame =
     [GFill ba_BG, draw_julius_logo tm orbit (w div 2) (h div 2 - 40) 36 255] @ ba_title tm w h ba_WHITE ba_ACCENT
     @ [GBlit (w, h) (Some (min 255 (int frame * 12 * 3))) [GFill ba_WHITE] (0, 0), GFlip]"

subsection \<open>Playing\<close>

text \<open>
  \<open>show_frames\<close> runs one loop of \<open>play\<close> from frame number \<open>k\<close> on: a frame is drawn, then the events
  pending are taken from the queue (\<open>polls k\<close>) and \<open>QUIT\<close> among them returns. The result is what was
  shown and the number of the next frame, or \<open>None\<close> when the method returned.
\<close>

fun show_frames :: "(nat \<Rightarrow> event list) \<Rightarrow> nat \<Rightarrow> gfx list list \<Rightarrow> gfx list list \<times> nat option" where
  "show_frames polls k [] = ([], Some k)"
| "show_frames polls k (f # fs) =
     (if Quit \<in> set (polls k) then ([f], None)
      else (let (out, r) = show_frames polls (Suc k) fs in (f # out, r)))"

text \<open>\<open>play\<close>; \<open>orbits k\<close> are the dots in frame \<open>k\<close>.\<close>

definition fade_frames :: "metrics \<Rightarrow> int \<Rightarrow> int \<Rightarrow> (nat \<Rightarrow> orbit) \<Rightarrow> gfx list list" where
  "fade_frames tm w h orbits = map (\<lambda>f. fade_frame tm w h (orbits f) f) [0..<90]"

definition load_frames :: "metrics \<Rightarrow> int \<Rightarrow> int \<Rightarrow> (nat \<Rightarrow> orbit) \<Rightarrow> gfx list list" where
  "load_frames tm w h orbits =
     concat (map (\<lambda>i. map (\<lambda>f. load_frame tm w h (orbits (90 + i * 12 + f)) i f) [0..<12]) [0..<length boot_messages])"

definition flash_frames :: "metrics \<Rightarrow> int \<Rightarrow> int \<Rightarrow> (nat \<Rightarrow> orbit) \<Rightarrow> gfx list list" where
  "flash_frames tm w h orbits = map (\<lambda>f. flash_frame tm w h (orbits (150 + f)) f) [0..<20]"

definition play :: "metrics \<Rightarrow> int \<Rightarrow> int \<Rightarrow> (nat \<Rightarrow> orbit) \<Rightarrow> (nat \<Rightarrow> event list) \<Rightarrow> gfx list list \<times> nat option" where
  "play tm w h orbits polls =
     (case show_frames polls 0 (fade_frames tm w h orbits) of
        (out1, None) \<Rightarrow> (out1, None)
      | (out1, Some k1) \<Rightarrow>
          (case show_frames polls k1 (load_frames tm w h orbits) of
             (out2, None) \<Rightarrow> (out1 @ out2, None)
           | (out2, Some k2) \<Rightarrow>
               (case show_frames polls k2 (flash_frames tm w h orbits) of (out3, r) \<Rightarrow> (out1 @ out2 @ out3, r))))"

subsection \<open>The launcher's boot screen\<close>

definition bs_title :: "metrics \<Rightarrow> int option \<Rightarrow> gfx list" where
  "bs_title tm alpha =
     (let ft = SysFont ''monospace'' 22 True; fs = SysFont ''monospace'' 10 False
      in [GText ft ''Julius OS'' [0, 200, 255] alpha ((240 - get_width tm ft ''Julius OS'') div 2, 85),
          GText fs ''Built for control.'' [255, 255, 255] alpha ((240 - get_width tm fs ''Built for control.'') div 2, 112)])"

definition bs_messages :: "string list" where
  "bs_messages = [''Initializing kernel...'', ''Loading drivers...'', ''Starting services...'', ''Mounting filesystem...'', ''Loading Julius OS...'']"

definition bs_font_small :: font where "bs_font_small = SysFont ''monospace'' 9 False"

text \<open>The 51 frames of the fade, one frame per message, and the fifty of the bar.\<close>

definition boot_screen :: "metrics \<Rightarrow> gfx list list" where
  "boot_screen tm =
     map (\<lambda>k. [GFill [10, 10, 20]] @ bs_title tm (Some (5 * int k)) @ [GFlip]) [0..<51]
     @ map (\<lambda>n. [GFill [10, 10, 20]] @ bs_title tm None
          @ map (\<lambda>(idx, m). text_at bs_font_small m (if idx \<noteq> n then [50, 50, 80] else [255, 255, 255]) (20, 160 + int idx * 13))
              (enum (take (n + 1) bs_messages)) @ [GFlip]) [0..<length bs_messages]
     @ map (\<lambda>k. [GFill [10, 10, 20]] @ bs_title tm None
          @ map (\<lambda>(idx, m). text_at bs_font_small m [50, 50, 80] (20, 160 + int idx * 13)) (enum bs_messages)
          @ [GRect [50, 50, 80] (20, 225, 240 - 40, 6) 0 3, GRect [0, 200, 255] (20, 225, 4 * int k, 6) 0 3, GFlip]) [0..<50]"

subsection \<open>Lemmas\<close>

lemma show_frames_append:
  "show_frames polls k (fs @ gs) =
     (case show_frames polls k fs of
        (out, None) \<Rightarrow> (out, None)
      | (out, Some k') \<Rightarrow> (case show_frames polls k' gs of (out', r) \<Rightarrow> (out @ out', r)))"
  by (induction fs arbitrary: k) (auto split: prod.splits option.splits)

definition all_frames :: "metrics \<Rightarrow> int \<Rightarrow> int \<Rightarrow> (nat \<Rightarrow> orbit) \<Rightarrow> gfx list list" where
  "all_frames tm w h orbits = fade_frames tm w h orbits @ load_frames tm w h orbits @ flash_frames tm w h orbits"

lemma play_all: "play tm w h orbits polls = show_frames polls 0 (all_frames tm w h orbits)"
  by (auto simp: play_def all_frames_def show_frames_append split: prod.splits option.splits)

lemma load_frames_length: "length (load_frames tm w h orbits) = 60"
  by (simp add: load_frames_def boot_messages_def length_concat comp_def upt_rec)

lemma all_frames_length: "length (all_frames tm w h orbits) = 170"
  by (simp add: all_frames_def load_frames_length fade_frames_def flash_frames_def)

text \<open>The frames shown: all of them, or those up to and including the one during which \<open>QUIT\<close> arrived.\<close>

lemma show_frames_no_quit:
  "\<forall>j < length fs. Quit \<notin> set (polls (k + j)) \<Longrightarrow> show_frames polls k fs = (fs, Some (k + length fs))"
proof (induction fs arbitrary: k)
  case (Cons f fs)
  have "Quit \<notin> set (polls k)" using Cons.prems [rule_format, of 0] by simp
  moreover have "\<forall>j < length fs. Quit \<notin> set (polls (Suc k + j))" using Cons.prems [rule_format, of "Suc _"] by simp
  ultimately show ?case using Cons.IH [of "Suc k"] by simp
qed simp

lemma show_frames_quit:
  assumes "n < length fs" "Quit \<in> set (polls (k + n))" "\<forall>j < n. Quit \<notin> set (polls (k + j))"
  shows "show_frames polls k fs = (take (Suc n) fs, None)"
  using assms
proof (induction fs arbitrary: k n)
  case (Cons f fs)
  show ?case
  proof (cases n)
    case 0
    with Cons.prems(2) show ?thesis by simp
  next
    case (Suc m)
    have "Quit \<notin> set (polls k)" using Cons.prems(3) [rule_format, of 0] Suc by simp
    moreover have "\<forall>j < m. Quit \<notin> set (polls (Suc k + j))" using Cons.prems(3) [rule_format, of "Suc _"] Suc by simp
    ultimately show ?thesis using Cons.IH [of m "Suc k"] Cons.prems(1,2) Suc by simp
  qed
qed simp

lemma ba_colours_ok: "colour_ok ba_WHITE" "colour_ok ba_BG" "colour_ok ba_ACCENT" "colour_ok ba_PURPLE" "colour_ok ba_GREEN"
  "0 \<le> a \<Longrightarrow> a \<le> 255 \<Longrightarrow> colour_ok (with_alpha ba_WHITE a)" "0 \<le> a \<Longrightarrow> a \<le> 255 \<Longrightarrow> colour_ok (with_alpha ba_ACCENT a)"
  "0 \<le> a \<Longrightarrow> a \<le> 255 \<Longrightarrow> colour_ok (with_alpha ba_PURPLE a)" "0 \<le> a \<Longrightarrow> a \<le> 255 \<Longrightarrow> colour_ok (with_alpha ba_GREEN a)"
  by (simp_all add: ba_colours with_alpha_def gfx_simps)

lemma logo_ok: "0 \<le> alpha \<Longrightarrow> alpha \<le> 255 \<Longrightarrow> gfx_ok (draw_julius_logo tm orbit cx cy 36 alpha)"
  by (simp add: draw_julius_logo_def Let_def ba_colours_ok gfx_simps)

lemma title_ok: "colour_ok a \<Longrightarrow> colour_ok b \<Longrightarrow> list_all gfx_ok (ba_title tm w h a b)"
  by (simp add: ba_title_def gfx_simps)

lemmas boot_ok_simps = logo_ok title_ok ba_colours_ok round_rect_ok gfx_simps list_all_map

theorem boot_frames_ok:
  assumes "0 \<le> w" "0 \<le> h"
  shows "list_all (list_all gfx_ok) (all_frames tm w h orbits)"
  using assms
  by (auto simp: all_frames_def fade_frames_def load_frames_def flash_frames_def fade_frame_def load_frame_def flash_frame_def
      boot_ok_simps list_all_concat Let_def split_beta)

text \<open>The progress bar: exact, growing with every frame, and never full.\<close>

lemma bar_w_eq: "60 \<le> w \<Longrightarrow> bar_w w i frame = (w - 60) * int (i * 12 + frame) div 60"
proof -
  assume "60 \<le> w"
  have "(of_int (w - 60) * (of_nat (i * 12 + frame) / of_nat (length boot_messages * 12)) :: rat) =
      of_int ((w - 60) * int (i * 12 + frame)) / of_int 60"
    by (simp add: boot_messages_def)
  moreover have "0 \<le> (of_int ((w - 60) * int (i * 12 + frame)) / of_int 60 :: rat)" using \<open>60 \<le> w\<close> by simp
  ultimately show ?thesis unfolding bar_w_def by (simp only: trunc_def floor_divide_of_int_eq) simp
qed

lemma sixtieth_less: "0 < (a :: int) \<Longrightarrow> n < 60 \<Longrightarrow> a * n div 60 < a"
proof -
  assume "0 < a" "n < 60"
  then have "a * n < a * 60" by simp
  then show "a * n div 60 < a" by (simp add: div_less_iff_less_mult)
qed

lemma sixtieth_mono: "60 \<le> (a :: int) \<Longrightarrow> n < m \<Longrightarrow> a * n div 60 < a * m div 60"
proof -
  assume a: "60 \<le> a" and "n < m"
  then have "a * (n + 1) \<le> a * m" by (intro mult_left_mono) simp_all
  then have "a * n + 60 \<le> a * m" using a by (simp add: distrib_left)
  then show "a * n div 60 < a * m div 60" by linarith
qed

theorem boot_bar_grows:
  assumes "120 \<le> w" "i < length boot_messages" "frame < 12"
  shows "0 \<le> bar_w w i frame \<and> bar_w w i frame < w - 60
    \<and> (\<forall>j g. i * 12 + frame < j * 12 + g \<longrightarrow> bar_w w i frame < bar_w w j g)"
proof -
  have "int (i * 12 + frame) < 60" "60 \<le> w" using assms by (simp_all add: boot_messages_def)
  then show ?thesis
    unfolding bar_w_eq [OF \<open>60 \<le> w\<close>] using assms(1) by (auto intro!: sixtieth_less sixtieth_mono simp: pos_imp_zdiv_nonneg_iff simp del: of_nat_add of_nat_mult)
qed

text \<open>The boot screen of the launcher: 106 frames of valid calls; its bar ends four pixels short.\<close>

lemma boot_screen_ok: "list_all (list_all gfx_ok) (boot_screen tm)" "length (boot_screen tm) = 106"
  by (auto simp: boot_screen_def bs_title_def bs_messages_def Let_def list_all_map gfx_simps split_beta)

end
