(* ===== verification/Ui_Boot.thy ===== *)
theory Ui_Boot
  imports Boot_Screens Ui_Crash
begin

text \<open>
  The start of the main interface (\<^verbatim>\<open>src/src/julius_ui.py\<close>): the boot animation is played to its end
  or to the first \<open>QUIT\<close>, what it returns is not looked at, and the event loop begins.
\<close>

definition julius_main ::
    "metrics \<Rightarrow> (nat \<Rightarrow> orbit) \<Rightarrow> (nat \<Rightarrow> event list) \<Rightarrow> ui \<Rightarrow> (ui_env \<times> rat \<times> (rat \<times> event) list) list \<Rightarrow> gfx list list \<times> ui res" where
  "julius_main tm orbits polls s frames =
     (let (shown, _) = play tm W H orbits polls in (shown, run_events ui_loop s frames))"

text \<open>
  (C35) The boot animation ends: it shows its 170 frames, or stops with the frame in which the
  first \<open>QUIT\<close> arrived. That event is lost: the interface then starts and runs exactly as if it
  had not been closed.
\<close>

theorem boot_swallows_quit:
  "((\<forall>k < 170. Quit \<notin> set (polls k)) \<longrightarrow> length (fst (julius_main tm orbits polls s frames)) = 170)
   \<and> (\<forall>n < 170. Quit \<in> set (polls n) \<and> (\<forall>j < n. Quit \<notin> set (polls j)) \<longrightarrow>
        length (fst (julius_main tm orbits polls s frames)) = Suc n)
   \<and> snd (julius_main tm orbits polls s frames) = snd (julius_main tm orbits (\<lambda>_. []) s frames)"
proof -
  have len: "length (all_frames tm W H orbits) = 170" by (rule all_frames_length)
  have "(\<forall>k < 170. Quit \<notin> set (polls k)) \<longrightarrow> fst (play tm W H orbits polls) = all_frames tm W H orbits"
    using show_frames_no_quit [of "all_frames tm W H orbits" polls 0] by (simp add: play_all len)
  moreover have "fst (play tm W H orbits polls) = take (Suc n) (all_frames tm W H orbits)"
    if "n < 170" "Quit \<in> set (polls n)" "\<forall>j < n. Quit \<notin> set (polls j)" for n
    using that show_frames_quit [of n "all_frames tm W H orbits" polls 0] by (simp add: play_all len)
  ultimately show ?thesis by (simp add: julius_main_def split_beta len)
qed

theorem boot_swallows_quit_witness:
  "length (fst (julius_main (\<lambda>_ _. (10, 10)) (\<lambda>_ _. (1, 0)) (\<lambda>k. if k = 30 then [Quit] else []) demo_start [])) = 31
   \<and> snd (julius_main (\<lambda>_ _. (10, 10)) (\<lambda>_ _. (1, 0)) (\<lambda>k. if k = 30 then [Quit] else []) demo_start []) = Inr demo_start"
proof -
  have "snd (julius_main (\<lambda>_ _. (10, 10)) (\<lambda>_ _. (1, 0)) (\<lambda>_. []) demo_start []) = Inr demo_start"
    by (simp add: julius_main_def split_beta)
  then show ?thesis
    using boot_swallows_quit [of "\<lambda>k. if k = 30 then [Quit] else []" "\<lambda>_ _. (10, 10)" "\<lambda>_ _. (1, 0)" demo_start "[]"] by simp
qed

end
