(* ===== verification/Launcher_Screens.thy ===== *)
theory Launcher_Screens
  imports Launchers Graphics
begin

text \<open>
  The screens of the two small launchers, \<^verbatim>\<open>src/src/run.py\<close> and \<^verbatim>\<open>src/src/launcher/launcher.py\<close>: the cards in
  their colours, the scroll bar, the recent applications and the gesture bar. What the status bar
  draws is an argument.
\<close>

subsection \<open>Cards\<close>

definition CARD_COLOURS :: "(string \<times> rgba) list" where
  "CARD_COLOURS =
     [(''Terminal'', [0, 180, 120]), (''WiFi'', [0, 120, 255]), (''IR'', [255, 80, 80]),
      (''Bluetooth'', [80, 80, 255]), (''GPIO'', [255, 200, 0]), (''Connect'', [0, 200, 180]),
      (''Transfer'', [180, 0, 255]), (''Clipboard'', [255, 140, 0]), (''Hotspot'', [255, 60, 120]),
      (''Scanner'', [0, 255, 128]), (''Files'', [255, 220, 80]), (''SysMon'', [80, 200, 255]),
      (''SSH'', [0, 255, 200]), (''Notes'', [255, 255, 100]), (''NetTools'', [100, 180, 255]),
      (''Packets'', [255, 100, 200]), (''WakeOnLAN'', [100, 255, 180]), (''SpeedTest'', [255, 180, 50]),
      (''Calc'', [0, 220, 255]), (''Todo'', [100, 255, 100]), (''Passwords'', [255, 100, 100]),
      (''Weather'', [100, 180, 255]), (''Hasher'', [255, 140, 200]), (''Encoder'', [140, 255, 140]),
      (''NetMon'', [0, 200, 255]), (''Editor'', [200, 200, 100]), (''Timer'', [255, 160, 80]),
      (''ProcKill'', [255, 60, 60]), (''NetMapper'', [60, 200, 255]), (''SysInfo'', [180, 180, 255]),
      (''Firewall'', [255, 80, 40]), (''Logs'', [200, 255, 200]), (''USB'', [255, 200, 100]),
      (''Settings'', [150, 150, 150])]"

definition LAUNCHER_APPS :: "(string \<times> rgba) list" where
  "LAUNCHER_APPS =
     [(''Terminal'', [0, 180, 120]), (''WiFi'', [0, 120, 255]), (''IR'', [255, 80, 80]),
      (''Bluetooth'', [80, 80, 255]), (''GPIO'', [255, 200, 0]), (''Connect'', [0, 200, 180]),
      (''Transfer'', [180, 0, 255]), (''Clipboard'', [255, 140, 0]), (''Hotspot'', [255, 60, 120]),
      (''Scanner'', [0, 255, 128]), (''Files'', [255, 220, 80]), (''SysMon'', [80, 200, 255]),
      (''SSH'', [0, 255, 200]), (''Notes'', [255, 255, 100]), (''NetTools'', [100, 180, 255]),
      (''Packets'', [255, 100, 200]), (''WakeOnLAN'', [100, 255, 180]), (''SpeedTest'', [255, 180, 50]),
      (''Calc'', [0, 220, 255]), (''Todo'', [100, 255, 100]), (''Passwords'', [255, 100, 100]),
      (''Weather'', [100, 180, 255]), (''Hasher'', [255, 140, 200]), (''Encoder'', [140, 255, 140]),
      (''NetMon'', [0, 200, 255]), (''Editor'', [200, 200, 100]), (''Timer'', [255, 160, 80]),
      (''ProcKill'', [255, 60, 60]), (''NetMapper'', [60, 200, 255]), (''SysInfo'', [180, 180, 255]),
      (''Firewall'', [255, 80, 40]), (''Logs'', [200, 255, 200]), (''USB'', [255, 200, 100]),
      (''Settings'', [150, 150, 150])]"

definition launcher_instances :: "string list" where
  "launcher_instances =
     [''Terminal'', ''WiFi'', ''IR'', ''Bluetooth'', ''GPIO'', ''Connect'', ''Transfer'', ''Clipboard'',
      ''Hotspot'', ''Scanner'', ''Files'', ''SysMon'', ''SSH'', ''Notes'', ''NetTools'', ''Packets'',
      ''WakeOnLAN'', ''SpeedTest'', ''Calc'', ''Todo'', ''Passwords'', ''Weather'', ''Hasher'', ''Encoder'',
      ''NetMon'', ''Editor'', ''Timer'', ''ProcKill'', ''NetMapper'', ''SysInfo'', ''Firewall'', ''Logs'',
      ''USB'', ''Settings'']"

definition l_BG :: rgba where "l_BG = [10, 10, 20]"
definition l_CARD :: rgba where "l_CARD = [20, 30, 50]"
definition l_ACCENT :: rgba where "l_ACCENT = [0, 200, 255]"
definition l_TEXT :: rgba where "l_TEXT = [255, 255, 255]"
definition l_DIM :: rgba where "l_DIM = [80, 80, 80]"

definition l_font_big :: font where "l_font_big = SysFont ''monospace'' 11 True"
definition l_font_small :: font where "l_font_small = SysFont ''monospace'' 9 False"

definition card_gfx :: "rgba \<Rightarrow> rect \<Rightarrow> string \<Rightarrow> gfx list" where
  "card_gfx col r name =
     (case r of (x, y, w, h) \<Rightarrow>
        [GRect l_CARD (x, y, w, h) 0 8, GRect col (x, y, w, h) 1 8, text_at l_font_big name l_TEXT (x + 8, y + h div 2 - 6)])"

text \<open>The scroll bar: its height and where it starts.\<close>

definition scroll_bar_h :: "int \<Rightarrow> int" where
  "scroll_bar_h total_rows = (LH - 28) * (LH - 28) div (total_rows * (card_h + PAD))"

definition scroll_bar_y :: "int \<Rightarrow> int \<Rightarrow> int \<Rightarrow> int" where
  "scroll_bar_y total_rows max_scroll scroll =
     28 + trunc (of_int scroll / of_int max_scroll * of_int ((LH - 28) - scroll_bar_h total_rows))"

definition scroll_bar :: "int \<Rightarrow> int \<Rightarrow> int \<Rightarrow> gfx list" where
  "scroll_bar total_rows max_scroll scroll =
     (if max_scroll > 0
      then [GRect l_ACCENT (236, scroll_bar_y total_rows max_scroll scroll, 3, scroll_bar_h total_rows) 0 2] else [])"

subsection \<open>run.py\<close>

definition draw_gesture_hint :: "gfx list" where
  "draw_gesture_hint =
     [GRect [20, 20, 35] (0, 228, 240, 12) 0 0, GLine l_DIM (0, 228) (240, 228) 1, GRect l_DIM (85, 232, 70, 3) 0 2]"

definition draw_recent :: "string list \<Rightarrow> gfx list" where
  "draw_recent recent =
     [GFill l_BG, text_at l_font_big ''Recent Apps'' l_ACCENT (8, 8), GLine l_ACCENT (0, 24) (240, 24) 1]
     @ (if recent = [] then [text_at l_font_big ''No recent apps'' l_DIM (50, 110)]
        else concat (map (\<lambda>(i, n). card_gfx (case map_of CARD_COLOURS n of Some c \<Rightarrow> c | None \<Rightarrow> l_ACCENT) (recent_at i) n) (enum (take 6 recent))))
     @ [text_at l_font_small ''Tap=open  Swipe down=home'' l_DIM (8, 228), GFlip]"

definition card_colour :: "string \<Rightarrow> rgba" where
  "card_colour n = (case map_of CARD_COLOURS n of Some c \<Rightarrow> c | None \<Rightarrow> [])"

definition draw_launcher :: "gfx list \<Rightarrow> int \<Rightarrow> gfx list" where
  "draw_launcher bar scroll =
     [GFill l_BG] @ bar
     @ concat (map (\<lambda>(r, n). card_gfx (card_colour n) r n) (drawn_cards scroll))
     @ scroll_bar ((int (length CARD_APPS) + 1) div 2) get_max_scroll scroll
     @ draw_gesture_hint @ [GFlip]"

subsection \<open>launcher.py\<close>

definition launcher_card_dims :: "int \<times> int" where
  "launcher_card_dims = ((240 - 8 * 3) div 2, (240 - 28 - 8 * 4) div 3)"

definition launcher_card :: "int \<Rightarrow> nat \<Rightarrow> rect" where
  "launcher_card scroll i =
     (let (cw, ch) = launcher_card_dims
      in (8 + int (i mod 2) * (cw + 8), 28 + 8 + int (i div 2) * (ch + 8) - scroll, cw, ch))"

definition launcher_draw :: "gfx list \<Rightarrow> int \<Rightarrow> gfx list" where
  "launcher_draw bar scroll =
     (let (cw, ch) = launcher_card_dims; total_rows = (int (length LAUNCHER_APPS) + 1) div 2;
          max_scroll = max 0 (total_rows * (ch + 8) - (240 - 28))
      in [GFill l_BG] @ bar
         @ concat (map (\<lambda>(i, (n, col)). let y = fst (snd (launcher_card scroll i))
              in if y + ch < 28 \<or> y > 240 then [] else card_gfx col (launcher_card scroll i) n) (enum LAUNCHER_APPS))
         @ scroll_bar total_rows max_scroll scroll @ [GFlip])"

definition launcher_tapped_app :: "int \<Rightarrow> pos \<Rightarrow> string option" where
  "launcher_tapped_app scroll p =
     map_option (fst \<circ> snd) (find (\<lambda>(i, a). collidepoint (launcher_card scroll i) p) (enum LAUNCHER_APPS))"

subsection \<open>Lemmas\<close>

lemma card_lists: "map fst CARD_COLOURS = CARD_APPS" "LAUNCHER_APPS = CARD_COLOURS" "set launcher_instances = set CARD_APPS"
proof -
  show "map fst CARD_COLOURS = CARD_APPS" "LAUNCHER_APPS = CARD_COLOURS" by code_simp+
  have "list_all (\<lambda>n. n \<in> set CARD_APPS) launcher_instances" "list_all (\<lambda>n. n \<in> set launcher_instances) CARD_APPS" by code_simp+
  then show "set launcher_instances = set CARD_APPS" by (auto simp: list_all_iff)
qed

lemma launcher_card_eq: "launcher_card = card_at"
  by (auto simp: launcher_card_def launcher_card_dims_def card_at_def card_dims fun_eq_iff)

lemma find_enum_map: "find (\<lambda>(i, b). P i) (enum (map f xs)) = map_option (\<lambda>(i, a). (i, f a)) (find (\<lambda>(i, a). P i) (enum xs))"
proof -
  have "find (\<lambda>(i, b). P i) (zip ks (map f xs)) = map_option (\<lambda>(i, a). (i, f a)) (find (\<lambda>(i, a). P i) (zip ks xs))" for ks
    by (induction ks xs rule: list_induct2') auto
  then show ?thesis by (simp add: enum_def)
qed

lemma card_colours_ok: "list_all (\<lambda>(n, c). colour_ok c) CARD_COLOURS"
  by code_simp

lemma card_colour_ok: "n \<in> set CARD_APPS \<Longrightarrow> colour_ok (card_colour n)"
proof -
  assume "n \<in> set CARD_APPS"
  then obtain c where "map_of CARD_COLOURS n = Some c"
    by (cases "map_of CARD_COLOURS n") (auto simp: map_of_eq_None_iff card_lists(1) [symmetric])
  with card_colours_ok show ?thesis by (auto simp: card_colour_def list_all_iff dest!: map_of_SomeD)
qed

lemma launcher_tapped_eq: "launcher_tapped_app = tapped_card"
  unfolding launcher_tapped_app_def tapped_card_def fun_eq_iff launcher_card_eq card_lists(2) card_lists(1) [symmetric] find_enum_map
  by (auto simp: option.map_comp comp_def split_beta)

lemma scroll_bar_inside:
  assumes "0 \<le> sc" "sc \<le> get_max_scroll"
  shows "28 \<le> scroll_bar_y 17 get_max_scroll sc \<and> scroll_bar_y 17 get_max_scroll sc + scroll_bar_h 17 \<le> LH"
proof -
  have h: "scroll_bar_h 17 = 38" by (simp add: scroll_bar_h_def card_dims)
  have "(of_int sc :: rat) / 944 * 174 \<le> of_int 174" using assms(2) by (simp add: max_scroll_eq)
  then have "0 \<le> trunc ((of_int sc :: rat) / 944 * 174) \<and> trunc ((of_int sc :: rat) / 944 * 174) \<le> 174"
    using assms(1) by (intro trunc_bounds) simp_all
  then show ?thesis by (simp add: scroll_bar_y_def h card_dims max_scroll_eq)
qed

lemma launcher_colours_ok: "colour_ok l_BG" "colour_ok l_CARD" "colour_ok l_ACCENT" "colour_ok l_TEXT" "colour_ok l_DIM"
  by (simp_all add: l_BG_def l_CARD_def l_ACCENT_def l_TEXT_def l_DIM_def gfx_simps)

lemma card_gfx_ok: "colour_ok c \<Longrightarrow> list_all gfx_ok (card_gfx c r n)"
  by (cases r) (simp add: card_gfx_def launcher_colours_ok gfx_simps)

lemma drawn_cards_names: "(r, n) \<in> set (drawn_cards sc) \<Longrightarrow> n \<in> set CARD_APPS"
  by (auto simp: drawn_cards_def set_enum_iff)

text \<open>Neither launcher's card screen, nor the recent applications, can raise.\<close>

theorem launcher_screens_ok:
  assumes "list_all gfx_ok bar"
  shows "list_all gfx_ok (draw_launcher bar sc)" "list_all gfx_ok (launcher_draw bar sc)"
    "list_all gfx_ok (draw_recent recent)"
proof -
  have "list_all gfx_ok (card_gfx (card_colour n) r n)" if "(r, n) \<in> set (drawn_cards sc)" for r n
    using that by (intro card_gfx_ok card_colour_ok drawn_cards_names)
  with assms show "list_all gfx_ok (draw_launcher bar sc)"
    by (auto simp: draw_launcher_def scroll_bar_def draw_gesture_hint_def list_all_concat launcher_colours_ok gfx_simps)
  have "colour_ok (snd (snd e))" if "e \<in> set (enum LAUNCHER_APPS)" for e
  proof -
    have "snd e \<in> set CARD_COLOURS" using that unfolding card_lists(2) by (metis prod.collapse set_enum_iff nth_mem)
    with card_colours_ok show ?thesis by (auto simp: list_all_iff)
  qed
  then have "colour_ok c" if "(i, n, c) \<in> set (enum LAUNCHER_APPS)" for i n c using that by force
  with assms show "list_all gfx_ok (launcher_draw bar sc)"
    by (auto simp: launcher_draw_def scroll_bar_def list_all_concat launcher_colours_ok gfx_simps Let_def split_beta intro!: card_gfx_ok)
  have "colour_ok (case map_of CARD_COLOURS n of Some c \<Rightarrow> c | None \<Rightarrow> l_ACCENT)" for n
    using card_colours_ok launcher_colours_ok(3) by (auto simp: list_all_iff split: option.split dest!: map_of_SomeD)
  then show "list_all gfx_ok (draw_recent recent)"
    by (auto simp: draw_recent_def list_all_concat launcher_colours_ok gfx_simps card_gfx_ok)
qed

subsection \<open>Properties\<close>

lemma tapped_card_SomeD:
  assumes "tapped_card sc p = Some n"
  obtains i where "i < length CARD_APPS" "n = CARD_APPS ! i" "collidepoint (card_at sc i) p"
proof -
  from assms obtain e where e: "find (\<lambda>(i, n). collidepoint (card_at sc i) p) (enum CARD_APPS) = Some e" "n = snd e"
    by (auto simp: tapped_card_def)
  then have "e \<in> set (enum CARD_APPS)" "collidepoint (card_at sc (fst e)) p"
    by (auto simp: find_Some_iff in_set_conv_nth split_beta)
  with that [of "fst e"] e(2) set_enum_iff [of "fst e" "snd e"] show thesis by simp
qed

text \<open>
  (C34) Below the status bar of the small launchers a tap opens only a card that is drawn where
  it is touched. On the status bar itself it can open one that is not drawn at all, because the
  list is searched for cards scrolled out of sight.
\<close>

theorem taps_open_drawn_cards:
  "(\<forall>sc p n. 28 \<le> snd p \<and> snd p < LH \<and> tapped_card sc p = Some n \<longrightarrow> (\<exists>r. (r, n) \<in> set (drawn_cards sc) \<and> collidepoint r p))
   \<and> (\<exists>sc p n. 0 \<le> sc \<and> sc \<le> get_max_scroll \<and> 0 \<le> snd p \<and> snd p < 28 \<and> tapped_card sc p = Some n
        \<and> (\<forall>r. (r, n) \<notin> set (drawn_cards sc)))"
proof (intro conjI allI impI)
  fix sc p n
  assume a: "28 \<le> snd p \<and> snd p < LH \<and> tapped_card sc p = Some n"
  then obtain i where i: "i < length CARD_APPS" "n = CARD_APPS ! i" "collidepoint (card_at sc i) p"
    by (auto elim: tapped_card_SomeD)
  have "\<not> (fst (snd (card_at sc i)) + card_h < 28 \<or> fst (snd (card_at sc i)) > LH)"
    using i(3) a by (cases p) (auto simp: card_at_def card_dims)
  with i show "\<exists>r. (r, n) \<in> set (drawn_cards sc) \<and> collidepoint r p"
    by (intro exI [of _ "card_at sc i"]) (auto simp: drawn_cards_def set_enum_iff Let_def image_iff intro!: bexI [of _ "(i, CARD_APPS ! i)"])
next
  have "tapped_card 150 (50, 5) = Some ''IR''" "list_all (\<lambda>(r, n). n \<noteq> ''IR'') (drawn_cards 150)" by code_simp+
  then show "\<exists>sc p n. 0 \<le> sc \<and> sc \<le> get_max_scroll \<and> 0 \<le> snd p \<and> snd p < 28 \<and> tapped_card sc p = Some n \<and> (\<forall>r. (r, n) \<notin> set (drawn_cards sc))"
    by (intro exI [of _ 150] exI [of _ "(50, 5)"] exI [of _ "''IR''"]) (auto simp: max_scroll_eq list_all_iff)
qed

theorem taps_open_drawn_cards_witness:
  "tapped_card 0 (20, 60) = Some ''Terminal'' \<and> (\<exists>r. (r, ''Terminal'') \<in> set (drawn_cards 0) \<and> collidepoint r (20, 60))"
proof -
  have "tapped_card 0 (20, 60) = Some ''Terminal''" by code_simp
  with taps_open_drawn_cards show ?thesis by (auto simp: card_dims)
qed

end
