(* ===== verification/Cloud_Sync.thy ===== *)
theory Cloud_Sync
  imports Julius_Cloud Json_Lines Posix_Path
begin

text \<open>
  The synchronisation thread of Julius Cloud (\<open>sync\<close> in \<^verbatim>\<open>src/src/system/julius_cloud.py\<close>): the
  manifest of the local files, the files the server asks for, and the files it sends.

  The disk maps paths to contents. Arguments stand for the traversal of \<open>os.walk\<close>, for SHA-256,
  for the paths that may not be written, for the host name, the clock and the texts of
  exceptions. The connection is the stream of segments the server sends before it closes. An
  exchange that never ends is the value \<open>None\<close>; one that raises is \<open>Some\<close> of the exception and
  of what was sent and stored until then.
\<close>

type_synonym disk = "string \<rightharpoonup> byte list"

definition CLOUD_DIR :: string where
  "CLOUD_DIR = ''/var/julius/cloud/''"

text \<open>The entry of a local file; its modification time, which nothing reads, is left out.\<close>

record local_file =
  lf_name :: string
  lf_path :: string
  lf_size :: int
  lf_hash :: string

record cloud_env =
  ce_walk :: "disk \<Rightarrow> (string \<times> string) list"
  ce_sha256 :: "byte list \<Rightarrow> string"
  ce_denied :: "string \<Rightarrow> bool"
  ce_hostname :: string
  ce_now :: string
  ce_msg :: "py_error \<Rightarrow> string"

text \<open>\<open>file_hash\<close> feeds the chunks of a file to the digest one after the other.\<close>

definition file_hash :: "cloud_env \<Rightarrow> byte list \<Rightarrow> string" where
  "file_hash env content = ce_sha256 env (concat (file_chunks content))"

fun local_entries :: "cloud_env \<Rightarrow> disk \<Rightarrow> (string \<times> string) list \<Rightarrow> local_file list res" where
  "local_entries env d [] = Inr []"
| "local_entries env d ((root, fname) # es) =
     (case d (path_join root fname) of
        None \<Rightarrow> Inl (OSError (path_join root fname))
      | Some content \<Rightarrow>
          res_bind (local_entries env d es) (\<lambda>fs.
            Inr (\<lparr>lf_name = fname, lf_path = path_join root fname, lf_size = int (length content), lf_hash = file_hash env content\<rparr> # fs)))"

definition get_local_files :: "cloud_env \<Rightarrow> disk \<Rightarrow> local_file list res" where
  "get_local_files env d = local_entries env d (ce_walk env d)"

subsection \<open>The exchange\<close>

record cloud_run =
  cr_conn :: conn
  cr_sent :: "byte list"
  cr_disk :: disk
  cr_synced :: nat

type_synonym run_result = "(py_error option \<times> cloud_run) option"

definition cr_raise :: "py_error \<Rightarrow> cloud_run \<Rightarrow> run_result" where
  "cr_raise e r = Some (Some e, r)"

definition cr_next :: "run_result \<Rightarrow> (cloud_run \<Rightarrow> run_result) \<Rightarrow> run_result" where
  "cr_next m f = (case m of Some (None, r) \<Rightarrow> f r | _ \<Rightarrow> m)"

fun cr_each :: "('a \<Rightarrow> cloud_run \<Rightarrow> run_result) \<Rightarrow> 'a list \<Rightarrow> cloud_run \<Rightarrow> run_result" where
  "cr_each f [] r = Some (None, r)"
| "cr_each f (x # xs) r = cr_next (f x r) (cr_each f xs)"

definition cr_send :: "byte list \<Rightarrow> cloud_run \<Rightarrow> cloud_run" where
  "cr_send bs r = r\<lparr>cr_sent := cr_sent r @ bs\<rparr>"

definition sync_manifest :: "string \<Rightarrow> local_file list \<Rightarrow> json" where
  "sync_manifest host fs =
     JObj [(''action'', JStr ''sync''), (''device'', JStr host),
       (''files'', JList (map (\<lambda>f. JObj [(''name'', JStr (lf_name f)), (''hash'', JStr (lf_hash f)), (''size'', JInt (lf_size f))]) fs))]"

definition upload_header :: "string \<Rightarrow> nat \<Rightarrow> json" where
  "upload_header fname len = JObj [(''action'', JStr ''upload''), (''name'', JStr fname), (''size'', JInt (int len))]"

definition download_request :: "json \<Rightarrow> json" where
  "download_request fname = JObj [(''action'', JStr ''download''), (''name'', fname)]"

text \<open>A file the server needs: the first local file of that name, if any.\<close>

definition upload :: "local_file list \<Rightarrow> json \<Rightarrow> cloud_run \<Rightarrow> run_result" where
  "upload local_fs fname r =
     (case find (\<lambda>f. JStr (lf_name f) = fname) local_fs of
        None \<Rightarrow> Some (None, r)
      | Some lf \<Rightarrow>
          (case cr_disk r (lf_path lf) of
             None \<Rightarrow> cr_raise (OSError (lf_path lf)) r
           | Some data \<Rightarrow>
               Some (None, (cr_send (json_line (upload_header (lf_name lf) (length data)) @ data) r)
                 \<lparr>cr_synced := Suc (cr_synced r)\<rparr>)))"

text \<open>
  A file the server sends: the request, the line with its size, then the bytes. The path is
  joined once the line is read, and the file is opened, and so emptied, before the size is
  looked up.
\<close>

definition store_download :: "cloud_env \<Rightarrow> json \<Rightarrow> json \<Rightarrow> cloud_run \<Rightarrow> run_result" where
  "store_download env fname finfo r =
     (case fname of
        JStr n \<Rightarrow>
          (let fpath = path_join CLOUD_DIR n; r1 = r\<lparr>cr_disk := (cr_disk r)(fpath \<mapsto> [])\<rparr>
           in if ce_denied env fpath then cr_raise (OSError fpath) r
              else
                (case finfo of
                   JObj d \<Rightarrow>
                     (case map_of d ''size'' of
                        None \<Rightarrow> cr_raise KeyError r1
                      | Some sz \<Rightarrow>
                          (case (case sz of JInt k \<Rightarrow> Some k | JBool b \<Rightarrow> Some (if b then 1 else 0) | _ \<Rightarrow> None) of
                             None \<Rightarrow> cr_raise TypeError r1
                           | Some k \<Rightarrow>
                               Some (None, r\<lparr>cr_disk := (cr_disk r)(fpath \<mapsto> fst (recv_body k (cr_conn r))),
                                 cr_conn := snd (recv_body k (cr_conn r)), cr_synced := Suc (cr_synced r)\<rparr>)))
                 | _ \<Rightarrow> cr_raise TypeError r1))
      | _ \<Rightarrow> cr_raise TypeError r)"

definition download :: "cloud_env \<Rightarrow> json \<Rightarrow> cloud_run \<Rightarrow> run_result" where
  "download env fname r =
     (let r1 = cr_send (json_line (download_request fname)) r
      in (case read_header [] (cr_conn r1) of
            None \<Rightarrow> None
          | Some (resp, conn') \<Rightarrow>
              (case decode_json resp of
                 None \<Rightarrow> cr_raise ValueError (r1\<lparr>cr_conn := conn'\<rparr>)
               | Some finfo \<Rightarrow> store_download env fname finfo (r1\<lparr>cr_conn := conn'\<rparr>))))"

text \<open>\<open>for fname in server_manifest.get(key, [])\<close>: what a JSON value iterates over.\<close>

definition iter_json :: "json \<Rightarrow> json list option" where
  "iter_json j =
     (case j of
        JList js \<Rightarrow> Some js
      | JStr t \<Rightarrow> Some (map (\<lambda>c. JStr [c]) t)
      | JObj d \<Rightarrow> Some (map (\<lambda>(k, v). JStr k) d)
      | _ \<Rightarrow> None)"

definition for_key :: "string \<Rightarrow> jdict \<Rightarrow> (json \<Rightarrow> cloud_run \<Rightarrow> run_result) \<Rightarrow> cloud_run \<Rightarrow> run_result" where
  "for_key key d f r =
     (case iter_json (case map_of d key of Some j \<Rightarrow> j | None \<Rightarrow> JList []) of
        None \<Rightarrow> cr_raise TypeError r
      | Some js \<Rightarrow> cr_each f js r)"

definition sync_exchange :: "cloud_env \<Rightarrow> cloud_run \<Rightarrow> run_result" where
  "sync_exchange env r =
     (case get_local_files env (cr_disk r) of
        Inl e \<Rightarrow> cr_raise e r
      | Inr local_fs \<Rightarrow>
          (let r1 = cr_send (json_line (sync_manifest (ce_hostname env) local_fs)) r
           in (case read_header [] (cr_conn r1) of
                 None \<Rightarrow> None
               | Some (resp, conn') \<Rightarrow>
                   (let r2 = r1\<lparr>cr_conn := conn'\<rparr>
                    in (case decode_json resp of
                          None \<Rightarrow> cr_raise ValueError r2
                        | Some (JObj d) \<Rightarrow>
                            cr_next (for_key ''need'' d (upload local_fs) r2) (for_key ''send'' d (download env))
                        | Some _ \<Rightarrow> cr_raise AttributeError r2)))))"

text \<open>
  The whole thread: \<open>server\<close> is the stream of the server, or the exception of connecting. The
  result has the disk and what was sent, and the new state of the screen.
\<close>

definition cloud_summary :: "local_file \<Rightarrow> cloud_file" where
  "cloud_summary f = \<lparr>cf_name = lf_name f, cf_size = lf_size f\<rparr>"

definition sync_thread :: "cloud_env \<Rightarrow> py_error + conn \<Rightarrow> disk \<Rightarrow> julius_cloud \<Rightarrow> (julius_cloud \<times> disk \<times> byte list) option" where
  "sync_thread env server d s =
     (case server of
        Inl e \<Rightarrow> Some (cl_sync_end (Inl (ce_msg env e)) s, d, [])
      | Inr conn \<Rightarrow>
          (case sync_exchange env \<lparr>cr_conn = conn, cr_sent = [], cr_disk = d, cr_synced = 0\<rparr> of
             None \<Rightarrow> None
           | Some (Some e, r) \<Rightarrow> Some (cl_sync_end (Inl (ce_msg env e)) s, cr_disk r, cr_sent r)
           | Some (None, r) \<Rightarrow>
               Some ((case get_local_files env (cr_disk r) of
                        Inl e \<Rightarrow> cl_sync_end (Inl (ce_msg env e)) (cl_save_config (s\<lparr>cl_last_sync := ce_now env\<rparr>))
                      | Inr fs \<Rightarrow> cl_sync_end (Inr (cr_synced r, ce_now env, map cloud_summary fs)) s),
                     cr_disk r, cr_sent r)))"

subsection \<open>A server that keeps the protocol\<close>

text \<open>
  What a server sends that needs the files \<open>needs\<close> and has the files \<open>sends\<close> (name and content)
  for this device.
\<close>

definition server_answer :: "string list \<Rightarrow> (string \<times> byte list) list \<Rightarrow> json" where
  "server_answer needs sends = JObj [(''need'', JList (map JStr needs)), (''send'', JList (map (\<lambda>(n, c). JStr n) sends))]"

definition served_file :: "byte list \<Rightarrow> byte list" where
  "served_file c = json_line (JObj [(''size'', JInt (int (length c)))]) @ c"

definition server_stream :: "string list \<Rightarrow> (string \<times> byte list) list \<Rightarrow> byte list" where
  "server_stream needs sends = json_line (server_answer needs sends) @ concat (map (\<lambda>(n, c). served_file c) sends)"

text \<open>What the device should send for a file that is needed, and the disk it should end with.\<close>

definition upload_bytes :: "local_file list \<Rightarrow> disk \<Rightarrow> string \<Rightarrow> byte list" where
  "upload_bytes fs d n =
     (case find (\<lambda>f. lf_name f = n) fs of
        None \<Rightarrow> []
      | Some lf \<Rightarrow> json_line (upload_header n (length (the (d (lf_path lf))))) @ the (d (lf_path lf)))"

definition stored :: "(string \<times> byte list) list \<Rightarrow> disk \<Rightarrow> disk" where
  "stored sends d = fold (\<lambda>(n, c) d. d(path_join CLOUD_DIR n \<mapsto> c)) sends d"

definition request_bytes :: "(string \<times> byte list) list \<Rightarrow> byte list" where
  "request_bytes sends = concat (map (\<lambda>(n, c). json_line (download_request (JStr n))) sends)"

lemma json_line_back:
  assumes "conn_ok conn" "json_ok (JObj kvs)" "concat conn = json_line (JObj kvs) @ rest"
  shows "\<exists>h conn'. read_header [] conn = Some (h, conn') \<and> decode_json h = Some (JObj kvs) \<and> concat conn' = rest \<and> conn_ok conn'"
  using header_back [OF assms(1,2)] assms(3) by (simp add: json_line_def)

lemma local_entries_read:
  "local_entries env d es = Inr fs \<Longrightarrow> f \<in> set fs \<Longrightarrow>
     \<exists>c. d (lf_path f) = Some c \<and> lf_hash f = ce_sha256 env c \<and> lf_size f = int (length c)"
proof (induction env d es arbitrary: fs rule: local_entries.induct)
  case (2 env d root fname es)
  then show ?case
    by (auto simp: file_hash_def concat_file_chunks res_bind_def split: option.splits sum.splits)
qed simp

lemma find_JStr: "find (\<lambda>f. JStr (lf_name f) = JStr n) fs = find (\<lambda>f. lf_name f = n) fs"
  by (simp add: fun_eq_iff)

lemma find_name_None: "find (\<lambda>f. lf_name f = n) fs = None \<longleftrightarrow> n \<notin> lf_name ` set fs"
  by (auto simp: find_None_iff)

lemma upload_needed:
  assumes "\<forall>f\<in>set fs. cr_disk r (lf_path f) \<noteq> None"
  shows "upload fs (JStr n) r = Some (None, r\<lparr>cr_sent := cr_sent r @ upload_bytes fs (cr_disk r) n,
      cr_synced := cr_synced r + (if n \<in> lf_name ` set fs then 1 else 0)\<rparr>)"
proof (cases "find (\<lambda>f. lf_name f = n) fs")
  case None
  with find_name_None [of n fs] show ?thesis by (simp add: upload_def upload_bytes_def)
next
  case (Some lf)
  then have lf: "lf \<in> set fs" "lf_name lf = n" by (auto simp: find_Some_iff)
  with assms obtain c where "cr_disk r (lf_path lf) = Some c" by fastforce
  with Some lf show ?thesis by (auto simp: upload_def upload_bytes_def cr_send_def)
qed

lemma uploads:
  "\<forall>f\<in>set fs. cr_disk r (lf_path f) \<noteq> None \<Longrightarrow>
     cr_each (upload fs) (map JStr ns) r
     = Some (None, r\<lparr>cr_sent := cr_sent r @ concat (map (upload_bytes fs (cr_disk r)) ns),
         cr_synced := cr_synced r + length (filter (\<lambda>n. n \<in> lf_name ` set fs) ns)\<rparr>)"
proof (induction ns arbitrary: r)
  case (Cons n ns)
  show ?case using Cons.IH [of "r\<lparr>cr_sent := cr_sent r @ upload_bytes fs (cr_disk r) n,
      cr_synced := cr_synced r + (if n \<in> lf_name ` set fs then 1 else 0)\<rparr>"] Cons.prems
    by (simp add: upload_needed cr_next_def)
qed simp

lemma download_served:
  assumes "conn_ok (cr_conn r)" "concat (cr_conn r) = served_file c @ rest" "\<not> ce_denied env (path_join CLOUD_DIR n)"
  shows "\<exists>conn'. download env (JStr n) r = Some (None, r\<lparr>cr_sent := cr_sent r @ json_line (download_request (JStr n)), cr_disk := (cr_disk r)(path_join CLOUD_DIR n \<mapsto> c),
        cr_conn := conn', cr_synced := Suc (cr_synced r)\<rparr>)
      \<and> concat conn' = rest \<and> conn_ok conn'"
proof -
  have "json_ok (JObj [(''size'', JInt (int (length c)))])" by simp
  from json_line_back [OF assms(1) this] assms(2) obtain h conn' where h:
    "read_header [] (cr_conn r) = Some (h, conn')" "decode_json h = Some (JObj [(''size'', JInt (int (length c)))])"
    "concat conn' = c @ rest" "conn_ok conn'"
    by (auto simp: served_file_def)
  have b: "fst (recv_body (int (length c)) conn') = c" using recv_body_take [OF h(4)] h(3) by simp
  with recv_body_concat [of "int (length c)" conn'] h(3) have "concat (snd (recv_body (int (length c)) conn')) = rest" by simp
  moreover have "conn_ok (snd (recv_body (int (length c)) conn'))" using h(4) by (rule recv_body_ok)
  ultimately show ?thesis using h b assms(3) by (auto simp: download_def store_download_def cr_send_def)
qed

lemma downloads:
  "conn_ok (cr_conn r) \<Longrightarrow> concat (cr_conn r) = concat (map (\<lambda>(n, c). served_file c) sends) \<Longrightarrow>
   \<forall>(n, c)\<in>set sends. \<not> ce_denied env (path_join CLOUD_DIR n) \<Longrightarrow>
     \<exists>r'. cr_each (download env) (map (\<lambda>(n, c). JStr n) sends) r = Some (None, r')
       \<and> cr_sent r' = cr_sent r @ request_bytes sends \<and> cr_disk r' = stored sends (cr_disk r)
       \<and> cr_synced r' = cr_synced r + length sends"
proof (induction sends arbitrary: r)
  case Nil
  then show ?case by (simp add: request_bytes_def stored_def)
next
  case (Cons x sends)
  obtain n c where x: "x = (n, c)" by fastforce
  with Cons.prems have "concat (cr_conn r) = served_file c @ concat (map (\<lambda>(n, c). served_file c) sends)"
    "\<not> ce_denied env (path_join CLOUD_DIR n)" by simp_all
  from download_served [OF Cons.prems(1) this] obtain conn' where d:
    "download env (JStr n) r = Some (None, r\<lparr>cr_sent := cr_sent r @ json_line (download_request (JStr n)), cr_disk := (cr_disk r)(path_join CLOUD_DIR n \<mapsto> c),
        cr_conn := conn', cr_synced := Suc (cr_synced r)\<rparr>)"
    "concat conn' = concat (map (\<lambda>(n, c). served_file c) sends)" "conn_ok conn'" by blast
  from Cons.IH [of "r\<lparr>cr_sent := cr_sent r @ json_line (download_request (JStr n)), cr_disk := (cr_disk r)(path_join CLOUD_DIR n \<mapsto> c),
        cr_conn := conn', cr_synced := Suc (cr_synced r)\<rparr>"] d Cons.prems(3) x
  show ?case by (simp add: cr_next_def request_bytes_def stored_def del: fun_upd_apply)
qed

text \<open>The exchange with such a server, for any segmentation of its stream.\<close>

lemma exchange_complete:
  assumes "conn_ok conn" "concat conn = server_stream needs sends" "get_local_files env d = Inr fs"
    "\<forall>(n, c)\<in>set sends. \<not> ce_denied env (path_join CLOUD_DIR n)"
  shows "\<exists>r. sync_exchange env \<lparr>cr_conn = conn, cr_sent = [], cr_disk = d, cr_synced = 0\<rparr> = Some (None, r)
      \<and> cr_sent r = json_line (sync_manifest (ce_hostname env) fs) @ concat (map (upload_bytes fs d) needs) @ request_bytes sends
      \<and> cr_disk r = stored sends d
      \<and> cr_synced r = length (filter (\<lambda>n. n \<in> lf_name ` set fs) needs) + length sends"
proof -
  let ?r0 = "\<lparr>cr_conn = conn, cr_sent = [], cr_disk = d, cr_synced = 0\<rparr>"
  obtain kvs where kvs: "server_answer needs sends = JObj kvs" "json_ok (JObj kvs)"
      "map_of kvs ''need'' = Some (JList (map JStr needs))" "map_of kvs ''send'' = Some (JList (map (\<lambda>(n, c). JStr n) sends))"
    by (auto simp: server_answer_def list_all_iff split_def)
  with assms(2) json_line_back [OF assms(1) kvs(2)] obtain h conn' where h:
    "read_header [] conn = Some (h, conn')" "decode_json h = Some (JObj kvs)"
    "concat conn' = concat (map (\<lambda>(n, c). served_file c) sends)" "conn_ok conn'"
    by (auto simp: server_stream_def)
  define r1 where "r1 = ?r0\<lparr>cr_sent := json_line (sync_manifest (ce_hostname env) fs), cr_conn := conn'\<rparr>"
  have paths: "\<forall>f\<in>set fs. cr_disk r1 (lf_path f) \<noteq> None"
    using local_entries_read assms(3) by (fastforce simp: get_local_files_def r1_def)
  define r2 where "r2 = r1\<lparr>cr_sent := cr_sent r1 @ concat (map (upload_bytes fs (cr_disk r1)) needs),
         cr_synced := cr_synced r1 + length (filter (\<lambda>n. n \<in> lf_name ` set fs) needs)\<rparr>"
  have up: "for_key ''need'' kvs (upload fs) r1 = Some (None, r2)"
    using uploads [OF paths, of needs] kvs(3) by (simp add: for_key_def iter_json_def r2_def)
  from downloads [of r2 sends env] h(3,4) assms(4) obtain r3 where dn:
    "for_key ''send'' kvs (download env) r2 = Some (None, r3)"
    "cr_sent r3 = cr_sent r2 @ request_bytes sends" "cr_disk r3 = stored sends (cr_disk r2)" "cr_synced r3 = cr_synced r2 + length sends"
    using kvs(4) by (auto simp: for_key_def iter_json_def r2_def r1_def)
  have "sync_exchange env ?r0 = cr_next (for_key ''need'' kvs (upload fs) r1) (for_key ''send'' kvs (download env))"
    using assms(3) h(1,2) by (simp add: sync_exchange_def cr_send_def r1_def)
  with up dn show ?thesis by (simp add: cr_next_def r1_def r2_def)
qed

subsection \<open>Properties\<close>

text \<open>
  (C16) Against a server that keeps the protocol, the synchronisation thread ends for every
  segmentation of the server's stream: it has sent the manifest, the content of the first local
  file of each name that is needed, and one request per file offered; every offered file is on
  the disk with exactly the bytes sent and no other file is touched; and the screen says how
  many files were exchanged.
\<close>

theorem cloud_sync_complete:
  assumes "conn_ok conn" "concat conn = server_stream needs sends"
    and "get_local_files env d = Inr fs" "get_local_files env (stored sends d) = Inr fs'"
    and "\<forall>(n, c)\<in>set sends. \<not> ce_denied env (path_join CLOUD_DIR n)"
  shows "\<exists>s'. sync_thread env (Inr conn) d s
      = Some (s', stored sends d, json_line (sync_manifest (ce_hostname env) fs) @ concat (map (upload_bytes fs d) needs) @ request_bytes sends)
      \<and> \<not> cl_syncing s' \<and> cl_last_sync s' = ce_now env \<and> cl_files s' = map cloud_summary fs'
      \<and> cl_status s' = ''Synced '' @ py_str_int (int (length (filter (\<lambda>n. n \<in> lf_name ` set fs) needs) + length sends)) @ '' files''"
  using exchange_complete [OF assms(1-3,5)] assms(4)
  by (auto simp: sync_thread_def cl_sync_end_def cl_save_config_def)

definition demo_cloud :: cloud_env where
  "demo_cloud = \<lparr>ce_walk = (\<lambda>d. if d ''/var/julius/cloud/a'' = None then [] else [(CLOUD_DIR, ''a'')]),
     ce_sha256 = (\<lambda>_. ''h''), ce_denied = (\<lambda>_. False), ce_hostname = ''julius'', ce_now = ''12:00'', ce_msg = (\<lambda>_. ''e'')\<rparr>"

definition demo_disk :: disk where
  "demo_disk = [''/var/julius/cloud/a'' \<mapsto> [1, 2]]"

definition demo_local :: local_file where
  "demo_local = \<lparr>lf_name = ''a'', lf_path = ''/var/julius/cloud/a'', lf_size = 2, lf_hash = ''h''\<rparr>"

lemma demo_path: "path_join CLOUD_DIR ''a'' = ''/var/julius/cloud/a''" "path_join CLOUD_DIR ''b'' = ''/var/julius/cloud/b''"
  by (simp_all add: path_join_def CLOUD_DIR_def)

lemma demo_local_files: "d ''/var/julius/cloud/a'' = Some [1, 2] \<Longrightarrow> get_local_files demo_cloud d = Inr [demo_local]"
  by (simp add: get_local_files_def demo_cloud_def demo_path demo_local_def file_hash_def)

lemma json_line_ne: "json_line j \<noteq> []" "[] \<noteq> json_line j"
  by (simp_all add: json_line_def utf8_append utf8_newline)

theorem cloud_sync_complete_witness:
  "\<exists>s'. sync_thread demo_cloud (Inr [server_stream [''a''] [(''b'', [7])]]) demo_disk (cl_init None)
      = Some (s', stored [(''b'', [7])] demo_disk, json_line (sync_manifest (ce_hostname demo_cloud) [demo_local])
          @ concat (map (upload_bytes [demo_local] demo_disk) [''a'']) @ request_bytes [(''b'', [7])])
      \<and> \<not> cl_syncing s' \<and> cl_last_sync s' = ce_now demo_cloud \<and> cl_files s' = map cloud_summary [demo_local]
      \<and> cl_status s' = ''Synced '' @ py_str_int (int (length (filter (\<lambda>n. n \<in> lf_name ` set [demo_local]) [''a''])
            + length [(''b'', [7 :: byte])])) @ '' files''"
proof (rule cloud_sync_complete)
  show "conn_ok [server_stream [''a''] [(''b'', [7])]]" by (simp add: conn_ok_def server_stream_def json_line_ne)
  show "get_local_files demo_cloud demo_disk = Inr [demo_local]" by (rule demo_local_files) (simp add: demo_disk_def)
  show "get_local_files demo_cloud (stored [(''b'', [7])] demo_disk) = Inr [demo_local]"
    by (rule demo_local_files) (simp add: demo_disk_def stored_def demo_path)
qed (simp_all add: demo_cloud_def)

text \<open>
  The server decides which file of the device it replaces: the exchange stores a file under
  an absolute path offered by the server at that very path, outside the cloud directory.
\<close>

theorem cloud_server_overwrites:
  assumes "conn_ok conn" "path = slash # rest" "concat conn = server_stream [] [(path, c)]"
    and "get_local_files env d = Inr fs" "\<not> ce_denied env path"
  shows "\<exists>s' d' sent. sync_thread env (Inr conn) d s = Some (s', d', sent) \<and> d' path = Some c"
proof -
  have p: "path_join CLOUD_DIR path = path" using assms(2) by (simp add: path_join_def)
  with exchange_complete [OF assms(1,3,4)] assms(5) show ?thesis by (auto simp: sync_thread_def stored_def)
qed

theorem cloud_server_overwrites_witness:
  "\<exists>s' d' sent. sync_thread demo_cloud (Inr [server_stream [] [(''/etc/passwd'', [7])]]) demo_disk (cl_init None) = Some (s', d', sent)
     \<and> d' ''/etc/passwd'' = Some [7]"
proof (rule cloud_server_overwrites)
  show "conn_ok [server_stream [] [(''/etc/passwd'', [7])]]" by (simp add: conn_ok_def server_stream_def json_line_ne)
  show "get_local_files demo_cloud demo_disk = Inr [demo_local]" by (rule demo_local_files) (simp add: demo_disk_def)
qed (simp_all add: demo_cloud_def)

text \<open>
  A server that closes the connection before the end of its first line makes the thread
  loop forever: touching the button leaves the screen synchronising for good.
\<close>

theorem cloud_sync_hangs:
  assumes "conn_ok conn" "newline_byte \<notin> set (concat conn)" "get_local_files env d = Inr fs"
    and "cl_visible s" "cl_sync_btn s = Some r" "in_rect r p" "cl_server_ip s \<noteq> []"
  shows "sync_thread env (Inr conn) d (cl_handle_touch s p) = None \<and> cl_syncing (cl_handle_touch s p)
    \<and> cl_status (cl_handle_touch s p) = ''Syncing...''"
  using assms read_header_None_iff [OF assms(1)]
  by (simp add: sync_thread_def sync_exchange_def cr_send_def cl_handle_touch_def cl_sync_def)

theorem cloud_sync_hangs_witness:
  "sync_thread demo_cloud (Inr []) demo_disk (cl_handle_touch ((cl_draw (cl_show [] (cl_init None)))\<lparr>cl_server_ip := ''1.2''\<rparr>) (240, 70)) = None
    \<and> cl_syncing (cl_handle_touch ((cl_draw (cl_show [] (cl_init None)))\<lparr>cl_server_ip := ''1.2''\<rparr>) (240, 70))
    \<and> cl_status (cl_handle_touch ((cl_draw (cl_show [] (cl_init None)))\<lparr>cl_server_ip := ''1.2''\<rparr>) (240, 70)) = ''Syncing...''"
proof (rule cloud_sync_hangs [where r = "(W - 90, 63, 80, 36)"])
  show "get_local_files demo_cloud demo_disk = Inr [demo_local]" by (rule demo_local_files) (simp add: demo_disk_def)
qed (simp_all add: conn_ok_def cl_draw_def cl_show_def cl_init_def cl_load_config_def W_def in_rect.simps)

end
