(* ===== verification/Clipboard.thy ===== *)
theory Clipboard
  imports Sockets
begin

text \<open>
  The clipboard exchange (\<^verbatim>\<open>src/src/apps/clipboard/clipboard.py\<close>). A listening thread takes one
  connection and replaces the content by what it reads; a pushing thread sends a text.

  A received text may have any code points, so the content and the log are lists of code
  points; the argument \<open>glyph\<close> of the drawing code shows one. The threads started by a key are
  recorded in \<open>cb_started\<close>; \<open>cb_serve\<close> and \<open>cb_send\<close> are their bodies. An exception in the
  listening thread ends it, since nothing catches it there.
\<close>

datatype cb_thread = CbListen | CbPush string ustr

record clipboard =
  cb_content :: ustr
  cb_log :: "ustr list"
  cb_my_ip :: string
  cb_started :: "cb_thread list"

text \<open>\<open>get_ip\<close>: the address of the socket, or \<open>0.0.0.0\<close> when that raises.\<close>

definition cb_get_ip :: "string option \<Rightarrow> string" where
  "cb_get_ip sockname = (case sockname of Some ip \<Rightarrow> ip | None \<Rightarrow> ''0.0.0.0'')"

definition cb_init :: "string option \<Rightarrow> clipboard" where
  "cb_init sockname =
     \<lparr>cb_content = [], cb_log = [code_points ''Julius Clipboard Sync''], cb_my_ip = cb_get_ip sockname, cb_started = []\<rparr>"

definition cb_note :: "ustr \<Rightarrow> clipboard \<Rightarrow> clipboard" where
  "cb_note l s = s\<lparr>cb_log := cb_log s @ [l]\<rparr>"

definition cb_listen :: "clipboard \<Rightarrow> clipboard" where
  "cb_listen s = s\<lparr>cb_started := cb_started s @ [CbListen]\<rparr>"

text \<open>The thread of \<open>listen\<close>: \<open>bound\<close> says whether the port could be bound.\<close>

definition cb_serve :: "bool \<Rightarrow> conn \<Rightarrow> clipboard \<Rightarrow> clipboard" where
  "cb_serve bound conn s =
     (if \<not> bound then s
      else
        (let s1 = cb_note (code_points ''Waiting for clipboard...'') s; data = recv_all conn
         in (case utf8_decode data of
               None \<Rightarrow> s1
             | Some content \<Rightarrow> cb_note (code_points ''Received: '' @ take 30 content) (s1\<lparr>cb_content := content\<rparr>))))"

definition cb_push :: "string \<Rightarrow> ustr \<Rightarrow> clipboard \<Rightarrow> clipboard" where
  "cb_push ip t s = s\<lparr>cb_started := cb_started s @ [CbPush ip t]\<rparr>"

text \<open>The thread of \<open>push\<close>: the bytes it sends and the line it logs.\<close>

definition cb_send :: "string option \<Rightarrow> string \<Rightarrow> ustr \<Rightarrow> clipboard \<Rightarrow> byte list \<times> clipboard" where
  "cb_send fails ip t s =
     (case fails of
        None \<Rightarrow> (utf8_text t, cb_note (code_points (''Pushed to '' @ ip)) s)
      | Some e \<Rightarrow> ([], cb_note (code_points (''Error: '' @ e)) s))"

definition cb_draw :: "(nat \<Rightarrow> char) \<Rightarrow> clipboard \<Rightarrow> draw_cmd list" where
  "cb_draw glyph s =
     app_header ''Clipboard Sync''
     @ [DText (''IP: '' @ cb_my_ip s) GREEN (8, 28), DLine DIM (0, 40) (240, 40)]
     @ concat (map (\<lambda>(i, l). [DText (map glyph (take 30 l)) TEXT (8, 46 + 17 * int i)]) (enum (last_n 8 (cb_log s))))
     @ (if cb_content s \<noteq> [] then [DText (''> '' @ map glyph (take 28 (cb_content s))) GREEN (8, 190)] else [])
     @ app_footer ''L=listen  P=push''"

definition cb_handle_input :: "clipboard \<Rightarrow> event \<Rightarrow> clipboard" where
  "cb_handle_input s e =
     (case e of
        KeyDown k _ _ \<Rightarrow>
          (if k = K_l then cb_listen s
           else if k = K_p then
             cb_push ''192.168.1.100'' (if cb_content s \<noteq> [] then cb_content s else code_points ''Hello from Julius OS'') s
           else s)
      | _ \<Rightarrow> s)"

subsection \<open>Lemmas\<close>

lemma cb_serve_text:
  assumes "conn_ok conn" "utf8_decode (concat conn) = Some t"
  shows "cb_content (cb_serve True conn s) = t"
  using assms by (simp add: cb_serve_def recv_all_concat cb_note_def)

text \<open>Pushing sends the content, or the greeting when there is none.\<close>

lemma cb_push_content:
  "cb_started (cb_handle_input s (press K_p))
   = cb_started s @ [CbPush ''192.168.1.100'' (if cb_content s = [] then code_points ''Hello from Julius OS'' else cb_content s)]"
  by (simp add: cb_handle_input_def press_def cb_push_def)

subsection \<open>Properties\<close>

text \<open>
  (C39) A clipboard is handed on unchanged: whatever valid text a device received, in whatever
  segments, the text it then pushes is the same bytes, and the next device ends with the same
  content.
\<close>

theorem clipboard_relay:
  assumes "conn_ok conn" "utf8_decode (concat conn) = Some t" "t \<noteq> []" "conn_ok conn'"
    and "concat conn' = fst (cb_send None ip (cb_content (cb_serve True conn s)) s1)"
  shows "concat conn' = concat conn \<and> cb_content (cb_serve True conn' s2) = cb_content (cb_serve True conn s)
    \<and> last (cb_started (cb_handle_input (cb_serve True conn s) (press K_p))) = CbPush ''192.168.1.100'' t"
proof -
  have t: "cb_content (cb_serve True conn s) = t" using assms(1,2) by (rule cb_serve_text)
  with assms(2,5) utf8_text_decode have c: "concat conn' = concat conn" by (simp add: cb_send_def)
  with assms(2,4) cb_serve_text [of conn' t s2] t assms(3) show ?thesis by (simp add: cb_push_content)
qed

theorem clipboard_relay_witness:
  "concat [[195, 169 :: byte], [104]] = concat [[195], [169 :: byte, 104]]
    \<and> cb_content (cb_serve True [[195, 169], [104]] (cb_init None)) = cb_content (cb_serve True [[195], [169, 104]] (cb_init None))
    \<and> last (cb_started (cb_handle_input (cb_serve True [[195], [169, 104]] (cb_init None)) (press K_p))) = CbPush ''192.168.1.100'' [233, 104]"
proof (rule clipboard_relay)
  have "utf8_items [195, 169, 104] = [Some 233, Some 104]"
    by (simp add: utf8_items.simps utf8_step_def cont_def)
  then show d: "utf8_decode (concat [[195], [169, 104]]) = Some [233, 104]" by (simp add: utf8_decode_def)
  show "concat [[195, 169], [104]] = fst (cb_send None [] (cb_content (cb_serve True [[195], [169, 104]] (cb_init None))) (cb_init None))"
    using cb_serve_text [OF _ d] utf8_text_decode [OF d] by (simp add: cb_send_def conn_ok_def)
qed (simp_all add: conn_ok_def)

text \<open>Bytes that are no text end the listening thread; the content stays and nothing is logged of them.\<close>

lemma clipboard_invalid:
  "conn_ok conn \<Longrightarrow> utf8_decode (concat conn) = None \<Longrightarrow>
     cb_content (cb_serve True conn s) = cb_content s
     \<and> cb_log (cb_serve True conn s) = cb_log s @ [code_points ''Waiting for clipboard...'']"
  by (simp add: cb_serve_def recv_all_concat cb_note_def)

end
