(* ===== verification/File_Transfer.thy ===== *)
theory File_Transfer
  imports Sockets Posix_Path
begin

text \<open>
  The file transfer application (\<^verbatim>\<open>src/src/apps/filetransfer/filetransfer.py\<close>). The sender
  writes the name of the file and then its bytes; the receiver takes what its first
  \<open>recv(1024)\<close> answers for the name and the rest for the content.

  Names and log lines are lists of code points, since a received name may have any. The
  threads started by a key are recorded in \<open>ft_started\<close>; \<open>ft_serve\<close> and \<open>ft_send\<close> are their
  bodies. An exception in the receiving thread ends it, since nothing catches it there. A
  \<open>send\<close> is taken to accept all of its bytes.
\<close>

definition FT_PORT :: int where
  "FT_PORT = 9999"

datatype ft_thread = FtServe | FtSend string string

record file_transfer =
  ft_log :: "ustr list"
  ft_mode :: string
  ft_my_ip :: string
  ft_files :: "ustr \<rightharpoonup> byte list"
  ft_started :: "ft_thread list"

definition ft_get_ip :: "string option \<Rightarrow> string" where
  "ft_get_ip sockname = (case sockname of Some ip \<Rightarrow> ip | None \<Rightarrow> ''0.0.0.0'')"

definition ft_init :: "string option \<Rightarrow> (ustr \<rightharpoonup> byte list) \<Rightarrow> file_transfer" where
  "ft_init sockname files =
     \<lparr>ft_log = [code_points ''Julius File Transfer''], ft_mode = ''menu'', ft_my_ip = ft_get_ip sockname,
      ft_files = files, ft_started = []\<rparr>"

text \<open>\<open>str.strip()\<close> on code points.\<close>

definition uspace :: "nat \<Rightarrow> bool" where
  "uspace n \<longleftrightarrow> (9 \<le> n \<and> n \<le> 13) \<or> (28 \<le> n \<and> n \<le> 32) \<or> (8192 \<le> n \<and> n \<le> 8202)
     \<or> n \<in> {133, 160, 5760, 8232, 8233, 8239, 8287, 12288}"

definition ustrip :: "ustr \<Rightarrow> ustr" where
  "ustrip u = rev (dropWhile uspace (rev (dropWhile uspace u)))"

definition ft_note :: "ustr \<Rightarrow> file_transfer \<Rightarrow> file_transfer" where
  "ft_note l s = s\<lparr>ft_log := ft_log s @ [l]\<rparr>"

definition ft_path :: "ustr \<Rightarrow> ustr" where
  "ft_path filename = code_points ''/tmp/'' @ filename"

definition start_server :: "file_transfer \<Rightarrow> file_transfer" where
  "start_server s = s\<lparr>ft_started := ft_started s @ [FtServe]\<rparr>"

text \<open>
  The thread of \<open>start_server\<close>: \<open>bound\<close> says whether the port could be bound, \<open>denied\<close> which
  paths cannot be opened for writing.
\<close>

definition ft_serve :: "bool \<Rightarrow> (ustr \<Rightarrow> bool) \<Rightarrow> conn \<Rightarrow> string \<Rightarrow> file_transfer \<Rightarrow> file_transfer" where
  "ft_serve bound denied conn addr s =
     (let s1 = ft_note (code_points (''Listening on '' @ ft_my_ip s @ '':'' @ py_str_int FT_PORT)) s
      in if \<not> bound then s1
         else
           (let s2 = ft_note (code_points (''Connected: '' @ addr)) s1; (name, conn') = recv 1024 conn
            in (case utf8_decode name of
                  None \<Rightarrow> s2
                | Some raw \<Rightarrow>
                    (let filename = ustrip raw; s3 = ft_note (code_points ''Receiving: '' @ filename) s2
                     in if denied (ft_path filename) then s3
                        else ft_note (code_points ''Saved to '' @ ft_path filename)
                               (s3\<lparr>ft_files := (ft_files s3)(ft_path filename \<mapsto> recv_all conn')\<rparr>)))))"

definition send_file :: "string \<Rightarrow> string \<Rightarrow> file_transfer \<Rightarrow> file_transfer" where
  "send_file ip filepath s = s\<lparr>ft_started := ft_started s @ [FtSend ip filepath]\<rparr>"

text \<open>The thread of \<open>send_file\<close>: the bytes it sends and the line it logs.\<close>

definition ft_stream :: "string \<Rightarrow> byte list \<Rightarrow> byte list" where
  "ft_stream filepath content = utf8 (path_basename filepath) @ concat (file_chunks content)"

definition ft_send :: "string option \<Rightarrow> string \<Rightarrow> string \<Rightarrow> byte list \<Rightarrow> file_transfer \<Rightarrow> byte list \<times> file_transfer" where
  "ft_send fails ip filepath content s =
     (case fails of
        None \<Rightarrow> (ft_stream filepath content, ft_note (code_points (''Sent '' @ path_basename filepath @ '' to '' @ ip)) s)
      | Some e \<Rightarrow> ([], ft_note (code_points (''Error: '' @ e)) s))"

definition ft_draw :: "(nat \<Rightarrow> char) \<Rightarrow> file_transfer \<Rightarrow> draw_cmd list" where
  "ft_draw glyph s =
     app_header ''File Transfer''
     @ [DText (''My IP: '' @ ft_my_ip s) GREEN (8, 28), DLine DIM (0, 40) (240, 40)]
     @ concat (map (\<lambda>(i, l). [DText (map glyph (take 30 l)) TEXT (8, 46 + 17 * int i)]) (enum (last_n 10 (ft_log s))))
     @ app_footer ''R=receive  S=send''"

definition ft_handle_input :: "file_transfer \<Rightarrow> event \<Rightarrow> file_transfer" where
  "ft_handle_input s e =
     (case e of
        KeyDown k _ _ \<Rightarrow>
          (if k = K_r then start_server s
           else if k = K_s then send_file ''192.168.1.100'' ''/tmp/test.txt'' s
           else s)
      | _ \<Rightarrow> s)"

subsection \<open>Lemmas\<close>

text \<open>A name \<open>strip\<close> leaves alone.\<close>

definition stripped :: "ustr \<Rightarrow> bool" where
  "stripped u \<longleftrightarrow> u \<noteq> [] \<and> \<not> uspace (hd u) \<and> \<not> uspace (last u)"

lemma ustrip_id: "stripped u \<Longrightarrow> ustrip u = u"
proof -
  assume u: "stripped u"
  then have "dropWhile uspace u = u" by (cases u) (auto simp: stripped_def)
  moreover have "dropWhile uspace (rev u) = rev u" using u by (cases u rule: rev_cases) (auto simp: stripped_def)
  ultimately show ?thesis by (simp add: ustrip_def)
qed

lemma ft_stream_eq: "ft_stream filepath content = utf8 (path_basename filepath) @ content"
  by (simp add: ft_stream_def concat_file_chunks)

text \<open>What the receiver stores is decided by its first answer.\<close>

lemma ft_serve_first:
  assumes "conn_ok (c # cs)" "length c \<le> 1024" "utf8_decode c = Some u" "stripped u" "\<not> denied (ft_path u)"
  shows "ft_files (ft_serve True denied (c # cs) addr s) = (ft_files s)(ft_path u \<mapsto> concat cs)"
proof -
  have "recv_all cs = concat cs" using assms(1) by (intro recv_all_concat) (simp add: conn_ok_def)
  with assms show ?thesis by (simp add: ft_serve_def ft_note_def ustrip_id)
qed

subsection \<open>Properties\<close>

text \<open>
  (C40) What is received depends on how the network cuts the stream. When the name arrives as a
  segment of its own, the file is stored under it with exactly its bytes; when a name and a short
  text arrive together, the same stream creates an empty file whose name is the name followed by
  the text.
\<close>

theorem transfer_depends_on_segments:
  assumes "path_basename filepath \<noteq> []" "stripped (code_points (path_basename filepath))" "length (utf8 (path_basename filepath)) \<le> 1024"
    and "content = utf8 t" "t \<noteq> []" "stripped (code_points (path_basename filepath @ t))" "length (ft_stream filepath content) \<le> 1024"
    and "conn_ok cs" "concat cs = content" "\<And>p. \<not> denied p"
  shows "concat (utf8 (path_basename filepath) # cs) = ft_stream filepath content
    \<and> ft_files (ft_serve True denied (utf8 (path_basename filepath) # cs) addr s)
      = (ft_files s)(ft_path (code_points (path_basename filepath)) \<mapsto> content)
    \<and> ft_files (ft_serve True denied [ft_stream filepath content] addr s)
      = (ft_files s)(ft_path (code_points (path_basename filepath @ t)) \<mapsto> [])"
proof -
  let ?n = "path_basename filepath"
  have ne: "utf8 w \<noteq> []" if "w \<noteq> []" for w
    using that by (cases w) (simp_all add: utf8_def utf8_char_def Let_def)
  have st: "ft_stream filepath content = utf8 (?n @ t)" using assms(4) by (simp add: ft_stream_eq utf8_def)
  have "ft_files (ft_serve True denied (utf8 ?n # cs) addr s) = (ft_files s)(ft_path (code_points ?n) \<mapsto> concat cs)"
    using assms(1-3,8,10) ne [OF assms(1), symmetric] by (intro ft_serve_first) (auto simp: conn_ok_def)
  moreover have "ft_files (ft_serve True denied [utf8 (?n @ t)] addr s) = (ft_files s)(ft_path (code_points (?n @ t)) \<mapsto> concat [])"
    using assms(1,6,7,10) ne [of "?n @ t"] st by (intro ft_serve_first) (auto simp: conn_ok_def)
  ultimately show ?thesis using assms(9) st by (simp add: ft_stream_eq)
qed

theorem transfer_depends_on_segments_witness:
  "concat (utf8 (path_basename ''/tmp/a.txt'') # [utf8 ''hi'']) = ft_stream ''/tmp/a.txt'' (utf8 ''hi'')
    \<and> ft_files (ft_serve True (\<lambda>_. False) (utf8 (path_basename ''/tmp/a.txt'') # [utf8 ''hi'']) ''10.0.0.2'' (ft_init None Map.empty))
      = (ft_files (ft_init None Map.empty))(ft_path (code_points (path_basename ''/tmp/a.txt'')) \<mapsto> utf8 ''hi'')
    \<and> ft_files (ft_serve True (\<lambda>_. False) [ft_stream ''/tmp/a.txt'' (utf8 ''hi'')] ''10.0.0.2'' (ft_init None Map.empty))
      = (ft_files (ft_init None Map.empty))(ft_path (code_points (path_basename ''/tmp/a.txt'' @ ''hi'')) \<mapsto> [])"
  by (rule transfer_depends_on_segments)
    (simp_all add: path_basename_def stripped_def code_points_def uspace_def utf8_def utf8_char_def ft_stream_eq conn_ok_def)

end
