(* ===== verification/Encoder.thy ===== *)
theory Encoder
  imports Codecs
begin

text \<open>
  The Encoder application (\<^verbatim>\<open>src/src/apps/encoder/encoder.py\<close>): six conversions chosen from a
  menu, applied to a typed text. The text of an exception, which the application shows, is a
  parameter; it may depend on the input.
\<close>

definition MODES :: "string list" where
  "MODES = [''Base64 Enc'', ''Base64 Dec'', ''URL Enc'', ''URL Dec'', ''Hex Enc'', ''Hex Dec'']"

datatype en_mode = EnMenu | EnInput

record encoder =
  en_input :: string
  en_output :: ustr
  en_selected :: int
  en_mode :: en_mode
  en_status :: string

definition en_init :: encoder where
  "en_init = \<lparr>en_input = [], en_output = [], en_selected = 0, en_mode = EnMenu, en_status = []\<rparr>"

text \<open>The conversions; \<open>None\<close> is an exception.\<close>

definition convert :: "string \<Rightarrow> string \<Rightarrow> ustr option" where
  "convert mode t =
     (if mode = ''Base64 Enc'' then Some (code_points (b64encode (map unat (utf8 t))))
      else if mode = ''Base64 Dec'' then Option.bind (b64decode (utf8 t)) utf8_decode
      else if mode = ''URL Enc'' then Some (code_points (url_quote t))
      else if mode = ''URL Dec'' then Some (url_unquote t)
      else if mode = ''Hex Enc'' then Some (code_points (bytes_hex (utf8 t)))
      else Option.bind (fromhex t) utf8_decode)"

definition en_process :: "(string \<Rightarrow> string) \<Rightarrow> encoder \<Rightarrow> encoder" where
  "en_process exc s =
     (case (case py_get MODES (en_selected s) of Inl _ \<Rightarrow> None | Inr m \<Rightarrow> convert m (en_input s)) of
        Some out \<Rightarrow> s\<lparr>en_output := out, en_status := ''Done''\<rparr>
      | None \<Rightarrow> s\<lparr>en_output := code_points (''Error: '' @ exc (en_input s)), en_status := ''Error''\<rparr>)"

subsection \<open>Screens\<close>

definition en_draw_menu :: "encoder \<Rightarrow> draw_cmd list" where
  "en_draw_menu s =
     app_header ''Encoder''
     @ draw_rows 0 6 32 22
         (\<lambda>i y m. (if i = en_selected s then [highlight y 15] else [])
                  @ [DText m (if i = en_selected s then ACCENT else TEXT) (8, y)]) MODES
     @ app_footer ''UP DOWN=select  ENTER=use''"

text \<open>A line of output is drawn in \<open>YELLOW\<close>, a name the module does not define.\<close>

definition en_draw_input :: "encoder \<Rightarrow> draw_cmd list res" where
  "en_draw_input s =
     res_bind (py_get MODES (en_selected s)) (\<lambda>m.
       if en_output s \<noteq> [] then Inl NameError
       else Inr (app_header m
         @ [DText ''Input:'' GREEN (8, 30), DText (take 26 (en_input s) @ ''_'') TEXT (8, 44),
            DLine DIM (0, 62) (240, 62), DText ''Output:'' GREEN (8, 68)]
         @ (if en_status s \<noteq> [] then [DText (en_status s) GREEN (8, 160)] else [])
         @ app_footer ''ENTER=run  ESC=back''))"

definition en_draw :: "encoder \<Rightarrow> draw_cmd list res" where
  "en_draw s = (case en_mode s of EnMenu \<Rightarrow> Inr (en_draw_menu s) | EnInput \<Rightarrow> en_draw_input s)"

subsection \<open>Input\<close>

definition en_key_menu :: "encoder \<Rightarrow> key \<Rightarrow> encoder" where
  "en_key_menu s k =
     (if k = K_DOWN then s\<lparr>en_selected := (en_selected s + 1) mod int (length MODES)\<rparr>
      else if k = K_UP then s\<lparr>en_selected := (en_selected s - 1) mod int (length MODES)\<rparr>
      else if k = K_RETURN then s\<lparr>en_mode := EnInput, en_input := [], en_output := [], en_status := []\<rparr>
      else s)"

definition en_key_input :: "(string \<Rightarrow> string) \<Rightarrow> encoder \<Rightarrow> key \<Rightarrow> string \<Rightarrow> encoder" where
  "en_key_input exc s k u =
     (if k = K_RETURN then en_process exc s
      else if k = K_BACKSPACE then s\<lparr>en_input := butlast (en_input s)\<rparr>
      else if k = K_ESCAPE then s\<lparr>en_mode := EnMenu, en_input := []\<rparr>
      else s\<lparr>en_input := en_input s @ u\<rparr>)"

definition en_handle_input :: "(string \<Rightarrow> string) \<Rightarrow> encoder \<Rightarrow> event \<Rightarrow> encoder" where
  "en_handle_input exc s e =
     (case e of
        KeyDown k u _ \<Rightarrow>
          (case en_mode s of EnMenu \<Rightarrow> en_key_menu s k | EnInput \<Rightarrow> en_key_input exc s k u)
      | _ \<Rightarrow> s)"

subsection \<open>Lemmas\<close>

definition en_ok :: "encoder \<Rightarrow> bool" where
  "en_ok s \<longleftrightarrow> 0 \<le> en_selected s \<and> en_selected s < 6"

lemma en_process_simps [simp]:
  "en_selected (en_process exc s) = en_selected s" "en_mode (en_process exc s) = en_mode s"
  by (simp_all add: en_process_def split: option.split)

lemma length_MODES [simp]: "length MODES = 6"
  by (simp add: MODES_def)

lemma en_ok_handle: "en_ok s \<Longrightarrow> en_ok (en_handle_input exc s e)"
  by (auto simp: en_ok_def en_handle_input_def en_key_menu_def en_key_input_def split: event.split en_mode.split)

interpretation en_app: event_app "\<lambda>s e. Inr (en_handle_input exc s e)" en_ok for exc
  by unfold_locales (auto intro: en_ok_handle)

text \<open>Each encoding with the decoding that follows it in the menu.\<close>

lemma convert_roundtrip:
  assumes "(enc, dec) \<in> {(''Base64 Enc'', ''Base64 Dec''), (''URL Enc'', ''URL Dec''), (''Hex Enc'', ''Hex Dec'')}"
  shows "\<exists>out. convert enc t = Some (code_points out) \<and> convert dec out = Some (code_points t) \<and> (t \<noteq> [] \<longrightarrow> out \<noteq> [])"
proof -
  have u: "utf8 t \<noteq> []" if "t \<noteq> []" using that by (cases t) (simp_all add: utf8_def utf8_char_def Let_def)
  have b: "convert ''Base64 Enc'' t = Some (code_points (b64encode (map unat (utf8 t))))
      \<and> convert ''Base64 Dec'' (b64encode (map unat (utf8 t))) = Some (code_points t)"
    by (simp add: convert_def b64decode_b64encode)
  have bn: "b64encode (map unat (utf8 t)) \<noteq> []" if "t \<noteq> []"
    using u [OF that] by (cases "map unat (utf8 t)" rule: b64encode.cases) simp_all
  have h: "convert ''Hex Enc'' t = Some (code_points (bytes_hex (utf8 t)))
      \<and> convert ''Hex Dec'' (bytes_hex (utf8 t)) = Some (code_points t)"
    by (simp add: convert_def fromhex_bytes_hex)
  have hn: "bytes_hex (utf8 t) \<noteq> []" if "t \<noteq> []" using u [OF that] by (cases "utf8 t") (simp_all add: bytes_hex_def)
  have q: "convert ''URL Enc'' t = Some (code_points (url_quote t))
      \<and> convert ''URL Dec'' (url_quote t) = Some (code_points t)"
    by (simp add: convert_def url_unquote_quote)
  have qn: "url_quote t \<noteq> []" if "t \<noteq> []"
    using u [OF that] by (cases "utf8 t") (simp_all add: url_quote_def quote_byte_def Let_def)
  from assms b bn h hn q qn show ?thesis by blast
qed

lemma MODES_get:
  "py_get MODES 0 = Inr ''Base64 Enc''" "py_get MODES 1 = Inr ''Base64 Dec''" "py_get MODES 2 = Inr ''URL Enc''"
  "py_get MODES 3 = Inr ''URL Dec''" "py_get MODES 4 = Inr ''Hex Enc''" "py_get MODES 5 = Inr ''Hex Dec''"
  by (simp_all add: MODES_def py_get_def py_index_def)

lemma process_roundtrip:
  assumes "k \<in> {0, 2, 4}"
  shows "\<exists>out. en_output (en_process exc (s\<lparr>en_selected := k, en_input := t\<rparr>)) = code_points out
     \<and> en_output (en_process exc (s'\<lparr>en_selected := k + 1, en_input := out\<rparr>)) = code_points t
     \<and> en_status (en_process exc (s\<lparr>en_selected := k, en_input := t\<rparr>)) = ''Done''
     \<and> en_status (en_process exc (s'\<lparr>en_selected := k + 1, en_input := out\<rparr>)) = ''Done''
     \<and> (t \<noteq> [] \<longrightarrow> out \<noteq> [])"
proof -
  from assms consider "k = 0" | "k = 2" | "k = 4" by blast
  then obtain enc dec where m: "py_get MODES k = Inr enc" "py_get MODES (k + 1) = Inr dec"
    and p: "(enc, dec) \<in> {(''Base64 Enc'', ''Base64 Dec''), (''URL Enc'', ''URL Dec''), (''Hex Enc'', ''Hex Dec'')}"
    by cases (use MODES_get in \<open>auto simp: numeral_eq_Suc\<close>)
  from convert_roundtrip [OF p, of t] obtain out where
    "convert enc t = Some (code_points out)" "convert dec out = Some (code_points t)" "t \<noteq> [] \<longrightarrow> out \<noteq> []" by blast
  with m show ?thesis by (intro exI [of _ out]) (simp add: en_process_def)
qed

subsection \<open>Properties\<close>

text \<open>
  (C26) Encoding and decoding are inverse for every text: what Base64, URL or hexadecimal
  encoding of a typed text puts out, typed into the decoding that follows it in the menu,
  gives the text back, and both report success.
\<close>

theorem encoder_roundtrip:
  "k \<in> {0, 2, 4} \<Longrightarrow> en_mode s = EnInput \<Longrightarrow> en_mode s' = EnInput \<Longrightarrow>
   \<exists>out. en_output (en_handle_input exc (s\<lparr>en_selected := k, en_input := t\<rparr>) (press K_RETURN)) = code_points out
     \<and> en_output (en_handle_input exc (s'\<lparr>en_selected := k + 1, en_input := out\<rparr>) (press K_RETURN)) = code_points t
     \<and> en_status (en_handle_input exc (s\<lparr>en_selected := k, en_input := t\<rparr>) (press K_RETURN)) = ''Done''
     \<and> en_status (en_handle_input exc (s'\<lparr>en_selected := k + 1, en_input := out\<rparr>) (press K_RETURN)) = ''Done''"
  using process_roundtrip [where k = k and exc = exc and s = s and t = t and s' = s'] by (simp add: en_handle_input_def en_key_input_def press_def) blast

theorem encoder_roundtrip_witness:
  "\<exists>out. en_output (en_handle_input (\<lambda>_. []) (en_init\<lparr>en_mode := EnInput, en_selected := 4, en_input := ''Ab''\<rparr>) (press K_RETURN)) = code_points out
     \<and> en_output (en_handle_input (\<lambda>_. []) (en_init\<lparr>en_mode := EnInput, en_selected := 5, en_input := out\<rparr>) (press K_RETURN)) = code_points ''Ab''"
  using encoder_roundtrip [of 4 "en_init\<lparr>en_mode := EnInput\<rparr>" "en_init\<lparr>en_mode := EnInput\<rparr>" "\<lambda>_. []" "''Ab''"] by auto

text \<open>
  No result can be read: encoding any non-empty text leaves the application in a state
  whose screen raises \<open>NameError\<close> when it is drawn.
\<close>

theorem encoder_result_not_drawn:
  "k \<in> {0, 2, 4} \<Longrightarrow> en_mode s = EnInput \<Longrightarrow> t \<noteq> [] \<Longrightarrow>
   en_draw (en_handle_input exc (s\<lparr>en_selected := k, en_input := t\<rparr>) (press K_RETURN)) = Inl NameError"
proof -
  assume a: "k \<in> {0, 2, 4}" "en_mode s = EnInput" "t \<noteq> []"
  let ?s = "s\<lparr>en_selected := k, en_input := t\<rparr>"
  from process_roundtrip [OF a(1), where exc = exc and s = s and t = t and s' = s] a(3) have "en_output (en_process exc ?s) \<noteq> []"
    by (auto simp: code_points_def)
  moreover have "\<exists>m. py_get MODES k = Inr m" using a(1) MODES_get by auto
  ultimately show ?thesis
    using a(2) by (auto simp: en_handle_input_def en_key_input_def press_def en_draw_def en_draw_input_def)
qed

theorem encoder_result_not_drawn_witness:
  "en_draw (en_handle_input (\<lambda>_. []) (en_init\<lparr>en_mode := EnInput, en_selected := 0, en_input := ''hi''\<rparr>) (press K_RETURN))
     = Inl NameError"
  using encoder_result_not_drawn [of 0 "en_init\<lparr>en_mode := EnInput\<rparr>" "''hi''" "\<lambda>_. []"] by simp

end
