(* ===== verification/Wake_On_Lan.thy ===== *)
theory Wake_On_Lan
  imports Codecs
begin

text \<open>
  The Wake-on-LAN application (\<^verbatim>\<open>src/src/apps/wakeonlan/wakeonlan.py\<close>): a saved list of
  devices and the magic packet. The outcome of a broadcast (\<open>None\<close>, or the text of the
  exception the socket raised) and the text of the exception of \<open>bytes.fromhex\<close> are arguments;
  the packets handed to \<open>sendto\<close> are recorded.
\<close>

record wol_device =
  wd_name :: string
  wd_mac :: string

datatype wol_mode = WList | WAdd
datatype wol_stage = WName | WMac

record wake_on_lan =
  wl_devices :: "wol_device list"
  wl_selected :: int
  wl_mode :: wol_mode
  wl_name_in :: string
  wl_mac_in :: string
  wl_stage :: wol_stage
  wl_status :: string
  wl_file :: "wol_device list option"
  wl_sent :: "byte list list"

record wol_env =
  we_send :: "string option"
  we_hex :: string

definition wl_load :: "wol_device list option \<Rightarrow> wol_device list" where
  "wl_load f = (case f of Some ds \<Rightarrow> ds | None \<Rightarrow> [])"

definition wl_init :: "wol_device list option \<Rightarrow> wake_on_lan" where
  "wl_init f = \<lparr>wl_devices = wl_load f, wl_selected = 0, wl_mode = WList, wl_name_in = [], wl_mac_in = [],
                wl_stage = WName, wl_status = [], wl_file = f, wl_sent = []\<rparr>"

definition wl_save :: "wake_on_lan \<Rightarrow> wake_on_lan" where
  "wl_save s = s\<lparr>wl_file := Some (wl_devices s)\<rparr>"

text \<open>\<open>mac.replace(":", "").replace("-", "")\<close> and the packet; \<open>None\<close> when \<open>fromhex\<close> raises.\<close>

definition clean_mac :: "string \<Rightarrow> string" where
  "clean_mac mac = filter (\<lambda>c. c \<noteq> CHR '':'' \<and> c \<noteq> CHR ''-'') mac"

definition magic_packet :: "string \<Rightarrow> byte list option" where
  "magic_packet mac = fromhex (concat (replicate 6 ''FF'') @ concat (replicate 16 (clean_mac mac)))"

definition send_magic :: "wol_env \<Rightarrow> string \<Rightarrow> wake_on_lan \<Rightarrow> wake_on_lan" where
  "send_magic env mac s =
     (case magic_packet mac of
        None \<Rightarrow> s\<lparr>wl_status := ''Error: '' @ we_hex env\<rparr>
      | Some p \<Rightarrow>
          (case we_send env of
             None \<Rightarrow> s\<lparr>wl_status := ''Magic packet sent!'', wl_sent := wl_sent s @ [p]\<rparr>
           | Some e \<Rightarrow> s\<lparr>wl_status := ''Error: '' @ e\<rparr>))"

subsection \<open>Screens\<close>

definition wl_draw_list :: "wake_on_lan \<Rightarrow> draw_cmd list" where
  "wl_draw_list s =
     app_header ''Wake on LAN''
     @ (if wl_status s \<noteq> [] then [DText (wl_status s) GREEN (8, 27)] else [])
     @ [DLine DIM (0, 38) (240, 38)]
     @ (if wl_devices s = [] then [DText ''No devices. Press N to add'' DIM (8, 120)]
        else draw_rows 0 10 42 32
               (\<lambda>i y d. (if i = wl_selected s then [highlight y 28] else [])
                  @ [DText (take 20 (wd_name d)) (if i = wl_selected s then ACCENT else TEXT) (8, y),
                     DText (wd_mac d) DIM (8, y + 13)]) (wl_devices s))
     @ app_footer ''ENTER=wake  N=add  D=del''"

definition wl_draw_add :: "wake_on_lan \<Rightarrow> draw_cmd list" where
  "wl_draw_add s =
     app_header ''Add Device''
     @ (case wl_stage s of
          WName \<Rightarrow> [DText ''Device Name:'' GREEN (8, 40), DText (wl_name_in s @ ''_'') TEXT (8, 60)]
        | WMac \<Rightarrow> [DText ''MAC Address:'' GREEN (8, 40), DText ''Format: AA:BB:CC:DD:EE:FF'' DIM (8, 55),
                   DText (wl_mac_in s @ ''_'') TEXT (8, 72)])
     @ app_footer ''ENTER=next  ESC=cancel''"

definition wl_draw :: "wake_on_lan \<Rightarrow> draw_cmd list" where
  "wl_draw s = (case wl_mode s of WList \<Rightarrow> wl_draw_list s | WAdd \<Rightarrow> wl_draw_add s)"

subsection \<open>Input\<close>

definition wl_key_list :: "wol_env \<Rightarrow> wake_on_lan \<Rightarrow> key \<Rightarrow> wake_on_lan res" where
  "wl_key_list env s k =
     (if k = K_DOWN then Inr (s\<lparr>wl_selected := min (wl_selected s + 1) (int (length (wl_devices s)) - 1)\<rparr>)
      else if k = K_UP then Inr (s\<lparr>wl_selected := max (wl_selected s - 1) 0\<rparr>)
      else if k = K_RETURN then
        (if wl_devices s \<noteq> [] then
           res_bind (py_get (wl_devices s) (wl_selected s)) (\<lambda>d. Inr (send_magic env (wd_mac d) s))
         else Inr s)
      else if k = K_n then Inr (s\<lparr>wl_mode := WAdd, wl_stage := WName, wl_name_in := [], wl_mac_in := []\<rparr>)
      else if k = K_d then
        (if wl_devices s \<noteq> [] then
           res_bind (py_pop (wl_devices s) (wl_selected s)) (\<lambda>ds.
             Inr (wl_save (s\<lparr>wl_devices := ds, wl_selected := max 0 (wl_selected s - 1)\<rparr>)))
         else Inr s)
      else Inr s)"

definition wl_key_name :: "wake_on_lan \<Rightarrow> key \<Rightarrow> string \<Rightarrow> wake_on_lan" where
  "wl_key_name s k u =
     (if k = K_RETURN \<and> wl_name_in s \<noteq> [] then s\<lparr>wl_stage := WMac\<rparr>
      else if k = K_BACKSPACE then s\<lparr>wl_name_in := butlast (wl_name_in s)\<rparr>
      else if k = K_ESCAPE then s\<lparr>wl_mode := WList\<rparr>
      else s\<lparr>wl_name_in := wl_name_in s @ u\<rparr>)"

definition wl_key_mac :: "wake_on_lan \<Rightarrow> key \<Rightarrow> string \<Rightarrow> wake_on_lan" where
  "wl_key_mac s k u =
     (if k = K_RETURN \<and> wl_mac_in s \<noteq> [] then
        (wl_save (s\<lparr>wl_devices := wl_devices s @ [\<lparr>wd_name = wl_name_in s, wd_mac = wl_mac_in s\<rparr>]\<rparr>))
          \<lparr>wl_mode := WList, wl_status := ''Added '' @ wl_name_in s\<rparr>
      else if k = K_BACKSPACE then s\<lparr>wl_mac_in := butlast (wl_mac_in s)\<rparr>
      else if k = K_ESCAPE then s\<lparr>wl_mode := WList\<rparr>
      else s\<lparr>wl_mac_in := wl_mac_in s @ u\<rparr>)"

definition wl_handle_input :: "wol_env \<Rightarrow> wake_on_lan \<Rightarrow> event \<Rightarrow> wake_on_lan res" where
  "wl_handle_input env s e =
     (case e of
        KeyDown k u _ \<Rightarrow>
          (case wl_mode s of
             WList \<Rightarrow> wl_key_list env s k
           | WAdd \<Rightarrow> Inr (case wl_stage s of WName \<Rightarrow> wl_key_name s k u | WMac \<Rightarrow> wl_key_mac s k u))
      | _ \<Rightarrow> Inr s)"

subsection \<open>Lemmas\<close>

text \<open>
  The selection may be \<open>-1\<close> (\<open>DOWN\<close> on an empty list takes the minimum with \<open>-1\<close>), which Python
  reads as the last device.
\<close>

definition wl_ok :: "wake_on_lan \<Rightarrow> bool" where
  "wl_ok s \<longleftrightarrow> - 1 \<le> wl_selected s \<and> (wl_selected s < int (length (wl_devices s)) \<or> wl_selected s = 0)"

lemma wl_ok_init: "wl_ok (wl_init f)"
  by (simp add: wl_ok_def wl_init_def)

lemma send_magic_simps [simp]:
  "wl_devices (send_magic env m s) = wl_devices s" "wl_selected (send_magic env m s) = wl_selected s"
  "wl_mode (send_magic env m s) = wl_mode s" "wl_file (send_magic env m s) = wl_file s"
  by (simp_all add: send_magic_def split: option.split)

lemma py_index_last_or_in:
  assumes "- 1 \<le> i" "i < int n \<or> i = 0" "0 < n"
  shows "\<exists>k<n. py_index n i = Some k"
  using assms by (auto simp: py_index_def Let_def)

lemma wl_key_list_ok:
  assumes ok: "wl_ok s"
  shows "\<exists>s'. wl_key_list env s k = Inr s' \<and> wl_ok s'"
proof (cases "wl_devices s = []")
  case True
  with ok show ?thesis by (auto simp: wl_key_list_def wl_ok_def)
next
  case False
  with ok obtain i where i: "py_index (length (wl_devices s)) (wl_selected s) = Some i" "i < length (wl_devices s)"
    using py_index_last_or_in [of "wl_selected s" "length (wl_devices s)"] by (auto simp: wl_ok_def)
  have "int (length (del_nth (wl_devices s) i)) = int (length (wl_devices s)) - 1" using i(2) by (cases "wl_devices s") auto
  with ok False i show ?thesis
    by (auto simp: wl_key_list_def wl_ok_def py_get_def py_pop_def wl_save_def)
qed

lemma wl_handle_ok: "wl_ok s \<Longrightarrow> \<exists>s'. wl_handle_input env s e = Inr s' \<and> wl_ok s'"
  using wl_key_list_ok [of s env]
  by (auto simp: wl_handle_input_def wl_key_name_def wl_key_mac_def wl_save_def wl_ok_def
      split: event.split wol_mode.split wol_stage.split)

interpretation wl_app: event_app "\<lambda>s (env, e). wl_handle_input env s e" wl_ok
  by unfold_locales (auto intro: wl_handle_ok)

text \<open>The packet for an address written with colons.\<close>

definition mac_string :: "byte list \<Rightarrow> string" where
  "mac_string bs = py_join (CHR '':'') (map (\<lambda>b. bytes_hex [b]) bs)"

lemma hex_digit_sep: "n < 16 \<Longrightarrow> hex_digit n \<noteq> CHR '':'' \<and> hex_digit n \<noteq> CHR ''-''"
proof -
  assume "n < 16"
  then have "(of_char (hex_digit n) :: nat) \<notin> {58, 45}" by (auto simp: hex_digit_def of_char_char_of)
  then show ?thesis by auto
qed

lemma clean_mac_append: "clean_mac (a @ b) = clean_mac a @ clean_mac b"
  by (simp add: clean_mac_def)

lemma clean_bytes_hex: "clean_mac (bytes_hex bs) = bytes_hex bs"
  using hex_digit_sep nibble_less
  by (auto simp: clean_mac_def bytes_hex_def filter_id_conv)

lemma bytes_hex_Cons: "bytes_hex (b # bs) = bytes_hex [b] @ bytes_hex bs"
  by (simp add: bytes_hex_def)

lemma bytes_hex_append: "bytes_hex (xs @ ys) = bytes_hex xs @ bytes_hex ys"
  by (simp add: bytes_hex_def)

lemma clean_mac_string: "clean_mac (mac_string bs) = bytes_hex bs"
proof (induction bs)
  case Nil
  then show ?case by (simp add: mac_string_def clean_mac_def bytes_hex_def)
next
  case (Cons b bs)
  have "mac_string (b # bs) = (if bs = [] then bytes_hex [b] else bytes_hex [b] @ CHR '':'' # mac_string bs)"
    by (simp add: mac_string_def py_join_Cons)
  moreover have "clean_mac (CHR '':'' # m) = clean_mac m" for m by (simp add: clean_mac_def)
  ultimately show ?case
    using Cons.IH by (simp add: clean_mac_append clean_bytes_hex bytes_hex_Cons [of b bs])
      (simp add: bytes_hex_def)
qed

lemma bytes_hex_replicate: "concat (replicate n (bytes_hex bs)) = bytes_hex (concat (replicate n bs))"
  by (induction n) (simp_all add: bytes_hex_append, simp add: bytes_hex_def)

lemma fromhex_FF: "fromhex (concat (replicate n ''FF'') @ cs) = map_option (\<lambda>bs. replicate n 255 @ bs) (fromhex cs)"
proof (induction n)
  case 0
  then show ?case by (simp add: option.map_ident)
next
  case (Suc n)
  have "hex_val (CHR ''F'') = Some 15" "\<not> ascii_space (CHR ''F'')"
    by (simp_all add: hex_val_def ascii_space_def)
  with Suc show ?case by (simp add: option.map_comp comp_def)
qed

lemma magic_packet_mac: "magic_packet (mac_string bs) = Some (replicate 6 255 @ concat (replicate 16 bs))"
  by (simp only: magic_packet_def clean_mac_string bytes_hex_replicate fromhex_FF fromhex_bytes_hex option.map)

subsection \<open>Properties\<close>

text \<open>
  Waking a device broadcasts the magic packet of its address: for six bytes written as
  hexadecimal pairs with colons, six bytes \<open>FF\<close> followed by sixteen copies of the address,
  102 bytes in all, when the selected device has that address and the network accepts it.
\<close>

theorem wake_sends_magic_packet:
  "wl_mode s = WList \<Longrightarrow> py_get (wl_devices s) (wl_selected s) = Inr d \<Longrightarrow> wd_mac d = mac_string bs \<Longrightarrow>
   length bs = 6 \<Longrightarrow> we_send env = None \<Longrightarrow>
   \<exists>s' p. wl_handle_input env s (KeyDown K_RETURN u c) = Inr s' \<and> wl_sent s' = wl_sent s @ [p]
     \<and> p = replicate 6 255 @ concat (replicate 16 bs) \<and> length p = 102"
proof -
  assume a: "wl_mode s = WList" "py_get (wl_devices s) (wl_selected s) = Inr d" "wd_mac d = mac_string bs"
    "length bs = 6" "we_send env = None"
  let ?p = "replicate 6 255 @ concat (replicate 16 bs)"
  have "length ?p = 102" using a(4) by (simp add: length_concat sum_list_replicate)
  moreover from a(2) have "wl_devices s \<noteq> []" by (auto simp: py_get_def py_index_def Let_def split: if_splits)
  ultimately show ?thesis
    using a by (simp add: wl_handle_input_def wl_key_list_def send_magic_def magic_packet_mac)
qed

theorem wake_sends_magic_packet_witness:
  "\<exists>s' p. wl_handle_input \<lparr>we_send = None, we_hex = []\<rparr>
      (wl_init (Some [\<lparr>wd_name = ''nas'', wd_mac = mac_string [1, 2, 3, 4, 5, 6]\<rparr>])) (KeyDown K_RETURN [] False) = Inr s'
     \<and> wl_sent s' = [] @ [p] \<and> p = replicate 6 255 @ concat (replicate 16 [1, 2, 3, 4, 5, 6]) \<and> length p = 102"
  using wake_sends_magic_packet [of "wl_init (Some [\<lparr>wd_name = ''nas'', wd_mac = mac_string [1, 2, 3, 4, 5, 6]\<rparr>])"
      "\<lparr>wd_name = ''nas'', wd_mac = mac_string [1, 2, 3, 4, 5, 6]\<rparr>" "[1, 2, 3, 4, 5, 6]"
      "\<lparr>we_send = None, we_hex = []\<rparr>" "[]" False]
  by (simp add: wl_init_def wl_load_def py_get_def py_index_def)

end
