(* ===== verification/Timer.thy ===== *)
theory Timer
  imports Complex_Main Julius_Prelude
begin

text \<open>
  The timer application (\<^verbatim>\<open>src/src/apps/timer/timer.py\<close>): a stopwatch with laps and a countdown.
  The clock is an argument of every handler and drawing call; times are exact rationals. The
  width of a rendered text, on which the position of the large display depends, is a parameter
  of drawing.
\<close>

datatype timer_mode = TmMenu | TmStopwatch | TmInput | TmRun

record timer =
  tm_mode :: timer_mode
  sw_running :: bool
  sw_start :: rat
  sw_elapsed :: rat
  sw_laps :: "rat list"
  tm_input :: string
  tm_seconds :: int
  tm_start :: rat
  tm_running :: bool

definition timer_init :: timer where
  "timer_init = \<lparr>tm_mode = TmMenu, sw_running = False, sw_start = 0, sw_elapsed = 0, sw_laps = [],
     tm_input = [], tm_seconds = 0, tm_start = 0, tm_running = False\<rparr>"

text \<open>\<open>f"{n:02d}"\<close>, and Python's \<open>%\<close> on numbers that need not be whole.\<close>

definition fmt02 :: "int \<Rightarrow> string" where
  "fmt02 n = (let d = py_str_int n in if length d < 2 then CHR ''0'' # d else d)"

definition rat_mod :: "rat \<Rightarrow> rat \<Rightarrow> rat" where
  "rat_mod x y = x - of_int \<lfloor>x / y\<rfloor> * y"

definition fmt_time :: "rat \<Rightarrow> string" where
  "fmt_time seconds =
     (let h = \<lfloor>seconds / 3600\<rfloor>; m = \<lfloor>rat_mod seconds 3600 / 60\<rfloor>; s = \<lfloor>rat_mod seconds 60\<rfloor>;
          ms = \<lfloor>rat_mod seconds 1 * 100\<rfloor>
      in if h > 0 then fmt02 h @ '':'' @ fmt02 m @ '':'' @ fmt02 s
         else fmt02 m @ '':'' @ fmt02 s @ ''.'' @ fmt02 ms)"

subsection \<open>Screens\<close>

definition draw_timer_menu :: "draw_cmd list" where
  "draw_timer_menu =
     app_header ''Timer & Stopwatch''
     @ [DText ''1  Stopwatch'' TEXT (8, 60), DText ''2  Countdown Timer'' TEXT (8, 90)]
     @ app_footer ''Press 1 or 2''"

definition sw_reading :: "rat \<Rightarrow> timer \<Rightarrow> rat" where
  "sw_reading now s = (if sw_running s then sw_elapsed s + (now - sw_start s) else sw_elapsed s)"

definition draw_big :: "(string \<Rightarrow> int) \<Rightarrow> string \<Rightarrow> colour \<Rightarrow> draw_cmd" where
  "draw_big tw t c = DText t c (120 - tw t div 2, 50)"

definition draw_stopwatch :: "(string \<Rightarrow> int) \<Rightarrow> rat \<Rightarrow> timer \<Rightarrow> draw_cmd list" where
  "draw_stopwatch tw now s =
     app_header ''Stopwatch''
     @ [draw_big tw (fmt_time (sw_reading now s)) (if sw_running s then GREEN else TEXT)]
     @ map (\<lambda>(i, lap). DText (''Lap '' @ py_str_int (int i + 1) @ '': '' @ fmt_time lap) DIM (8, 100 + 16 * int i))
           (enum (py_slice (sw_laps s) (- 6) (int (length (sw_laps s)))))
     @ app_footer ''S=start/stop  L=lap  R=reset''"

definition draw_timer_input :: "timer \<Rightarrow> draw_cmd list" where
  "draw_timer_input s =
     app_header ''Countdown Timer''
     @ [DText ''Enter seconds:'' GREEN (8, 40), DText (tm_input s @ ''_'') TEXT (8, 58)]
     @ app_footer ''ENTER=start  ESC=back''"

text \<open>
  \<open>self.tm_seconds - elapsed\<close> converts the integer to a double while the countdown runs, which
  raises \<open>OverflowError\<close> from \<open>2 ^ 1024 - 2 ^ 970\<close> on.
\<close>

definition float_limit :: int where
  "float_limit = 2 ^ 1024 - 2 ^ 970"

definition tm_remaining :: "rat \<Rightarrow> timer \<Rightarrow> rat" where
  "tm_remaining now s = max 0 (of_int (tm_seconds s) - (if tm_running s then now - tm_start s else 0))"

definition tm_share :: "rat \<Rightarrow> timer \<Rightarrow> rat" where
  "tm_share now s = (if tm_seconds s \<noteq> 0 then tm_remaining now s / of_int (tm_seconds s) else 0)"

definition draw_timer_run :: "(string \<Rightarrow> int) \<Rightarrow> rat \<Rightarrow> timer \<Rightarrow> (draw_cmd list \<times> timer) res" where
  "draw_timer_run tw now s =
     (if tm_running s \<and> tm_seconds s \<ge> float_limit then Inl OverflowError
      else
        (let expired = tm_remaining now s \<le> 0 \<and> tm_running s;
             p = tm_share now s;
             color = (if expired then RED else if p > 1 / 2 then GREEN else if p > 1 / 5 then YELLOW else RED);
             text = (if expired then ''DONE!'' else fmt_time (tm_remaining now s))
         in Inr (app_header ''Countdown''
                 @ [draw_big tw text color, DRect DIM (8, 96, 224, 8), DRect color (8, 96, \<lfloor>224 * p\<rfloor>, 8)]
                 @ app_footer ''S=start/stop  R=reset  ESC=back'',
                 if expired then s\<lparr>tm_running := False\<rparr> else s)))"

definition timer_draw :: "(string \<Rightarrow> int) \<Rightarrow> rat \<Rightarrow> timer \<Rightarrow> (draw_cmd list \<times> timer) res" where
  "timer_draw tw now s =
     (case tm_mode s of
        TmMenu \<Rightarrow> Inr (draw_timer_menu, s)
      | TmStopwatch \<Rightarrow> Inr (draw_stopwatch tw now s, s)
      | TmInput \<Rightarrow> Inr (draw_timer_input s, s)
      | TmRun \<Rightarrow> draw_timer_run tw now s)"

subsection \<open>Input\<close>

text \<open>
  \<open>str.isdigit\<close> also holds of the superscript digits, which \<open>int\<close> rejects; \<open>int\<close> also raises
  \<open>ValueError\<close> beyond 4300 digits.
\<close>

definition dec_digit :: "char \<Rightarrow> bool" where
  "dec_digit c \<longleftrightarrow> 48 \<le> (of_char c :: nat) \<and> (of_char c :: nat) \<le> 57"

definition py_isdigit :: "string \<Rightarrow> bool" where
  "py_isdigit s \<longleftrightarrow> s \<noteq> [] \<and> list_all (\<lambda>c. dec_digit c \<or> (of_char c :: nat) \<in> {178, 179, 185}) s"

definition int_of_digits :: "string \<Rightarrow> int res" where
  "int_of_digits ds =
     (if list_all dec_digit ds \<and> length ds \<le> 4300
      then Inr (foldl (\<lambda>n c. 10 * n + int (of_char c - 48)) 0 ds) else Inl ValueError)"

definition key_timer_menu :: "timer \<Rightarrow> key \<Rightarrow> timer" where
  "key_timer_menu s k =
     (if k = K_1 then s\<lparr>tm_mode := TmStopwatch\<rparr>
      else if k = K_2 then s\<lparr>tm_mode := TmInput, tm_input := []\<rparr>
      else s)"

definition key_stopwatch :: "rat \<Rightarrow> timer \<Rightarrow> key \<Rightarrow> timer" where
  "key_stopwatch now s k =
     (if k = K_s then
        (if sw_running s then s\<lparr>sw_elapsed := sw_elapsed s + (now - sw_start s), sw_running := False\<rparr>
         else s\<lparr>sw_start := now, sw_running := True\<rparr>)
      else if k = K_l then
        (if sw_running s then s\<lparr>sw_laps := sw_laps s @ [sw_elapsed s + (now - sw_start s)]\<rparr> else s)
      else if k = K_r then s\<lparr>sw_running := False, sw_elapsed := 0, sw_laps := []\<rparr>
      else if k = K_ESCAPE then s\<lparr>tm_mode := TmMenu\<rparr>
      else s)"

definition key_timer_input :: "rat \<Rightarrow> timer \<Rightarrow> key \<Rightarrow> string \<Rightarrow> timer res" where
  "key_timer_input now s k u =
     (if k = K_RETURN \<and> tm_input s \<noteq> [] then
        res_bind (int_of_digits (tm_input s)) (\<lambda>n.
          Inr (s\<lparr>tm_seconds := n, tm_start := now, tm_running := True, tm_mode := TmRun\<rparr>))
      else if k = K_BACKSPACE then Inr (s\<lparr>tm_input := butlast (tm_input s)\<rparr>)
      else if k = K_ESCAPE then Inr (s\<lparr>tm_mode := TmMenu\<rparr>)
      else if py_isdigit u then Inr (s\<lparr>tm_input := tm_input s @ u\<rparr>)
      else Inr s)"

definition key_timer_run :: "rat \<Rightarrow> timer \<Rightarrow> key \<Rightarrow> timer" where
  "key_timer_run now s k =
     (if k = K_s then
        (if tm_running s then s\<lparr>tm_running := False\<rparr> else s\<lparr>tm_start := now, tm_running := True\<rparr>)
      else if k = K_r then s\<lparr>tm_running := False, tm_start := 0, tm_mode := TmInput, tm_input := []\<rparr>
      else if k = K_ESCAPE then s\<lparr>tm_running := False, tm_mode := TmMenu\<rparr>
      else s)"

definition timer_handle_input :: "rat \<Rightarrow> timer \<Rightarrow> event \<Rightarrow> timer res" where
  "timer_handle_input now s e =
     (case e of
        KeyDown k u _ \<Rightarrow>
          (case tm_mode s of
             TmMenu \<Rightarrow> Inr (key_timer_menu s k)
           | TmStopwatch \<Rightarrow> Inr (key_stopwatch now s k)
           | TmInput \<Rightarrow> key_timer_input now s k u
           | TmRun \<Rightarrow> Inr (key_timer_run now s k))
      | _ \<Rightarrow> Inr s)"

subsection \<open>The stopwatch against its specification\<close>

text \<open>
  The time a stopwatch has run when it was started and stopped at the times \<open>ts\<close> in turn, and
  the laps taken along a sequence of key presses.
\<close>

fun run_time :: "rat list \<Rightarrow> rat \<Rightarrow> rat" where
  "run_time [] now = 0"
| "run_time [a] now = now - a"
| "run_time (a # b # ts) now = (b - a) + run_time ts now"

fun lap_times :: "rat list \<Rightarrow> (rat \<times> key) list \<Rightarrow> rat list" where
  "lap_times ts [] = []"
| "lap_times ts ((t, k) # evs) =
     (if k = K_s then lap_times (ts @ [t]) evs
      else if k = K_l \<and> odd (length ts) then run_time ts t # lap_times ts evs
      else lap_times ts evs)"

lemma run_time_even: "even (length ts) \<Longrightarrow> run_time ts t = run_time ts now"
  by (induction ts now rule: run_time.induct) auto

lemma run_time_snoc:
  "run_time (ts @ [t]) now = run_time ts t + (if odd (length ts) then 0 else now - t)"
  by (induction ts now rule: run_time.induct) (auto simp: algebra_simps)

definition sw_follows :: "rat list \<Rightarrow> timer \<Rightarrow> bool" where
  "sw_follows ts s \<longleftrightarrow> tm_mode s = TmStopwatch \<and> sw_running s = odd (length ts)
     \<and> (\<forall>now. sw_reading now s = run_time ts now)"

lemma sw_follows_start_stop:
  assumes f: "sw_follows ts s"
  shows "sw_follows (ts @ [t]) (key_stopwatch t s K_s)" "sw_laps (key_stopwatch t s K_s) = sw_laps s"
proof -
  have r: "sw_reading now s = run_time ts now" for now using f by (simp add: sw_follows_def)
  show "sw_follows (ts @ [t]) (key_stopwatch t s K_s)"
  proof (cases "odd (length ts)")
    case True
    then have "sw_running s" using f by (simp add: sw_follows_def)
    with True f r [of t] show ?thesis by (simp add: sw_follows_def key_stopwatch_def sw_reading_def run_time_snoc)
  next
    case False
    then have "\<not> sw_running s" using f by (simp add: sw_follows_def)
    with False f r show ?thesis
      by (simp add: sw_follows_def key_stopwatch_def sw_reading_def run_time_snoc)
  qed
  show "sw_laps (key_stopwatch t s K_s) = sw_laps s" by (simp add: key_stopwatch_def)
qed

lemma sw_follows_other:
  assumes f: "sw_follows ts s" and k: "k \<notin> {K_s, K_r, K_ESCAPE}"
  shows "sw_follows ts (key_stopwatch t s k)"
    "sw_laps (key_stopwatch t s k) = sw_laps s @ (if k = K_l \<and> odd (length ts) then [run_time ts t] else [])"
proof -
  have r: "sw_reading t s = run_time ts t" using f by (simp add: sw_follows_def)
  show "sw_follows ts (key_stopwatch t s k)"
    using f k by (auto simp: sw_follows_def key_stopwatch_def sw_reading_def)
  show "sw_laps (key_stopwatch t s k) = sw_laps s @ (if k = K_l \<and> odd (length ts) then [run_time ts t] else [])"
    using f k r by (auto simp: sw_follows_def key_stopwatch_def sw_reading_def)
qed

lemma sw_step: "tm_mode s = TmStopwatch \<Longrightarrow> timer_handle_input t s (press k) = Inr (key_stopwatch t s k)"
  by (simp add: timer_handle_input_def press_def)

lemma sw_run:
  "sw_follows ts s \<Longrightarrow> (\<forall>(t, k)\<in>set evs. k \<notin> {K_r, K_ESCAPE}) \<Longrightarrow>
   \<exists>s'. run_events (\<lambda>s (t, k). timer_handle_input t s (press k)) s evs = Inr s'
     \<and> sw_follows (ts @ map fst (filter (\<lambda>(t, k). k = K_s) evs)) s' \<and> sw_laps s' = sw_laps s @ lap_times ts evs"
proof (induction evs arbitrary: s ts)
  case Nil
  then show ?case by simp
next
  case (Cons e evs)
  obtain t k where e: "e = (t, k)" by (cases e)
  have m: "tm_mode s = TmStopwatch" using Cons.prems by (simp add: sw_follows_def)
  have rest: "\<forall>(t, k)\<in>set evs. k \<notin> {K_r, K_ESCAPE}" using Cons.prems(2) by simp
  show ?case
  proof (cases "k = K_s")
    case True
    with Cons.IH [OF sw_follows_start_stop(1) [OF Cons.prems(1), of t] rest] show ?thesis
      by (simp add: e sw_step [OF m] sw_follows_start_stop(2) [OF Cons.prems(1)])
  next
    case False
    with Cons.prems(2) e have k: "k \<notin> {K_s, K_r, K_ESCAPE}" by auto
    from Cons.IH [OF sw_follows_other(1) [OF Cons.prems(1) k, of t] rest] False show ?thesis
      by (auto simp: e sw_step [OF m] sw_follows_other(2) [OF Cons.prems(1) k])
  qed
qed

subsection \<open>When the application raises\<close>

definition timer_ok :: "timer \<Rightarrow> bool" where
  "timer_ok s \<longleftrightarrow> list_all (\<lambda>c. dec_digit c \<or> (of_char c :: nat) \<in> {178, 179, 185}) (tm_input s)"

lemma timer_ok_init: "timer_ok timer_init"
  by (simp add: timer_ok_def timer_init_def)

lemma list_all_butlast: "list_all P xs \<Longrightarrow> list_all P (butlast xs)"
  by (auto simp: list_all_iff dest: in_set_butlastD)

lemma timer_ok_keys:
  assumes "timer_ok s"
  shows "timer_ok (key_timer_menu s k)" "timer_ok (key_stopwatch now s k)" "timer_ok (key_timer_run now s k)"
    "key_timer_input now s k u = Inr s' \<Longrightarrow> timer_ok s'"
  using assms list_all_butlast
  by (auto simp: timer_ok_def key_timer_menu_def key_stopwatch_def key_timer_run_def key_timer_input_def
      res_bind_Inr_iff py_isdigit_def split: if_splits)

interpretation timer_app: stepping_app "\<lambda>s (now, e). timer_handle_input now s e" timer_ok
  by unfold_locales
    (auto simp: timer_handle_input_def dest: timer_ok_keys(4) intro: timer_ok_keys split: event.splits timer_mode.splits)

lemma timer_raisesD:
  assumes "timer_handle_input now s e = Inl x"
  shows "x = ValueError \<and> tm_mode s = TmInput \<and> int_of_digits (tm_input s) = Inl ValueError"
  using assms
  by (auto simp: timer_handle_input_def key_timer_input_def res_bind_Inl_iff int_of_digits_def
      split: event.splits timer_mode.splits if_splits)

subsection \<open>Properties\<close>

text \<open>
  The stopwatch shows the time it has run: after any sequence of start/stop and lap keys
  at any times, its reading is the sum of the intervals between starts and stops, and every
  lap recorded is the reading at the time the lap key was pressed.
\<close>

theorem stopwatch_measures:
  "tm_mode s = TmStopwatch \<Longrightarrow> \<not> sw_running s \<Longrightarrow> sw_elapsed s = 0 \<Longrightarrow> sw_laps s = [] \<Longrightarrow>
   \<forall>(t, k)\<in>set evs. k \<notin> {K_r, K_ESCAPE} \<Longrightarrow>
   \<exists>s'. run_events (\<lambda>s (t, k). timer_handle_input t s (press k)) s evs = Inr s'
     \<and> sw_reading now s' = run_time (map fst (filter (\<lambda>(t, k). k = K_s) evs)) now
     \<and> sw_laps s' = lap_times [] evs"
  using sw_run [of "[]" s evs] by (auto simp: sw_follows_def sw_reading_def)

theorem stopwatch_measures_witness:
  "\<exists>s'. run_events (\<lambda>s (t, k). timer_handle_input t s (press k)) (timer_init\<lparr>tm_mode := TmStopwatch\<rparr>)
          [(10, K_s), (12, K_l), (15, K_s), (100, K_s)] = Inr s'
     \<and> sw_reading 101 s' = 6 \<and> sw_laps s' = [2]"
  using stopwatch_measures [of "timer_init\<lparr>tm_mode := TmStopwatch\<rparr>" "[(10, K_s), (12, K_l), (15, K_s), (100, K_s)]" 101]
  by (simp add: timer_init_def)

text \<open>
  The end of a countdown is shown for a single frame: the frame that finds the time used up
  shows \<open>DONE!\<close> and stops the countdown, and from then on, until a key is pressed, every frame
  shows the full time again.
\<close>

theorem countdown_done_one_frame:
  "tm_mode s = TmRun \<Longrightarrow> tm_running s \<Longrightarrow> 0 < tm_seconds s \<Longrightarrow> tm_seconds s < float_limit \<Longrightarrow>
   tm_start s + of_int (tm_seconds s) \<le> now \<Longrightarrow>
   \<exists>cs s'. timer_draw tw now s = Inr (cs, s') \<and> draw_big tw ''DONE!'' RED \<in> set cs
     \<and> (\<forall>later. \<exists>cs'. timer_draw tw later s' = Inr (cs', s') \<and> draw_big tw (fmt_time (of_int (tm_seconds s))) GREEN \<in> set cs')"
  by (auto simp: timer_draw_def draw_timer_run_def tm_remaining_def tm_share_def draw_big_def
      app_header_def app_footer_def Let_def)

theorem countdown_done_one_frame_witness:
  "\<exists>cs s'. timer_draw (\<lambda>_. 0) 9 (timer_init\<lparr>tm_mode := TmRun, tm_running := True, tm_seconds := 5, tm_start := 2\<rparr>) = Inr (cs, s')
     \<and> draw_big (\<lambda>_. 0) ''DONE!'' RED \<in> set cs"
proof -
  let ?s = "timer_init\<lparr>tm_mode := TmRun, tm_running := True, tm_seconds := 5, tm_start := 2\<rparr>"
  have "5 < float_limit" by (simp add: float_limit_def)
  then show ?thesis using countdown_done_one_frame [of ?s 9 "\<lambda>_. 0"] by auto
qed

text \<open>
  The timer raises in one situation only: \<open>ENTER\<close> on a number of seconds that \<open>isdigit\<close>
  accepted and \<open>int\<close> rejects, because it holds a superscript digit or more than 4300 digits.
\<close>

theorem timer_raises_only_on_int:
  "run_events (\<lambda>s (now, e). timer_handle_input now s e) timer_init evs = Inl x \<Longrightarrow>
   x = ValueError \<and> (\<exists>s now e. (now, e) \<in> set evs \<and> timer_handle_input now s e = Inl x \<and> tm_mode s = TmInput
     \<and> ((\<exists>c\<in>set (tm_input s). (of_char c :: nat) \<in> {178, 179, 185}) \<or> length (tm_input s) > 4300))"
proof -
  assume "run_events (\<lambda>s (now, e). timer_handle_input now s e) timer_init evs = Inl x"
  from timer_app.run_raises [OF timer_ok_init this] obtain s now e where
    s: "(now, e) \<in> set evs" "timer_ok s" "timer_handle_input now s e = Inl x" by auto
  from timer_raisesD [OF s(3)] have r: "x = ValueError" "tm_mode s = TmInput"
    and i: "int_of_digits (tm_input s) = Inl ValueError" by simp_all
  from i s(2) have "(\<exists>c\<in>set (tm_input s). (of_char c :: nat) \<in> {178, 179, 185}) \<or> length (tm_input s) > 4300"
    by (auto simp: int_of_digits_def timer_ok_def list_all_iff split: if_splits)
  with s r show ?thesis by blast
qed

theorem timer_raises_only_on_int_witness:
  "run_events (\<lambda>s (now, e). timer_handle_input now s e) timer_init
     [(0, press K_2), (1, KeyDown (K_other 0) [CHR 0xB2] False), (2, press K_RETURN)] = Inl ValueError
   \<and> (ValueError::py_error) = ValueError"
proof -
  have run: "run_events (\<lambda>s (now, e). timer_handle_input now s e) timer_init
     [(0, press K_2), (1, KeyDown (K_other 0) [CHR 0xB2] False), (2, press K_RETURN)] = Inl ValueError"
    by (simp add: timer_init_def timer_handle_input_def press_def key_timer_menu_def key_timer_input_def
        py_isdigit_def dec_digit_def int_of_digits_def)
  from timer_raises_only_on_int [OF run] run show ?thesis by blast
qed

end
