(* ===== verification/Firewall.thy ===== *)
theory Firewall
  imports Julius_Prelude
begin

text \<open>
  The firewall application (\<^verbatim>\<open>src/src/apps/firewall/firewall.py\<close>): the rules read from the
  listing of \<^verbatim>\<open>iptables\<close>, their display, adding and deleting. What \<^verbatim>\<open>iptables\<close> answers during an
  event is an argument (its listing or the text of the exception; success or failure of a
  change); the command lines run are recorded.
\<close>

record fw_rule =
  fr_num :: string
  fr_target :: string
  fr_proto :: string
  fr_source :: string

datatype fw_mode = FwList | FwAdd
datatype fw_stage = FwPort | FwProto | FwAction

record firewall =
  fw_rules :: "fw_rule list"
  fw_selected :: int
  fw_scroll :: int
  fw_status :: string
  fw_mode :: fw_mode
  fw_port_in :: string
  fw_proto_in :: string
  fw_action :: string
  fw_stage :: fw_stage
  fw_cmds :: "string list list"

record fw_env =
  fe_list :: "string + string"
  fe_run :: "string option"

definition fw_init :: firewall where
  "fw_init = \<lparr>fw_rules = [], fw_selected = 0, fw_scroll = 0, fw_status = ''Press R to load rules'', fw_mode = FwList,
     fw_port_in = [], fw_proto_in = ''tcp'', fw_action = ''ACCEPT'', fw_stage = FwPort, fw_cmds = []\<rparr>"

definition fw_parse_line :: "string \<Rightarrow> fw_rule option" where
  "fw_parse_line line =
     (let parts = py_words (py_strip line)
      in if length parts \<ge> 4 then
           Some \<lparr>fr_num = parts ! 0, fr_target = parts ! 1, fr_proto = parts ! 2,
                 fr_source = (if length parts > 4 then parts ! 4 else ''any'')\<rparr>
         else None)"

definition fw_parse :: "string \<Rightarrow> fw_rule list" where
  "fw_parse result = List.map_filter fw_parse_line (drop 2 (py_split newline_char (py_strip result)))"

definition fw_run :: "string list \<Rightarrow> firewall \<Rightarrow> firewall" where
  "fw_run cmd s = s\<lparr>fw_cmds := fw_cmds s @ [cmd]\<rparr>"

definition load_rules :: "fw_env \<Rightarrow> firewall \<Rightarrow> firewall" where
  "load_rules env s0 =
     (let s = fw_run [''iptables'', ''-L'', ''INPUT'', ''-n'', ''--line-numbers''] s0
      in case fe_list env of
           Inr result \<Rightarrow>
             s\<lparr>fw_rules := fw_parse result,
               fw_status := py_str_int (int (length (fw_parse result))) @ '' rules loaded''\<rparr>
         | Inl e \<Rightarrow> s\<lparr>fw_status := ''Error: '' @ e\<rparr>)"

definition add_rule :: "fw_env \<Rightarrow> string \<Rightarrow> string \<Rightarrow> string \<Rightarrow> firewall \<Rightarrow> firewall" where
  "add_rule env port proto action s0 =
     (let s = fw_run [''iptables'', ''-A'', ''INPUT'', ''-p'', proto, ''--dport'', port, ''-j'', action] s0
      in case fe_run env of
           None \<Rightarrow> load_rules env (s\<lparr>fw_status := ''Rule added: '' @ action @ '' '' @ proto @ ''/'' @ port\<rparr>)
         | Some e \<Rightarrow> s\<lparr>fw_status := ''Error: '' @ e\<rparr>)"

definition delete_rule :: "fw_env \<Rightarrow> string \<Rightarrow> firewall \<Rightarrow> firewall" where
  "delete_rule env num s0 =
     (let s = fw_run [''iptables'', ''-D'', ''INPUT'', num] s0
      in case fe_run env of
           None \<Rightarrow> load_rules env (s\<lparr>fw_status := ''Rule '' @ num @ '' deleted''\<rparr>)
         | Some e \<Rightarrow> s\<lparr>fw_status := ''Error: '' @ e\<rparr>)"

subsection \<open>Screens\<close>

definition fw_draw_list :: "firewall \<Rightarrow> draw_cmd list" where
  "fw_draw_list s =
     app_header ''Firewall''
     @ [DText (take 30 (fw_status s)) (if py_in ''loaded'' (fw_status s) then GREEN else RED) (8, 27),
        DLine DIM (0, 38) (240, 38), DText ''NUM  TARGET    PROTO  SRC'' ACCENT (8, 42), DLine DIM (0, 52) (240, 52)]
     @ draw_rows (fw_scroll s) 9 56 15
         (\<lambda>idx y r. (if idx = fw_selected s then [highlight y 14] else [])
            @ [DText (take 3 (fr_num r)) DIM (8, y),
               DText (take 8 (fr_target r)) (if fr_target r = ''ACCEPT'' then GREEN else RED) (32, y),
               DText (take 5 (fr_proto r)) YELLOW (112, y),
               DText (take 10 (fr_source r)) (if idx = fw_selected s then ACCENT else TEXT) (160, y)]) (fw_rules s)
     @ (if fw_rules s = [] then [DText ''No rules. Press A to add'' DIM (8, 100)] else [])
     @ app_footer ''R=load  A=add  D=delete''"

definition fw_draw_add :: "firewall \<Rightarrow> draw_cmd list" where
  "fw_draw_add s =
     app_header ''Add Rule''
     @ concat (map (\<lambda>(i, label, val, st).
          [DText (label @ '':'') (if fw_stage s = st then GREEN else DIM) (8, 36 + 24 * int i), DText val TEXT (100, 36 + 24 * int i)])
        (enum [(''Port'', fw_port_in s, FwPort), (''Protocol'', fw_proto_in s, FwProto), (''Action'', fw_action s, FwAction)]))
     @ app_footer ''ENTER=next  ESC=cancel''"

definition fw_draw :: "firewall \<Rightarrow> draw_cmd list" where
  "fw_draw s = (case fw_mode s of FwList \<Rightarrow> fw_draw_list s | FwAdd \<Rightarrow> fw_draw_add s)"

subsection \<open>Input\<close>

definition fw_key_list :: "fw_env \<Rightarrow> firewall \<Rightarrow> key \<Rightarrow> firewall res" where
  "fw_key_list env s k =
     (if k = K_DOWN then
        (let c = nav_down 9 (int (length (fw_rules s))) (fw_selected s, fw_scroll s)
         in Inr (s\<lparr>fw_selected := fst c, fw_scroll := snd c\<rparr>))
      else if k = K_UP then
        (let c = nav_up (fw_selected s, fw_scroll s) in Inr (s\<lparr>fw_selected := fst c, fw_scroll := snd c\<rparr>))
      else if k = K_r then Inr (load_rules env s)
      else if k = K_a then
        Inr (s\<lparr>fw_mode := FwAdd, fw_stage := FwPort, fw_port_in := [], fw_proto_in := ''tcp'', fw_action := ''ACCEPT''\<rparr>)
      else if k = K_d then
        (if fw_rules s \<noteq> [] then
           res_bind (py_get (fw_rules s) (fw_selected s)) (\<lambda>r. Inr (delete_rule env (fr_num r) s))
         else Inr s)
      else Inr s)"

definition fw_key_add :: "fw_env \<Rightarrow> firewall \<Rightarrow> key \<Rightarrow> string \<Rightarrow> firewall" where
  "fw_key_add env s k u =
     (if k = K_RETURN then
        (case fw_stage s of
           FwPort \<Rightarrow> (if fw_port_in s \<noteq> [] then s\<lparr>fw_stage := FwProto\<rparr> else s)
         | FwProto \<Rightarrow> s\<lparr>fw_stage := FwAction\<rparr>
         | FwAction \<Rightarrow> (add_rule env (fw_port_in s) (fw_proto_in s) (fw_action s) s)\<lparr>fw_mode := FwList\<rparr>)
      else if k = K_BACKSPACE then
        (if fw_stage s = FwPort then s\<lparr>fw_port_in := butlast (fw_port_in s)\<rparr> else s)
      else if k = K_ESCAPE then s\<lparr>fw_mode := FwList\<rparr>
      else if k = K_t \<and> fw_stage s = FwProto then s\<lparr>fw_proto_in := ''tcp''\<rparr>
      else if k = K_u \<and> fw_stage s = FwProto then s\<lparr>fw_proto_in := ''udp''\<rparr>
      else if k = K_a \<and> fw_stage s = FwAction then s\<lparr>fw_action := ''ACCEPT''\<rparr>
      else if k = K_d \<and> fw_stage s = FwAction then s\<lparr>fw_action := ''DROP''\<rparr>
      else if fw_stage s = FwPort then s\<lparr>fw_port_in := fw_port_in s @ u\<rparr>
      else s)"

definition fw_handle_input :: "fw_env \<Rightarrow> firewall \<Rightarrow> event \<Rightarrow> firewall res" where
  "fw_handle_input env s e =
     (case e of
        KeyDown k u _ \<Rightarrow>
          (case fw_mode s of FwList \<Rightarrow> fw_key_list env s k | FwAdd \<Rightarrow> Inr (fw_key_add env s k u))
      | _ \<Rightarrow> Inr s)"

subsection \<open>Lemmas\<close>

definition fw_ok :: "firewall \<Rightarrow> bool" where
  "fw_ok s \<longleftrightarrow> 0 \<le> fw_selected s \<and> 0 \<le> fw_scroll s \<and> fw_proto_in s \<in> {''tcp'', ''udp''} \<and> fw_action s \<in> {''ACCEPT'', ''DROP''}"

lemma load_rules_keeps [simp]:
  "fw_selected (load_rules env s) = fw_selected s" "fw_scroll (load_rules env s) = fw_scroll s"
  "fw_proto_in (load_rules env s) = fw_proto_in s" "fw_action (load_rules env s) = fw_action s"
  by (simp_all add: load_rules_def fw_run_def Let_def split: sum.split)

lemma change_keeps [simp]:
  "fw_selected (delete_rule env n s) = fw_selected s" "fw_scroll (delete_rule env n s) = fw_scroll s"
  "fw_proto_in (delete_rule env n s) = fw_proto_in s" "fw_action (delete_rule env n s) = fw_action s"
  "fw_selected (add_rule env p q a s) = fw_selected s" "fw_scroll (add_rule env p q a s) = fw_scroll s"
  "fw_proto_in (add_rule env p q a s) = fw_proto_in s" "fw_action (add_rule env p q a s) = fw_action s"
  by (simp_all add: delete_rule_def add_rule_def fw_run_def Let_def split: option.split)

lemma fw_key_add_ok: "fw_ok s \<Longrightarrow> fw_ok (fw_key_add env s k u)"
  by (auto simp: fw_key_add_def fw_ok_def split: fw_stage.split)

lemma fw_key_list_ok: "fw_ok s \<Longrightarrow> fw_key_list env s k = Inr s' \<Longrightarrow> fw_ok s'"
  by (auto simp: fw_key_list_def fw_ok_def nav_down_def nav_up_def Let_def res_bind_Inr_iff split: if_splits)

interpretation fw_app: stepping_app "\<lambda>s (env, e). fw_handle_input env s e" fw_ok
  by unfold_locales
    (auto simp: fw_handle_input_def dest: fw_key_list_ok intro: fw_key_add_ok split: event.splits fw_mode.splits)

lemma fw_raisesD:
  assumes "fw_ok s" "fw_handle_input env s e = Inl x"
  shows "x = IndexError \<and> fw_mode s = FwList \<and> fw_rules s \<noteq> [] \<and> int (length (fw_rules s)) \<le> fw_selected s
     \<and> (\<exists>u c. e = KeyDown K_d u c)"
  using assms
  by (auto simp: fw_handle_input_def fw_key_list_def fw_ok_def res_bind_Inl_iff py_get_def py_index_def Let_def
      split: event.splits fw_mode.splits if_splits option.splits)

text \<open>A line of the listing as \<^verbatim>\<open>iptables\<close> prints it: number, target, protocol, options, source and more.\<close>

definition rule_line :: "fw_rule \<times> string \<times> string list \<Rightarrow> string" where
  "rule_line = (\<lambda>(r, opt, more). py_join (CHR '' '') ([fr_num r, fr_target r, fr_proto r, opt, fr_source r] @ more))"

definition rule_words :: "fw_rule \<times> string \<times> string list \<Rightarrow> bool" where
  "rule_words = (\<lambda>(r, opt, more). \<forall>w\<in>set ([fr_num r, fr_target r, fr_proto r, opt, fr_source r] @ more). is_word w)"

lemma py_strip_words:
  assumes "ws \<noteq> []" "\<forall>w\<in>set ws. is_word w"
  shows "py_strip (py_join (CHR '' '') ws) = py_join (CHR '' '') ws
    \<and> py_join (CHR '' '') ws \<noteq> [] \<and> \<not> py_isspace_char (last (py_join (CHR '' '') ws))"
proof -
  let ?j = "py_join (CHR '' '') ws"
  have "?j \<noteq> [] \<and> hd ?j = hd (hd ws) \<and> last ?j = last (last ws)"
    using assms
  proof (induction ws)
    case (Cons w ws)
    then have "w \<noteq> []" by (simp add: is_word_def)
    with Cons show ?case by (cases "ws = []") (simp_all add: py_join_Cons)
  qed simp
  moreover have "hd (hd ws) \<in> set (hd ws)" "last (last ws) \<in> set (last ws)" "hd ws \<in> set ws" "last ws \<in> set ws"
    using assms by (auto simp: is_word_def)
  ultimately have "?j \<noteq> []" "\<not> py_isspace_char (hd ?j)" "\<not> py_isspace_char (last ?j)"
    using assms(2) by (auto simp: is_word_def)
  with py_strip_pad [of ?j "[]"] show ?thesis by simp
qed

lemma fw_parse_rule_line: "rule_words q \<Longrightarrow> fw_parse_line (rule_line q) = Some (fst q)"
proof -
  assume q: "rule_words q"
  obtain r opt more where e: "q = (r, opt, more)" by (cases q)
  let ?ws = "[fr_num r, fr_target r, fr_proto r, opt, fr_source r] @ more"
  from q e have w: "\<forall>w\<in>set ?ws. is_word w" by (simp add: rule_words_def)
  have "py_words (py_strip (rule_line q)) = ?ws"
    using py_strip_words [OF _ w] py_words_join [OF w] by (simp add: e rule_line_def)
  then show ?thesis by (simp add: fw_parse_line_def e Let_def)
qed

lemma newline_space: "py_isspace_char newline_char"
  by (simp add: py_isspace_char_def)

lemma rule_line_no_newline: "rule_words q \<Longrightarrow> newline_char \<notin> set (rule_line q)"
proof -
  assume q: "rule_words q"
  have j: "set (py_join (CHR '' '') ws) \<subseteq> insert (CHR '' '') (\<Union>(set ` set ws))" for ws
  proof (induction ws)
    case (Cons w ws)
    then show ?case by (cases "ws = []") (auto simp: py_join_Cons)
  qed simp
  obtain r opt more where e: "q = (r, opt, more)" by (cases q)
  let ?ws = "[fr_num r, fr_target r, fr_proto r, opt, fr_source r] @ more"
  have "\<forall>w\<in>set ?ws. newline_char \<notin> set w"
    using q newline_space by (auto simp: e rule_words_def is_word_def)
  with j [of ?ws] show ?thesis by (auto simp: e rule_line_def)
qed

lemma concat_lines: "ls \<noteq> [] \<Longrightarrow> concat (map (\<lambda>l. l @ [newline_char]) ls) = py_join newline_char ls @ [newline_char]"
proof (induction ls)
  case (Cons l ls)
  then show ?case by (cases "ls = []") (simp_all add: py_join_Cons)
qed simp

lemma last_py_join: "ls \<noteq> [] \<Longrightarrow> last ls \<noteq> [] \<Longrightarrow> py_join sep ls \<noteq> [] \<and> last (py_join sep ls) = last (last ls)"
proof (induction ls)
  case (Cons l ls)
  then show ?case by (cases "ls = []") (simp_all add: py_join_Cons)
qed simp

lemma fw_parse_listing:
  assumes h: "h1 \<noteq> []" "\<not> py_isspace_char (hd h1)" "newline_char \<notin> set h1"
    "h2 \<noteq> []" "\<not> py_isspace_char (last h2)" "newline_char \<notin> set h2"
    and q: "\<forall>q\<in>set qs. rule_words q"
  shows "fw_parse (concat (map (\<lambda>l. l @ [newline_char]) (h1 # h2 # map rule_line qs))) = map fst qs"
proof -
  let ?ls = "h1 # h2 # map rule_line qs"
  have line: "rule_line p \<noteq> [] \<and> \<not> py_isspace_char (last (rule_line p))" if "rule_words p" for p
  proof -
    obtain r opt more where e: "p = (r, opt, more)" by (cases p)
    show ?thesis
      using that py_strip_words [of "[fr_num r, fr_target r, fr_proto r, opt, fr_source r] @ more"]
      by (simp add: e rule_line_def rule_words_def)
  qed
  have "last qs \<in> set qs" if "qs \<noteq> []" using that by simp
  with line q have "last (map rule_line qs) \<noteq> [] \<and> \<not> py_isspace_char (last (last (map rule_line qs)))" if "qs \<noteq> []"
    using that by (simp add: last_map)
  with h have l: "last ?ls \<noteq> []" "\<not> py_isspace_char (last (last ?ls))" by (auto split: if_split)
  have j: "py_join newline_char ?ls \<noteq> []" "last (py_join newline_char ?ls) = last (last ?ls)"
    using last_py_join [of ?ls newline_char] l by simp_all
  have hd: "hd (py_join newline_char ?ls) = hd h1" using h(1) by (simp add: py_join_Cons)
  have "py_strip (py_join newline_char ?ls @ [newline_char]) = py_join newline_char ?ls"
    by (rule py_strip_pad) (use j hd h l newline_space in simp_all)
  moreover have "py_split newline_char (py_join newline_char ?ls) = ?ls"
    by (rule py_split_join) (use h q rule_line_no_newline in auto)
  moreover have "List.map_filter fw_parse_line (map rule_line qs) = map fst qs"
    using q by (induction qs) (simp_all add: List.map_filter_simps fw_parse_rule_line)
  ultimately show ?thesis
    unfolding fw_parse_def concat_lines [of ?ls, OF list.distinct(2)] by simp
qed

subsection \<open>Properties\<close>

text \<open>
  Loading reads the listing of \<^verbatim>\<open>iptables\<close> back: two heading lines and one line per rule
  with its number, target, protocol, options, source and anything more give exactly these
  rules in this order, and the status counts them.
\<close>

theorem firewall_loads_listing:
  "fw_mode s = FwList \<Longrightarrow>
   fe_list env = Inr (concat (map (\<lambda>l. l @ [newline_char]) (h1 # h2 # map rule_line qs))) \<Longrightarrow>
   h1 \<noteq> [] \<Longrightarrow> \<not> py_isspace_char (hd h1) \<Longrightarrow> newline_char \<notin> set h1 \<Longrightarrow>
   h2 \<noteq> [] \<Longrightarrow> \<not> py_isspace_char (last h2) \<Longrightarrow> newline_char \<notin> set h2 \<Longrightarrow> \<forall>q\<in>set qs. rule_words q \<Longrightarrow>
   \<exists>s'. fw_handle_input env s (KeyDown K_r u c) = Inr s' \<and> fw_rules s' = map fst qs
     \<and> fw_status s' = py_str_int (int (length qs)) @ '' rules loaded''"
  using fw_parse_listing [of h1 h2 qs]
  by (simp add: fw_handle_input_def fw_key_list_def load_rules_def fw_run_def)

theorem firewall_loads_listing_witness:
  "\<exists>s'. fw_handle_input \<lparr>fe_list = Inr (concat (map (\<lambda>l. l @ [newline_char]) (''Chain INPUT'' # ''num target''
            # map rule_line [(\<lparr>fr_num = ''1'', fr_target = ''DROP'', fr_proto = ''tcp'', fr_source = ''10.0.0.0/8''\<rparr>, ''--'', [''0.0.0.0/0''])]))),
          fe_run = None\<rparr> fw_init (KeyDown K_r [] False) = Inr s'
     \<and> fw_rules s' = [\<lparr>fr_num = ''1'', fr_target = ''DROP'', fr_proto = ''tcp'', fr_source = ''10.0.0.0/8''\<rparr>]"
  using firewall_loads_listing [of fw_init "\<lparr>fe_list = Inr (concat (map (\<lambda>l. l @ [newline_char]) (''Chain INPUT'' # ''num target''
            # map rule_line [(\<lparr>fr_num = ''1'', fr_target = ''DROP'', fr_proto = ''tcp'', fr_source = ''10.0.0.0/8''\<rparr>, ''--'', [''0.0.0.0/0''])]))),
          fe_run = None\<rparr>" "''Chain INPUT''" "''num target''"
      "[(\<lparr>fr_num = ''1'', fr_target = ''DROP'', fr_proto = ''tcp'', fr_source = ''10.0.0.0/8''\<rparr>, ''--'', [''0.0.0.0/0''])]" "[]" False]
  by (auto simp: fw_init_def rule_words_def is_word_def py_isspace_char_def)

text \<open>
  The firewall raises in one situation only: \<open>D\<close> when reloading has left fewer rules than
  the position selected before, which loading does not adjust; the list is then indexed out
  of range.
\<close>

theorem firewall_raises_only_stale:
  "run_events (\<lambda>s (env, e). fw_handle_input env s e) fw_init evs = Inl x \<Longrightarrow>
   x = IndexError \<and> (\<exists>s env u c. (env, KeyDown K_d u c) \<in> set evs \<and> fw_handle_input env s (KeyDown K_d u c) = Inl x
     \<and> fw_rules s \<noteq> [] \<and> int (length (fw_rules s)) \<le> fw_selected s)"
proof -
  assume run: "run_events (\<lambda>s (env, e). fw_handle_input env s e) fw_init evs = Inl x"
  have "fw_ok fw_init" by (simp add: fw_ok_def fw_init_def)
  from fw_app.run_raises [OF this run] obtain s env e where
    s: "(env, e) \<in> set evs" "fw_ok s" "fw_handle_input env s e = Inl x" by auto
  with fw_raisesD [OF s(2,3)] show ?thesis by blast
qed

theorem firewall_raises_only_stale_witness:
  "run_events (\<lambda>s (env, e). fw_handle_input env s e) fw_init
     [(\<lparr>fe_list = Inr (''h'' @ [newline_char] @ ''h'' @ [newline_char] @ ''1 a b c'' @ [newline_char] @ ''2 a b c''), fe_run = None\<rparr>, press K_r),
      (\<lparr>fe_list = Inl [], fe_run = None\<rparr>, press K_DOWN),
      (\<lparr>fe_list = Inr (''h'' @ [newline_char] @ ''h'' @ [newline_char] @ ''1 a b c''), fe_run = None\<rparr>, press K_d),
      (\<lparr>fe_list = Inl [], fe_run = None\<rparr>, press K_d)] = Inl IndexError
   \<and> (IndexError::py_error) = IndexError"
proof -
  let ?evs = "[(\<lparr>fe_list = Inr (''h'' @ [newline_char] @ ''h'' @ [newline_char] @ ''1 a b c'' @ [newline_char] @ ''2 a b c''), fe_run = None\<rparr>, press K_r),
      (\<lparr>fe_list = Inl [], fe_run = None\<rparr>, press K_DOWN),
      (\<lparr>fe_list = Inr (''h'' @ [newline_char] @ ''h'' @ [newline_char] @ ''1 a b c''), fe_run = None\<rparr>, press K_d),
      (\<lparr>fe_list = Inl [], fe_run = None\<rparr>, press K_d)]"
  have run: "run_events (\<lambda>s (env, e). fw_handle_input env s e) fw_init ?evs = Inl IndexError"
    by (simp add: fw_init_def fw_handle_input_def press_def fw_key_list_def load_rules_def delete_rule_def fw_run_def
        fw_parse_def fw_parse_line_def py_strip_def py_lstrip_def py_isspace_char_def py_words_def List.map_filter_simps
        nav_down_def py_get_def py_index_def Let_def)
  from firewall_raises_only_stale [OF run] run show ?thesis by blast
qed

end
