(* ===== verification/Log_Viewer.thy ===== *)
theory Log_Viewer
  imports Julius_Prelude
begin

text \<open>
  The log viewer (\<^verbatim>\<open>src/src/apps/logviewer/logviewer.py\<close>): a menu of log files, a scrolling view and
  a filter. What a log holds when it is opened (or the text of the exception) is an argument
  of the handler, as is the existence of its file for the menu.
\<close>

definition LOGS :: "(string \<times> string) list" where
  "LOGS = [(''Syslog'', ''/var/log/syslog''), (''Auth'', ''/var/log/auth.log''), (''Kern'', ''/var/log/kern.log''),
           (''Dmesg'', ''dmesg''), (''Boot'', ''/var/log/boot.log''), (''Messages'', ''/var/log/messages'')]"

datatype lv_mode = LvMenu | LvView | LvFilter

record log_viewer =
  lv_mode :: lv_mode
  lv_selected :: int
  lv_lines :: "string list"
  lv_scroll :: int
  lv_status :: string
  lv_filter :: string

definition lv_init :: log_viewer where
  "lv_init = \<lparr>lv_mode = LvMenu, lv_selected = 0, lv_lines = [], lv_scroll = 0, lv_status = [], lv_filter = []\<rparr>"

text \<open>
  The world a log is read from: the output of \<^verbatim>\<open>dmesg\<close>, and for a path whether it exists and
  what reading it gives; \<open>Inl\<close> holds the text of an exception.
\<close>

record log_world =
  lw_dmesg :: "string + string"
  lw_file :: "string \<Rightarrow> (string + string) option"

definition load_log :: "log_world \<Rightarrow> string \<times> string \<Rightarrow> log_viewer \<Rightarrow> log_viewer" where
  "load_log w log s =
     (let content =
        (if snd log = ''dmesg'' then map_sum id (py_split newline_char) (lw_dmesg w)
         else (case lw_file w (snd log) of
                 Some r \<Rightarrow> map_sum id file_lines r
               | None \<Rightarrow> Inr [''File not found: '' @ snd log]))
      in case content of
           Inr ls \<Rightarrow> s\<lparr>lv_lines := ls, lv_scroll := max 0 (int (length ls) - 12),
                       lv_status := py_str_int (int (length ls)) @ '' lines'', lv_mode := LvView\<rparr>
         | Inl e \<Rightarrow> s\<lparr>lv_lines := [''Error: '' @ e], lv_scroll := 0, lv_mode := LvView\<rparr>)"

definition filtered_lines :: "log_viewer \<Rightarrow> string list" where
  "filtered_lines s =
     (if lv_filter s \<noteq> [] then filter (\<lambda>l. py_in (py_lower (lv_filter s)) (py_lower l)) (lv_lines s) else lv_lines s)"

subsection \<open>Screens\<close>

definition lv_draw_menu :: "log_world \<Rightarrow> log_viewer \<Rightarrow> draw_cmd list" where
  "lv_draw_menu w s =
     app_header ''Log Viewer''
     @ draw_rows 0 6 32 22
         (\<lambda>i y (name, path). (if i = lv_selected s then [highlight y 15] else [])
            @ [DText name (if i = lv_selected s then ACCENT else TEXT) (8, y),
               DText (py_slice path (- 20) (int (length path)))
                 (if lw_file w path \<noteq> None \<or> path = ''dmesg'' then GREEN else RED) (80, y)]) LOGS
     @ app_footer ''UP DOWN=select  ENTER=open''"

definition lv_line_colour :: "string \<Rightarrow> colour" where
  "lv_line_colour stripped =
     (if py_in ''error'' (py_lower stripped) \<or> py_in ''fail'' (py_lower stripped) then RED
      else if py_in ''warn'' (py_lower stripped) then YELLOW else TEXT)"

definition lv_draw_view :: "log_viewer \<Rightarrow> draw_cmd list res" where
  "lv_draw_view s =
     res_bind (py_get LOGS (lv_selected s)) (\<lambda>(name, path).
       Inr ([Fill BG, DText name ACCENT (8, 8)]
         @ (if lv_filter s \<noteq> [] then [DText (CHR ''/'' # lv_filter s) YELLOW (80, 8)] else [])
         @ [DLine ACCENT (0, 24) (240, 24)]
         @ draw_rows (lv_scroll s) 12 28 16
             (\<lambda>i y l. [DText (take 30 (py_strip l)) (lv_line_colour (take 30 (py_strip l))) (8, y)]) (filtered_lines s)
         @ [DText (py_str_int (lv_scroll s) @ ''/'' @ py_str_int (int (length (filtered_lines s)))) DIM (8, 210)]
         @ app_footer ''UP DOWN  F=filter  ESC=back''))"

definition lv_draw_filter :: "log_viewer \<Rightarrow> draw_cmd list" where
  "lv_draw_filter s =
     app_header ''Filter Logs''
     @ [DText ''Filter keyword:'' GREEN (8, 40), DText (lv_filter s @ ''_'') TEXT (8, 58)]
     @ app_footer ''ENTER=apply  ESC=cancel''"

definition lv_draw :: "log_world \<Rightarrow> log_viewer \<Rightarrow> draw_cmd list res" where
  "lv_draw w s =
     (case lv_mode s of LvMenu \<Rightarrow> Inr (lv_draw_menu w s) | LvView \<Rightarrow> lv_draw_view s | LvFilter \<Rightarrow> Inr (lv_draw_filter s))"

subsection \<open>Input\<close>

definition lv_key_menu :: "log_world \<Rightarrow> log_viewer \<Rightarrow> key \<Rightarrow> log_viewer res" where
  "lv_key_menu w s k =
     (if k = K_DOWN then Inr (s\<lparr>lv_selected := min (lv_selected s + 1) (int (length LOGS) - 1)\<rparr>)
      else if k = K_UP then Inr (s\<lparr>lv_selected := max (lv_selected s - 1) 0\<rparr>)
      else if k = K_RETURN then res_bind (py_get LOGS (lv_selected s)) (\<lambda>log. Inr (load_log w log s))
      else Inr s)"

definition lv_key_view :: "log_viewer \<Rightarrow> key \<Rightarrow> log_viewer" where
  "lv_key_view s k =
     (if k = K_DOWN then s\<lparr>lv_scroll := min (lv_scroll s + 1) (max 0 (int (length (filtered_lines s)) - 12))\<rparr>
      else if k = K_UP then s\<lparr>lv_scroll := max (lv_scroll s - 1) 0\<rparr>
      else if k = K_f then s\<lparr>lv_mode := LvFilter, lv_filter := []\<rparr>
      else if k = K_ESCAPE then s\<lparr>lv_mode := LvMenu, lv_filter := [], lv_lines := []\<rparr>
      else s)"

definition lv_key_filter :: "log_viewer \<Rightarrow> key \<Rightarrow> string \<Rightarrow> log_viewer" where
  "lv_key_filter s k u =
     (if k = K_RETURN then s\<lparr>lv_mode := LvView, lv_scroll := 0\<rparr>
      else if k = K_BACKSPACE then s\<lparr>lv_filter := butlast (lv_filter s)\<rparr>
      else if k = K_ESCAPE then s\<lparr>lv_mode := LvView\<rparr>
      else s\<lparr>lv_filter := lv_filter s @ u\<rparr>)"

definition lv_handle_input :: "log_world \<Rightarrow> log_viewer \<Rightarrow> event \<Rightarrow> log_viewer res" where
  "lv_handle_input w s e =
     (case e of
        KeyDown k u _ \<Rightarrow>
          (case lv_mode s of
             LvMenu \<Rightarrow> lv_key_menu w s k
           | LvView \<Rightarrow> Inr (lv_key_view s k)
           | LvFilter \<Rightarrow> Inr (lv_key_filter s k u))
      | _ \<Rightarrow> Inr s)"

subsection \<open>Lemmas\<close>

definition lv_ok :: "log_viewer \<Rightarrow> bool" where
  "lv_ok s \<longleftrightarrow> 0 \<le> lv_selected s \<and> lv_selected s < 6 \<and> 0 \<le> lv_scroll s"

lemma length_LOGS [simp]: "length LOGS = 6"
  by (simp add: LOGS_def)

lemma load_log_keeps: "lv_ok s \<Longrightarrow> lv_ok (load_log w log s)"
  by (auto simp: lv_ok_def load_log_def Let_def split: sum.split)

lemma lv_handle_ok: "lv_ok s \<Longrightarrow> \<exists>s'. lv_handle_input w s e = Inr s' \<and> lv_ok s'"
  using load_log_keeps [of s w]
  by (auto simp: lv_handle_input_def lv_key_menu_def lv_key_view_def lv_key_filter_def lv_ok_def py_get_def py_index_def
      split: event.split lv_mode.split)

interpretation lv_app: event_app "\<lambda>s (w, e). lv_handle_input w s e" lv_ok
  by unfold_locales (auto intro: lv_handle_ok)

lemma lv_type: "lv_mode s = LvFilter \<Longrightarrow>
   run_events (lv_handle_input w) s (type_text t) = Inr (s\<lparr>lv_filter := lv_filter s @ t\<rparr>)"
  by (rule run_type_text [where P = "\<lambda>s. lv_mode s = LvFilter"])
    (simp_all add: lv_handle_input_def lv_key_filter_def)

subsection \<open>Properties\<close>

text \<open>
  Leaving the filter with \<open>ESC=cancel\<close> does not cancel it: the text typed so far stays in
  force, the scroll position stays where it was in the unfiltered log, and when fewer lines
  match than that position the view is empty although lines match.
\<close>

theorem log_filter_cancel_applies:
  "lv_mode s = LvView \<Longrightarrow> 0 \<le> lv_scroll s \<Longrightarrow> t \<noteq> [] \<Longrightarrow>
   \<exists>s'. run_events (lv_handle_input w) s ([press K_f] @ type_text t @ [press K_ESCAPE]) = Inr s'
     \<and> lv_mode s' = LvView \<and> lv_scroll s' = lv_scroll s
     \<and> filtered_lines s' = filter (\<lambda>l. py_in (py_lower t) (py_lower l)) (lv_lines s)
     \<and> (int (length (filtered_lines s')) \<le> lv_scroll s \<longrightarrow> py_slice (filtered_lines s') (lv_scroll s') (lv_scroll s' + 12) = [])"
proof -
  assume a: "lv_mode s = LvView" "0 \<le> lv_scroll s" "t \<noteq> []"
  let ?f = "s\<lparr>lv_mode := LvFilter, lv_filter := []\<rparr>"
  have f: "lv_handle_input w s (press K_f) = Inr ?f"
    using a(1) by (simp add: lv_handle_input_def press_def lv_key_view_def)
  have ty: "run_events (lv_handle_input w) ?f (type_text t) = Inr (?f\<lparr>lv_filter := t\<rparr>)"
    using lv_type [of ?f w t] by simp
  let ?s = "s\<lparr>lv_mode := LvView, lv_filter := t\<rparr>"
  have esc: "lv_handle_input w (?f\<lparr>lv_filter := t\<rparr>) (press K_ESCAPE) = Inr ?s"
    by (simp add: lv_handle_input_def press_def lv_key_filter_def)
  have run: "run_events (lv_handle_input w) s ([press K_f] @ type_text t @ [press K_ESCAPE]) = Inr ?s"
    using f ty esc by (simp add: run_events_append)
  show ?thesis
  proof (intro exI conjI)
    show "run_events (lv_handle_input w) s ([press K_f] @ type_text t @ [press K_ESCAPE]) = Inr ?s" by (rule run)
    show "int (length (filtered_lines ?s)) \<le> lv_scroll s \<longrightarrow> py_slice (filtered_lines ?s) (lv_scroll ?s) (lv_scroll ?s + 12) = []"
      using a(2) by (simp add: py_slice_def py_clamp_def min_def)
  qed (use a(3) in \<open>simp_all add: filtered_lines_def\<close>)
qed

theorem log_filter_cancel_applies_witness:
  "\<exists>s'. run_events (lv_handle_input \<lparr>lw_dmesg = Inr [], lw_file = \<lambda>_. None\<rparr>)
        (lv_init\<lparr>lv_mode := LvView, lv_lines := replicate 20 ''ok'' @ [''fail''], lv_scroll := 9\<rparr>)
        ([press K_f] @ type_text ''fail'' @ [press K_ESCAPE]) = Inr s'
     \<and> filtered_lines s' = [''fail''] \<and> py_slice (filtered_lines s') (lv_scroll s') (lv_scroll s' + 12) = []"
proof -
  let ?s = "lv_init\<lparr>lv_mode := LvView, lv_lines := replicate 20 ''ok'' @ [''fail''], lv_scroll := 9\<rparr>"
  have "\<not> py_in (py_lower ''fail'') (py_lower ''ok'')" "py_in (py_lower ''fail'') (py_lower ''fail'')"
    by (simp_all add: py_lower_def py_lower_char_def)
  then have "filter (\<lambda>l. py_in (py_lower ''fail'') (py_lower l)) (lv_lines ?s) = [''fail'']"
    by simp
  with log_filter_cancel_applies [of ?s "''fail''" "\<lparr>lw_dmesg = Inr [], lw_file = \<lambda>_. None\<rparr>"] show ?thesis by auto
qed

end
