(* ===== verification/Process_Killer.thy ===== *)
theory Process_Killer
  imports Julius_Prelude
begin

text \<open>
  The process killer (\<^verbatim>\<open>src/src/apps/processkiller/processkiller.py\<close>): the process table parsed
  from the output of \<^verbatim>\<open>ps\<close>, a name filter, and \<^verbatim>\<open>kill -9\<close> on the selected process. What \<^verbatim>\<open>ps\<close> and
  \<^verbatim>\<open>kill\<close> answer during an event is an argument; the processes killed are recorded.
\<close>

record proc =
  pr_pid :: string
  pr_name :: string
  pr_cpu :: string
  pr_mem :: string

datatype pk_mode = PkList | PkFilter

record process_killer =
  pk_procs :: "proc list"
  pk_selected :: int
  pk_scroll :: int
  pk_status :: string
  pk_filter :: string
  pk_mode :: pk_mode
  pk_killed :: "string list"

record pk_env =
  pe_ps :: "string + string"
  pe_kill :: "string option"

definition pk_init :: process_killer where
  "pk_init = \<lparr>pk_procs = [], pk_selected = 0, pk_scroll = 0, pk_status = ''Press R to refresh'', pk_filter = [],
     pk_mode = PkList, pk_killed = []\<rparr>"

definition pk_parse_line :: "string \<Rightarrow> proc option" where
  "pk_parse_line line =
     (let parts = py_words (py_strip line)
      in if length parts \<ge> 4 then
           Some \<lparr>pr_pid = parts ! 0, pr_name = take 14 (parts ! 1), pr_cpu = parts ! 2, pr_mem = parts ! 3\<rparr>
         else None)"

definition pk_refresh :: "pk_env \<Rightarrow> process_killer \<Rightarrow> process_killer" where
  "pk_refresh env s =
     (case pe_ps env of
        Inr result \<Rightarrow>
          (let ps = List.map_filter pk_parse_line (tl (py_split newline_char (py_strip result)))
           in s\<lparr>pk_procs := ps, pk_status := py_str_int (int (length ps)) @ '' processes''\<rparr>)
      | Inl e \<Rightarrow> s\<lparr>pk_status := ''Error: '' @ e\<rparr>)"

definition pk_kill :: "pk_env \<Rightarrow> string \<Rightarrow> process_killer \<Rightarrow> process_killer" where
  "pk_kill env pid s =
     (case pe_kill env of
        None \<Rightarrow> pk_refresh env (s\<lparr>pk_killed := pk_killed s @ [pid], pk_status := ''Killed PID '' @ pid\<rparr>)
      | Some e \<Rightarrow> s\<lparr>pk_status := ''Error: '' @ e\<rparr>)"

definition filtered_procs :: "process_killer \<Rightarrow> proc list" where
  "filtered_procs s =
     (if pk_filter s \<noteq> [] then filter (\<lambda>p. py_in (py_lower (pk_filter s)) (py_lower (pr_name p))) (pk_procs s)
      else pk_procs s)"

subsection \<open>Screens\<close>

definition pk_draw_list :: "process_killer \<Rightarrow> draw_cmd list" where
  "pk_draw_list s =
     app_header ''Process Killer''
     @ [DText (pk_status s) (if py_in ''processes'' (pk_status s) then GREEN else RED) (8, 27),
        DLine DIM (0, 38) (240, 38), DText ''PID    NAME           CPU  MEM'' ACCENT (8, 42), DLine DIM (0, 52) (240, 52)]
     @ draw_rows (pk_scroll s) 9 56 15
         (\<lambda>idx y p. (if idx = pk_selected s then [highlight y 14] else [])
            @ [DText (take 6 (pr_pid p)) DIM (8, y), DText (pr_name p) (if idx = pk_selected s then ACCENT else TEXT) (48, y),
               DText (pr_cpu p @ ''%'') GREEN (168, y), DText (pr_mem p @ ''%'') YELLOW (205, y)]) (filtered_procs s)
     @ (if pk_filter s \<noteq> [] then [DText (''Filter: '' @ pk_filter s) YELLOW (8, 210)] else [])
     @ app_footer ''R=refresh  K=kill  F=filter''"

definition pk_draw_filter :: "process_killer \<Rightarrow> draw_cmd list" where
  "pk_draw_filter s =
     app_header ''Filter Process''
     @ [DText ''Filter by name:'' GREEN (8, 40), DText (pk_filter s @ ''_'') TEXT (8, 58)]
     @ app_footer ''ENTER=apply  ESC=cancel''"

definition pk_draw :: "process_killer \<Rightarrow> draw_cmd list" where
  "pk_draw s = (case pk_mode s of PkList \<Rightarrow> pk_draw_list s | PkFilter \<Rightarrow> pk_draw_filter s)"

subsection \<open>Input\<close>

definition pk_key_list :: "pk_env \<Rightarrow> process_killer \<Rightarrow> key \<Rightarrow> process_killer res" where
  "pk_key_list env s k =
     (if k = K_DOWN then
        (let c = nav_down 9 (int (length (filtered_procs s))) (pk_selected s, pk_scroll s)
         in Inr (s\<lparr>pk_selected := fst c, pk_scroll := snd c\<rparr>))
      else if k = K_UP then
        (let c = nav_up (pk_selected s, pk_scroll s) in Inr (s\<lparr>pk_selected := fst c, pk_scroll := snd c\<rparr>))
      else if k = K_r then Inr (pk_refresh env s)
      else if k = K_k then
        (if filtered_procs s \<noteq> [] then
           res_bind (py_get (filtered_procs s) (pk_selected s)) (\<lambda>p. Inr (pk_kill env (pr_pid p) s))
         else Inr s)
      else if k = K_f then Inr (s\<lparr>pk_mode := PkFilter, pk_filter := []\<rparr>)
      else Inr s)"

definition pk_key_filter :: "process_killer \<Rightarrow> key \<Rightarrow> string \<Rightarrow> process_killer" where
  "pk_key_filter s k u =
     (if k = K_RETURN then s\<lparr>pk_mode := PkList, pk_selected := 0, pk_scroll := 0\<rparr>
      else if k = K_BACKSPACE then s\<lparr>pk_filter := butlast (pk_filter s)\<rparr>
      else if k = K_ESCAPE then s\<lparr>pk_mode := PkList, pk_filter := []\<rparr>
      else s\<lparr>pk_filter := pk_filter s @ u\<rparr>)"

definition pk_handle_input :: "pk_env \<Rightarrow> process_killer \<Rightarrow> event \<Rightarrow> process_killer res" where
  "pk_handle_input env s e =
     (case e of
        KeyDown k u _ \<Rightarrow>
          (case pk_mode s of PkList \<Rightarrow> pk_key_list env s k | PkFilter \<Rightarrow> Inr (pk_key_filter s k u))
      | _ \<Rightarrow> Inr s)"

subsection \<open>Lemmas\<close>

definition pk_ok :: "process_killer \<Rightarrow> bool" where
  "pk_ok s \<longleftrightarrow> 0 \<le> pk_selected s \<and> 0 \<le> pk_scroll s"

lemma pk_refresh_keeps [simp]:
  "pk_selected (pk_refresh env s) = pk_selected s" "pk_scroll (pk_refresh env s) = pk_scroll s"
  "pk_killed (pk_refresh env s) = pk_killed s"
  by (simp_all add: pk_refresh_def Let_def split: sum.split)

lemma pk_kill_keeps [simp]:
  "pk_selected (pk_kill env p s) = pk_selected s" "pk_scroll (pk_kill env p s) = pk_scroll s"
  by (simp_all add: pk_kill_def split: option.split)

lemma pk_key_list_ok: "pk_ok s \<Longrightarrow> pk_key_list env s k = Inr s' \<Longrightarrow> pk_ok s'"
  by (auto simp: pk_key_list_def pk_ok_def nav_down_def nav_up_def Let_def res_bind_Inr_iff split: if_splits)

lemma pk_key_filter_ok: "pk_ok s \<Longrightarrow> pk_ok (pk_key_filter s k u)"
  by (simp add: pk_key_filter_def pk_ok_def)

interpretation pk_app: stepping_app "\<lambda>s (env, e). pk_handle_input env s e" pk_ok
  by unfold_locales
    (auto simp: pk_handle_input_def dest: pk_key_list_ok intro: pk_key_filter_ok split: event.splits pk_mode.splits)

lemma pk_raisesD:
  assumes "pk_ok s" "pk_handle_input env s e = Inl x"
  shows "x = IndexError \<and> pk_mode s = PkList \<and> filtered_procs s \<noteq> [] \<and> int (length (filtered_procs s)) \<le> pk_selected s
     \<and> (\<exists>u c. e = KeyDown K_k u c)"
  using assms
  by (auto simp: pk_handle_input_def pk_key_list_def pk_ok_def res_bind_Inl_iff py_get_def py_index_def Let_def
      split: event.splits pk_mode.splits if_splits option.splits)

text \<open>
  Only \<open>K\<close> kills, and it kills the process of the selected row of the filtered list; when the
  list has shrunk below the selection it raises \<open>IndexError\<close> instead.
\<close>

lemma pk_kills_selected:
  assumes "pk_mode s = PkList" "0 \<le> pk_selected s" "filtered_procs s \<noteq> []" "pe_kill env = None"
  shows "(case pk_handle_input env s (KeyDown K_k u c) of
       Inr s' \<Rightarrow> pk_selected s < int (length (filtered_procs s))
         \<and> pk_killed s' = pk_killed s @ [pr_pid (filtered_procs s ! nat (pk_selected s))]
     | Inl x \<Rightarrow> x = IndexError \<and> int (length (filtered_procs s)) \<le> pk_selected s)"
  using assms by (auto simp: pk_handle_input_def pk_key_list_def pk_kill_def py_get_def py_index_def Let_def)

end
