(* ===== verification/File_Manager.thy ===== *)
theory File_Manager
  imports Posix_Path "HOL-Library.Char_ord" "HOL-Library.List_Lexorder"
begin

text \<open>
  The file manager (\<^verbatim>\<open>src/src/apps/filemanager/filemanager.py\<close>) over a model of the part of
  \<^verbatim>\<open>os\<close>, \<^verbatim>\<open>os.path\<close> and \<^verbatim>\<open>shutil\<close> it uses. A file system is an association list from absolute
  paths, given by their components, to directories and regular files. Symbolic links are not
  modelled. What the operating system may do on its own during an event is the argument
  \<open>fm_env\<close>: refuse the listing, refuse the operation (leaving whatever it had done so far), and
  the text of the exception.
\<close>

subsection \<open>The file system\<close>

datatype node = Dir | File string

type_synonym fsys = "(string list \<times> node) list"

definition fs_isdir :: "fsys \<Rightarrow> string \<Rightarrow> bool" where
  "fs_isdir fs p \<longleftrightarrow> resolve p = [] \<or> map_of fs (resolve p) = Some Dir"

definition fs_isfile :: "fsys \<Rightarrow> string \<Rightarrow> bool" where
  "fs_isfile fs p \<longleftrightarrow> resolve p \<noteq> [] \<and> (case map_of fs (resolve p) of Some (File _) \<Rightarrow> True | _ \<Rightarrow> False)"

definition fs_listdir :: "fsys \<Rightarrow> string \<Rightarrow> string list option" where
  "fs_listdir fs p =
     (if fs_isdir fs p then
        Some (map last (filter (\<lambda>k. k \<noteq> [] \<and> butlast k = resolve p) (map fst fs)))
      else None)"

text \<open>The paths at and below \<open>root\<close>.\<close>

definition below :: "string list \<Rightarrow> string list \<Rightarrow> bool" where
  "below root k = py_prefix root k"

definition fs_rmtree :: "fsys \<Rightarrow> string \<Rightarrow> fsys" where
  "fs_rmtree fs p = filter (\<lambda>(k, _). \<not> below (resolve p) k) fs"

definition fs_remove :: "fsys \<Rightarrow> string \<Rightarrow> fsys option" where
  "fs_remove fs p = (if fs_isfile fs p then Some (filter (\<lambda>(k, _). k \<noteq> resolve p) fs) else None)"

text \<open>
  \<open>shutil.copytree\<close>: the destination must not exist and its parent must; the entries of a
  directory are listed before the destination is made.
\<close>

definition fs_copytree :: "fsys \<Rightarrow> string \<Rightarrow> string \<Rightarrow> fsys option" where
  "fs_copytree fs src dst =
     (let s = resolve src; d = resolve dst
      in if map_of fs d = None \<and> d \<noteq> [] \<and> (butlast d = [] \<or> map_of fs (butlast d) = Some Dir) then
           Some (map (\<lambda>(k, v). (d @ drop (length s) k, v)) (filter (\<lambda>(k, _). below s k) fs) @ fs)
         else None)"

text \<open>\<open>shutil.copy2\<close>: into the destination when that is a directory; never onto itself.\<close>

definition fs_copy2 :: "fsys \<Rightarrow> string \<Rightarrow> string \<Rightarrow> fsys option" where
  "fs_copy2 fs src dst0 =
     (let dst = (if fs_isdir fs dst0 then path_join dst0 (path_basename src) else dst0); d = resolve dst
      in case map_of fs (resolve src) of
           Some (File content) \<Rightarrow>
             (if resolve src = [] \<or> d = resolve src \<or> fs_isdir fs dst
                 \<or> \<not> (butlast d = [] \<or> map_of fs (butlast d) = Some Dir) then None
              else Some ((d, File content) # filter (\<lambda>(k, _). k \<noteq> d) fs))
         | _ \<Rightarrow> None)"

subsection \<open>State\<close>

record file_manager =
  fm_path :: string
  fm_items :: "string list"
  fm_selected :: int
  fm_scroll :: int
  fm_status :: string
  fm_clipboard :: "string option"
  fm_fs :: fsys

record fm_env =
  fe_deny_list :: bool
  fe_refuse :: bool
  fe_left :: fsys
  fe_msg :: string

definition dotdot :: string where
  "dotdot = ''..''"

definition fm_refresh :: "fm_env \<Rightarrow> file_manager \<Rightarrow> file_manager" where
  "fm_refresh env s0 =
     (let s = (case (if fe_deny_list env then None else fs_listdir (fm_fs s0) (fm_path s0)) of
          Some entries \<Rightarrow>
            (let dirs = sort (filter (\<lambda>e. fs_isdir (fm_fs s0) (path_join (fm_path s0) e)) entries);
                 files = sort (filter (\<lambda>e. fs_isfile (fm_fs s0) (path_join (fm_path s0) e)) entries)
             in s0\<lparr>fm_items := [dotdot] @ dirs @ files\<rparr>)
        | None \<Rightarrow> s0\<lparr>fm_status := fe_msg env, fm_items := [dotdot]\<rparr>)
      in s\<lparr>fm_selected := 0, fm_scroll := 0\<rparr>)"

definition file_init :: "fm_env \<Rightarrow> string \<Rightarrow> fsys \<Rightarrow> file_manager" where
  "file_init env home fs =
     fm_refresh env \<lparr>fm_path = home, fm_items = [], fm_selected = 0, fm_scroll = 0, fm_status = [],
       fm_clipboard = None, fm_fs = fs\<rparr>"

definition current_item :: "file_manager \<Rightarrow> string option res" where
  "current_item s =
     (if fm_items s \<noteq> [] then map_sum id Some (py_get (fm_items s) (fm_selected s)) else Inr None)"

definition full_path :: "file_manager \<Rightarrow> string \<Rightarrow> string" where
  "full_path s name = path_join (fm_path s) name"

definition fm_enter :: "fm_env \<Rightarrow> file_manager \<Rightarrow> file_manager res" where
  "fm_enter env s =
     res_bind (current_item s) (\<lambda>c.
       case c of
         None \<Rightarrow> Inr s
       | Some item \<Rightarrow>
           (if item = [] then Inr s
            else if item = dotdot then Inr (fm_refresh env (s\<lparr>fm_path := path_dirname (fm_path s)\<rparr>))
            else if fs_isdir (fm_fs s) (full_path s item) then
              Inr (fm_refresh env (s\<lparr>fm_path := full_path s item\<rparr>))
            else Inr (s\<lparr>fm_status := ''File: '' @ item\<rparr>)))"

definition fm_delete :: "fm_env \<Rightarrow> file_manager \<Rightarrow> file_manager res" where
  "fm_delete env s =
     res_bind (current_item s) (\<lambda>c.
       case c of
         None \<Rightarrow> Inr s
       | Some item \<Rightarrow>
           (if item \<noteq> [] \<and> item \<noteq> dotdot then
              (let fp = full_path s item
               in if fe_refuse env then Inr (s\<lparr>fm_fs := fe_left env, fm_status := fe_msg env\<rparr>)
                  else case (if fs_isdir (fm_fs s) fp then Some (fs_rmtree (fm_fs s) fp) else fs_remove (fm_fs s) fp) of
                         Some fs \<Rightarrow> Inr (fm_refresh env (s\<lparr>fm_fs := fs, fm_status := ''Deleted '' @ item\<rparr>))
                       | None \<Rightarrow> Inr (s\<lparr>fm_status := fe_msg env\<rparr>))
            else Inr s))"

definition fm_copy :: "file_manager \<Rightarrow> file_manager res" where
  "fm_copy s =
     res_bind (current_item s) (\<lambda>c.
       case c of
         None \<Rightarrow> Inr s
       | Some item \<Rightarrow>
           (if item \<noteq> [] \<and> item \<noteq> dotdot then
              Inr (s\<lparr>fm_clipboard := Some (full_path s item), fm_status := ''Copied '' @ item\<rparr>)
            else Inr s))"

text \<open>
  A directory pasted more than one level below itself makes \<open>copytree\<close> descend into its own
  copies until the operating system refuses.
\<close>

definition copies_itself :: "string \<Rightarrow> string \<Rightarrow> bool" where
  "copies_itself src dst \<longleftrightarrow> below (resolve src) (resolve dst) \<and> butlast (resolve dst) \<noteq> resolve src"

definition fm_paste :: "fm_env \<Rightarrow> file_manager \<Rightarrow> file_manager" where
  "fm_paste env s =
     (case fm_clipboard s of
        None \<Rightarrow> s
      | Some clip \<Rightarrow>
          (if clip = [] then s
           else
             (let name = path_basename clip;
                  dst = path_join (fm_path s) name
              in if fe_refuse env \<or> fs_isdir (fm_fs s) clip \<and> map_of (fm_fs s) (resolve dst) = None \<and> copies_itself clip dst
                 then s\<lparr>fm_fs := fe_left env, fm_status := fe_msg env\<rparr>
                 else case (if fs_isdir (fm_fs s) clip then fs_copytree (fm_fs s) clip dst else fs_copy2 (fm_fs s) clip dst) of
                        Some fs \<Rightarrow> fm_refresh env (s\<lparr>fm_fs := fs, fm_status := ''Pasted '' @ name\<rparr>)
                      | None \<Rightarrow> s\<lparr>fm_status := fe_msg env\<rparr>)))"

definition file_draw :: "file_manager \<Rightarrow> draw_cmd list" where
  "file_draw s =
     app_header ''File Manager''
     @ [DText (rev (take 28 (rev (fm_path s)))) DIM (8, 27), DLine DIM (0, 38) (240, 38)]
     @ draw_rows (fm_scroll s) 10 42 16
         (\<lambda>idx y item.
            let color = (if idx = fm_selected s then ACCENT else TEXT);
                is_d = (item \<noteq> dotdot \<and> fs_isdir (fm_fs s) (full_path s item))
            in (if idx = fm_selected s then [highlight y 15] else [])
               @ [DText ((if is_d then ''/'' else '' '') @ take 24 item) (if is_d then FOLDER else color) (8, y)])
         (fm_items s)
     @ (if fm_status s \<noteq> [] then [DText (take 30 (fm_status s)) GREEN (8, 210)] else [])
     @ app_footer ''ENTER  D=del  C=copy  V=paste''"

definition fm_handle_input :: "fm_env \<Rightarrow> file_manager \<Rightarrow> event \<Rightarrow> file_manager res" where
  "fm_handle_input env s e =
     (case e of
        KeyDown k _ _ \<Rightarrow>
          (if k = K_DOWN then
             (let c = nav_down 10 (int (length (fm_items s))) (fm_selected s, fm_scroll s)
              in Inr (s\<lparr>fm_selected := fst c, fm_scroll := snd c\<rparr>))
           else if k = K_UP then
             (let c = nav_up (fm_selected s, fm_scroll s) in Inr (s\<lparr>fm_selected := fst c, fm_scroll := snd c\<rparr>))
           else if k = K_RETURN then fm_enter env s
           else if k = K_d then fm_delete env s
           else if k = K_c then fm_copy s
           else if k = K_v then Inr (fm_paste env s)
           else Inr s)
      | _ \<Rightarrow> Inr s)"

subsection \<open>Lemmas on the file system\<close>

text \<open>Every entry but the root has a directory as its parent; the keys are distinct paths below the root.\<close>

definition fs_ok :: "fsys \<Rightarrow> bool" where
  "fs_ok fs \<longleftrightarrow> distinct (map fst fs)
     \<and> (\<forall>k\<in>set (map fst fs). k \<noteq> [] \<and> (butlast k = [] \<or> map_of fs (butlast k) = Some Dir))"

lemma map_of_filter_key: "map_of (filter (\<lambda>(k, _). P k) fs) k = (if P k then map_of fs k else None)"
  by (induction fs) auto

lemma map_of_in_keys: "map_of fs k = Some v \<Longrightarrow> k \<in> set (map fst fs)"
  by (force dest: map_of_SomeD)

lemma fs_ok_parent: "fs_ok fs \<Longrightarrow> map_of fs (k @ [n]) = Some v \<Longrightarrow> k = [] \<or> map_of fs k = Some Dir"
  using map_of_in_keys [of fs "k @ [n]"] by (fastforce simp: fs_ok_def)

lemma fs_ok_below: "fs_ok fs \<Longrightarrow> map_of fs (k @ n # ns) = Some v \<Longrightarrow> k = [] \<or> map_of fs k = Some Dir"
proof (induction ns arbitrary: v rule: rev_induct)
  case Nil
  then show ?case by (simp add: fs_ok_parent)
next
  case (snoc m ms)
  then have "map_of fs (k @ n # ms) = Some Dir" using fs_ok_parent [of fs "k @ n # ms" m] by simp
  with snoc show ?case by simp
qed

lemma below_append [simp]: "below r (r @ k)"
  by (simp add: below_def py_prefix_append)

lemma below_iff: "below r k \<longleftrightarrow> (\<exists>m. k = r @ m)"
  by (simp add: below_def py_prefix_iff)

text \<open>Deleting removes the entry with all that is below it, and nothing else.\<close>

lemma fs_rmtree_spec: "map_of (fs_rmtree fs p) k = (if below (resolve p) k then None else map_of fs k)"
  by (simp add: fs_rmtree_def map_of_filter_key)

lemma fs_remove_spec:
  assumes "fs_ok fs" "fs_isfile fs p"
  shows "\<exists>fs'. fs_remove fs p = Some fs' \<and> (\<forall>k. map_of fs' k = (if below (resolve p) k then None else map_of fs k))"
proof -
  have "map_of fs (resolve p @ n # ns) = None" for n ns
  proof (cases "map_of fs (resolve p @ n # ns)")
    case (Some v)
    from fs_ok_below [OF assms(1) this] assms(2) show ?thesis by (auto simp: fs_isfile_def)
  qed
  then have "map_of fs (resolve p @ m) = None" if "m \<noteq> []" for m using that by (cases m) auto
  then have "map_of fs k = None" if "below (resolve p) k" "k \<noteq> resolve p" for k
    using that by (metis append_Nil2 below_iff)
  then show ?thesis
    using assms(2) below_append [of "resolve p" "[]"] by (auto simp: fs_remove_def map_of_filter_key)
qed

lemma map_of_graft:
  "map_of (map (\<lambda>(k, v). (d @ drop (length r) k, v)) (filter (\<lambda>(k, _). below r k) fs)) (d @ m) = map_of fs (r @ m)"
proof (induction fs)
  case (Cons e fs)
  obtain k v where e: "e = (k, v)" by (cases e)
  show ?case
  proof (cases "below r k")
    case True
    with Cons e show ?thesis by (auto simp: below_iff)
  next
    case False
    with Cons e show ?thesis by auto
  qed
qed simp

lemma map_of_graft_other:
  "\<not> below d k \<Longrightarrow> map_of (map (\<lambda>(k, v). (d @ drop (length r) k, v)) (filter (\<lambda>(k, _). below r k) fs)) k = None"
  by (induction fs) (auto simp: below_iff)

lemma fs_copytree_spec:
  assumes "fs_ok fs" "fs_copytree fs src dst = Some fs'"
  shows "map_of fs' (resolve dst @ m) = map_of fs (resolve src @ m)"
    and "\<not> below (resolve dst) k \<Longrightarrow> map_of fs' k = map_of fs k"
proof -
  let ?d = "resolve dst"
  from assms(2) have d: "map_of fs ?d = None" "?d \<noteq> []"
    and fs': "fs' = map (\<lambda>(k, v). (?d @ drop (length (resolve src)) k, v)) (filter (\<lambda>(k, _). below (resolve src) k) fs) @ fs"
    by (auto simp: fs_copytree_def Let_def split: if_splits)
  have "map_of fs (?d @ m) = None"
  proof (cases m)
    case (Cons n ns)
    with d fs_ok_below [OF assms(1), of ?d n ns] show ?thesis by (cases "map_of fs (?d @ m)") auto
  qed (simp add: d)
  then show "map_of fs' (?d @ m) = map_of fs (resolve src @ m)"
    by (simp add: fs' map_add_def map_of_graft split: option.split)
  show "map_of fs' k = map_of fs k" if "\<not> below ?d k"
    using that by (simp add: fs' map_add_def map_of_graft_other split: option.split)
qed

lemma fs_copy2_spec:
  assumes "fs_ok fs" "fs_copy2 fs src dst = Some fs'" "\<not> fs_isdir fs dst" "map_of fs (resolve dst) = None"
  shows "map_of fs' (resolve dst @ m) = map_of fs (resolve src @ m)"
    and "\<not> below (resolve dst) k \<Longrightarrow> map_of fs' k = map_of fs k"
proof -
  from assms(2,3) obtain c where c: "map_of fs (resolve src) = Some (File c)" "resolve src \<noteq> []"
    and fs': "fs' = (resolve dst, File c) # filter (\<lambda>(k, _). k \<noteq> resolve dst) fs"
    by (auto simp: fs_copy2_def Let_def split: option.splits node.splits if_splits)
  have n: "map_of fs (r @ m) = None" if "m \<noteq> []" "r \<noteq> []" "map_of fs r \<noteq> Some Dir" for r
  proof (cases m)
    case (Cons a as)
    with that fs_ok_below [OF assms(1), of r a as] show ?thesis by (cases "map_of fs (r @ m)") auto
  qed (use that in simp)
  have "resolve dst \<noteq> []" using assms(3) by (simp add: fs_isdir_def)
  with n [of "resolve dst"] n [of "resolve src"] c assms(4)
  show "map_of fs' (resolve dst @ m) = map_of fs (resolve src @ m)"
    by (cases "m = []") (simp_all add: fs' map_of_filter_key)
  show "map_of fs' k = map_of fs k" if "\<not> below (resolve dst) k"
    using that below_append [of "resolve dst" "[]"] by (auto simp: fs' map_of_filter_key)
qed

subsection \<open>The screen\<close>

definition fm_ok :: "file_manager \<Rightarrow> bool" where
  "fm_ok s \<longleftrightarrow> fm_items s \<noteq> [] \<and> cursor_ok 10 (int (length (fm_items s))) (fm_selected s, fm_scroll s)"

lemma fm_refresh_fields [simp]:
  "fm_path (fm_refresh env s) = fm_path s" "fm_fs (fm_refresh env s) = fm_fs s"
  "fm_clipboard (fm_refresh env s) = fm_clipboard s"
  "fm_selected (fm_refresh env s) = 0" "fm_scroll (fm_refresh env s) = 0"
  by (simp_all add: fm_refresh_def Let_def split: option.split)

lemma fm_refresh_items [simp]: "fm_items (fm_refresh env s) \<noteq> []" "hd (fm_items (fm_refresh env s)) = dotdot"
  by (simp_all add: fm_refresh_def Let_def split: option.split)

lemma fm_refresh_cong:
  "fm_path t = fm_path s \<Longrightarrow> fm_fs t = fm_fs s \<Longrightarrow> fm_items (fm_refresh env t) = fm_items (fm_refresh env s)"
  by (simp add: fm_refresh_def Let_def split: option.split)

lemma fm_refresh_ok [intro]: "fm_ok (fm_refresh env s)"
  by (simp add: fm_ok_def)

lemma current_item_ok: "fm_ok s \<Longrightarrow> current_item s = Inr (Some (fm_items s ! nat (fm_selected s)))"
  by (auto simp: fm_ok_def current_item_def cursor_ok_def sel_ok_def py_get_ok)

lemma fm_ok_status: "fm_ok (s\<lparr>fm_status := m\<rparr>) = fm_ok s" "fm_ok (s\<lparr>fm_fs := fs\<rparr>) = fm_ok s"
  "fm_ok (s\<lparr>fm_clipboard := c\<rparr>) = fm_ok s"
  by (simp_all add: fm_ok_def)

lemma fm_ops_ok:
  assumes "fm_ok s"
  shows "\<exists>s'. fm_enter env s = Inr s' \<and> fm_ok s'" "\<exists>s'. fm_delete env s = Inr s' \<and> fm_ok s'"
    "\<exists>s'. fm_copy s = Inr s' \<and> fm_ok s'" "fm_ok (fm_paste env s)"
  using assms
  by (auto simp: fm_enter_def fm_delete_def fm_copy_def fm_paste_def current_item_ok fm_ok_status Let_def split: option.split)

interpretation fm_app: event_app "\<lambda>s (env, e). fm_handle_input env s e" fm_ok
proof
  fix s and ev :: "fm_env \<times> event"
  assume s: "fm_ok s"
  obtain env e where [simp]: "ev = (env, e)" by (cases ev)
  have "fm_ok (s\<lparr>fm_selected := fst c, fm_scroll := snd c\<rparr>)"
    if "cursor_ok 10 (int (length (fm_items s))) c" for c
    using s that by (simp add: fm_ok_def)
  moreover have "cursor_ok 10 (int (length (fm_items s))) (nav_down 10 (int (length (fm_items s))) (fm_selected s, fm_scroll s))"
    "cursor_ok 10 (int (length (fm_items s))) (nav_up (fm_selected s, fm_scroll s))"
    using s by (auto simp: fm_ok_def intro: cursor_ok_nav_down cursor_ok_nav_up)
  ultimately show "\<exists>s'. (case ev of (env, e) \<Rightarrow> fm_handle_input env s e) = Inr s' \<and> fm_ok s'"
    using s fm_ops_ok [OF s] by (auto simp: fm_handle_input_def Let_def split: event.split)
qed

subsection \<open>Properties\<close>

text \<open>
  (C24) Pressing D removes the selected entry of the directory shown with everything below
  it, and leaves every other path of the file system as it was; on \<open>..\<close> it removes nothing.
\<close>

theorem fm_deletes_selected:
  assumes "fm_ok s" "fs_ok (fm_fs s)" "\<not> fe_refuse env"
    and "item = fm_items s ! nat (fm_selected s)" "is_name item" "fs_isdir (fm_fs s) (full_path s item) \<or> fs_isfile (fm_fs s) (full_path s item)"
  shows "\<exists>s'. fm_handle_input env s (KeyDown K_d u c) = Inr s' \<and> fm_path s' = fm_path s
    \<and> (\<forall>k. map_of (fm_fs s') k =
         (if item \<noteq> dotdot \<and> below (resolve (fm_path s) @ [item]) k then None else map_of (fm_fs s) k))"
proof -
  have p: "resolve (full_path s item) = resolve (fm_path s) @ [item]" using assms(5) by (simp add: full_path_def)
  have i: "item \<noteq> []" using assms(5) by (simp add: is_name_def)
  show ?thesis
  proof (cases "fs_isdir (fm_fs s) (full_path s item)")
    case True
    then show ?thesis
      using assms i p fs_rmtree_spec [of "fm_fs s" "full_path s item"]
      by (simp add: fm_handle_input_def fm_delete_def current_item_ok Let_def)
  next
    case False
    with assms(6) obtain fs' where "fs_remove (fm_fs s) (full_path s item) = Some fs'"
      "\<forall>k. map_of fs' k = (if below (resolve (full_path s item)) k then None else map_of (fm_fs s) k)"
      using fs_remove_spec [OF assms(2)] by blast
    with False assms i p show ?thesis
      by (simp add: fm_handle_input_def fm_delete_def current_item_ok Let_def)
  qed
qed

definition fm_sample_fs :: fsys where
  "fm_sample_fs =
     [([''home''], Dir), ([''home'', ''b''], Dir), ([''home'', ''b'', ''x''], File ''1''), ([''home'', ''a''], Dir),
      ([''home'', ''t''], File ''2'')]"

definition fm_calm :: fm_env where
  "fm_calm = \<lparr>fe_deny_list = False, fe_refuse = False, fe_left = [], fe_msg = []\<rparr>"

definition fm_sample :: file_manager where
  "fm_sample = \<lparr>fm_path = ''/home'', fm_items = [dotdot, ''a'', ''b'', ''t''], fm_selected = 2, fm_scroll = 0, fm_status = [],
     fm_clipboard = Some ''/home/b'', fm_fs = fm_sample_fs\<rparr>"

lemmas fm_sample_simps = fm_sample_def fm_calm_def fm_sample_fs_def fs_ok_def is_name_def fs_isdir_def resolve_def
  path_join_def full_path_def fm_ok_def cursor_ok_def sel_ok_def norm_path_def dotdot_def copies_itself_def below_def

lemma fm_sample_init: "file_init fm_calm ''/home'' fm_sample_fs = fm_sample\<lparr>fm_selected := 0, fm_clipboard := None\<rparr>"
  by code_simp

theorem fm_deletes_selected_witness:
  "\<exists>s'. fm_handle_input fm_calm fm_sample (KeyDown K_d [] False) = Inr s' \<and> fm_path s' = fm_path fm_sample
    \<and> (\<forall>k. map_of (fm_fs s') k =
         (if ''b'' \<noteq> dotdot \<and> below (resolve (fm_path fm_sample) @ [''b'']) k then None else map_of (fm_fs fm_sample) k))"
  by (rule fm_deletes_selected) (simp_all add: fm_sample_simps)

text \<open>
  Entering a directory and then choosing \<open>..\<close> comes back to the directory and the
  listing one started from.
\<close>

theorem fm_enter_and_back:
  assumes "fm_ok s" "norm_path (fm_path s)" "item = fm_items s ! nat (fm_selected s)" "is_name item" "item \<noteq> dotdot"
    and "fs_isdir (fm_fs s) (full_path s item)"
  shows "\<exists>s1 s2. fm_handle_input env s (press K_RETURN) = Inr s1 \<and> fm_path s1 = full_path s item
    \<and> fm_handle_input env s1 (press K_RETURN) = Inr s2 \<and> fm_path s2 = fm_path s \<and> fm_fs s2 = fm_fs s \<and> fm_items s2 = fm_items (fm_refresh env s)"
proof -
  let ?s1 = "fm_refresh env (s\<lparr>fm_path := full_path s item\<rparr>)"
  let ?s2 = "fm_refresh env (?s1\<lparr>fm_path := fm_path s\<rparr>)"
  have "fm_handle_input env s (press K_RETURN) = Inr ?s1"
    using assms by (auto simp: fm_handle_input_def press_def fm_enter_def current_item_ok is_name_def)
  moreover have "fm_items ?s1 ! 0 = dotdot" using hd_conv_nth [OF fm_refresh_items(1)] fm_refresh_items(2) by metis
  then have "current_item ?s1 = Inr (Some dotdot)" by (simp add: current_item_ok [OF fm_refresh_ok])
  then have "fm_handle_input env ?s1 (press K_RETURN) = Inr ?s2"
    using dirname_join [OF assms(2,4)]
    by (simp add: fm_handle_input_def press_def fm_enter_def full_path_def) (simp add: dotdot_def)
  moreover have "fm_items ?s2 = fm_items (fm_refresh env s)" by (rule fm_refresh_cong) simp_all
  ultimately show ?thesis by auto
qed

theorem fm_enter_and_back_witness:
  "\<exists>s1 s2. fm_handle_input fm_calm fm_sample (press K_RETURN) = Inr s1 \<and> fm_path s1 = full_path fm_sample ''b''
    \<and> fm_handle_input fm_calm s1 (press K_RETURN) = Inr s2 \<and> fm_path s2 = fm_path fm_sample \<and> fm_fs s2 = fm_fs fm_sample
    \<and> fm_items s2 = fm_items (fm_refresh fm_calm fm_sample)"
  by (rule fm_enter_and_back) (simp_all add: fm_sample_simps)

text \<open>
  (C25) Pasting a copied entry into a directory that has no entry of that name makes an exact
  copy of the entry, with everything below it, and changes nothing else.
\<close>

theorem fm_paste_copies:
  assumes "fs_ok (fm_fs s)" "\<not> fe_refuse env" "fm_clipboard s = Some (path_join p n)" "is_name n"
    and src: "fs_isdir (fm_fs s) (path_join p n) \<or> fs_isfile (fm_fs s) (path_join p n)"
    and dst: "map_of (fm_fs s) (resolve (fm_path s) @ [n]) = None" "fs_isdir (fm_fs s) (fm_path s)"
    and nest: "\<not> copies_itself (path_join p n) (path_join (fm_path s) n)"
  shows "\<exists>s'. fm_handle_input env s (KeyDown K_v u c) = Inr s'
    \<and> (\<forall>m. map_of (fm_fs s') (resolve (fm_path s) @ [n] @ m) = map_of (fm_fs s) (resolve p @ [n] @ m))
    \<and> (\<forall>k. \<not> below (resolve (fm_path s) @ [n]) k \<longrightarrow> map_of (fm_fs s') k = map_of (fm_fs s) k)"
proof -
  let ?src = "path_join p n" and ?dst = "path_join (fm_path s) n"
  have ne: "?src \<noteq> []" using assms(4) by (auto simp: path_join_def is_name_def)
  have par: "resolve (fm_path s) = [] \<or> map_of (fm_fs s) (resolve (fm_path s)) = Some Dir"
    using dst(2) by (simp add: fs_isdir_def)
  have nd: "\<not> fs_isdir (fm_fs s) ?dst" using dst(1) assms(4) by (simp add: fs_isdir_def)
  obtain fs' where fs': "(if fs_isdir (fm_fs s) ?src then fs_copytree (fm_fs s) ?src ?dst else fs_copy2 (fm_fs s) ?src ?dst) = Some fs'"
    "\<forall>m. map_of fs' (resolve ?dst @ m) = map_of (fm_fs s) (resolve ?src @ m)"
    "\<forall>k. \<not> below (resolve ?dst) k \<longrightarrow> map_of fs' k = map_of (fm_fs s) k"
  proof (cases "fs_isdir (fm_fs s) ?src")
    case True
    have "fs_copytree (fm_fs s) ?src ?dst \<noteq> None" using dst(1) par assms(4) by (simp add: fs_copytree_def Let_def)
    with True fs_copytree_spec [OF assms(1)] that show ?thesis by (auto simp: not_None_eq)
  next
    case False
    with src assms(4) obtain t where t: "map_of (fm_fs s) (resolve ?src) = Some (File t)"
      by (auto simp: fs_isfile_def split: option.splits node.splits)
    with dst(1) assms(4) have "resolve ?dst \<noteq> resolve ?src" by auto
    with t nd par assms(4) have "fs_copy2 (fm_fs s) ?src ?dst \<noteq> None" by (simp add: fs_copy2_def Let_def)
    with False fs_copy2_spec [OF assms(1) _ nd] dst(1) assms(4) that show ?thesis by (auto simp: not_None_eq)
  qed
  have "fm_paste env s = fm_refresh env (s\<lparr>fm_fs := fs', fm_status := ''Pasted '' @ n\<rparr>)"
    using assms(2,3,4) nest fs'(1) ne by (simp add: fm_paste_def Let_def)
  with fs'(2,3) assms(4) show ?thesis by (simp add: fm_handle_input_def)
qed

theorem fm_paste_copies_witness:
  "\<exists>s'. fm_handle_input fm_calm (fm_sample\<lparr>fm_path := ''/home/a''\<rparr>) (KeyDown K_v [] False) = Inr s'
    \<and> (\<forall>m. map_of (fm_fs s') (resolve ''/home/a'' @ [''b''] @ m) = map_of fm_sample_fs (resolve ''/home'' @ [''b''] @ m))
    \<and> (\<forall>k. \<not> below (resolve ''/home/a'' @ [''b'']) k \<longrightarrow> map_of (fm_fs s') k = map_of fm_sample_fs k)"
  using fm_paste_copies [of "fm_sample\<lparr>fm_path := ''/home/a''\<rparr>" fm_calm "''/home''" "''b''" "[]" False]
  by (simp add: fm_sample_simps)

end
