(* ===== verification/Terminal.thy ===== *)
theory Terminal
  imports Julius_Prelude
begin

text \<open>
  The terminal (\<^verbatim>\<open>src/src/apps/terminal/terminal.py\<close>). The shell is an argument: what a
  command prints, or the text of the exception (\<open>check_output\<close> raises when the command fails).
  Commands run are recorded.
\<close>

record terminal =
  tl_lines :: "string list"
  tl_input :: string
  tl_ran :: "string list"

type_synonym shell = "string \<Rightarrow> string + string"

definition term_init :: terminal where
  "term_init = \<lparr>tl_lines = [''Julius OS Terminal v0.1'', ''$ ''], tl_input = [], tl_ran = []\<rparr>"

definition run_command :: "shell \<Rightarrow> string \<Rightarrow> terminal \<Rightarrow> terminal" where
  "run_command sh cmd s =
     (let out = (case sh cmd of Inr result \<Rightarrow> py_split newline_char result | Inl e \<Rightarrow> [''Error: '' @ e])
      in s\<lparr>tl_lines := tl_lines s @ out @ [''$ ''], tl_ran := tl_ran s @ [cmd]\<rparr>)"

fun term_rows :: "int \<Rightarrow> string list \<Rightarrow> draw_cmd list" where
  "term_rows y [] = []"
| "term_rows y (l # ls) = DText l TEXT (8, y) # term_rows (y + 13) ls"

definition term_draw :: "terminal \<Rightarrow> draw_cmd list" where
  "term_draw s = Fill BG # term_rows 10 (drop (length (tl_lines s) - 18) (tl_lines s)) @ [Flip]"

definition term_handle_input :: "shell \<Rightarrow> terminal \<Rightarrow> event \<Rightarrow> terminal res" where
  "term_handle_input sh s e =
     (case e of
        KeyDown k u _ \<Rightarrow>
          (let s1 = (if k = K_RETURN then (run_command sh (tl_input s) s)\<lparr>tl_input := []\<rparr>
                     else if k = K_BACKSPACE then s\<lparr>tl_input := butlast (tl_input s)\<rparr>
                     else s\<lparr>tl_input := tl_input s @ u\<rparr>)
           in res_bind (py_set (tl_lines s1) (- 1) (''$ '' @ tl_input s1)) (\<lambda>ls. Inr (s1\<lparr>tl_lines := ls\<rparr>)))
      | _ \<Rightarrow> Inr s)"

subsection \<open>Lemmas\<close>

text \<open>The last line is the prompt with what has been typed.\<close>

definition term_ok :: "terminal \<Rightarrow> bool" where
  "term_ok s \<longleftrightarrow> tl_lines s \<noteq> [] \<and> last (tl_lines s) = ''$ '' @ tl_input s"

lemma py_set_last: "xs \<noteq> [] \<Longrightarrow> py_set xs (- 1) v = Inr (butlast xs @ [v])"
proof -
  assume "xs \<noteq> []"
  then obtain ys y where "xs = ys @ [y]" by (cases xs rule: rev_cases) auto
  then show ?thesis by (simp add: py_set_def py_index_def nat_add_distrib)
qed

lemma run_command_lines [simp]: "tl_lines (run_command sh c s) \<noteq> []"
  by (simp add: run_command_def Let_def)

lemma term_step:
  assumes "term_ok s"
  shows "\<exists>s'. term_handle_input sh s e = Inr s' \<and> term_ok s'"
  using assms
  by (cases e) (auto simp: term_handle_input_def term_ok_def py_set_last Let_def)

interpretation term_app: event_app "term_handle_input sh" term_ok for sh
  by unfold_locales (rule term_step)

lemma term_type:
  "term_ok s \<Longrightarrow> run_events (term_handle_input sh) s (type_text t)
     = Inr (s\<lparr>tl_input := tl_input s @ t, tl_lines := butlast (tl_lines s) @ [''$ '' @ tl_input s @ t]\<rparr>)"
proof (rule run_type_text [where P = term_ok])
  fix s :: terminal and c
  assume "term_ok s"
  then show "term_handle_input sh s (KeyDown (K_other 0) [c] False)
      = Inr (s\<lparr>tl_input := tl_input s @ [c], tl_lines := butlast (tl_lines s) @ [''$ '' @ tl_input s @ [c]]\<rparr>)"
    by (simp add: term_handle_input_def term_ok_def py_set_last Let_def)
next
  fix s :: terminal
  assume s: "term_ok s"
  then have "butlast (tl_lines s) @ [''$ '' @ tl_input s] = tl_lines s"
    using append_butlast_last_id [of "tl_lines s"] by (simp add: term_ok_def)
  then show "s\<lparr>tl_input := tl_input s @ [], tl_lines := butlast (tl_lines s) @ [''$ '' @ tl_input s @ []]\<rparr> = s"
    by simp
qed (simp_all add: term_ok_def)

subsection \<open>Property\<close>

text \<open>
  Typing a command and pressing enter runs exactly that command, keeps everything shown
  before and the command line itself, and appends the lines the command printed (or its
  error) and a fresh prompt.
\<close>

theorem terminal_runs_command:
  assumes "term_ok s" "tl_input s = []"
  shows "\<exists>s'. run_events (term_handle_input sh) s (type_text cmd @ [press K_RETURN]) = Inr s'
    \<and> tl_ran s' = tl_ran s @ [cmd] \<and> tl_input s' = []
    \<and> tl_lines s' = butlast (tl_lines s) @ [''$ '' @ cmd]
        @ (case sh cmd of Inr out \<Rightarrow> py_split newline_char out | Inl e \<Rightarrow> [''Error: '' @ e]) @ [''$ '']"
  using assms term_type [OF assms(1), of sh cmd]
  by (simp add: run_events_append term_handle_input_def press_def run_command_def py_set_last Let_def butlast_append)

theorem terminal_runs_command_witness:
  "\<exists>s'. run_events (term_handle_input (\<lambda>c. Inr c)) term_init (type_text ''ls'' @ [press K_RETURN]) = Inr s'
    \<and> tl_ran s' = [''ls''] \<and> tl_input s' = []
    \<and> tl_lines s' = [''Julius OS Terminal v0.1'', ''$ ls'', ''ls'', ''$ '']"
  using terminal_runs_command [of term_init "\<lambda>c. Inr c" "''ls''"] by (simp add: term_init_def term_ok_def)

end
