(* ===== verification/Wireless_Apps.thy ===== *)
theory Wireless_Apps
  imports Julius_Prelude
begin

text \<open>
  Three applications over system tools: the WiFi scanner (\<^verbatim>\<open>src/src/apps/wifi/wifi.py\<close>), the
  Bluetooth scanner (\<^verbatim>\<open>src/src/apps/bluetooth/bluetooth.py\<close>) and the hotspot
  (\<^verbatim>\<open>src/src/apps/hotspot/hotspot.py\<close>). What the tool answers during an event is an argument:
  its output, or the text of the exception.
\<close>

subsection \<open>WiFi\<close>

record network =
  nw_ssid :: string
  nw_signal :: string

definition wifi_parse_line :: "string \<Rightarrow> network option" where
  "wifi_parse_line line =
     (let parts = py_split (CHR '':'') line
      in if length parts \<ge> 2 then Some \<lparr>nw_ssid = parts ! 0, nw_signal = parts ! 1\<rparr> else None)"

definition wifi_scan :: "string + string \<Rightarrow> network list" where
  "wifi_scan answer =
     (case answer of
        Inr result \<Rightarrow> List.map_filter wifi_parse_line (py_split newline_char (py_strip result))
      | Inl e \<Rightarrow> [\<lparr>nw_ssid = ''Error: '' @ e, nw_signal = []\<rparr>])"

definition wifi_draw :: "network list \<Rightarrow> draw_cmd list" where
  "wifi_draw nets =
     app_header ''WiFi Scanner''
     @ concat (map (\<lambda>(i, n). [DText (take 22 (nw_ssid n)) TEXT (8, 32 + 16 * int i), DText (nw_signal n) ACCENT (200, 32 + 16 * int i)])
         (enum (take 12 nets)))
     @ (if nets = [] then [DText ''Press S to scan'' TEXT (50, 120)] else []) @ [Flip]"

definition wifi_handle_input :: "string + string \<Rightarrow> network list \<Rightarrow> event \<Rightarrow> network list" where
  "wifi_handle_input answer nets e =
     (case e of KeyDown k _ _ \<Rightarrow> (if k = K_s then wifi_scan answer else nets) | _ \<Rightarrow> nets)"

subsection \<open>Bluetooth\<close>

record bt_device =
  bd_mac :: string
  bd_name :: string

definition bt_parse_line :: "string \<Rightarrow> bt_device option" where
  "bt_parse_line line =
     (let parts = py_split (CHR 0x09) (py_strip line)
      in if length parts \<ge> 2 then Some \<lparr>bd_mac = parts ! 0, bd_name = parts ! 1\<rparr> else None)"

definition bt_scan :: "string + string \<Rightarrow> bt_device list" where
  "bt_scan answer =
     (case answer of
        Inr result \<Rightarrow> List.map_filter bt_parse_line (tl (py_split newline_char (py_strip result)))
      | Inl e \<Rightarrow> [\<lparr>bd_mac = ''Error'', bd_name = e\<rparr>])"

definition bt_draw :: "bt_device list \<Rightarrow> draw_cmd list" where
  "bt_draw devs =
     app_header ''Bluetooth''
     @ concat (map (\<lambda>(i, d). [DText (take 20 (bd_name d)) TEXT (8, 32 + 30 * int i), DText (bd_mac d) ACCENT (8, 44 + 30 * int i)])
         (enum (take 10 devs)))
     @ (if devs = [] then [DText ''Press S to scan'' TEXT (50, 120)] else []) @ [Flip]"

definition bt_handle_input :: "string + string \<Rightarrow> bt_device list \<Rightarrow> event \<Rightarrow> bt_device list" where
  "bt_handle_input answer devs e =
     (case e of KeyDown k _ _ \<Rightarrow> (if k = K_s then bt_scan answer else devs) | _ \<Rightarrow> devs)"

subsection \<open>Hotspot\<close>

record hotspot =
  hs_active :: bool
  hs_log :: "string list"
  hs_ssid :: string
  hs_passwd :: string
  hs_cmds :: "string list list"

definition hs_init :: hotspot where
  "hs_init = \<lparr>hs_active = False, hs_log = [''Julius Hotspot''], hs_ssid = ''JuliusOS'', hs_passwd = ''julius123'', hs_cmds = []\<rparr>"

text \<open>\<open>fails\<close> is the text of the exception of \<open>subprocess.run\<close>, if it raises; the exit code is not read.\<close>

definition hs_start :: "string option \<Rightarrow> hotspot \<Rightarrow> hotspot" where
  "hs_start fails s =
     (case fails of
        None \<Rightarrow> s\<lparr>hs_cmds := hs_cmds s @ [[''nmcli'', ''dev'', ''wifi'', ''hotspot'', ''ifname'', ''wlan0'', ''ssid'', hs_ssid s,
                   ''password'', hs_passwd s]],
                 hs_active := True, hs_log := hs_log s @ [''Hotspot ON: '' @ hs_ssid s, ''Pass: '' @ hs_passwd s]\<rparr>
      | Some e \<Rightarrow> s\<lparr>hs_log := hs_log s @ [''Error: '' @ e]\<rparr>)"

definition hs_stop :: "string option \<Rightarrow> hotspot \<Rightarrow> hotspot" where
  "hs_stop fails s =
     (case fails of
        None \<Rightarrow> s\<lparr>hs_cmds := hs_cmds s @ [[''nmcli'', ''con'', ''down'', hs_ssid s]], hs_active := False,
                 hs_log := hs_log s @ [''Hotspot OFF'']\<rparr>
      | Some e \<Rightarrow> s\<lparr>hs_log := hs_log s @ [''Error: '' @ e]\<rparr>)"

definition hs_draw :: "hotspot \<Rightarrow> draw_cmd list" where
  "hs_draw s =
     app_header ''Hotspot''
     @ [DText (''Status: '' @ (if hs_active s then ''ACTIVE'' else ''OFF'')) (if hs_active s then GREEN else RED) (8, 30),
        DText (''SSID: '' @ hs_ssid s) TEXT (8, 50), DText (''Pass: '' @ hs_passwd s) TEXT (8, 68), DLine DIM (0, 84) (240, 84)]
     @ map (\<lambda>(i, l). DText (take 30 l) DIM (8, 90 + 17 * int i)) (enum (drop (length (hs_log s) - 8) (hs_log s)))
     @ app_footer ''S=start  X=stop''"

definition hs_handle_input :: "string option \<Rightarrow> hotspot \<Rightarrow> event \<Rightarrow> hotspot" where
  "hs_handle_input fails s e =
     (case e of
        KeyDown k _ _ \<Rightarrow> (if k = K_s then hs_start fails s else if k = K_x then hs_stop fails s else s)
      | _ \<Rightarrow> s)"

subsection \<open>Lemmas\<close>

text \<open>Network names as \<^verbatim>\<open>nmcli -t\<close> prints them: a name with a colon is cut at the colon.\<close>

lemma wifi_parse_plain:
  assumes "CHR '':'' \<notin> set ssid" "CHR '':'' \<notin> set sig"
  shows "wifi_parse_line (ssid @ '':'' @ sig) = Some \<lparr>nw_ssid = ssid, nw_signal = sig\<rparr>"
  using assms by (simp add: wifi_parse_line_def py_split_append_sep py_split_no_sep)

lemma wifi_parse_colon:
  assumes "CHR '':'' \<notin> set a" "CHR '':'' \<notin> set b"
  shows "wifi_parse_line (a @ '':'' @ b @ '':'' @ sig) = Some \<lparr>nw_ssid = a, nw_signal = b\<rparr>"
  using assms by (simp add: wifi_parse_line_def py_split_append_sep Let_def)

text \<open>The hotspot is shown as active exactly when the last command run started it.\<close>

definition hs_ok :: "hotspot \<Rightarrow> bool" where
  "hs_ok s \<longleftrightarrow> hs_active s = (hs_cmds s \<noteq> [] \<and> last (hs_cmds s) ! 1 = ''dev'')"

lemma hs_handle_ok: "hs_ok s \<Longrightarrow> hs_ok (hs_handle_input f s e)"
  by (cases e) (auto simp: hs_handle_input_def hs_start_def hs_stop_def hs_ok_def split: option.split)

interpretation hs_app: event_app "\<lambda>s (f, e). Inr (hs_handle_input f s e)" hs_ok
  by unfold_locales (auto simp: hs_handle_ok)

end
