(* ===== verification/Net_Tools.thy ===== *)
theory Net_Tools
  imports Julius_Prelude
begin

text \<open>
  The network tools (\<^verbatim>\<open>src/src/apps/nettools/nettools.py\<close>). Ping and traceroute run in threads
  that append to the shared output when the program ends: a job is pending until the step
  \<open>nt_thread_end\<close>, which may happen between any two events. What the tools and the resolver
  answer is an argument.
\<close>

definition TOOLS :: "string list" where
  "TOOLS = [''Ping'', ''Traceroute'', ''DNS Lookup'', ''My IP'', ''Interfaces'']"

datatype nt_mode = NtMenu | NtInput | NtOutput

text \<open>A thread, by the command line it runs.\<close>

type_synonym nt_job = "string list"

record net_tools =
  nt_selected :: int
  nt_output :: "string list"
  nt_input :: string
  nt_mode :: nt_mode
  nt_status :: string
  nt_jobs :: "nt_job list"

record nt_env =
  ne_addrs :: "string + string list"
  ne_local :: "string + string"
  ne_network :: "string + string"
  ne_ip_addr :: "string + string"

definition nt_init :: net_tools where
  "nt_init = \<lparr>nt_selected = 0, nt_output = [], nt_input = [], nt_mode = NtMenu, nt_status = [], nt_jobs = []\<rparr>"

definition nt_append :: "string list \<Rightarrow> net_tools \<Rightarrow> net_tools" where
  "nt_append ls s = s\<lparr>nt_output := nt_output s @ ls\<rparr>"

definition run_ping :: "string \<Rightarrow> net_tools \<Rightarrow> net_tools" where
  "run_ping host s =
     s\<lparr>nt_output := [''Pinging '' @ host @ ''...''], nt_jobs := nt_jobs s @ [[''ping'', ''-c'', ''4'', host]]\<rparr>"

definition run_traceroute :: "string \<Rightarrow> net_tools \<Rightarrow> net_tools" where
  "run_traceroute host s =
     s\<lparr>nt_output := [''Traceroute '' @ host @ ''...''], nt_jobs := nt_jobs s @ [[''traceroute'', ''-m'', ''10'', host]]\<rparr>"

text \<open>Thread number \<open>i\<close> ends: the lines of its program, or the text of the exception.\<close>

definition nt_thread_end :: "nat \<Rightarrow> string + string \<Rightarrow> net_tools \<Rightarrow> net_tools" where
  "nt_thread_end i answer s =
     (if i < length (nt_jobs s) then
        nt_append (case answer of Inr result \<Rightarrow> py_split newline_char result | Inl e \<Rightarrow> [e])
          (s\<lparr>nt_jobs := del_nth (nt_jobs s) i\<rparr>)
      else s)"

definition run_dns :: "nt_env \<Rightarrow> string \<Rightarrow> net_tools \<Rightarrow> net_tools" where
  "run_dns env host s =
     nt_append (case ne_addrs env of Inr result \<Rightarrow> take 4 result | Inl e \<Rightarrow> [e])
       (s\<lparr>nt_output := [''DNS: '' @ host]\<rparr>)"

definition run_myip :: "nt_env \<Rightarrow> net_tools \<Rightarrow> net_tools" where
  "run_myip env s =
     nt_append (case ne_local env of
          Inl e \<Rightarrow> [e]
        | Inr local \<Rightarrow> (''Local  : '' @ local) # (case ne_network env of Inl e \<Rightarrow> [e] | Inr a \<Rightarrow> [''Network: '' @ a]))
       (s\<lparr>nt_output := [''My IP Addresses'']\<rparr>)"

definition run_interfaces :: "nt_env \<Rightarrow> net_tools \<Rightarrow> net_tools" where
  "run_interfaces env s =
     nt_append (case ne_ip_addr env of
          Inl e \<Rightarrow> [e]
        | Inr result \<Rightarrow> map (\<lambda>l. take 30 (py_strip l)) (filter (\<lambda>l. py_strip l \<noteq> []) (py_split newline_char result)))
       (s\<lparr>nt_output := [''Network Interfaces'']\<rparr>)"

definition nt_execute :: "nt_env \<Rightarrow> net_tools \<Rightarrow> net_tools res" where
  "nt_execute env s =
     res_bind (py_get TOOLS (nt_selected s)) (\<lambda>tool.
       if tool \<in> {''Ping'', ''Traceroute'', ''DNS Lookup''} then
         Inr (s\<lparr>nt_mode := NtInput, nt_input := [], nt_status := ''Enter host for '' @ tool @ '':''\<rparr>)
       else if tool = ''My IP'' then Inr (run_myip env (s\<lparr>nt_mode := NtOutput\<rparr>))
       else if tool = ''Interfaces'' then Inr (run_interfaces env (s\<lparr>nt_mode := NtOutput\<rparr>))
       else Inr s)"

subsection \<open>Screens\<close>

text \<open>\<open>draw_menu\<close> blits the local \<open>hint\<close> before it is assigned; the title and the last label are the locals bound there.\<close>

definition nt_draw_menu :: "net_tools \<Rightarrow> draw_cmd list res" where
  "nt_draw_menu s =
     res_bind (blit_name [(''title'', ''Net Tools'', ACCENT),
          (''label'', last TOOLS, if nt_selected s = int (length TOOLS) - 1 then ACCENT else TEXT)] ''hint'' (8, 228)) (\<lambda>h.
       Inr (app_header ''Net Tools''
         @ concat (map (\<lambda>(i, tool). (if int i = nt_selected s then [highlight (32 + 22 * int i) 15] else [])
              @ [DText tool (if int i = nt_selected s then ACCENT else TEXT) (8, 32 + 22 * int i)]) (enum TOOLS))
         @ h @ app_footer ''UP DOWN=select  ENTER=run''))"

lemma nt_draw_menu_raises: "nt_draw_menu s = Inl NameError"
  by (simp add: nt_draw_menu_def blit_name_def)

definition nt_draw_input :: "net_tools \<Rightarrow> draw_cmd list" where
  "nt_draw_input s =
     app_header ''Net Tools''
     @ [DText (nt_status s) GREEN (8, 30), DText (''> '' @ nt_input s @ ''_'') TEXT (8, 50),
        DText ''ENTER=run  ESC=back'' DIM (8, 228)]
     @ app_footer ''ENTER=run  ESC=back''"

definition nt_draw_output :: "net_tools \<Rightarrow> draw_cmd list res" where
  "nt_draw_output s =
     res_bind (py_get TOOLS (nt_selected s)) (\<lambda>title.
       Inr (app_header title
         @ map (\<lambda>(i, l). DText (take 30 l) TEXT (8, 30 + 17 * int i)) (enum (drop (length (nt_output s) - 12) (nt_output s)))
         @ app_footer ''ESC=back''))"

definition nt_draw :: "net_tools \<Rightarrow> draw_cmd list res" where
  "nt_draw s =
     (case nt_mode s of NtMenu \<Rightarrow> nt_draw_menu s | NtInput \<Rightarrow> Inr (nt_draw_input s) | NtOutput \<Rightarrow> nt_draw_output s)"

subsection \<open>Input\<close>

definition nt_key_menu :: "nt_env \<Rightarrow> net_tools \<Rightarrow> key \<Rightarrow> net_tools res" where
  "nt_key_menu env s k =
     (if k = K_DOWN then Inr (s\<lparr>nt_selected := (nt_selected s + 1) mod int (length TOOLS)\<rparr>)
      else if k = K_UP then Inr (s\<lparr>nt_selected := (nt_selected s - 1) mod int (length TOOLS)\<rparr>)
      else if k = K_RETURN then nt_execute env s
      else Inr s)"

definition nt_key_input :: "nt_env \<Rightarrow> net_tools \<Rightarrow> key \<Rightarrow> string \<Rightarrow> net_tools res" where
  "nt_key_input env s k u =
     (if k = K_RETURN \<and> nt_input s \<noteq> [] then
        res_bind (py_get TOOLS (nt_selected s)) (\<lambda>tool.
          let s1 = s\<lparr>nt_mode := NtOutput\<rparr>
          in if tool = ''Ping'' then Inr (run_ping (nt_input s) s1)
             else if tool = ''Traceroute'' then Inr (run_traceroute (nt_input s) s1)
             else if tool = ''DNS Lookup'' then Inr (run_dns env (nt_input s) s1)
             else Inr s1)
      else if k = K_BACKSPACE then Inr (s\<lparr>nt_input := butlast (nt_input s)\<rparr>)
      else if k = K_ESCAPE then Inr (s\<lparr>nt_mode := NtMenu\<rparr>)
      else Inr (s\<lparr>nt_input := nt_input s @ u\<rparr>))"

definition nt_key_output :: "net_tools \<Rightarrow> key \<Rightarrow> net_tools" where
  "nt_key_output s k = (if k = K_ESCAPE then s\<lparr>nt_mode := NtMenu, nt_output := []\<rparr> else s)"

definition nt_handle_input :: "nt_env \<Rightarrow> net_tools \<Rightarrow> event \<Rightarrow> net_tools res" where
  "nt_handle_input env s e =
     (case e of
        KeyDown k u _ \<Rightarrow>
          (case nt_mode s of
             NtMenu \<Rightarrow> nt_key_menu env s k
           | NtInput \<Rightarrow> nt_key_input env s k u
           | NtOutput \<Rightarrow> Inr (nt_key_output s k))
      | _ \<Rightarrow> Inr s)"

subsection \<open>Interleaving of events and threads\<close>

datatype nt_action = NtEvent nt_env event | NtThreadEnd nat "string + string"

definition nt_step :: "net_tools \<Rightarrow> nt_action \<Rightarrow> net_tools res" where
  "nt_step s a =
     (case a of NtEvent env e \<Rightarrow> nt_handle_input env s e | NtThreadEnd i r \<Rightarrow> Inr (nt_thread_end i r s))"

definition nt_ok :: "net_tools \<Rightarrow> bool" where
  "nt_ok s \<longleftrightarrow> 0 \<le> nt_selected s \<and> nt_selected s < 5"

lemma TOOLS_len [simp]: "length TOOLS = 5"
  by (simp add: TOOLS_def)

lemma nt_run_selected [simp]:
  "nt_selected (nt_append ls s) = nt_selected s" "nt_selected (run_ping h s) = nt_selected s"
  "nt_selected (run_traceroute h s) = nt_selected s" "nt_selected (run_dns env h s) = nt_selected s"
  "nt_selected (run_myip env s) = nt_selected s" "nt_selected (run_interfaces env s) = nt_selected s"
  "nt_selected (nt_thread_end i r s) = nt_selected s"
  by (simp_all add: nt_append_def run_ping_def run_traceroute_def run_dns_def run_myip_def run_interfaces_def
      nt_thread_end_def split: sum.split)

lemma nt_tool: "nt_ok s \<Longrightarrow> py_get TOOLS (nt_selected s) = Inr (TOOLS ! nat (nt_selected s))"
  by (simp add: nt_ok_def py_get_ok)

lemma nt_keys_ok:
  assumes "nt_ok s"
  shows "\<exists>s'. nt_key_menu env s k = Inr s' \<and> nt_ok s'" "\<exists>s'. nt_key_input env s k u = Inr s' \<and> nt_ok s'"
    "nt_ok (nt_key_output s k)"
  using assms nt_tool [OF assms]
  by (auto simp: nt_key_menu_def nt_key_input_def nt_key_output_def nt_execute_def Let_def nt_ok_def)

interpretation nettools_app: event_app nt_step nt_ok
proof
  fix s a
  assume s: "nt_ok s"
  show "\<exists>s'. nt_step s a = Inr s' \<and> nt_ok s'"
  proof (cases a)
    case (NtEvent env e)
    with s nt_keys_ok(1,2) [OF s] nt_keys_ok(3) [OF s] show ?thesis
      by (auto simp: nt_step_def nt_handle_input_def split: event.split nt_mode.split)
  next
    case (NtThreadEnd i r)
    with s show ?thesis by (simp add: nt_step_def nt_ok_def)
  qed
qed

text \<open>
  A thread writes to whatever output is current when it ends: the answer to a ping that was
  left with escape ends up below the result of the look-up started meanwhile.
\<close>

lemma nt_late_ping:
  assumes "ne_addrs env = Inr addrs" "h \<noteq> []" "g \<noteq> []"
  shows "\<exists>s'. run_events nt_step (nt_init\<lparr>nt_mode := NtInput, nt_input := h\<rparr>)
      [NtEvent env (press K_RETURN), NtEvent env (press K_ESCAPE), NtEvent env (press K_DOWN), NtEvent env (press K_DOWN),
       NtEvent env (press K_RETURN), NtEvent env (KeyDown (K_other 0) g False), NtEvent env (press K_RETURN),
       NtThreadEnd 0 (Inr out)] = Inr s'
    \<and> nt_output s' = (''DNS: '' @ g) # take 4 addrs @ py_split newline_char out"
  using assms
  by (simp add: nt_step_def nt_handle_input_def press_def nt_key_input_def nt_key_menu_def nt_key_output_def nt_init_def
      TOOLS_def py_get_def py_index_def Let_def run_ping_def nt_execute_def run_dns_def nt_thread_end_def nt_append_def)

end
