(* ===== verification/Device_Connect.thy ===== *)
theory Device_Connect
  imports Julius_Prelude
begin

text \<open>
  The device list (\<^verbatim>\<open>src/src/apps/connect/connect.py\<close>). A scan is a thread that pings the 254
  addresses of the local network one by one; \<open>dc_thread_step\<close> is one step of it, so that key
  presses and other scans may come between any two pings. The network is an argument.
\<close>

record dev_entry =
  de_ip :: string
  de_name :: string

record device_connect =
  dc_devices :: "dev_entry list"
  dc_selected :: int
  dc_status :: string
  dc_scanning :: bool

definition dc_init :: device_connect where
  "dc_init = \<lparr>dc_devices = [], dc_selected = 0, dc_status = ''Press S to scan'', dc_scanning = False\<rparr>"

text \<open>
  The network during a scan: this host's address or the text of the exception, whether an
  address answers a ping or \<open>subprocess.run\<close> raises, and the name of an address.
\<close>

record net_view =
  nv_local :: "string + string"
  nv_ping :: "string \<Rightarrow> string + bool"
  nv_host :: "string \<Rightarrow> string option"

text \<open>Where a scanning thread is: about to start, about to ping host \<open>i\<close>, or at its end.\<close>

datatype dc_pc = DcStart | DcPing string int | DcEnd | DcFinished

definition dc_base :: "string \<Rightarrow> string" where
  "dc_base ip = py_join (CHR ''.'') (take 3 (py_split (CHR ''.'') ip))"

definition dc_ip :: "string \<Rightarrow> int \<Rightarrow> string" where
  "dc_ip base i = base @ ''.'' @ py_str_int i"

definition dc_thread_step :: "net_view \<Rightarrow> dc_pc \<Rightarrow> device_connect \<Rightarrow> dc_pc \<times> device_connect" where
  "dc_thread_step nv pc s =
     (case pc of
        DcStart \<Rightarrow>
          (let s1 = s\<lparr>dc_scanning := True, dc_status := ''Scanning...'', dc_devices := []\<rparr>
           in case nv_local nv of
                Inl e \<Rightarrow> (DcEnd, s1\<lparr>dc_status := ''Error: '' @ e\<rparr>)
              | Inr local_ip \<Rightarrow> (DcPing (dc_base local_ip) 1, s1))
      | DcPing base i \<Rightarrow>
          (let next = (if i + 1 < 255 then DcPing base (i + 1) else DcEnd)
           in case nv_ping nv (dc_ip base i) of
                Inl e \<Rightarrow> (DcEnd, s\<lparr>dc_status := ''Error: '' @ e\<rparr>)
              | Inr up \<Rightarrow>
                  (if up then
                     (next, s\<lparr>dc_devices := dc_devices s @
                        [\<lparr>de_ip = dc_ip base i, de_name = (case nv_host nv (dc_ip base i) of Some n \<Rightarrow> n | None \<Rightarrow> ''Unknown'')\<rparr>]\<rparr>)
                   else (next, s)))
      | DcEnd \<Rightarrow>
          (DcFinished, s\<lparr>dc_scanning := False, dc_status := ''Found '' @ py_str_int (int (length (dc_devices s))) @ '' devices''\<rparr>)
      | DcFinished \<Rightarrow> (DcFinished, s))"

text \<open>\<open>draw\<close> blits a name \<open>hint\<close> that is bound nowhere; the scope lists the names bound there.\<close>

definition dc_draw :: "device_connect \<Rightarrow> draw_cmd list res" where
  "dc_draw s =
     res_bind (blit_name [(''title'', ''Device Connect'', ACCENT), (''status'', dc_status s, GREEN)] ''hint'' (8, 228)) (\<lambda>h.
       Inr (app_header ''Device Connect''
         @ [DText (dc_status s) GREEN (8, 28), DLine DIM (0, 40) (240, 40)]
         @ concat (map (\<lambda>(i, d). [DText (take 18 (de_name d)) (if int i = dc_selected s then ACCENT else TEXT) (8, 46 + 18 * int i),
               DText (de_ip d) DIM (140, 46 + 18 * int i)]) (enum (take 10 (dc_devices s))))
         @ h @ [Flip]))"

text \<open>\<open>handle_input\<close>, with the thread it starts, if it starts one.\<close>

definition dc_handle_input :: "device_connect \<Rightarrow> event \<Rightarrow> (device_connect \<times> dc_pc option) res" where
  "dc_handle_input s e =
     (case e of
        KeyDown k _ _ \<Rightarrow>
          (if k = K_s then Inr (s, Some DcStart)
           else if k = K_DOWN then Inr (s\<lparr>dc_selected := min (dc_selected s + 1) (int (length (dc_devices s)) - 1)\<rparr>, None)
           else if k = K_UP then Inr (s\<lparr>dc_selected := max (dc_selected s - 1) 0\<rparr>, None)
           else if k = K_RETURN then
             (if dc_devices s \<noteq> [] then
                res_bind (py_get (dc_devices s) (dc_selected s)) (\<lambda>d.
                  Inr (s\<lparr>dc_status := ''Connecting to '' @ de_ip d @ ''...''\<rparr>, None))
              else Inr (s, None))
           else Inr (s, None))
      | _ \<Rightarrow> Inr (s, None))"

subsection \<open>Lemmas\<close>

lemma str_zero: "py_str_int 0 = ''0''"
  by code_simp

lemma dc_draw_raises: "dc_draw s = Inl NameError"
  by (simp add: dc_draw_def blit_name_def)

text \<open>A scan that no other thread or event interrupts.\<close>

fun dc_run :: "nat \<Rightarrow> net_view \<Rightarrow> dc_pc \<Rightarrow> device_connect \<Rightarrow> dc_pc \<times> device_connect" where
  "dc_run 0 nv pc s = (pc, s)"
| "dc_run (Suc n) nv pc s = (case dc_thread_step nv pc s of (pc', s') \<Rightarrow> dc_run n nv pc' s')"

definition dc_found :: "net_view \<Rightarrow> string \<Rightarrow> int list \<Rightarrow> dev_entry list" where
  "dc_found nv base is =
     map (\<lambda>i. \<lparr>de_ip = dc_ip base i, de_name = (case nv_host nv (dc_ip base i) of Some n \<Rightarrow> n | None \<Rightarrow> ''Unknown'')\<rparr>)
       (filter (\<lambda>i. nv_ping nv (dc_ip base i) = Inr True) is)"

lemma dc_run_add: "dc_run (m + n) nv pc s = (case dc_run m nv pc s of (pc', s') \<Rightarrow> dc_run n nv pc' s')"
  by (induction m arbitrary: pc s) (simp_all split: prod.split)

lemma dc_run_pings:
  assumes "\<forall>i. \<exists>b. nv_ping nv (dc_ip base i) = Inr b"
  shows "1 \<le> i \<Longrightarrow> i + int n = 254 \<Longrightarrow> dc_run (Suc n) nv (DcPing base i) s
     = (DcEnd, s\<lparr>dc_devices := dc_devices s @ dc_found nv base [i..254]\<rparr>)"
proof (induction n arbitrary: i s)
  case 0
  then have i: "i = 254" by simp
  obtain b where b: "nv_ping nv (dc_ip base i) = Inr b" using assms by blast
  have "[254..254] = [254::int]" by code_simp
  with i b show ?case by (cases b) (auto simp: dc_thread_step_def dc_found_def Let_def)
next
  case (Suc n)
  obtain b where b: "nv_ping nv (dc_ip base i) = Inr b" using assms by blast
  have l: "[i..254] = i # [i + 1..254]" using Suc.prems by (subst upto.simps) simp
  have st: "fst (dc_thread_step nv (DcPing base i) s) = DcPing base (i + 1)"
    using Suc.prems b by (auto simp: dc_thread_step_def Let_def)
  have dv: "snd (dc_thread_step nv (DcPing base i) s) = s\<lparr>dc_devices := dc_devices s @ dc_found nv base [i]\<rparr>"
    using b by (cases b) (auto simp: dc_thread_step_def dc_found_def Let_def)
  have "dc_run (Suc (Suc n)) nv (DcPing base i) s = dc_run (Suc n) nv (DcPing base (i + 1)) (s\<lparr>dc_devices := dc_devices s @ dc_found nv base [i]\<rparr>)"
    using prod_eqI [of "dc_thread_step nv (DcPing base i) s" "(DcPing base (i + 1), s\<lparr>dc_devices := dc_devices s @ dc_found nv base [i]\<rparr>)"] st dv
    by (simp del: dc_run.simps(2) add: dc_run.simps(2) [of "Suc n"])
  with Suc.IH [of "i + 1"] Suc.prems show ?case by (simp del: dc_run.simps add: l dc_found_def)
qed

subsection \<open>Property\<close>

text \<open>
  A scan whose pings do not raise ends after 256 steps and reports the devices found.
  When the local address is known it lists exactly the addresses of the local network that answer, in
  order. When the local address cannot be found, the status still says that no device was found: the message
  of the exception is overwritten in the last step.
\<close>

theorem connect_scan_result:
  assumes "\<And>ip. nv_local nv = Inr ip \<Longrightarrow> \<forall>a. \<exists>b. nv_ping nv a = Inr b"
  shows "\<exists>s'. dc_run 256 nv DcStart s = (DcFinished, s')
    \<and> dc_devices s' = (case nv_local nv of Inr ip \<Rightarrow> dc_found nv (dc_base ip) [1..254] | Inl e \<Rightarrow> [])
    \<and> dc_status s' = ''Found '' @ py_str_int (int (length (dc_devices s'))) @ '' devices'' \<and> \<not> dc_scanning s'"
proof (cases "nv_local nv")
  case (Inl e)
  have fin: "dc_run n nv DcFinished t = (DcFinished, t)" for n t
    by (induction n) (simp_all add: dc_thread_step_def)
  have "dc_run (2 + 254) nv DcStart s = (case dc_run 2 nv DcStart s of (pc', s') \<Rightarrow> dc_run 254 nv pc' s')"
    by (rule dc_run_add)
  moreover have "dc_run 2 nv DcStart s = (DcFinished, s\<lparr>dc_scanning := False, dc_status := ''Found 0 devices'', dc_devices := []\<rparr>)"
    by (simp add: numeral_2_eq_2 dc_thread_step_def Inl str_zero)
  ultimately show ?thesis by (simp add: fin Inl str_zero)
next
  case (Inr ip)
  let ?s1 = "s\<lparr>dc_scanning := True, dc_status := ''Scanning...'', dc_devices := []\<rparr>"
  let ?s2 = "?s1\<lparr>dc_devices := dc_found nv (dc_base ip) [1..254]\<rparr>"
  have "\<forall>i. \<exists>b. nv_ping nv (dc_ip (dc_base ip) i) = Inr b" using assms Inr by blast
  from dc_run_pings [OF this, of 1 253 ?s1]
  have p: "dc_run (Suc 253) nv (DcPing (dc_base ip) 1) ?s1 = (DcEnd, ?s2)" by simp
  have "dc_run (1 + (Suc 253 + 1)) nv DcStart s = dc_run (Suc 253 + 1) nv (DcPing (dc_base ip) 1) ?s1"
    by (subst dc_run_add) (simp add: dc_thread_step_def Inr)
  also have "\<dots> = dc_run 1 nv DcEnd ?s2" by (subst dc_run_add) (simp only: p prod.case)
  finally show ?thesis by (simp add: dc_thread_step_def Inr)
qed

theorem connect_scan_result_witness:
  "\<exists>s'. dc_run 256 \<lparr>nv_local = Inl ''no name'', nv_ping = \<lambda>_. Inr False, nv_host = \<lambda>_. None\<rparr> DcStart dc_init = (DcFinished, s')
    \<and> dc_devices s' = [] \<and> dc_status s' = ''Found 0 devices'' \<and> \<not> dc_scanning s'"
  using connect_scan_result [of "\<lparr>nv_local = Inl ''no name'', nv_ping = \<lambda>_. Inr False, nv_host = \<lambda>_. None\<rparr>" dc_init]
  by (auto simp: str_zero)

end
