(* ===== verification/Settings_App.thy ===== *)
theory Settings_App
  imports Ui_Config "HOL-Library.AList"
begin

text \<open>
  The small settings application of the launchers (\<^verbatim>\<open>src/src/apps/settings/settings.py\<close>). Its
  dictionary keeps the order of insertion, so it is an association list; the values are those
  of \<open>cval\<close>. The file is an argument: absent, not readable as JSON, or a dictionary.
\<close>

type_synonym sdict = "(string \<times> cval) list"

record settings_app =
  sa_config :: sdict
  sa_selected :: int
  sa_items :: sdict
  sa_saved :: "sdict list"

definition SA_DEFAULT :: sdict where
  "SA_DEFAULT = [(''brightness'', VInt 100), (''wifi'', VBool True), (''bluetooth'', VBool True),
     (''version'', VStr ''Julius OS v0.1''), (''device'', VStr ''Julius Gadget'')]"

definition sa_load :: "sdict res option \<Rightarrow> sdict res" where
  "sa_load f = (case f of Some c \<Rightarrow> c | None \<Rightarrow> Inr SA_DEFAULT)"

definition sa_init :: "sdict res option \<Rightarrow> settings_app res" where
  "sa_init f = res_bind (sa_load f) (\<lambda>c. Inr \<lparr>sa_config = c, sa_selected = 0, sa_items = c, sa_saved = []\<rparr>)"

definition sa_save :: "settings_app \<Rightarrow> settings_app" where
  "sa_save s = s\<lparr>sa_saved := sa_saved s @ [sa_config s]\<rparr>"

text \<open>\<open>f"{key:<12} {val}"\<close>\<close>

definition pad_right :: "nat \<Rightarrow> string \<Rightarrow> string" where
  "pad_right n s = s @ replicate (n - length s) (CHR '' '')"

definition sa_row :: "string \<times> cval \<Rightarrow> string" where
  "sa_row kv = pad_right 12 (fst kv) @ '' '' @
     (case snd kv of VBool b \<Rightarrow> (if b then ''ON'' else ''OFF'') | v \<Rightarrow> py_str v)"

text \<open>
  \<open>draw\<close> refreshes \<open>items\<close> and then blits a name \<open>hint\<close> that is bound nowhere; the state is
  returned beside the result, as the assignment is made before the exception.
\<close>

definition sa_draw :: "settings_app \<Rightarrow> settings_app \<times> draw_cmd list res" where
  "sa_draw s =
     (let s1 = s\<lparr>sa_items := sa_config s\<rparr>
      in (s1, res_bind (blit_name [(''title'', ''Settings'', ACCENT)] ''hint'' (8, 225)) (\<lambda>h.
           Inr (app_header ''Settings''
             @ map (\<lambda>(i, kv). DText (sa_row kv) (if int i = sa_selected s then GREEN else TEXT) (8, 32 + 18 * int i)) (enum (sa_items s1))
             @ h @ [Flip]))))"

definition sa_move :: "int \<Rightarrow> settings_app \<Rightarrow> settings_app res" where
  "sa_move d s =
     (if sa_items s = [] then Inl ZeroDivisionError
      else Inr (s\<lparr>sa_selected := (sa_selected s + d) mod int (length (sa_items s))\<rparr>))"

definition sa_handle_input :: "settings_app \<Rightarrow> event \<Rightarrow> settings_app res" where
  "sa_handle_input s e =
     (case e of
        KeyDown k _ _ \<Rightarrow>
          (if k = K_DOWN then sa_move 1 s
           else if k = K_UP then sa_move (- 1) s
           else if k = K_RETURN then
             res_bind (py_get (sa_items s) (sa_selected s)) (\<lambda>(key, val).
               case val of
                 VBool b \<Rightarrow> Inr (sa_save (s\<lparr>sa_config := AList.update key (VBool (\<not> b)) (sa_config s)\<rparr>))
               | _ \<Rightarrow> Inr s)
           else Inr s)
      | _ \<Rightarrow> Inr s)"

subsection \<open>Lemmas\<close>

lemma sa_draw_raises: "snd (sa_draw s) = Inl NameError"
  by (simp add: sa_draw_def blit_name_def Let_def)

text \<open>The shape of a dictionary: its keys in order, each with the type of its value.\<close>

datatype ctype = TBool | TInt | TStr

definition ctype_of :: "cval \<Rightarrow> ctype" where
  "ctype_of v = (case v of VBool _ \<Rightarrow> TBool | VInt _ \<Rightarrow> TInt | VStr _ \<Rightarrow> TStr)"

definition shape :: "sdict \<Rightarrow> (string \<times> ctype) list" where
  "shape d = map (\<lambda>(k, v). (k, ctype_of v)) d"

lemma shape_update:
  "(k, TBool) \<in> set (shape d) \<Longrightarrow> distinct (map fst d) \<Longrightarrow> shape (AList.update k (VBool b) d) = shape d"
  by (induction d) (force simp: shape_def ctype_of_def)+

lemma shape_keys: "shape d = shape d' \<Longrightarrow> map fst d = map fst d'"
proof -
  have "map fst d = map fst (shape d)" for d by (simp add: shape_def comp_def split_beta)
  then show "shape d = shape d' \<Longrightarrow> map fst d = map fst d'" by metis
qed

definition sa_ok :: "(string \<times> ctype) list \<Rightarrow> settings_app \<Rightarrow> bool" where
  "sa_ok sh s \<longleftrightarrow> sh \<noteq> [] \<and> distinct (map fst sh) \<and> shape (sa_config s) = sh \<and> shape (sa_items s) = sh
     \<and> 0 \<le> sa_selected s \<and> sa_selected s < int (length sh) \<and> (\<forall>d\<in>set (sa_saved s). shape d = sh)"

lemma length_shape [simp]: "length (shape d) = length d"
  by (simp add: shape_def)

lemma shape_mem: "(k, v) \<in> set d \<Longrightarrow> (k, ctype_of v) \<in> set (shape d)"
  by (force simp: shape_def)

lemma sa_items_length: "sa_ok sh s \<Longrightarrow> length (sa_items s) = length sh \<and> sa_items s \<noteq> []"
  by (metis length_shape length_0_conv sa_ok_def)

lemma sa_move_ok: "sa_ok sh s \<Longrightarrow> \<exists>s'. sa_move d s = Inr s' \<and> sa_ok sh s'"
  using sa_items_length [of sh s] by (auto simp: sa_move_def sa_ok_def)

lemma sa_step:
  assumes "sa_ok sh s"
  shows "\<exists>s'. sa_handle_input s e = Inr s' \<and> sa_ok sh s'"
proof -
  have len: "int (length (sa_items s)) = int (length sh)" using sa_items_length [OF assms] by simp
  obtain key val where it: "sa_items s ! nat (sa_selected s) = (key, val)" by fastforce
  have get: "py_get (sa_items s) (sa_selected s) = Inr (key, val)"
    using assms len it by (simp add: sa_ok_def py_get_ok)
  have "sa_ok sh (sa_save (s\<lparr>sa_config := AList.update key (VBool b) (sa_config s)\<rparr>))" if "val = VBool c" for b c
  proof -
    have "(key, TBool) \<in> set (shape (sa_config s))"
      using py_get_mem [OF get] that assms shape_mem [of key val "sa_items s"] by (simp add: sa_ok_def ctype_of_def)
    moreover have "distinct (map fst (sa_config s))"
      using assms shape_keys [of "sa_config s" "sa_config s"] by (auto simp: sa_ok_def shape_def comp_def split_beta)
    ultimately show ?thesis using assms shape_update [of key "sa_config s" b] by (simp add: sa_ok_def sa_save_def)
  qed
  with assms get sa_move_ok [OF assms] show ?thesis
    by (auto simp: sa_handle_input_def split: event.split cval.split)
qed

interpretation sa_app: event_app sa_handle_input "sa_ok sh" for sh
  by unfold_locales (rule sa_step)

text \<open>A frame of the launcher: the events of the frame, then \<open>draw\<close>, whose exception the launcher handles.\<close>

definition sa_frame :: "settings_app \<Rightarrow> event list \<Rightarrow> settings_app res" where
  "sa_frame s es = res_bind (run_events sa_handle_input s es) (\<lambda>s'. Inr (fst (sa_draw s')))"

lemma sa_draw_ok: "sa_ok sh s \<Longrightarrow> sa_ok sh (fst (sa_draw s))"
  by (simp add: sa_draw_def sa_ok_def Let_def)

interpretation sa_frames: event_app sa_frame "sa_ok sh" for sh
proof
  show "\<exists>s'. sa_frame s es = Inr s' \<and> sa_ok sh s'" if "sa_ok sh s" for s es
    using sa_app.run_ok [OF that, of es] sa_draw_ok by (auto simp: sa_frame_def)
qed

subsection \<open>Property\<close>

text \<open>
  (C28) Whatever keys are pressed and however often the screen is drawn, the settings keep
  their keys, their order and the type of every value, in memory and in everything written
  to the file, and no key raises, as long as the dictionary read at the start is not empty.
\<close>

theorem settings_keep_types:
  assumes "sa_load f = Inr c" "c \<noteq> []" "distinct (map fst c)"
  shows "\<exists>s s'. sa_init f = Inr s \<and> run_events sa_frame s frames = Inr s' \<and> shape (sa_config s') = shape c
    \<and> (\<forall>d\<in>set (sa_saved s'). shape d = shape c)"
proof -
  let ?s = "\<lparr>sa_config = c, sa_selected = 0, sa_items = c, sa_saved = []\<rparr>"
  have "sa_ok (shape c) ?s" using assms by (auto simp: sa_ok_def shape_def comp_def split_beta)
  from sa_frames.run_ok [OF this, of frames] assms(1) show ?thesis by (auto simp: sa_ok_def sa_init_def)
qed

theorem settings_keep_types_witness:
  "\<exists>s s'. sa_init None = Inr s \<and> run_events sa_frame s [[press K_DOWN, press K_RETURN], [press K_RETURN]] = Inr s'
    \<and> shape (sa_config s') = shape SA_DEFAULT \<and> (\<forall>d\<in>set (sa_saved s'). shape d = shape SA_DEFAULT)"
  by (rule settings_keep_types) (simp_all add: sa_load_def SA_DEFAULT_def)

end
