(* ===== verification/SSH_Client.thy ===== *)
theory SSH_Client
  imports Julius_Prelude
begin

text \<open>
  The SSH screen (\<^verbatim>\<open>src/src/apps/ssh/ssh.py\<close>): it collects a host and a user and shows the
  command to run; it opens no connection itself.
\<close>

datatype ssh_stage = SshHost | SshUser | SshReady

record ssh_client =
  sh_log :: "string list"
  sh_input :: string
  sh_host :: string
  sh_user :: string
  sh_stage :: ssh_stage
  sh_status :: string

definition ssh_init :: ssh_client where
  "ssh_init = \<lparr>sh_log = [''Julius SSH Client v0.3''], sh_input = [], sh_host = [], sh_user = [], sh_stage = SshHost,
     sh_status = ''Enter host IP''\<rparr>"

definition ssh_draw :: "ssh_client \<Rightarrow> draw_cmd list" where
  "ssh_draw s =
     app_header ''SSH Client''
     @ [DText (sh_status s) GREEN (8, 28), DLine DIM (0, 40) (240, 40)]
     @ map (\<lambda>(i, l). DText (take 30 l) TEXT (8, 46 + 17 * int i)) (enum (drop (length (sh_log s) - 10) (sh_log s)))
     @ [DText (''> '' @ sh_input s @ ''_'') GREEN (8, 210)]
     @ app_footer ''ENTER=confirm  ESC=clear''"

definition ssh_key_return :: "ssh_client \<Rightarrow> ssh_client" where
  "ssh_key_return s =
     (case sh_stage s of
        SshHost \<Rightarrow> s\<lparr>sh_host := sh_input s, sh_input := [], sh_stage := SshUser, sh_log := sh_log s @ [''Host: '' @ sh_input s]\<rparr>
      | SshUser \<Rightarrow>
          (let cmd = ''ssh '' @ sh_input s @ ''@'' @ sh_host s
           in s\<lparr>sh_user := sh_input s, sh_input := [], sh_stage := SshReady, sh_status := cmd,
                sh_log := sh_log s @ [''User: '' @ sh_input s, ''Run: '' @ cmd, ''Use terminal app to connect'']\<rparr>)
      | SshReady \<Rightarrow> s)"

definition ssh_handle_input :: "ssh_client \<Rightarrow> event \<Rightarrow> ssh_client" where
  "ssh_handle_input s e =
     (case e of
        KeyDown k u _ \<Rightarrow>
          (if k = K_RETURN then ssh_key_return s
           else if k = K_BACKSPACE then s\<lparr>sh_input := butlast (sh_input s)\<rparr>
           else if k = K_ESCAPE then ssh_init
           else s\<lparr>sh_input := sh_input s @ u\<rparr>)
      | _ \<Rightarrow> s)"

subsection \<open>Lemmas\<close>

text \<open>When the screen is ready, the status is the command for the host and the user entered.\<close>

definition ssh_ok :: "ssh_client \<Rightarrow> bool" where
  "ssh_ok s \<longleftrightarrow>
     (case sh_stage s of
        SshHost \<Rightarrow> sh_host s = [] \<and> sh_user s = [] \<and> sh_status s = ''Enter host IP'' \<and> sh_log s = sh_log ssh_init
      | SshUser \<Rightarrow> sh_user s = [] \<and> sh_log s = sh_log ssh_init @ [''Host: '' @ sh_host s]
      | SshReady \<Rightarrow> sh_status s = ''ssh '' @ sh_user s @ ''@'' @ sh_host s
          \<and> sh_log s = sh_log ssh_init @ [''Host: '' @ sh_host s, ''User: '' @ sh_user s, ''Run: '' @ sh_status s,
               ''Use terminal app to connect''])"

lemma ssh_step: "ssh_ok s \<Longrightarrow> ssh_ok (ssh_handle_input s e)"
  by (cases e) (auto simp: ssh_handle_input_def ssh_key_return_def ssh_ok_def ssh_init_def Let_def split: ssh_stage.splits)

interpretation ssh_app: event_app "\<lambda>s e. Inr (ssh_handle_input s e)" ssh_ok
  by unfold_locales (simp add: ssh_step)

end
