(* ===== verification/Port_Scanner.thy ===== *)
theory Port_Scanner
  imports Julius_Prelude
begin

text \<open>
  The port scanner (\<^verbatim>\<open>src/src/apps/scanner/scanner.py\<close>). A scan is a thread that probes the
  common ports one after the other and appends to the list of results that is current at that
  moment; the threads running are part of the state and \<open>ps_probe i\<close> is one step of thread \<open>i\<close>.
  The network is an argument.
\<close>

definition COMMON_PORTS :: "int list" where
  "COMMON_PORTS = [21, 22, 23, 25, 53, 80, 110, 143, 443, 445, 3306, 3389, 8080, 8443]"

record port_result =
  po_port :: int
  po_service :: string
  po_status :: string

type_synonym scan_thread = "string \<times> int list"

record port_scanner =
  ps_results :: "port_result list"
  ps_status :: string
  ps_target :: string
  ps_typing :: bool
  ps_threads :: "scan_thread list"

text \<open>A probe raises, is refused, or finds the port open; then its service may have a name.\<close>

datatype probe = ProbeRaises | PortClosed | PortOpen "string option"

type_synonym network_ports = "string \<Rightarrow> int \<Rightarrow> probe"

definition ps_init :: port_scanner where
  "ps_init = \<lparr>ps_results = [], ps_status = ''Enter target IP'', ps_target = [], ps_typing = True, ps_threads = []\<rparr>"

definition ps_scan :: "string \<Rightarrow> port_scanner \<Rightarrow> port_scanner" where
  "ps_scan ip s =
     s\<lparr>ps_status := ''Scanning '' @ ip @ ''...'', ps_results := [], ps_threads := ps_threads s @ [(ip, COMMON_PORTS)]\<rparr>"

definition probe_result :: "network_ports \<Rightarrow> string \<Rightarrow> int \<Rightarrow> port_result list" where
  "probe_result net ip port =
     (case net ip port of
        PortOpen svc \<Rightarrow>
          [\<lparr>po_port = port, po_service = (case svc of Some n \<Rightarrow> n | None \<Rightarrow> ''unknown''), po_status = ''OPEN''\<rparr>]
      | _ \<Rightarrow> [])"

definition ps_probe :: "network_ports \<Rightarrow> nat \<Rightarrow> port_scanner \<Rightarrow> port_scanner" where
  "ps_probe net i s =
     (if i < length (ps_threads s) then
        (case ps_threads s ! i of
           (ip, []) \<Rightarrow> s
         | (ip, port # ports) \<Rightarrow>
             s\<lparr>ps_results := ps_results s @ probe_result net ip port, ps_threads := (ps_threads s)[i := (ip, ports)]\<rparr>)
      else s)"

definition ps_draw :: "port_scanner \<Rightarrow> draw_cmd list" where
  "ps_draw s =
     app_header ''Port Scanner'' @ [DText (ps_status s) GREEN (8, 28)]
     @ (if ps_typing s then
          [DText (''IP: '' @ ps_target s @ ''_'') TEXT (8, 44), DText ''Type IP then ENTER to scan'' DIM (8, 228)]
        else
          [DLine DIM (0, 42) (240, 42)]
          @ concat (map (\<lambda>(i, r). let y = 48 + 17 * int i
               in [DText (py_str_int (po_port r)) GREEN (8, y), DText (take 12 (po_service r)) TEXT (60, y), DText (po_status r) GREEN (185, y)])
              (enum (take 9 (ps_results s))))
          @ [DText ''ESC=back  R=rescan'' DIM (8, 228)])
     @ [Flip]"

definition ps_handle_input :: "port_scanner \<Rightarrow> event \<Rightarrow> port_scanner" where
  "ps_handle_input s e =
     (case e of
        KeyDown k u _ \<Rightarrow>
          (if ps_typing s then
             (if k = K_RETURN \<and> ps_target s \<noteq> [] then ps_scan (ps_target s) (s\<lparr>ps_typing := False\<rparr>)
              else if k = K_BACKSPACE then s\<lparr>ps_target := butlast (ps_target s)\<rparr>
              else if py_in u ''0123456789.'' then s\<lparr>ps_target := ps_target s @ u\<rparr>
              else s)
           else if k = K_r then ps_scan (ps_target s) s
           else if k = K_ESCAPE then
             s\<lparr>ps_typing := True, ps_target := [], ps_results := [], ps_status := ''Enter target IP''\<rparr>
           else s)
      | _ \<Rightarrow> s)"

subsection \<open>Interleaving\<close>

datatype ps_action = PsEvent event | PsProbe nat

definition ps_step :: "network_ports \<Rightarrow> port_scanner \<Rightarrow> ps_action \<Rightarrow> port_scanner" where
  "ps_step net s a = (case a of PsEvent e \<Rightarrow> ps_handle_input s e | PsProbe i \<Rightarrow> ps_probe net i s)"

text \<open>What a scan of an address finds.\<close>

definition open_ports :: "network_ports \<Rightarrow> string \<Rightarrow> port_result list" where
  "open_ports net ip = concat (map (probe_result net ip) COMMON_PORTS)"

lemma ports_length: "length COMMON_PORTS = 14"
  by (simp add: COMMON_PORTS_def)

lemma sorted_ports: "sorted COMMON_PORTS"
  by (simp add: COMMON_PORTS_def)

lemma open_ports_ports:
  "map po_port (open_ports net ip) = filter (\<lambda>p. \<exists>svc. net ip p = PortOpen svc) COMMON_PORTS"
proof -
  have "map po_port (concat (map (probe_result net ip) ps)) = filter (\<lambda>p. \<exists>svc. net ip p = PortOpen svc) ps" for ps
    by (induction ps) (auto simp: probe_result_def split: probe.splits)
  then show ?thesis by (simp add: open_ports_def)
qed

lemma probe_thread:
  assumes "i < length (ps_threads s)" "ps_threads s ! i = (ip, ports)"
  shows "(ps_probe net i ^^ length ports) s
    = s\<lparr>ps_results := ps_results s @ concat (map (probe_result net ip) ports), ps_threads := (ps_threads s)[i := (ip, [])]\<rparr>"
  using assms
proof (induction ports arbitrary: s)
  case Nil
  then show ?case using list_update_id [of "ps_threads s" i] by simp
next
  case (Cons p ps)
  have st: "ps_probe net i s = s\<lparr>ps_results := ps_results s @ probe_result net ip p, ps_threads := (ps_threads s)[i := (ip, ps)]\<rparr>"
    using Cons.prems by (simp add: ps_probe_def)
  have "(ps_probe net i ^^ length (p # ps)) s = (ps_probe net i ^^ length ps) (ps_probe net i s)"
    by (simp add: funpow_swap1)
  with Cons.IH [of "ps_probe net i s"] Cons.prems show ?case by (simp add: st)
qed

subsection \<open>Properties\<close>

text \<open>
  A scan left to itself ends after one probe of each common port and then lists exactly
  the ports of the target that are open, in ascending order.
\<close>

theorem scan_lists_open_ports:
  assumes "ps_typing s" "ps_target s \<noteq> []" "ps_threads s = []"
  shows "\<exists>s'. (ps_probe net 0 ^^ 14) (ps_handle_input s (press K_RETURN)) = s'
      \<and> ps_results s' = open_ports net (ps_target s) \<and> map po_port (ps_results s')
          = filter (\<lambda>p. \<exists>svc. net (ps_target s) p = PortOpen svc) COMMON_PORTS
      \<and> sorted (map po_port (ps_results s')) \<and> ps_threads s' = [(ps_target s, [])]"
proof -
  let ?s1 = "ps_handle_input s (press K_RETURN)"
  have "ps_threads ?s1 ! 0 = (ps_target s, COMMON_PORTS)" "0 < length (ps_threads ?s1)"
    "ps_results ?s1 = []" "ps_threads ?s1 = [(ps_target s, COMMON_PORTS)]"
    using assms by (simp_all add: ps_handle_input_def press_def ps_scan_def)
  with probe_thread [of 0 ?s1 "ps_target s" COMMON_PORTS net]
  have r: "ps_results ((ps_probe net 0 ^^ 14) ?s1) = open_ports net (ps_target s)"
    and t: "ps_threads ((ps_probe net 0 ^^ 14) ?s1) = [(ps_target s, [])]"
    by (simp_all add: open_ports_def ports_length)
  with open_ports_ports sorted_ports show ?thesis by (simp add: sorted_wrt_filter)
qed

theorem scan_lists_open_ports_witness:
  "\<exists>s'. (ps_probe (\<lambda>_ _. PortClosed) 0 ^^ 14) (ps_handle_input (ps_init\<lparr>ps_target := ''1.1''\<rparr>) (press K_RETURN)) = s'
      \<and> ps_results s' = open_ports (\<lambda>_ _. PortClosed) (ps_target (ps_init\<lparr>ps_target := ''1.1''\<rparr>))
      \<and> map po_port (ps_results s') = filter (\<lambda>p. \<exists>svc. PortClosed = PortOpen svc) COMMON_PORTS
      \<and> sorted (map po_port (ps_results s')) \<and> ps_threads s' = [(ps_target (ps_init\<lparr>ps_target := ''1.1''\<rparr>), [])]"
  by (rule scan_lists_open_ports) (simp_all add: ps_init_def)

text \<open>
  A scan abandoned with escape keeps running and appends to the list of the next scan:
  the screen that says it is scanning the new target lists the open ports of the old one.
\<close>

theorem scan_shows_old_target:
  assumes "ps_typing s" "ps_target s \<noteq> []" "ps_threads s = []" "u \<noteq> []" "py_in u ''0123456789.''"
  shows "\<exists>s'. (ps_probe net 0 ^^ 14) (fold (\<lambda>e s. ps_handle_input s e)
          [press K_RETURN, press K_ESCAPE, KeyDown (K_other 0) u False, press K_RETURN] s) = s'
      \<and> ps_status s' = ''Scanning '' @ u @ ''...'' \<and> ps_results s' = open_ports net (ps_target s)"
proof -
  let ?s1 = "fold (\<lambda>e s. ps_handle_input s e) [press K_RETURN, press K_ESCAPE, KeyDown (K_other 0) u False, press K_RETURN] s"
  have s1: "ps_threads ?s1 = [(ps_target s, COMMON_PORTS), (u, COMMON_PORTS)]" "ps_results ?s1 = []"
    "ps_status ?s1 = ''Scanning '' @ u @ ''...''"
    using assms by (simp_all add: ps_handle_input_def press_def ps_scan_def)
  with probe_thread [of 0 ?s1 "ps_target s" COMMON_PORTS net] show ?thesis
    by (simp add: open_ports_def ports_length del: fold_simps)
qed

theorem scan_shows_old_target_witness:
  "\<exists>s'. (ps_probe (\<lambda>ip p. if ip = ''1.1'' then PortOpen None else PortClosed) 0 ^^ 14) (fold (\<lambda>e s. ps_handle_input s e)
          [press K_RETURN, press K_ESCAPE, KeyDown (K_other 0) ''2'' False, press K_RETURN] (ps_init\<lparr>ps_target := ''1.1''\<rparr>)) = s'
      \<and> ps_status s' = ''Scanning '' @ ''2'' @ ''...''
      \<and> ps_results s' = open_ports (\<lambda>ip p. if ip = ''1.1'' then PortOpen None else PortClosed) (ps_target (ps_init\<lparr>ps_target := ''1.1''\<rparr>))"
  by (rule scan_shows_old_target) (simp_all add: ps_init_def)

end
