(* ===== verification/Hasher.thy ===== *)
theory Hasher
  imports Codecs
begin

text \<open>
  The hash tool (\<^verbatim>\<open>src/src/apps/hasher/hasher.py\<close>). The hash functions of \<^verbatim>\<open>hashlib\<close> are an
  argument: \<open>digest algo bytes\<close> is the hexadecimal digest.
\<close>

definition ALGOS :: "string list" where
  "ALGOS = [''md5'', ''sha1'', ''sha256'', ''sha512'']"

datatype ha_mode = HaInput | HaResult

record hasher =
  ha_input :: string
  ha_results :: "(string \<times> string) list"
  ha_selected :: int
  ha_mode :: ha_mode

type_synonym digest = "string \<Rightarrow> byte list \<Rightarrow> string"

definition ha_init :: hasher where
  "ha_init = \<lparr>ha_input = [], ha_results = [], ha_selected = 0, ha_mode = HaInput\<rparr>"

definition ha_compute :: "digest \<Rightarrow> hasher \<Rightarrow> hasher" where
  "ha_compute digest s =
     s\<lparr>ha_results := map (\<lambda>algo. (algo, digest algo (utf8 (ha_input s)))) ALGOS, ha_mode := HaResult\<rparr>"

definition ha_draw_input :: "hasher \<Rightarrow> draw_cmd list" where
  "ha_draw_input s =
     app_header ''Hash Tool''
     @ [DText ''Enter text to hash:'' GREEN (8, 32), DText (take 26 (ha_input s) @ ''_'') TEXT (8, 50)]
     @ app_footer ''ENTER=hash  ESC=clear''"

definition ha_draw_result :: "hasher \<Rightarrow> draw_cmd list" where
  "ha_draw_result s =
     app_header ''Hash Results''
     @ [DText (''Input: '' @ take 22 (ha_input s)) DIM (8, 28), DLine DIM (0, 40) (240, 40)]
     @ concat (map (\<lambda>(i, algo, dg). let y = 46 + 46 * int i
          in (if int i = ha_selected s then [DRect (RGB 20 40 70) (4, y - 2, 232, 30)] else [])
             @ [DText (py_upper_ascii algo) (if int i = ha_selected s then ACCENT else TEXT) (8, y), DText (take 28 dg) GREEN (8, y + 10)]
             @ (if length dg > 28 then [DText (drop 28 dg) GREEN (8, y + 20)] else []))
         (enum (ha_results s)))
     @ app_footer ''ESC=back  UP DOWN=select''"

definition ha_draw :: "hasher \<Rightarrow> draw_cmd list" where
  "ha_draw s = (case ha_mode s of HaInput \<Rightarrow> ha_draw_input s | HaResult \<Rightarrow> ha_draw_result s)"

definition ha_handle_input :: "digest \<Rightarrow> hasher \<Rightarrow> event \<Rightarrow> hasher" where
  "ha_handle_input digest s e =
     (case e of
        KeyDown k u _ \<Rightarrow>
          (case ha_mode s of
             HaInput \<Rightarrow>
               (if k = K_RETURN \<and> ha_input s \<noteq> [] then ha_compute digest s
                else if k = K_BACKSPACE then s\<lparr>ha_input := butlast (ha_input s)\<rparr>
                else if k = K_ESCAPE then s\<lparr>ha_input := []\<rparr>
                else s\<lparr>ha_input := ha_input s @ u\<rparr>)
           | HaResult \<Rightarrow>
               (if k = K_ESCAPE then s\<lparr>ha_mode := HaInput, ha_input := []\<rparr>
                else if k = K_DOWN then s\<lparr>ha_selected := (ha_selected s + 1) mod int (length ALGOS)\<rparr>
                else if k = K_UP then s\<lparr>ha_selected := (ha_selected s - 1) mod int (length ALGOS)\<rparr>
                else s))
      | _ \<Rightarrow> s)"

subsection \<open>Lemmas\<close>

text \<open>On the result screen the digests are those of the input shown.\<close>

definition ha_ok :: "digest \<Rightarrow> hasher \<Rightarrow> bool" where
  "ha_ok digest s \<longleftrightarrow> 0 \<le> ha_selected s \<and> ha_selected s < int (length ALGOS)
     \<and> (ha_mode s = HaResult \<longrightarrow> ha_input s \<noteq> []
          \<and> ha_results s = map (\<lambda>a. (a, digest a (utf8 (ha_input s)))) ALGOS)"

lemma ha_step: "ha_ok digest s \<Longrightarrow> ha_ok digest (ha_handle_input digest s e)"
  by (cases e)
    (auto simp: ha_handle_input_def ha_ok_def ha_compute_def ALGOS_def split: ha_mode.splits)

interpretation ha_app: event_app "\<lambda>s e. Inr (ha_handle_input digest s e)" "ha_ok digest" for digest
  by unfold_locales (simp add: ha_step)

lemma ha_type: "ha_mode s = HaInput \<Longrightarrow>
    run_events (\<lambda>s e. Inr (ha_handle_input digest s e)) s (type_text t) = Inr (s\<lparr>ha_input := ha_input s @ t\<rparr>)"
  by (rule run_type_text [where P = "\<lambda>s. ha_mode s = HaInput"]) (simp_all add: ha_handle_input_def)

text \<open>Typing a text and pressing enter shows its digests.\<close>

lemma hash_of_typed_text:
  assumes "t \<noteq> []"
  shows "\<exists>s. run_events (\<lambda>s e. Inr (ha_handle_input digest s e)) ha_init (type_text t @ [press K_RETURN]) = Inr s
    \<and> ha_mode s = HaResult \<and> ha_results s = map (\<lambda>a. (a, digest a (utf8 t))) ALGOS"
  using assms ha_type [of ha_init digest t]
  by (simp add: run_events_append press_def ha_handle_input_def ha_compute_def ha_init_def)

end
