(* ===== verification/Calculator.thy ===== *)
theory Calculator
  imports Julius_Prelude
begin

text \<open>
  The calculator (\<^verbatim>\<open>src/src/apps/calculator/calculator.py\<close>). Its numbers are Python floats; the
  float operations it uses are an argument of type \<open>'f float_ops\<close>: \<open>float(text)\<close>, which fails on
  a text that is no number, \<open>str(x)\<close> and the arithmetic. The sizes of rendered texts are
  arguments of the drawing.
\<close>

record 'f float_ops =
  fo_parse :: "string \<Rightarrow> 'f option"
  fo_str :: "'f \<Rightarrow> string"
  fo_neg :: "'f \<Rightarrow> 'f"
  fo_add :: "'f \<Rightarrow> 'f \<Rightarrow> 'f"
  fo_sub :: "'f \<Rightarrow> 'f \<Rightarrow> 'f"
  fo_mul :: "'f \<Rightarrow> 'f \<Rightarrow> 'f"
  fo_div :: "'f \<Rightarrow> 'f \<Rightarrow> 'f"
  fo_iszero :: "'f \<Rightarrow> bool"
  fo_hundred :: 'f

definition CALC_BUTTONS :: "string list list" where
  "CALC_BUTTONS = [[''C'', ''+/-'', ''%'', ''/''], [''7'', ''8'', ''9'', ''*''], [''4'', ''5'', ''6'', ''-''], [''1'', ''2'', ''3'', ''+'']]"

record calculator =
  ca_display :: string
  ca_prev :: string
  ca_op :: string
  ca_reset :: bool

definition calc_init :: calculator where
  "calc_init = \<lparr>ca_display = ''0'', ca_prev = [], ca_op = [], ca_reset = False\<rparr>"

text \<open>\<open>str(x)\<close> without a trailing \<open>".0"\<close>.\<close>

definition strip_dot0 :: "string \<Rightarrow> string" where
  "strip_dot0 t = (if py_prefix (rev ''.0'') (rev t) then take (length t - 2) t else t)"

definition calc_show :: "'f float_ops \<Rightarrow> 'f \<Rightarrow> string" where
  "calc_show fo x = strip_dot0 (fo_str fo x)"

definition calc_result :: "'f float_ops \<Rightarrow> string \<Rightarrow> 'f \<Rightarrow> 'f \<Rightarrow> 'f option" where
  "calc_result fo op a b =
     (if op = ''+'' then Some (fo_add fo a b)
      else if op = ''-'' then Some (fo_sub fo a b)
      else if op = ''*'' then Some (fo_mul fo a b)
      else if op = ''/'' then (if fo_iszero fo b then None else Some (fo_div fo a b))
      else None)"

definition calc_equals :: "'f float_ops \<Rightarrow> string \<Rightarrow> string \<Rightarrow> string \<Rightarrow> string" where
  "calc_equals fo prev op disp =
     (case (fo_parse fo prev, fo_parse fo disp) of
        (Some a, Some b) \<Rightarrow> (case calc_result fo op a b of Some r \<Rightarrow> calc_show fo r | None \<Rightarrow> ''Error'')
      | _ \<Rightarrow> ''Error'')"

definition calc_press :: "'f float_ops \<Rightarrow> string \<Rightarrow> calculator \<Rightarrow> calculator res" where
  "calc_press fo btn s =
     (if btn = ''C'' then Inr \<lparr>ca_display = ''0'', ca_prev = [], ca_op = [], ca_reset = False\<rparr>
      else if btn = ''+/-'' then
        (if ca_display s \<noteq> ''0'' then
           (case fo_parse fo (ca_display s) of
              None \<Rightarrow> Inl ValueError
            | Some x \<Rightarrow> Inr (s\<lparr>ca_display := calc_show fo (fo_neg fo x)\<rparr>))
         else Inr s)
      else if btn = ''%'' then
        Inr (s\<lparr>ca_display := (case fo_parse fo (ca_display s) of
             Some x \<Rightarrow> calc_show fo (fo_div fo x (fo_hundred fo)) | None \<Rightarrow> ''Error'')\<rparr>)
      else if btn \<in> {''/'', ''*'', ''-'', ''+''} then Inr (s\<lparr>ca_prev := ca_display s, ca_op := btn, ca_reset := True\<rparr>)
      else if btn = ''='' then
        Inr \<lparr>ca_display = calc_equals fo (ca_prev s) (ca_op s) (ca_display s), ca_prev = [], ca_op = [], ca_reset = False\<rparr>
      else if btn = ''.'' then
        (if ca_reset s then Inr (s\<lparr>ca_display := ''0.'', ca_reset := False\<rparr>)
         else if \<not> py_in ''.'' (ca_display s) then Inr (s\<lparr>ca_display := ca_display s @ ''.''\<rparr>)
         else Inr s)
      else if ca_display s = ''0'' \<or> ca_reset s then Inr (s\<lparr>ca_display := btn, ca_reset := False\<rparr>)
      else Inr (s\<lparr>ca_display := ca_display s @ btn\<rparr>))"

text \<open>The buttons with their rectangles, in the order the loops visit them.\<close>

definition calc_btn_rect :: "nat \<Rightarrow> nat \<Rightarrow> rect" where
  "calc_btn_rect row col =
     (let pad = 6; btn_w = (240 - pad * 5) div 4; btn_h = 28
      in (pad + int col * (btn_w + pad), 64 + int row * (btn_h + pad), btn_w, btn_h))"

definition calc_grid :: "(rect \<times> string) list" where
  "calc_grid = concat (map (\<lambda>(r, row). map (\<lambda>(c, btn). (calc_btn_rect r c, btn)) (enum row)) (enum CALC_BUTTONS))"

definition calc_draw :: "(string \<Rightarrow> int) \<Rightarrow> (string \<Rightarrow> int) \<Rightarrow> calculator \<Rightarrow> draw_cmd list" where
  "calc_draw width height s =
     app_header ''Calculator'' @ [DRect (RGB 20 30 50) (8, 28, 224, 30)]
     @ (let d = drop (length (ca_display s) - 20) (ca_display s) in [DText d GREEN (220 - width d, 36)])
     @ (if ca_prev s \<noteq> [] \<and> ca_op s \<noteq> [] then [DText (ca_prev s @ '' '' @ ca_op s) DIM (12, 30)] else [])
     @ concat (map (\<lambda>((x, y, w, h), btn).
          [DRect (if btn \<in> {''/'', ''*'', ''-'', ''+'', ''=''} then ACCENT else if btn \<in> {''C'', ''+/-'', ''%''} then RED else RGB 20 30 50) (x, y, w, h),
           DRect DIM (x, y, w, h),
           DText btn TEXT (x + w div 2 - width btn div 2, y + h div 2 - height btn div 2)]) calc_grid)
     @ [Flip]"

definition calc_key :: "key \<Rightarrow> string option" where
  "calc_key k =
     (case k of
        K_RETURN \<Rightarrow> Some ''=''
      | K_letter c \<Rightarrow> (if c \<in> set ''0123456789+-*/.'' then Some [c] else None)
      | _ \<Rightarrow> None)"

definition calc_handle_input :: "'f float_ops \<Rightarrow> calculator \<Rightarrow> event \<Rightarrow> calculator res" where
  "calc_handle_input fo s e =
     (case e of
        MouseDown p \<Rightarrow>
          fold (\<lambda>(r, btn) st. res_bind st (\<lambda>s. if collidepoint r p then calc_press fo btn s else Inr s)) calc_grid (Inr s)
      | KeyDown k _ _ \<Rightarrow> (case calc_key k of Some btn \<Rightarrow> calc_press fo btn s | None \<Rightarrow> Inr s)
      | _ \<Rightarrow> Inr s)"

subsection \<open>Lemmas\<close>

text \<open>The keys that type a text.\<close>

definition calc_keys :: "string \<Rightarrow> event list" where
  "calc_keys t = map (\<lambda>c. press (K_letter c)) t"

definition digits :: "string \<Rightarrow> bool" where
  "digits t \<longleftrightarrow> t \<noteq> [] \<and> hd t \<noteq> CHR ''0'' \<and> set t \<subseteq> set ''0123456789''"

lemma digit_press:
  assumes "c \<in> set ''0123456789''"
  shows "calc_handle_input fo s (press (K_letter c)) =
    (if ca_display s = ''0'' \<or> ca_reset s then Inr (s\<lparr>ca_display := [c], ca_reset := False\<rparr>)
     else Inr (s\<lparr>ca_display := ca_display s @ [c]\<rparr>))"
  using assms by (auto simp: calc_handle_input_def press_def calc_key_def calc_press_def)

lemma more_digits:
  "set t \<subseteq> set ''0123456789'' \<Longrightarrow> ca_display s \<noteq> ''0'' \<Longrightarrow> ca_display s \<noteq> [] \<Longrightarrow> \<not> ca_reset s \<Longrightarrow>
     run_events (calc_handle_input fo) s (calc_keys t) = Inr (s\<lparr>ca_display := ca_display s @ t\<rparr>)"
proof (induction t arbitrary: s)
  case Nil
  then show ?case by (simp add: calc_keys_def)
next
  case (Cons c t)
  then have "calc_handle_input fo s (press (K_letter c)) = Inr (s\<lparr>ca_display := ca_display s @ [c]\<rparr>)"
    by (subst digit_press) auto
  with Cons show ?case by (simp add: calc_keys_def)
qed

lemma type_number:
  assumes "digits t" "ca_display s = ''0'' \<or> ca_reset s"
  shows "run_events (calc_handle_input fo) s (calc_keys t) = Inr (s\<lparr>ca_display := t, ca_reset := False\<rparr>)"
proof -
  from assms(1) obtain c cs where t: "t = c # cs" "c \<noteq> CHR ''0''" "c \<in> set ''0123456789''" "set cs \<subseteq> set ''0123456789''"
    by (cases t) (auto simp: digits_def)
  have "calc_handle_input fo s (press (K_letter c)) = Inr (s\<lparr>ca_display := [c], ca_reset := False\<rparr>)"
    using t(3) assms(2) by (subst digit_press) simp_all
  with more_digits [OF t(4), of "s\<lparr>ca_display := [c], ca_reset := False\<rparr>" fo] t show ?thesis
    by (simp add: calc_keys_def)
qed

lemma op_press:
  "op \<in> set ''+-*/'' \<Longrightarrow> calc_handle_input fo s (press (K_letter op)) = Inr (s\<lparr>ca_prev := ca_display s, ca_op := [op], ca_reset := True\<rparr>)"
  by (auto simp: calc_handle_input_def press_def calc_key_def calc_press_def)

lemma equals_press:
  "calc_handle_input fo s (press K_RETURN)
     = Inr \<lparr>ca_display = calc_equals fo (ca_prev s) (ca_op s) (ca_display s), ca_prev = [], ca_op = [], ca_reset = False\<rparr>"
  by (simp add: calc_handle_input_def press_def calc_key_def calc_press_def)

lemma calc_grid_eq: "map snd calc_grid = concat CALC_BUTTONS"
  by code_simp

text \<open>No button of the grid computes: there is no \<open>=\<close>.\<close>

definition touch :: "event \<Rightarrow> bool" where
  "touch e = (case e of KeyDown _ _ _ \<Rightarrow> False | _ \<Rightarrow> True)"

definition unary_agree :: "'f float_ops \<Rightarrow> 'f float_ops \<Rightarrow> bool" where
  "unary_agree fo fo' \<longleftrightarrow> fo_parse fo = fo_parse fo' \<and> fo_str fo = fo_str fo' \<and> fo_neg fo = fo_neg fo'
     \<and> (\<forall>x. fo_div fo x (fo_hundred fo) = fo_div fo' x (fo_hundred fo'))"

lemma press_unary: "unary_agree fo fo' \<Longrightarrow> btn \<noteq> ''='' \<Longrightarrow> calc_press fo btn s = calc_press fo' btn s"
  by (simp add: unary_agree_def calc_press_def calc_show_def split: option.split)

lemma touch_unary:
  assumes "unary_agree fo fo'" "touch e"
  shows "calc_handle_input fo s e = calc_handle_input fo' s e"
proof (cases e)
  case (MouseDown p)
  have "fold (\<lambda>(r, btn) st. res_bind st (\<lambda>s. if collidepoint r p then calc_press fo btn s else Inr s)) bs st
      = fold (\<lambda>(r, btn) st. res_bind st (\<lambda>s. if collidepoint r p then calc_press fo' btn s else Inr s)) bs st"
    if "''='' \<notin> snd ` set bs" for bs st
    using that press_unary [OF assms(1)] by (induction bs arbitrary: st) (auto simp: res_bind_def split: sum.split)
  moreover have "''='' \<notin> snd ` set calc_grid"
    using calc_grid_eq by (simp add: CALC_BUTTONS_def flip: set_map)
  ultimately show ?thesis by (simp add: calc_handle_input_def MouseDown)
qed (use assms(2) in \<open>simp_all add: touch_def calc_handle_input_def\<close>)

subsection \<open>Properties\<close>

text \<open>
  Without a keyboard the calculator cannot calculate: its panel has no \<open>=\<close>, so over any
  sequence of touches the display does not depend on what addition, subtraction,
  multiplication and division (other than by the hundred of \<open>%\<close>) compute.
\<close>

theorem calc_touch_never_computes:
  "unary_agree fo fo' \<Longrightarrow> (\<forall>e\<in>set es. touch e) \<Longrightarrow>
     run_events (calc_handle_input fo) s es = run_events (calc_handle_input fo') s es"
proof (induction es arbitrary: s)
  case Nil
  then show ?case by simp
next
  case (Cons e es)
  then have "calc_handle_input fo s e = calc_handle_input fo' s e" by (simp add: touch_unary)
  with Cons show ?case by (simp add: res_bind_def split: sum.split)
qed

text \<open>Floats stand-in for the witnesses: natural numbers in decimal.\<close>

definition nat_ops :: "nat float_ops" where
  "nat_ops = \<lparr>fo_parse = \<lambda>t. (if t \<noteq> [] \<and> set t \<subseteq> set ''0123456789'' then Some (foldl (\<lambda>n c. 10 * n + (of_char c - 48)) 0 t) else None),
     fo_str = py_digits, fo_neg = id, fo_add = (+), fo_sub = (-), fo_mul = (*), fo_div = (div), fo_iszero = (\<lambda>n. n = 0), fo_hundred = 100\<rparr>"

theorem calc_touch_never_computes_witness:
  "run_events (calc_handle_input nat_ops) calc_init [MouseDown (10, 100), MouseDown (200, 170), MouseDown (10, 170)]
     = run_events (calc_handle_input (nat_ops\<lparr>fo_add := (*)\<rparr>)) calc_init [MouseDown (10, 100), MouseDown (200, 170), MouseDown (10, 170)]"
  by (rule calc_touch_never_computes) (simp_all add: unary_agree_def touch_def nat_ops_def)

text \<open>
  A chain of two operations loses its first operand: after \<open>n1 op1 n2 op2 n3 =\<close> the
  display shows \<open>n2 op2 n3\<close>, and digits typed next are appended to that result.
\<close>

theorem calc_chain_drops_first:
  assumes "digits n1" "digits n2" "digits n3" "op1 \<in> set ''+-*/''" "op2 \<in> set ''+-*/''"
    and "ca_display s = ''0''"
  shows "\<exists>s'. run_events (calc_handle_input fo) s
        (calc_keys n1 @ [press (K_letter op1)] @ calc_keys n2 @ [press (K_letter op2)] @ calc_keys n3 @ [press K_RETURN]) = Inr s'
      \<and> ca_display s' = calc_equals fo n2 [op2] n3
      \<and> (\<forall>d. digits d \<and> ca_display s' \<notin> {[], ''0''} \<longrightarrow>
           run_events (calc_handle_input fo) s' (calc_keys d) = Inr (s'\<lparr>ca_display := ca_display s' @ d\<rparr>))"
proof -
  let ?s = "\<lparr>ca_display = calc_equals fo n2 [op2] n3, ca_prev = [], ca_op = [], ca_reset = False\<rparr>"
  have "run_events (calc_handle_input fo) ?s (calc_keys d) = Inr (?s\<lparr>ca_display := ca_display ?s @ d\<rparr>)"
    if "digits d" "ca_display ?s \<notin> {[], ''0''}" for d
    by (rule more_digits) (use that in \<open>simp_all add: digits_def\<close>)
  then show ?thesis
    using assms by (simp add: run_events_append type_number op_press equals_press del: set_simps)
qed

theorem calc_chain_drops_first_witness:
  "\<exists>s'. run_events (calc_handle_input nat_ops) calc_init
        (calc_keys ''2'' @ [press (K_letter CHR ''+'')] @ calc_keys ''3'' @ [press (K_letter CHR ''*'')] @ calc_keys ''4'' @ [press K_RETURN]) = Inr s'
      \<and> ca_display s' = calc_equals nat_ops ''3'' ''*'' ''4''
      \<and> (\<forall>d. digits d \<and> ca_display s' \<notin> {[], ''0''} \<longrightarrow>
           run_events (calc_handle_input nat_ops) s' (calc_keys d) = Inr (s'\<lparr>ca_display := ca_display s' @ d\<rparr>))"
  by (rule calc_chain_drops_first) (simp_all add: digits_def calc_init_def)

text \<open>
  Only the sign button raises, and only when the display shows something that is no number,
  such as the \<open>Error\<close> the calculator itself displays.
\<close>

lemma calc_press_raises:
  "calc_press fo btn s = Inl x \<longleftrightarrow> btn = ''+/-'' \<and> ca_display s \<noteq> ''0'' \<and> fo_parse fo (ca_display s) = None \<and> x = ValueError"
  by (auto simp: calc_press_def split: option.splits)

lemma calc_error_then_sign:
  assumes "fo_parse fo ''Error'' = None" "fo_parse fo [] = None"
  shows "run_events (calc_handle_input fo) calc_init [press K_RETURN, MouseDown (70, 70)] = Inl ValueError"
proof -
  have hit: "filter (\<lambda>(r, btn). collidepoint r (70, 70)) calc_grid = [((64, 64, 52, 28), ''+/-'')]" by code_simp
  have f: "fold (\<lambda>(r, btn) st. res_bind st (\<lambda>s. if collidepoint r p then calc_press fo btn s else Inr s)) bs st
      = fold (\<lambda>(r, btn) st. res_bind st (calc_press fo btn)) (filter (\<lambda>(r, btn). collidepoint r p) bs) st" for bs st p
    by (induction bs arbitrary: st) (auto simp: res_bind_def split: sum.split)
  have "calc_equals fo [] [] ''0'' = ''Error''" using assms(2) by (simp add: calc_equals_def)
  then show ?thesis
    using assms(1) by (simp add: equals_press) (simp add: calc_handle_input_def f hit calc_init_def calc_press_def)
qed

end
