(* ===== verification/Network_Map.thy ===== *)
theory Network_Map
  imports Ui_Config
begin

text \<open>
  The network map (\<^verbatim>\<open>src/src/apps/maps/maps.py\<close>), on the 320 by 480 screen of the main
  interface: the hosts found, the map and the list, and the input. Hosts are mutable objects
  shared by the host list, the touch areas and the port-scanning threads, so they live in a
  store and are referred to by their index. The scanning threads are in \<open>Network_Scan\<close>.

  Angles are kept as the fraction \<open>(i, n)\<close> of a full turn, \<open>i * (2*pi/n)\<close>. The floating-point
  part (the zoom factor, the trigonometry and the rounding to pixels) is the argument
  \<open>'z map_floats\<close>, and the sizes of rendered texts are an argument of the drawing.
\<close>

subsection \<open>Hosts\<close>

abbreviation "MA_WHITE \<equiv> RGB 255 255 255"
abbreviation "MA_DIM \<equiv> RGB 100 100 110"
abbreviation "MA_ACCENT \<equiv> RGB 0 200 255"
abbreviation "MA_GREEN \<equiv> RGB 48 209 88"
abbreviation "MA_RED \<equiv> RGB 255 69 58"
abbreviation "MA_YELLOW \<equiv> RGB 255 200 10"
abbreviation "MA_ORANGE \<equiv> RGB 255 159 10"
abbreviation "MA_CARD \<equiv> RGB 22 22 28"
abbreviation "MA_LINE \<equiv> RGB 40 40 50"
abbreviation "MA_BAR \<equiv> RGB 14 14 22"

record map_host =
  mh_ip :: string
  mh_mac :: string
  mh_hostname :: string
  mh_type :: string
  mh_color :: colour
  mh_angle :: "nat \<times> nat"
  mh_radius :: int
  mh_open_ports :: "int list"

definition detect_type :: "string \<Rightarrow> string \<times> colour" where
  "detect_type hostname =
     (let hn = py_lower hostname
      in if py_in ''router'' hn \<or> py_in ''gateway'' hn then (''router'', MA_RED)
         else if py_in ''phone'' hn \<or> py_in ''android'' hn \<or> py_in ''iphone'' hn then (''phone'', MA_GREEN)
         else if py_in ''laptop'' hn \<or> py_in ''mac'' hn \<or> py_in ''pc'' hn then (''computer'', MA_ACCENT)
         else if py_in ''tv'' hn \<or> py_in ''smart'' hn then (''tv'', MA_ORANGE)
         else if py_in ''printer'' hn then (''printer'', MA_YELLOW)
         else (''device'', MA_DIM))"

text \<open>\<open>get_mac\<close> on the output of \<^verbatim>\<open>arp -n\<close>, or on an exception.\<close>

definition no_mac :: string where
  "no_mac = ''??:??:??:??:??:??''"

fun mac_of_lines :: "string \<Rightarrow> string list \<Rightarrow> string" where
  "mac_of_lines ip [] = no_mac"
| "mac_of_lines ip (line # lines) =
     (if py_in ip line then
        (case find (\<lambda>p. py_in '':'' p \<and> length p = 17) (py_words line) of
           Some p \<Rightarrow> p | None \<Rightarrow> mac_of_lines ip lines)
      else mac_of_lines ip lines)"

definition get_mac :: "(string \<Rightarrow> string option) \<Rightarrow> string \<Rightarrow> string" where
  "get_mac arp ip = (case arp ip of None \<Rightarrow> no_mac | Some out \<Rightarrow> mac_of_lines ip (py_split newline_char out))"

definition get_hostname :: "(string \<Rightarrow> string option) \<Rightarrow> string \<Rightarrow> string" where
  "get_hostname dns ip = (case dns ip of Some n \<Rightarrow> n | None \<Rightarrow> ''Unknown'')"

subsection \<open>State\<close>

datatype map_mode = MapView | ListView

record 'z map_floats =
  mf_one :: 'z
  mf_in :: "'z \<Rightarrow> 'z"
  mf_out :: "'z \<Rightarrow> 'z"
  mf_ring :: "int \<Rightarrow> 'z \<Rightarrow> int"
  mf_off :: "nat \<times> nat \<Rightarrow> int \<Rightarrow> 'z \<Rightarrow> int \<times> int"

record 'z netmap =
  nm_store :: "map_host list"
  nm_hosts :: "nat list"
  nm_scanning :: bool
  nm_status :: string
  nm_selected :: "string option"
  nm_mode :: map_mode
  nm_progress :: int
  nm_my_ip :: string
  nm_scroll_y :: int
  nm_zoom :: 'z
  nm_pan :: "int \<times> int"
  nm_btn_rects :: "(rect \<times> string) list option"
  nm_host_rects :: "(rect \<times> nat) list option"
  nm_list_rects :: "(rect \<times> nat) option list option"

definition nm_init :: "'z map_floats \<Rightarrow> string option \<Rightarrow> 'z netmap" where
  "nm_init mf ip =
     \<lparr>nm_store = [], nm_hosts = [], nm_scanning = False, nm_status = ''Press S to scan network'', nm_selected = None,
      nm_mode = MapView, nm_progress = 0, nm_my_ip = (case ip of Some a \<Rightarrow> a | None \<Rightarrow> ''0.0.0.0''), nm_scroll_y = 0,
      nm_zoom = mf_one mf, nm_pan = (0, 0), nm_btn_rects = None, nm_host_rects = None, nm_list_rects = None\<rparr>"

definition host_list :: "'z netmap \<Rightarrow> map_host list" where
  "host_list s = map (\<lambda>r. nm_store s ! r) (nm_hosts s)"

definition nm_base :: "'z netmap \<Rightarrow> string" where
  "nm_base s = py_join (CHR ''.'') (take 3 (py_split (CHR ''.'') (nm_my_ip s)))"

text \<open>The part of \<open>scan\<close> that runs before its thread is started.\<close>

definition nm_scan :: "'z netmap \<Rightarrow> 'z netmap" where
  "nm_scan s = s\<lparr>nm_scanning := True, nm_hosts := [], nm_progress := 0, nm_status := ''Scanning '' @ nm_base s @ ''.0/24...''\<rparr>"

text \<open>The thread of \<open>scan_ports\<close>, once it has probed the ports of host \<open>r\<close>.\<close>

definition MAP_PORTS :: "int list" where
  "MAP_PORTS = [21, 22, 23, 25, 53, 80, 443, 445, 3306, 8080]"

definition scan_ports_end :: "(string \<Rightarrow> int \<Rightarrow> bool) \<Rightarrow> nat \<Rightarrow> 'z netmap \<Rightarrow> 'z netmap" where
  "scan_ports_end opened r s =
     s\<lparr>nm_store := (nm_store s)[r := (nm_store s ! r)\<lparr>mh_open_ports := filter (opened (mh_ip (nm_store s ! r))) MAP_PORTS\<rparr>]\<rparr>"

subsection \<open>The map view\<close>

definition map_center :: "'z netmap \<Rightarrow> pos" where
  "map_center s = (W div 2 + fst (nm_pan s), H div 2 + snd (nm_pan s) - 10)"

definition host_pos :: "'z map_floats \<Rightarrow> 'z netmap \<Rightarrow> map_host \<Rightarrow> pos" where
  "host_pos mf s h =
     (let off = mf_off mf (mh_angle h) (mh_radius h) (nm_zoom s)
      in (fst (map_center s) + fst off, snd (map_center s) + snd off))"

definition map_btns :: "(rect \<times> string) list" where
  "map_btns = map (\<lambda>(lbl, bx, by). ((bx - 26, by - 13, 52, 26), lbl))
     [(''Scan'', W div 5, H - 30), (''List'', W * 2 div 5, H - 30), (''Zoom+'', W * 3 div 5, H - 30), (''Zoom-'', W * 4 div 5, H - 30)]"

definition map_host_rects :: "'z map_floats \<Rightarrow> 'z netmap \<Rightarrow> (rect \<times> nat) list" where
  "map_host_rects mf s =
     map (\<lambda>r. let p = host_pos mf s (nm_store s ! r) in ((fst p - 12, snd p - 12, 24, 24), r)) (nm_hosts s)"

text \<open>\<open>range(a, b, step)\<close> for a positive step.\<close>

definition py_range :: "int \<Rightarrow> int \<Rightarrow> int \<Rightarrow> int list" where
  "py_range a b st = filter (\<lambda>x. (x - a) mod st = 0) [a..b - 1]"

definition map_draw_frame :: "'z map_floats \<Rightarrow> 'z netmap \<Rightarrow> draw_cmd list" where
  "map_draw_frame mf s =
     Fill (RGB 8 8 18) # map (\<lambda>gx. DLine (RGB 18 18 26) (gx, 40) (gx, H - 60)) (py_range 0 W 20)
     @ map (\<lambda>gy. DLine (RGB 18 18 26) (0, gy) (W, gy)) (py_range 40 (H - 60) 20)
     @ [DRect MA_BAR (0, 0, W, 40), DLine MA_LINE (0, 40) (W, 40), DText ''Network Map'' MA_WHITE (12, 12),
        DText (nm_status s) (if nm_scanning s then MA_YELLOW else MA_GREEN) (12, 28)]
     @ (if nm_scanning s then
          rr MA_LINE (12, 34, W - 24, 4) 2 @ rr MA_ACCENT (12, 34, trunc_div ((W - 24) * nm_progress s) 254, 4) 2 else [])
     @ map (\<lambda>ring. DCircle (RGB 25 25 35) (map_center s) (mf_ring mf ring (nm_zoom s))) [60, 100, 140]"

definition map_draw_host :: "text_sizes \<Rightarrow> 'z map_floats \<Rightarrow> 'z netmap \<Rightarrow> map_host \<Rightarrow> draw_cmd list" where
  "map_draw_host sz mf s h =
     (let p = host_pos mf s h; is_sel = (nm_selected s = Some (mh_ip h)); radius = (if is_sel then 12 else 8);
          lbl = last (py_split (CHR ''.'') (mh_ip h))
      in [DLine (mh_color h) (map_center s) p, DCircle (mh_color h) p radius]
         @ (if is_sel then [DCircle MA_WHITE p (radius + 3)] else [])
         @ [DText lbl MA_WHITE (fst p - sz_font sz lbl div 2, snd p - 6)])"

definition py_upper :: "string \<Rightarrow> string" where
  "py_upper s = map (\<lambda>c. if 97 \<le> (of_char c :: nat) \<and> (of_char c :: nat) \<le> 122 then char_of ((of_char c :: nat) - 32) else c) s"

definition map_draw_detail :: "text_sizes \<Rightarrow> map_host \<Rightarrow> draw_cmd list" where
  "map_draw_detail sz h =
     rr (RGB 22 28 36) (8, H - 130, W - 16, 72) 10
     @ [DRect (mh_color h) (8, H - 130, 3, 72), DText (mh_hostname h) MA_WHITE (16, H - 126),
        DText (mh_ip h) (mh_color h) (16, H - 110), DText (mh_mac h) MA_DIM (16, H - 96),
        DText (py_upper (mh_type h)) (mh_color h) (W - sz_font sz (py_upper (mh_type h)) - 16, H - 126)]
     @ (if mh_open_ports h \<noteq> [] then
          [DText (''Ports: '' @ py_join (CHR '','') (map py_str_int (take 5 (mh_open_ports h)))) MA_YELLOW (16, H - 82)]
        else [DText ''Tap to scan ports'' MA_DIM (16, H - 82)])"

definition draw_map_view :: "text_sizes \<Rightarrow> 'z map_floats \<Rightarrow> 'z netmap \<Rightarrow> 'z netmap \<times> draw_cmd list" where
  "draw_map_view sz mf s =
     (s\<lparr>nm_host_rects := Some (map_host_rects mf s), nm_btn_rects := Some map_btns\<rparr>,
      map_draw_frame mf s @ concat (map (map_draw_host sz mf s) (host_list s))
      @ (let c = map_center s
         in [DCircle MA_ACCENT c 14, DText ''ME'' MA_WHITE (fst c - sz_font sz ''ME'' div 2, snd c - sz_height sz ''ME'' div 2),
             DText (nm_my_ip s) MA_ACCENT (fst c - sz_font sz (nm_my_ip s) div 2, snd c + 18)])
      @ [DRect MA_BAR (0, H - 52, W, 52), DLine MA_LINE (0, H - 52) (W, H - 52)]
      @ concat (map (\<lambda>((x, y, w, h), lbl). rr MA_CARD (x, y, w, h) 8
           @ [DText lbl MA_WHITE (x + 26 - sz_font sz lbl div 2, y + 13 - sz_height sz lbl div 2)]) map_btns)
      @ (case nm_selected s of
           None \<Rightarrow> []
         | Some ip \<Rightarrow> (case find (\<lambda>h. mh_ip h = ip) (host_list s) of None \<Rightarrow> [] | Some h \<Rightarrow> map_draw_detail sz h)))"

subsection \<open>The list view\<close>

text \<open>The rows from \<open>y\<close> down; a row outside the screen is remembered as \<open>None\<close>.\<close>

fun list_rows :: "int \<Rightarrow> nat list \<Rightarrow> (rect \<times> nat) option list" where
  "list_rows y [] = []"
| "list_rows y (r # rs) =
     (if y + 46 < 40 \<or> y > H - 52 then None else Some ((8, y, W - 16, 44), r)) # list_rows (y + 50) rs"

definition list_draw_row :: "text_sizes \<Rightarrow> 'z netmap \<Rightarrow> rect \<times> nat \<Rightarrow> draw_cmd list" where
  "list_draw_row sz s rr' =
     (case rr' of ((x, y, w, ht), r) \<Rightarrow>
        (let h = nm_store s ! r; tp = py_upper (mh_type h)
         in rr (if nm_selected s = Some (mh_ip h) then RGB 30 38 52 else MA_CARD) (x, y, w, ht) 8
            @ [DRect (mh_color h) (8, y, 3, 44), DText (take 18 (mh_hostname h)) MA_WHITE (16, y + 6),
               DText (mh_ip h) MA_DIM (16, y + 26), DText tp (mh_color h) (W - sz_font sz tp - 16, y + 16)]))"

definition draw_list_view :: "text_sizes \<Rightarrow> 'z netmap \<Rightarrow> 'z netmap \<times> draw_cmd list" where
  "draw_list_view sz s =
     (let rows = list_rows (44 - nm_scroll_y s) (nm_hosts s);
          count = py_str_int (int (length (nm_hosts s))) @ '' hosts''
      in (s\<lparr>nm_list_rects := Some rows\<rparr>,
          [Fill (RGB 8 8 18), DRect MA_BAR (0, 0, W, 40), DLine MA_LINE (0, 40) (W, 40), DText ''Host List'' MA_WHITE (12, 12),
           DText count MA_DIM (W - sz_font sz count - 12, 14)]
          @ concat (map (list_draw_row sz s) (List.map_filter (\<lambda>x. x) rows))
          @ [DRect MA_BAR (0, H - 52, W, 52), DLine MA_LINE (0, H - 52) (W, H - 52),
             DText ''Map View'' MA_ACCENT (W div 2 - sz_med sz ''Map View'' div 2, H - 34)]))"

definition nm_draw :: "text_sizes \<Rightarrow> 'z map_floats \<Rightarrow> 'z netmap \<Rightarrow> 'z netmap \<times> draw_cmd list" where
  "nm_draw sz mf s =
     (let d = (case nm_mode s of MapView \<Rightarrow> draw_map_view sz mf s | ListView \<Rightarrow> draw_list_view sz s) in (fst d, snd d @ [Flip]))"

subsection \<open>Input\<close>

text \<open>The thread a call of \<open>handle_input\<close> starts.\<close>

datatype nm_start = NoThread | StartScan | StartPorts nat

definition nm_button :: "'z map_floats \<Rightarrow> string \<Rightarrow> 'z netmap \<Rightarrow> 'z netmap \<times> nm_start" where
  "nm_button mf lbl s =
     (if lbl = ''Scan'' then (nm_scan s, StartScan)
      else if lbl = ''List'' then (s\<lparr>nm_mode := ListView\<rparr>, NoThread)
      else if lbl = ''Zoom+'' then (s\<lparr>nm_zoom := mf_in mf (nm_zoom s)\<rparr>, NoThread)
      else if lbl = ''Zoom-'' then (s\<lparr>nm_zoom := mf_out mf (nm_zoom s)\<rparr>, NoThread)
      else (s, NoThread))"

definition rect_find :: "(rect \<times> 'a) list option \<Rightarrow> pos \<Rightarrow> 'a option" where
  "rect_find rs p = (case rs of None \<Rightarrow> None | Some xs \<Rightarrow> map_option snd (find (\<lambda>(r, _). in_rect r p) xs))"

definition nm_press_map :: "'z map_floats \<Rightarrow> pos \<Rightarrow> 'z netmap \<Rightarrow> 'z netmap \<times> nm_start" where
  "nm_press_map mf p s =
     (case rect_find (nm_btn_rects s) p of
        Some lbl \<Rightarrow> nm_button mf lbl s
      | None \<Rightarrow>
          (case rect_find (nm_host_rects s) p of
             Some r \<Rightarrow>
               (if nm_selected s = Some (mh_ip (nm_store s ! r)) then (s, StartPorts r)
                else (s\<lparr>nm_selected := Some (mh_ip (nm_store s ! r))\<rparr>, NoThread))
           | None \<Rightarrow> (s, NoThread)))"

definition nm_press_list :: "pos \<Rightarrow> 'z netmap \<Rightarrow> 'z netmap" where
  "nm_press_list p s =
     (case rect_find (map_option (List.map_filter (\<lambda>x. x)) (nm_list_rects s)) p of
        Some r \<Rightarrow> s\<lparr>nm_selected := Some (mh_ip (nm_store s ! r)), nm_mode := MapView\<rparr>
      | None \<Rightarrow> (if snd p > H - 52 then s\<lparr>nm_mode := MapView\<rparr> else s))"

definition nm_handle_input :: "'z map_floats \<Rightarrow> 'z netmap \<Rightarrow> event \<Rightarrow> 'z netmap \<times> nm_start" where
  "nm_handle_input mf s e =
     (case e of
        MouseDown p \<Rightarrow> (case nm_mode s of MapView \<Rightarrow> nm_press_map mf p s | ListView \<Rightarrow> (nm_press_list p s, NoThread))
      | KeyDown k _ _ \<Rightarrow>
          (if k = K_s then (nm_scan s, StartScan)
           else if k = K_l then (s\<lparr>nm_mode := (if nm_mode s = MapView then ListView else MapView)\<rparr>, NoThread)
           else (s, NoThread))
      | _ \<Rightarrow> (s, NoThread))"

end
