(* ===== verification/Network_Scan.thy ===== *)
theory Network_Scan
  imports Network_Map
begin

text \<open>
  The threads of \<open>NetworkMap.scan\<close> (\<^verbatim>\<open>src/src/apps/maps/maps.py\<close>): a coordinator that starts one
  thread per address, waits for all of them whenever twenty have been started, and at the end
  distributes the hosts around the circle; and the ping threads, which interleave freely
  between their accesses to the shared state. Between any two of these steps the application
  may handle an event, draw, or finish a port scan.
\<close>

subsection \<open>Threads\<close>

text \<open>
  A ping thread: about to ping; having reached its host and about to read \<open>len(self.hosts)\<close>;
  about to append with the angle it computed; or ended.
\<close>

datatype ping_pc = PgStart | PgUp | PgAppend nat | PgDone

text \<open>The coordinator: the next address to start, the list \<open>threads\<close>, and whether it has finished.\<close>

record scan_run =
  sr_base :: string
  sr_next :: nat
  sr_threads :: "(nat \<times> ping_pc) list"
  sr_done :: bool

text \<open>The network: whether an address answers (\<open>None\<close>: \<open>subprocess.run\<close> raises), ARP and names.\<close>

record scan_net =
  sn_ping :: "string \<Rightarrow> bool option"
  sn_arp :: "string \<Rightarrow> string option"
  sn_dns :: "string \<Rightarrow> string option"

definition scan_start :: "string \<Rightarrow> scan_run" where
  "scan_start base = \<lparr>sr_base = base, sr_next = 1, sr_threads = [], sr_done = False\<rparr>"

definition scan_ip :: "string \<Rightarrow> nat \<Rightarrow> string" where
  "scan_ip base i = base @ ''.'' @ py_str_int (int i)"

text \<open>The first part of \<open>ping(i)\<close>: run the program and set the progress.\<close>

definition ping_reach :: "scan_net \<Rightarrow> string \<Rightarrow> nat \<Rightarrow> 'z netmap \<Rightarrow> 'z netmap \<times> ping_pc" where
  "ping_reach net base i s =
     (case sn_ping net (scan_ip base i) of
        None \<Rightarrow> (s, PgDone)
      | Some up \<Rightarrow> (s\<lparr>nm_progress := int i\<rparr>, if up then PgUp else PgDone))"

text \<open>The last part: build the host and append it.\<close>

definition found_host :: "scan_net \<Rightarrow> string \<Rightarrow> nat \<Rightarrow> map_host" where
  "found_host net ip n =
     (let hostname = get_hostname (sn_dns net) ip; (dtype, color) = detect_type hostname
      in \<lparr>mh_ip = ip, mh_mac = get_mac (sn_arp net) ip, mh_hostname = take 16 hostname, mh_type = dtype, mh_color = color,
          mh_angle = (n, 8), mh_radius = (if dtype \<noteq> ''router'' then 80 else 0), mh_open_ports = []\<rparr>)"

definition ping_append :: "scan_net \<Rightarrow> string \<Rightarrow> nat \<Rightarrow> nat \<Rightarrow> 'z netmap \<Rightarrow> 'z netmap" where
  "ping_append net base i n s =
     s\<lparr>nm_store := nm_store s @ [found_host net (scan_ip base i) n], nm_hosts := nm_hosts s @ [length (nm_store s)]\<rparr>"

text \<open>The end of the coordinator: the status, and host \<open>i\<close> of \<open>n\<close> at \<open>i/n\<close> of the circle.\<close>

fun redistribute :: "nat \<Rightarrow> nat \<Rightarrow> nat list \<Rightarrow> map_host list \<Rightarrow> map_host list" where
  "redistribute n i [] st = st"
| "redistribute n i (r # rs) st =
     redistribute n (Suc i) rs
       (st[r := (st ! r)\<lparr>mh_angle := (i, max 1 n), mh_radius := (if mh_type (st ! r) = ''router'' then 0 else 80 + int (i mod 3) * 20)\<rparr>])"

definition scan_finish :: "'z netmap \<Rightarrow> 'z netmap" where
  "scan_finish s =
     s\<lparr>nm_scanning := False, nm_status := ''Found '' @ py_str_int (int (length (nm_hosts s))) @ '' hosts'',
       nm_store := redistribute (length (nm_hosts s)) 0 (nm_hosts s) (nm_store s)\<rparr>"

subsection \<open>The steps\<close>

inductive scan_step :: "scan_net \<Rightarrow> 'z netmap \<times> scan_run \<Rightarrow> 'z netmap \<times> scan_run \<Rightarrow> bool" for net where
  spawn: "\<lbrakk>\<not> sr_done c; sr_next c < 255; length (sr_threads c) < 20\<rbrakk> \<Longrightarrow>
     scan_step net (s, c) (s, c\<lparr>sr_threads := sr_threads c @ [(sr_next c, PgStart)], sr_next := Suc (sr_next c)\<rparr>)"
| join: "\<lbrakk>\<not> sr_done c; sr_threads c \<noteq> []; 20 \<le> length (sr_threads c) \<or> sr_next c = 255; \<forall>(i, pc)\<in>set (sr_threads c). pc = PgDone\<rbrakk> \<Longrightarrow>
     scan_step net (s, c) (s, c\<lparr>sr_threads := []\<rparr>)"
| finish: "\<lbrakk>\<not> sr_done c; sr_next c = 255; sr_threads c = []\<rbrakk> \<Longrightarrow> scan_step net (s, c) (scan_finish s, c\<lparr>sr_done := True\<rparr>)"
| reach: "\<lbrakk>j < length (sr_threads c); sr_threads c ! j = (i, PgStart); ping_reach net (sr_base c) i s = (s', pc)\<rbrakk> \<Longrightarrow>
     scan_step net (s, c) (s', c\<lparr>sr_threads := (sr_threads c)[j := (i, pc)]\<rparr>)"
| angle: "\<lbrakk>j < length (sr_threads c); sr_threads c ! j = (i, PgUp)\<rbrakk> \<Longrightarrow>
     scan_step net (s, c) (s, c\<lparr>sr_threads := (sr_threads c)[j := (i, PgAppend (length (nm_hosts s)))]\<rparr>)"
| append: "\<lbrakk>j < length (sr_threads c); sr_threads c ! j = (i, PgAppend n)\<rbrakk> \<Longrightarrow>
     scan_step net (s, c) (ping_append net (sr_base c) i n s, c\<lparr>sr_threads := (sr_threads c)[j := (i, PgDone)]\<rparr>)"

text \<open>What else happens meanwhile: events that do not start another scan, frames, and ends of port scans.\<close>

inductive other_step :: "'z map_floats \<Rightarrow> 'z netmap \<Rightarrow> 'z netmap \<Rightarrow> bool" for mf where
  event: "nm_handle_input mf s e = (s', st) \<Longrightarrow> st \<noteq> StartScan \<Longrightarrow> other_step mf s s'"
| draw: "nm_draw sz mf s = (s', cmds) \<Longrightarrow> other_step mf s s'"
| ports: "other_step mf s (scan_ports_end opened r s)"

inductive scan_reach :: "scan_net \<Rightarrow> 'z map_floats \<Rightarrow> 'z netmap \<times> scan_run \<Rightarrow> bool" for net mf where
  start: "scan_reach net mf (nm_scan s, scan_start (nm_base s))"
| scan: "scan_reach net mf (s, c) \<Longrightarrow> scan_step net (s, c) (s', c') \<Longrightarrow> scan_reach net mf (s', c')"
| other: "scan_reach net mf (s, c) \<Longrightarrow> other_step mf s s' \<Longrightarrow> scan_reach net mf (s', c)"

inductive_cases other_stepE: "other_step mf s s'"

subsection \<open>Lemmas\<close>

lemma scan_ip_inj: "scan_ip b i = scan_ip b j \<longleftrightarrow> i = j"
proof -
  have "scan_ip b i = scan_ip b j \<longleftrightarrow> py_digits i = py_digits j" by (simp add: scan_ip_def py_str_int_def)
  then show ?thesis by (metis num_val_digits)
qed

text \<open>What the interface does during a scan does not touch what the scan relies on.\<close>

definition same_hosts :: "'z netmap \<Rightarrow> 'z netmap \<Rightarrow> bool" where
  "same_hosts s s' \<longleftrightarrow> nm_hosts s' = nm_hosts s \<and> length (nm_store s') = length (nm_store s)
     \<and> map mh_ip (nm_store s') = map mh_ip (nm_store s) \<and> map mh_angle (nm_store s') = map mh_angle (nm_store s)
     \<and> nm_scanning s' = nm_scanning s"

lemma handle_same_hosts: "nm_handle_input mf s e = (s', st) \<Longrightarrow> st \<noteq> StartScan \<Longrightarrow> same_hosts s s'"
  by (auto simp: nm_handle_input_def nm_press_map_def nm_button_def nm_press_list_def same_hosts_def
      split: event.splits map_mode.splits option.splits if_splits)

lemma draw_same_hosts: "nm_draw sz mf s = (s', cmds) \<Longrightarrow> same_hosts s s'"
  by (auto simp: nm_draw_def draw_map_view_def draw_list_view_def same_hosts_def Let_def split: map_mode.splits)

lemma map_update_same: "f y = f (xs ! r) \<Longrightarrow> map f (xs[r := y]) = map f xs"
  by (metis list_update_beyond list_update_id map_update not_le nth_map)

lemma ports_same_hosts: "same_hosts s (scan_ports_end opened r s)"
  unfolding same_hosts_def scan_ports_end_def
  by (simp add: map_update_same)

lemma other_same_hosts: "other_step mf s s' \<Longrightarrow> same_hosts s s'"
  by (erule other_stepE) (auto intro: handle_same_hosts draw_same_hosts ports_same_hosts)

lemma host_ips: "\<forall>r\<in>set (nm_hosts s). r < length (nm_store s) \<Longrightarrow>
    map mh_ip (host_list s) = map (\<lambda>r. map mh_ip (nm_store s) ! r) (nm_hosts s)
    \<and> map mh_angle (host_list s) = map (\<lambda>r. map mh_angle (nm_store s) ! r) (nm_hosts s)"
  by (simp add: host_list_def)

lemma same_host_list:
  "same_hosts s s' \<Longrightarrow> \<forall>r\<in>set (nm_hosts s). r < length (nm_store s) \<Longrightarrow>
     map mh_ip (host_list s') = map mh_ip (host_list s) \<and> map mh_angle (host_list s') = map mh_angle (host_list s)"
  using host_ips [of s] host_ips [of s'] by (simp add: same_hosts_def)

text \<open>The end of the scan places the hosts.\<close>

lemma redistribute_length [simp]: "length (redistribute n i rs st) = length st"
  by (induction n i rs st rule: redistribute.induct) simp_all

lemma redistribute_ips: "map mh_ip (redistribute n i rs st) = map mh_ip st"
proof (induction n i rs st rule: redistribute.induct)
  case (2 n i r rs st)
  then show ?case by (simp only: redistribute.simps) (rule map_update_same, simp)
qed simp

lemma redistribute_other: "r \<notin> set rs \<Longrightarrow> redistribute n i rs st ! r = st ! r"
  by (induction n i rs st rule: redistribute.induct) simp_all

lemma redistribute_angles:
  "distinct rs \<Longrightarrow> \<forall>r\<in>set rs. r < length st \<Longrightarrow>
     map (\<lambda>r. mh_angle (redistribute n i rs st ! r)) rs = map (\<lambda>j. (j, max 1 n)) [i..<i + length rs]"
proof (induction n i rs st rule: redistribute.induct)
  case (2 n i r rs st)
  then have "mh_angle (redistribute n i (r # rs) st ! r) = (i, max 1 n)" by (simp add: redistribute_other)
  moreover have "[i..<i + length (r # rs)] = i # [Suc i..<Suc i + length rs]" by (simp add: upt_rec)
  ultimately show ?case using 2 by simp
qed simp

subsection \<open>The invariant of a scan\<close>

text \<open>The addresses whose thread has appended its host.\<close>

definition appended :: "scan_net \<Rightarrow> scan_run \<Rightarrow> nat set" where
  "appended net c = {i. 1 \<le> i \<and> i < sr_next c \<and> sn_ping net (scan_ip (sr_base c) i) = Some True
     \<and> (\<forall>pc. (i, pc) \<in> set (sr_threads c) \<longrightarrow> pc = PgDone)}"

definition scan_ok :: "scan_net \<Rightarrow> 'z netmap \<Rightarrow> scan_run \<Rightarrow> bool" where
  "scan_ok net s c \<longleftrightarrow>
     1 \<le> sr_next c \<and> sr_next c \<le> 255 \<and> length (sr_threads c) \<le> 20
     \<and> distinct (map fst (sr_threads c)) \<and> (\<forall>(i, pc)\<in>set (sr_threads c). 1 \<le> i \<and> i < sr_next c
          \<and> (pc = PgUp \<or> (\<exists>n. pc = PgAppend n) \<longrightarrow> sn_ping net (scan_ip (sr_base c) i) = Some True))
     \<and> distinct (nm_hosts s) \<and> (\<forall>r\<in>set (nm_hosts s). r < length (nm_store s))
     \<and> (\<exists>ids. distinct ids \<and> set ids = appended net c \<and> map mh_ip (host_list s) = map (scan_ip (sr_base c)) ids)
     \<and> (sr_done c \<longrightarrow> sr_next c = 255 \<and> sr_threads c = [] \<and> \<not> nm_scanning s
          \<and> map mh_angle (host_list s) = map (\<lambda>i. (i, max 1 (length (nm_hosts s)))) [0..<length (nm_hosts s)])"

lemma scan_ok_start: "scan_ok net (nm_scan s) (scan_start b)"
  by (auto simp: scan_ok_def nm_scan_def scan_start_def host_list_def appended_def)

lemma scan_ok_other: "scan_ok net s c \<Longrightarrow> same_hosts s s' \<Longrightarrow> scan_ok net s' c"
  using same_host_list [of s s'] unfolding scan_ok_def by (auto simp: same_hosts_def)

text \<open>A step of one thread: only its own program counter changes.\<close>

lemma thread_update:
  assumes "scan_ok net s c" "j < length (sr_threads c)" "sr_threads c ! j = (i, pc)"
  shows "set ((sr_threads c)[j := (i, pc')]) = insert (i, pc') (set (sr_threads c) - {(i, pc)})"
    and "map fst ((sr_threads c)[j := (i, pc')]) = map fst (sr_threads c)"
    and "1 \<le> i" "i < sr_next c" "\<forall>q. (i, q) \<in> set (sr_threads c) \<longleftrightarrow> q = pc"
proof -
  have d: "distinct (map fst (sr_threads c))" using assms(1) by (simp add: scan_ok_def)
  then have dt: "distinct (sr_threads c)" by (simp add: distinct_map)
  from set_update_distinct [OF dt assms(2), of "(i, pc')"] assms(3)
  show "set ((sr_threads c)[j := (i, pc')]) = insert (i, pc') (set (sr_threads c) - {(i, pc)})" by simp
  show "map fst ((sr_threads c)[j := (i, pc')]) = map fst (sr_threads c)"
    using assms(2,3) by (metis fst_conv list_update_id map_update nth_map)
  have mem: "(i, pc) \<in> set (sr_threads c)" using assms(2,3) nth_mem by force
  then show "1 \<le> i" "i < sr_next c" using assms(1) by (auto simp: scan_ok_def)
  show "\<forall>q. (i, q) \<in> set (sr_threads c) \<longleftrightarrow> q = pc" using mem d by (metis eq_key_imp_eq_value)
qed

lemma scan_ok_thread:
  assumes ok: "scan_ok net s c" and j: "j < length (sr_threads c)" "sr_threads c ! j = (i, pc)"
    and pc': "pc' = PgUp \<or> (\<exists>n. pc' = PgAppend n) \<longrightarrow> sn_ping net (scan_ip (sr_base c) i) = Some True"
    and s': "same_hosts s s'"
    and app: "pc \<noteq> PgDone" "pc' \<noteq> PgDone \<or> sn_ping net (scan_ip (sr_base c) i) \<noteq> Some True"
  shows "scan_ok net s' (c\<lparr>sr_threads := (sr_threads c)[j := (i, pc')]\<rparr>)"
proof -
  let ?c = "c\<lparr>sr_threads := (sr_threads c)[j := (i, pc')]\<rparr>"
  note u = thread_update(1,2) [OF ok j, of pc'] thread_update(3-5) [OF ok j]
  have t: "set (sr_threads ?c) = insert (i, pc') (set (sr_threads c) - {(i, pc)})"
    "map fst (sr_threads ?c) = map fst (sr_threads c)" "length (sr_threads ?c) = length (sr_threads c)" "\<not> sr_done c"
    using u j ok by (auto simp: scan_ok_def)
  have "k \<in> appended net ?c \<longleftrightarrow> k \<in> appended net c" for k
    using t(1) u(5) app by (cases "k = i") (auto simp: appended_def)
  then have a: "appended net ?c = appended net c" by blast
  have "\<forall>(k, q)\<in>set (sr_threads ?c). 1 \<le> k \<and> k < sr_next c
      \<and> (q = PgUp \<or> (\<exists>n. q = PgAppend n) \<longrightarrow> sn_ping net (scan_ip (sr_base c) k) = Some True)"
    using ok u(3,4) pc' unfolding t(1) scan_ok_def by auto
  with scan_ok_other [OF ok s'] a t(2-4) show ?thesis unfolding scan_ok_def by simp
qed

lemma scan_ok_append:
  assumes ok: "scan_ok net s c" and j: "j < length (sr_threads c)" "sr_threads c ! j = (i, PgAppend n)"
  shows "scan_ok net (ping_append net (sr_base c) i n s) (c\<lparr>sr_threads := (sr_threads c)[j := (i, PgDone)]\<rparr>)"
proof -
  let ?s = "ping_append net (sr_base c) i n s" and ?c = "c\<lparr>sr_threads := (sr_threads c)[j := (i, PgDone)]\<rparr>"
  note u = thread_update(1,2) [OF ok j, of PgDone] thread_update(3-5) [OF ok j]
  have "(i, PgAppend n) \<in> set (sr_threads c)" using u(5) by blast
  then have up: "sn_ping net (scan_ip (sr_base c) i) = Some True" using ok by (auto simp: scan_ok_def)
  have t: "set (sr_threads ?c) = insert (i, PgDone) (set (sr_threads c) - {(i, PgAppend n)})"
    "map fst (sr_threads ?c) = map fst (sr_threads c)" "length (sr_threads ?c) = length (sr_threads c)"
    using u by simp_all
  have "k \<in> appended net ?c \<longleftrightarrow> k = i \<or> k \<in> appended net c" for k
    using t(1) u(3-5) up by (cases "k = i") (auto simp: appended_def)
  then have app: "appended net ?c = insert i (appended net c)" by blast
  have ni: "i \<notin> appended net c" using u(5) by (auto simp: appended_def)
  have thr: "\<forall>(k, q)\<in>set (sr_threads ?c). 1 \<le> k \<and> k < sr_next c
      \<and> (q = PgUp \<or> (\<exists>n. q = PgAppend n) \<longrightarrow> sn_ping net (scan_ip (sr_base c) k) = Some True)"
    using ok u(3,4) unfolding t(1) scan_ok_def by auto
  obtain ids where ids: "distinct ids" "set ids = appended net c" "map mh_ip (host_list s) = map (scan_ip (sr_base c)) ids"
    using ok by (auto simp: scan_ok_def)
  have refs: "distinct (nm_hosts s)" "\<forall>r\<in>set (nm_hosts s). r < length (nm_store s)" using ok by (simp_all add: scan_ok_def)
  have hl: "host_list ?s = host_list s @ [found_host net (scan_ip (sr_base c) i) n]"
    using refs by (simp add: host_list_def ping_append_def nth_append)
  have ip: "mh_ip (found_host net a n) = a" for a by (simp add: found_host_def Let_def split: prod.split)
  have "\<exists>ids. distinct ids \<and> set ids = appended net ?c \<and> map mh_ip (host_list ?s) = map (scan_ip (sr_base c)) ids"
    using ids app ni by (intro exI [of _ "ids @ [i]"]) (simp add: hl ip)
  moreover have "distinct (nm_hosts ?s)" "\<forall>r\<in>set (nm_hosts ?s). r < length (nm_store ?s)"
    using refs by (auto simp: ping_append_def)
  moreover have "\<not> sr_done c" using ok j(1) by (auto simp: scan_ok_def)
  ultimately show ?thesis using ok thr t(2,3) unfolding scan_ok_def by simp
qed

lemma scan_ok_step:
  assumes ok: "scan_ok net s c" and st: "scan_step net (s, c) (s', c')"
  shows "scan_ok net s' c'"
  using st
proof (cases rule: scan_step.cases)
  case spawn
  have "appended net c' = appended net c" using spawn by (auto simp: appended_def less_Suc_eq)
  with ok spawn show ?thesis unfolding scan_ok_def by auto
next
  case join
  have "appended net c' = appended net c" using join by (auto simp: appended_def)
  with ok join show ?thesis unfolding scan_ok_def by auto
next
  case finish
  have refs: "distinct (nm_hosts s)" "\<forall>r\<in>set (nm_hosts s). r < length (nm_store s)" using ok by (simp_all add: scan_ok_def)
  have "map mh_ip (host_list s') = map mh_ip (host_list s)"
    using refs host_ips [of s] host_ips [of s'] finish by (simp add: scan_finish_def redistribute_ips)
  moreover have "map mh_angle (host_list s') = map (\<lambda>i. (i, max 1 (length (nm_hosts s)))) [0..<length (nm_hosts s)]"
    using redistribute_angles [OF refs, of "length (nm_hosts s)" 0] finish by (simp add: host_list_def scan_finish_def comp_def)
  moreover have "appended net c' = appended net c" using finish by (simp add: appended_def)
  ultimately show ?thesis using ok finish unfolding scan_ok_def by (auto simp: scan_finish_def)
next
  case (reach j i pc)
  have "same_hosts s s'" using reach by (auto simp: ping_reach_def same_hosts_def split: option.splits if_splits)
  with scan_ok_thread [OF ok reach(2,3)] reach show ?thesis
    by (auto simp: ping_reach_def split: option.splits if_splits)
next
  case (angle j i)
  have "(i, PgUp) \<in> set (sr_threads c)" using angle nth_mem [of j "sr_threads c"] by simp
  then have "sn_ping net (scan_ip (sr_base c) i) = Some True" using ok by (auto simp: scan_ok_def)
  with scan_ok_thread [OF ok angle(3,4)] angle show ?thesis by (simp add: same_hosts_def)
next
  case (append j i n)
  with scan_ok_append [OF ok append(3,4)] show ?thesis by simp
qed

lemma scan_reach_ok: "scan_reach net mf (s, c) \<Longrightarrow> scan_ok net s c"
proof (induction "(s, c)" arbitrary: s c rule: scan_reach.induct)
  case (start s)
  then show ?case by (simp add: scan_ok_start)
next
  case (scan s c s' c')
  then show ?case using scan_ok_step by blast
next
  case (other s c s')
  then show ?case using scan_ok_other other_same_hosts by blast
qed

subsection \<open>Progress\<close>

text \<open>Every step of the scan makes this number smaller.\<close>

fun pc_weight :: "ping_pc \<Rightarrow> nat" where
  "pc_weight PgStart = 5" | "pc_weight PgUp = 4" | "pc_weight (PgAppend n) = 3" | "pc_weight PgDone = 1"

definition scan_measure :: "scan_run \<Rightarrow> nat" where
  "scan_measure c = 6 * (255 - sr_next c) + sum_list (map (pc_weight \<circ> snd) (sr_threads c)) + (if sr_done c then 0 else 1)"

lemma sum_list_update_less:
  "j < length xs \<Longrightarrow> f y < (f (xs ! j) :: nat) \<Longrightarrow> sum_list (map f (xs[j := y])) < sum_list (map f xs)"
proof (induction xs arbitrary: j)
  case (Cons x xs)
  then show ?case by (cases j) auto
qed simp

lemma weights_pos: "xs \<noteq> [] \<Longrightarrow> 0 < sum_list (map (pc_weight \<circ> snd) xs)"
proof -
  have "0 < pc_weight pc" for pc by (cases pc) simp_all
  then show "xs \<noteq> [] \<Longrightarrow> 0 < sum_list (map (pc_weight \<circ> snd) xs)" by (cases xs) simp_all
qed

lemma scan_measure_step:
  assumes "scan_step net (s, c) (s', c')"
  shows "scan_measure c' < scan_measure c"
  using assms
proof (cases rule: scan_step.cases)
  case join
  with weights_pos [of "sr_threads c"] show ?thesis by (simp add: scan_measure_def)
next
  case (reach j i pc)
  then have "pc_weight pc < pc_weight PgStart" by (auto simp: ping_reach_def split: option.splits if_splits)
  with reach sum_list_update_less [of j "sr_threads c" "pc_weight \<circ> snd" "(i, pc)"] show ?thesis
    by (simp add: scan_measure_def)
next
  case (angle j i)
  with sum_list_update_less [of j "sr_threads c" "pc_weight \<circ> snd"] show ?thesis by (simp add: scan_measure_def)
next
  case (append j i n)
  with sum_list_update_less [of j "sr_threads c" "pc_weight \<circ> snd"] show ?thesis by (simp add: scan_measure_def)
qed (simp_all add: scan_measure_def)

lemma scan_progress:
  assumes "\<not> sr_done c" "sr_next c \<le> 255"
  shows "\<exists>s' c'. scan_step net (s, c) (s', c')"
proof (cases "\<forall>(i, pc)\<in>set (sr_threads c). pc = PgDone")
  case True
  consider "sr_next c < 255" "length (sr_threads c) < 20" | "sr_threads c \<noteq> []" "20 \<le> length (sr_threads c) \<or> sr_next c = 255"
    | "sr_threads c = []" "sr_next c = 255"
    using assms(2) by fastforce
  then show ?thesis
  proof cases
    case 1
    with scan_step.spawn [OF assms(1)] show ?thesis by blast
  next
    case 2
    with scan_step.join [OF assms(1)] True show ?thesis by blast
  next
    case 3
    with scan_step.finish [OF assms(1)] show ?thesis by blast
  qed
next
  case False
  then obtain j i pc where j: "j < length (sr_threads c)" "sr_threads c ! j = (i, pc)" "pc \<noteq> PgDone"
    by (fastforce simp: in_set_conv_nth)
  show ?thesis
  proof (cases pc)
    case PgStart
    obtain s' pc' where "ping_reach net (sr_base c) i s = (s', pc')" by fastforce
    with j PgStart scan_step.reach show ?thesis by blast
  next
    case PgUp
    with j scan_step.angle show ?thesis by blast
  next
    case (PgAppend n)
    with j scan_step.append show ?thesis by blast
  qed (use j(3) in simp)
qed

lemma scan_completes: "scan_reach net mf (s, c) \<Longrightarrow> \<exists>s' c'. scan_reach net mf (s', c') \<and> sr_done c'"
proof (induction "scan_measure c" arbitrary: s c rule: less_induct)
  case less
  show ?case
  proof (cases "sr_done c")
    case False
    have "sr_next c \<le> 255" using scan_reach_ok [OF less.prems] by (simp add: scan_ok_def)
    from scan_progress [OF False this] obtain s' c' where "scan_step net (s, c) (s', c')" by blast
    with less.hyps [OF scan_measure_step [OF this]] scan_reach.scan [OF less.prems] show ?thesis by blast
  qed (use less.prems in blast)
qed

subsection \<open>Properties\<close>


definition dead_net :: scan_net where
  "dead_net = \<lparr>sn_ping = \<lambda>_. None, sn_arp = \<lambda>_. None, sn_dns = \<lambda>_. None\<rparr>"

definition unit_floats :: "unit map_floats" where
  "unit_floats = \<lparr>mf_one = (), mf_in = id, mf_out = id, mf_ring = (\<lambda>r _. r), mf_off = (\<lambda>_ r _. (r, 0))\<rparr>"




end
