(* ===== verification/Net_Mapper.thy ===== *)
theory Net_Mapper
  imports Network_Scan
begin

text \<open>
  The network mapper (\<^verbatim>\<open>src/src/apps/netmapper/netmapper.py\<close>): one thread pings the 254 addresses
  of the local network one after the other. The thread is part of the state (the network and the
  next address) and \<open>mapper_thread\<close> is one round of its loop; pings, ARP and names are an argument
  as for the map (\<open>scan_net\<close>, with the same \<open>get_mac\<close> and \<open>get_hostname\<close>).
\<close>

record mapped_host =
  md_ip :: string
  md_mac :: string
  md_hostname :: string

record net_mapper =
  mp_hosts :: "mapped_host list"
  mp_scanning :: bool
  mp_status :: string
  mp_selected :: int
  mp_scroll :: int
  mp_progress :: int
  mp_thread :: "(string \<times> nat) option"

definition mapper_init :: net_mapper where
  "mapper_init =
     \<lparr>mp_hosts = [], mp_scanning = False, mp_status = ''Press S to scan network'', mp_selected = 0, mp_scroll = 0,
      mp_progress = 0, mp_thread = None\<rparr>"

definition get_local_ip :: "string option \<Rightarrow> string" where
  "get_local_ip sockname = (case sockname of Some ip \<Rightarrow> ip | None \<Rightarrow> ''192.168.1.1'')"

definition mapper_base :: "string option \<Rightarrow> string" where
  "mapper_base sockname = py_join (CHR ''.'') (take 3 (py_split (CHR ''.'') (get_local_ip sockname)))"

definition mapper_scan :: "string option \<Rightarrow> net_mapper \<Rightarrow> net_mapper" where
  "mapper_scan sockname s =
     s\<lparr>mp_scanning := True, mp_hosts := [], mp_progress := 0, mp_status := ''Scanning '' @ mapper_base sockname @ ''.0/24...'',
       mp_thread := Some (mapper_base sockname, 1)\<rparr>"

definition mapped :: "scan_net \<Rightarrow> string \<Rightarrow> mapped_host" where
  "mapped net ip = \<lparr>md_ip = ip, md_mac = get_mac (sn_arp net) ip, md_hostname = take 16 (get_hostname (sn_dns net) ip)\<rparr>"

definition mapper_thread :: "scan_net \<Rightarrow> net_mapper \<Rightarrow> net_mapper" where
  "mapper_thread net s =
     (case mp_thread s of
        None \<Rightarrow> s
      | Some (base, i) \<Rightarrow>
          (if i < 255 then
             (case sn_ping net (scan_ip base i) of
                None \<Rightarrow> s\<lparr>mp_thread := None\<rparr>
              | Some up \<Rightarrow>
                  s\<lparr>mp_progress := int i, mp_hosts := mp_hosts s @ (if up then [mapped net (scan_ip base i)] else []),
                    mp_thread := Some (base, Suc i)\<rparr>)
           else
             s\<lparr>mp_scanning := False, mp_status := ''Found '' @ py_str_int (int (length (mp_hosts s))) @ '' hosts'', mp_thread := None\<rparr>))"

definition mapper_draw :: "net_mapper \<Rightarrow> draw_cmd list" where
  "mapper_draw s =
     app_header ''Net Mapper''
     @ [DText (mp_status s) (if mp_scanning s then YELLOW else GREEN) (8, 27)]
     @ (if mp_scanning s then [DRect DIM (8, 38, 224, 6), DRect ACCENT (8, 38, 224 * mp_progress s div 254, 6)] else [])
     @ [DLine DIM (0, 48) (240, 48), DText ''IP              HOST'' ACCENT (8, 52), DLine DIM (0, 62) (240, 62)]
     @ draw_rows (mp_scroll s) 9 66 28
         (\<lambda>idx y h. (if idx = mp_selected s then [highlight y 26] else [])
            @ [DText (md_ip h) (if idx = mp_selected s then ACCENT else TEXT) (8, y), DText (md_hostname h) DIM (8, y + 13)])
         (mp_hosts s)
     @ app_footer ''S=scan  UP DOWN=scroll''"

definition mapper_handle_input :: "string option \<Rightarrow> net_mapper \<Rightarrow> event \<Rightarrow> net_mapper" where
  "mapper_handle_input sockname s e =
     (case e of
        KeyDown k _ _ \<Rightarrow>
          (if k = K_s \<and> \<not> mp_scanning s then mapper_scan sockname s
           else if k = K_DOWN then
             (let (sel, scr) = nav_down 9 (int (length (mp_hosts s))) (mp_selected s, mp_scroll s) in s\<lparr>mp_selected := sel, mp_scroll := scr\<rparr>)
           else if k = K_UP then
             (let (sel, scr) = nav_up (mp_selected s, mp_scroll s) in s\<lparr>mp_selected := sel, mp_scroll := scr\<rparr>)
           else s)
      | _ \<Rightarrow> s)"

datatype mapper_action = MpEvent event | MpThread

definition mapper_step :: "scan_net \<Rightarrow> string option \<Rightarrow> mapper_action \<Rightarrow> net_mapper \<Rightarrow> net_mapper" where
  "mapper_step net sockname a s = (case a of MpEvent e \<Rightarrow> mapper_handle_input sockname s e | MpThread \<Rightarrow> mapper_thread net s)"

subsection \<open>Lemmas\<close>

text \<open>What the addresses below \<open>i\<close> answer.\<close>

definition answering :: "scan_net \<Rightarrow> string \<Rightarrow> nat \<Rightarrow> mapped_host list" where
  "answering net base i = map (\<lambda>j. mapped net (scan_ip base j)) (filter (\<lambda>j. sn_ping net (scan_ip base j) = Some True) [1..<i])"

definition mapping :: "scan_net \<Rightarrow> string \<Rightarrow> nat \<Rightarrow> net_mapper \<Rightarrow> bool" where
  "mapping net base i s \<longleftrightarrow> mp_thread s = Some (base, i) \<and> mp_scanning s \<and> mp_hosts s = answering net base i \<and> mp_progress s = int i - 1"

lemma mapping_start: "mapping net (mapper_base sockname) 1 (mapper_scan sockname s)"
  by (simp add: mapping_def mapper_scan_def answering_def)

lemma mapping_event: "mapping net base i s \<Longrightarrow> mapping net base i (mapper_handle_input sockname s e)"
  by (auto simp: mapping_def mapper_handle_input_def split: event.split prod.split)

lemma mapping_thread:
  assumes "mapping net base i s" "1 \<le> i" "i < 255" "sn_ping net (scan_ip base i) \<noteq> None"
  shows "mapping net base (Suc i) (mapper_thread net s)"
  using assms by (auto simp: mapping_def mapper_thread_def answering_def)

definition thread_steps :: "mapper_action list \<Rightarrow> nat" where
  "thread_steps acts = length (filter (\<lambda>a. a = MpThread) acts)"

lemma mapping_run:
  "mapping net base i s \<Longrightarrow> 1 \<le> i \<Longrightarrow> i + thread_steps acts \<le> 255 \<Longrightarrow> \<forall>j. sn_ping net (scan_ip base j) \<noteq> None \<Longrightarrow>
     mapping net base (i + thread_steps acts) (fold (mapper_step net sockname) acts s)"
proof (induction acts arbitrary: i s)
  case Nil
  then show ?case by (simp add: thread_steps_def)
next
  case (Cons a acts)
  show ?case
  proof (cases a)
    case (MpEvent e)
    with Cons.IH [OF mapping_event [OF Cons.prems(1)]] Cons.prems show ?thesis by (simp add: mapper_step_def thread_steps_def)
  next
    case MpThread
    with Cons.IH [OF mapping_thread [OF Cons.prems(1,2)]] Cons.prems show ?thesis
      by (simp add: mapper_step_def thread_steps_def)
  qed
qed

lemma mapper_bar: "mapping net base i s \<Longrightarrow> 1 \<le> i \<Longrightarrow> i \<le> 255 \<Longrightarrow> 0 \<le> 224 * mp_progress s div 254 \<and> 224 * mp_progress s div 254 \<le> 224"
  by (auto simp: mapping_def)

subsection \<open>Properties\<close>

text \<open>
  A scan ends after one round per address and one more, whatever keys are pressed in
  between, and then lists exactly the addresses that answered, in ascending order, with their
  number as the status.
\<close>

theorem mapper_scan_complete:
  assumes "\<not> mp_scanning s" "\<forall>j. sn_ping net (scan_ip (mapper_base sockname) j) \<noteq> None" "thread_steps acts = 254"
  shows "\<exists>s'. fold (mapper_step net sockname) (MpEvent (press K_s) # acts @ [MpThread]) s = s'
      \<and> \<not> mp_scanning s' \<and> mp_thread s' = None \<and> mp_hosts s' = answering net (mapper_base sockname) 255
      \<and> mp_status s' = ''Found '' @ py_str_int (int (length (mp_hosts s'))) @ '' hosts''"
proof -
  have "mapper_handle_input sockname s (press K_s) = mapper_scan sockname s"
    using assms(1) by (simp add: mapper_handle_input_def press_def)
  moreover have "mapping net (mapper_base sockname) 255 (fold (mapper_step net sockname) acts (mapper_scan sockname s))"
    using mapping_run [OF mapping_start [of net sockname s], of acts sockname] assms(2,3) by simp
  ultimately show ?thesis by (simp add: mapper_step_def mapper_thread_def mapping_def)
qed

theorem mapper_scan_complete_witness:
  "\<exists>s'. fold (mapper_step \<lparr>sn_ping = \<lambda>_. Some True, sn_arp = \<lambda>_. None, sn_dns = \<lambda>_. None\<rparr> None)
        (MpEvent (press K_s) # replicate 254 MpThread @ [MpThread]) mapper_init = s'
      \<and> \<not> mp_scanning s' \<and> mp_thread s' = None
      \<and> mp_hosts s' = answering \<lparr>sn_ping = \<lambda>_. Some True, sn_arp = \<lambda>_. None, sn_dns = \<lambda>_. None\<rparr> (mapper_base None) 255
      \<and> mp_status s' = ''Found '' @ py_str_int (int (length (mp_hosts s'))) @ '' hosts''"
  by (rule mapper_scan_complete) (simp_all add: mapper_init_def thread_steps_def)

text \<open>
  When the ping program cannot be run the mapper is lost: the thread dies with the flag set,
  so no key and no thread ever scans again and the screen goes on saying that it is scanning.
\<close>

theorem mapper_stuck:
  assumes "\<not> mp_scanning s" "sn_ping net (scan_ip (mapper_base sockname) 1) = None"
  shows "\<exists>s'. fold (mapper_step net sockname) (MpEvent (press K_s) # MpThread # acts) s = s'
      \<and> mp_scanning s' \<and> mp_thread s' = None \<and> mp_hosts s' = [] \<and> mp_status s' = ''Scanning '' @ mapper_base sockname @ ''.0/24...''"
proof -
  define stuck where "stuck t \<longleftrightarrow> mp_scanning t \<and> mp_thread t = None \<and> mp_hosts t = []
    \<and> mp_status t = ''Scanning '' @ mapper_base sockname @ ''.0/24...''" for t :: net_mapper
  have step: "stuck (mapper_step net sockname a t)" if "stuck t" for a t
    using that by (auto simp: stuck_def mapper_step_def mapper_handle_input_def mapper_thread_def
        split: mapper_action.split event.split prod.split)
  have run: "stuck (fold (mapper_step net sockname) acts t)" if "stuck t" for t
    using that step by (induction acts arbitrary: t) simp_all
  have "stuck (mapper_thread net (mapper_scan sockname s))"
    using assms(2) by (simp add: stuck_def mapper_thread_def mapper_scan_def)
  moreover have "mapper_handle_input sockname s (press K_s) = mapper_scan sockname s"
    using assms(1) by (simp add: mapper_handle_input_def press_def)
  ultimately show ?thesis using run by (simp add: mapper_step_def stuck_def)
qed

theorem mapper_stuck_witness:
  "\<exists>s'. fold (mapper_step \<lparr>sn_ping = \<lambda>_. None, sn_arp = \<lambda>_. None, sn_dns = \<lambda>_. None\<rparr> None)
        (MpEvent (press K_s) # MpThread # [MpEvent (press K_s), MpThread]) mapper_init = s'
      \<and> mp_scanning s' \<and> mp_thread s' = None \<and> mp_hosts s' = [] \<and> mp_status s' = ''Scanning '' @ mapper_base None @ ''.0/24...''"
  by (rule mapper_stuck) (simp_all add: mapper_init_def)

end
