(* ===== verification/Net_Monitor.thy ===== *)
theory Net_Monitor
  imports Py_Numbers
begin

text \<open>
  The network monitor (\<^verbatim>\<open>src/src/apps/netmonitor/netmonitor.py\<close>). Every monitoring thread sets
  the flag \<open>running\<close> when it starts and then, as long as the flag is set, takes one sample a
  second; the threads alive are part of the state and \<open>nmon_thread i\<close> is one step of thread \<open>i\<close>.
  The content of \<^verbatim>\<open>/proc/net/dev\<close>, the output of \<^verbatim>\<open>ss\<close> and the clock are arguments.
\<close>

record net_sample =
  ns_rx :: int
  ns_tx :: int
  ns_time :: string

record socket_line =
  so_proto :: string
  so_local :: string

text \<open>A thread before its first step, in its loop, or ended.\<close>

datatype mon_pc = MonStart | MonLoop | MonEnd

record net_monitor =
  nmon_stats :: "socket_line list"
  nmon_running :: bool
  nmon_status :: string
  nmon_rx_old :: int
  nmon_tx_old :: int
  nmon_rx_speed :: int
  nmon_tx_speed :: int
  nmon_history :: "net_sample list"
  nmon_threads :: "mon_pc list"

record mon_env =
  me_netdev :: "string option"
  me_ss :: "string option"
  me_now :: string

definition nmon_init :: net_monitor where
  "nmon_init =
     \<lparr>nmon_stats = [], nmon_running = False, nmon_status = ''Press S to start'', nmon_rx_old = 0, nmon_tx_old = 0,
      nmon_rx_speed = 0, nmon_tx_speed = 0, nmon_history = [], nmon_threads = []\<rparr>"

subsection \<open>Readings\<close>

text \<open>The counters of one line; \<open>None\<close> when \<open>int\<close> raises.\<close>

definition dev_counters :: "string \<Rightarrow> (int \<times> int) option" where
  "dev_counters line =
     (let parts = py_words line
      in if length parts > 9 then
           (case (py_int (parts ! 1), py_int (parts ! 9)) of (Some r, Some t) \<Rightarrow> Some (r, t) | _ \<Rightarrow> None)
         else Some (0, 0))"

fun sum_counters :: "string list \<Rightarrow> (int \<times> int) option" where
  "sum_counters [] = Some (0, 0)"
| "sum_counters (l # ls) =
     (case (dev_counters l, sum_counters ls) of
        (Some (r, t), Some (r', t')) \<Rightarrow> Some (r + r', t + t')
      | _ \<Rightarrow> None)"

definition get_bytes :: "string option \<Rightarrow> int \<times> int" where
  "get_bytes netdev =
     (case netdev of
        None \<Rightarrow> (0, 0)
      | Some content \<Rightarrow> (case sum_counters (drop 2 (file_lines content)) of Some rt \<Rightarrow> rt | None \<Rightarrow> (0, 0)))"

definition ss_line :: "string \<Rightarrow> socket_line option" where
  "ss_line line =
     (let parts = py_words line
      in if length parts \<ge> 5 then Some \<lparr>so_proto = parts ! 0, so_local = last_n 20 (parts ! 4)\<rparr> else None)"

definition get_connections :: "string option \<Rightarrow> socket_line list" where
  "get_connections answer =
     (case answer of
        None \<Rightarrow> []
      | Some result \<Rightarrow> List.map_filter ss_line (take 5 (tl (py_split newline_char (py_strip result)))))"

subsection \<open>The threads\<close>

definition nmon_sample :: "mon_env \<Rightarrow> net_monitor \<Rightarrow> net_monitor" where
  "nmon_sample env s =
     (let (rx, tx) = get_bytes (me_netdev env); rs = max 0 (rx - nmon_rx_old s); ts = max 0 (tx - nmon_tx_old s);
          h = nmon_history s @ [\<lparr>ns_rx = rs, ns_tx = ts, ns_time = me_now env\<rparr>]
      in s\<lparr>nmon_rx_speed := rs, nmon_tx_speed := ts, nmon_rx_old := rx, nmon_tx_old := tx,
           nmon_history := (if length h > 20 then tl h else h), nmon_stats := get_connections (me_ss env)\<rparr>)"

definition nmon_thread :: "mon_env \<Rightarrow> nat \<Rightarrow> net_monitor \<Rightarrow> net_monitor" where
  "nmon_thread env i s =
     (if i < length (nmon_threads s) then
        (case nmon_threads s ! i of
           MonStart \<Rightarrow> s\<lparr>nmon_running := True, nmon_status := ''Monitoring...'', nmon_threads := (nmon_threads s)[i := MonLoop]\<rparr>
         | MonLoop \<Rightarrow> (if nmon_running s then nmon_sample env s else s\<lparr>nmon_threads := (nmon_threads s)[i := MonEnd]\<rparr>)
         | MonEnd \<Rightarrow> s)
      else s)"

definition nmon_start :: "net_monitor \<Rightarrow> net_monitor" where
  "nmon_start s = (if \<not> nmon_running s then s\<lparr>nmon_threads := nmon_threads s @ [MonStart]\<rparr> else s)"

definition nmon_stop :: "net_monitor \<Rightarrow> net_monitor" where
  "nmon_stop s = s\<lparr>nmon_running := False, nmon_status := ''Stopped''\<rparr>"

subsection \<open>The screen\<close>

definition fmt_bytes :: "int \<Rightarrow> string" where
  "fmt_bytes b =
     (if b > 1024 * 1024 then tenths_text (round_div (10 * b) (1024 * 1024)) @ ''MB/s''
      else if b > 1024 then tenths_text (round_div (10 * b) 1024) @ ''KB/s''
      else py_str_int b @ ''B/s'')"

text \<open>
  The graph draws on a name \<open>screen\<close> that neither the method nor the module binds: its first
  rectangle raises \<open>NameError\<close>. The heights of the bars, never reached, are exact quotients here.
\<close>

definition nmon_graph :: "string list \<Rightarrow> net_monitor \<Rightarrow> draw_cmd list res" where
  "nmon_graph scope s =
     (if nmon_history s = [] then Inr []
      else if ''screen'' \<notin> set scope then Inl NameError
      else
        (let max_val = (let m = Max (set (map (\<lambda>h. max (ns_rx h) (ns_tx h)) (nmon_history s))) in if m = 0 then 1 else m)
         in Inr (concat (map (\<lambda>(i, h).
              let gx = 8 + 11 * int i; rx_h = ns_rx h * 30 div max_val; tx_h = ns_tx h * 30 div max_val
              in [DRect GREEN (gx, 92 - rx_h, 5, rx_h), DRect YELLOW (gx, 92 - tx_h, 3, tx_h)])
            (enum (last_n 20 (nmon_history s)))))))"

text \<open>The names the method \<open>draw\<close> can see: its parameter, its locals and the globals of the module.\<close>

definition nmon_scope :: "string list" where
  "nmon_scope = [''self'', ''title'', ''color'', ''status'', ''rx'', ''tx'', ''max_val'', ''gx'', ''i'', ''h'', ''rx_h'', ''tx_h'',
     ''conn_title'', ''y'', ''conn'', ''proto'', ''local'', ''hint'',
     ''pygame'', ''socket'', ''threading'', ''time'', ''subprocess'',
     ''BG'', ''TEXT'', ''ACCENT'', ''GREEN'', ''DIM'', ''RED'', ''YELLOW'', ''NetMonitor'']"

definition nmon_draw :: "net_monitor \<Rightarrow> draw_cmd list res" where
  "nmon_draw s =
     res_bind (nmon_graph nmon_scope s) (\<lambda>g.
       Inr (app_header ''Net Monitor''
         @ [DText (nmon_status s) (if nmon_running s then GREEN else RED) (8, 27), DLine DIM (0, 38) (240, 38),
            DText (''RX: '' @ fmt_bytes (nmon_rx_speed s)) GREEN (8, 44), DText (''TX: '' @ fmt_bytes (nmon_tx_speed s)) YELLOW (130, 44),
            DLine DIM (0, 58) (240, 58)]
         @ g
         @ [DLine DIM (0, 96) (240, 96), DText ''Connections:'' ACCENT (8, 100)]
         @ concat (map (\<lambda>(i, c). [DText (take 4 (so_proto c)) ACCENT (8, 114 + 16 * int i), DText (so_local c) TEXT (40, 114 + 16 * int i)])
             (enum (take 5 (nmon_stats s))))
         @ app_footer ''S=start  X=stop''))"

definition nmon_handle_input :: "net_monitor \<Rightarrow> event \<Rightarrow> net_monitor" where
  "nmon_handle_input s e =
     (case e of KeyDown k _ _ \<Rightarrow> (if k = K_s then nmon_start s else if k = K_x then nmon_stop s else s) | _ \<Rightarrow> s)"

datatype nmon_action = NmonEvent event | NmonThread mon_env nat

definition nmon_step :: "net_monitor \<Rightarrow> nmon_action \<Rightarrow> net_monitor res" where
  "nmon_step s a = (case a of NmonEvent e \<Rightarrow> Inr (nmon_handle_input s e) | NmonThread env i \<Rightarrow> Inr (nmon_thread env i s))"

subsection \<open>Lemmas\<close>

text \<open>The history is bounded, and no speed is negative.\<close>

definition nmon_ok :: "net_monitor \<Rightarrow> bool" where
  "nmon_ok s \<longleftrightarrow> length (nmon_history s) \<le> 20 \<and> 0 \<le> nmon_rx_speed s \<and> 0 \<le> nmon_tx_speed s
     \<and> list_all (\<lambda>h. 0 \<le> ns_rx h \<and> 0 \<le> ns_tx h) (nmon_history s)"

lemma nmon_ok_init: "nmon_ok nmon_init"
  by (simp add: nmon_ok_def nmon_init_def)

lemma nmon_ok_sample: "nmon_ok s \<Longrightarrow> nmon_ok (nmon_sample env s)"
proof -
  assume s: "nmon_ok s"
  have tl: "list_all P (tl xs)" if "list_all P xs" for P and xs :: "net_sample list" using that by (cases xs) simp_all
  show ?thesis using s by (auto simp: nmon_ok_def nmon_sample_def Let_def split: prod.split intro!: tl)
qed

lemma nmon_ok_step: "nmon_ok s \<Longrightarrow> \<exists>s'. nmon_step s a = Inr s' \<and> nmon_ok s'"
proof (cases a)
  case (NmonEvent e)
  assume "nmon_ok s"
  then show ?thesis
    by (auto simp: NmonEvent nmon_step_def nmon_handle_input_def nmon_start_def nmon_stop_def nmon_ok_def split: event.split)
next
  case (NmonThread env i)
  assume s: "nmon_ok s"
  then have "nmon_ok (nmon_thread env i s)"
    using nmon_ok_sample [OF s] by (auto simp: nmon_thread_def split: mon_pc.split) (simp_all add: nmon_ok_def)
  then show ?thesis by (simp add: NmonThread nmon_step_def)
qed

interpretation netmon_app: event_app nmon_step nmon_ok
  by unfold_locales (rule nmon_ok_step)

lemma nmon_history_sample: "nmon_history (nmon_sample env s) \<noteq> []"
  by (cases "nmon_history s") (auto simp: nmon_sample_def Let_def split: prod.split)

text \<open>Reading back the file of counters the kernel writes.\<close>

definition netdev_line :: "string \<Rightarrow> nat list \<Rightarrow> string" where
  "netdev_line iface cs = py_join (CHR '' '') ((iface @ '':'') # map py_digits cs) @ [newline_char]"

lemma dev_counters_line:
  assumes "is_word iface" "length cs \<ge> 9"
  shows "dev_counters (netdev_line iface cs) = Some (int (cs ! 0), int (cs ! 8))"
proof -
  have "is_word (iface @ '':'')" using assms(1) by (auto simp: is_word_def py_isspace_char_def Let_def)
  then have "py_words (netdev_line iface cs) = (iface @ '':'') # map py_digits cs"
    unfolding netdev_line_def py_words_newline using is_word_digits by (intro py_words_join) auto
  moreover have "0 < length cs" "8 < length cs" using assms(2) by linarith+
  ultimately show ?thesis by (simp add: dev_counters_def py_int_digits)
qed

lemma sum_counters_lines:
  "\<forall>(i, cs)\<in>set devs. is_word i \<and> length cs \<ge> 9 \<Longrightarrow>
     sum_counters (map (\<lambda>(i, cs). netdev_line i cs) devs)
     = Some (int (sum_list (map (\<lambda>(i, cs). cs ! 0) devs)), int (sum_list (map (\<lambda>(i, cs). cs ! 8) devs)))"
  by (induction devs) (auto simp: dev_counters_line)

lemma nmon_keeps_history: "nmon_history s \<noteq> [] \<Longrightarrow> \<exists>s'. nmon_step s a = Inr s' \<and> nmon_history s' \<noteq> []"
  by (auto simp: nmon_step_def nmon_handle_input_def nmon_start_def nmon_stop_def nmon_thread_def nmon_history_sample
      split: nmon_action.split event.split mon_pc.split)

interpretation netmon_sampled: event_app nmon_step "\<lambda>s. nmon_history s \<noteq> []"
  by unfold_locales (rule nmon_keeps_history)

lemma nmon_draw_raises: "nmon_draw s = Inl NameError \<longleftrightarrow> nmon_history s \<noteq> []"
  by (simp add: nmon_draw_def nmon_graph_def nmon_scope_def)

lemmas nmon_first_steps = nmon_handle_input_def press_def nmon_start_def nmon_init_def nmon_thread_def

text \<open>Stopping and starting again before the sleeping thread looks at the flag leaves two threads sampling.\<close>

lemma nmon_two_threads:
  "nmon_threads (nmon_thread env 1 (nmon_handle_input (nmon_handle_input
      (nmon_thread env 0 (nmon_handle_input nmon_init (press K_s))) (press K_x)) (press K_s))) = [MonLoop, MonLoop]"
  by (simp add: nmon_first_steps nmon_stop_def)

subsection \<open>Properties\<close>

text \<open>
  The first speed shown is no speed: with the counters of the kernel in \<^verbatim>\<open>/proc/net/dev\<close>, the
  first sample reports all bytes received and sent since the system started.
\<close>

theorem netmon_first_speed:
  assumes "\<forall>(i, cs)\<in>set devs. is_word i \<and> length cs \<ge> 9" "drop 2 (file_lines content) = map (\<lambda>(i, cs). netdev_line i cs) devs"
    and "me_netdev env = Some content"
  shows "\<exists>s. (nmon_thread env 0 ^^ 2) (nmon_handle_input nmon_init (press K_s)) = s
      \<and> nmon_rx_speed s = int (sum_list (map (\<lambda>(i, cs). cs ! 0) devs))
      \<and> nmon_tx_speed s = int (sum_list (map (\<lambda>(i, cs). cs ! 8) devs))"
  using sum_counters_lines [OF assms(1)] assms(2,3)
  by (simp add: nmon_first_steps numeral_2_eq_2 nmon_sample_def get_bytes_def Let_def)

theorem netmon_first_speed_witness:
  "\<exists>s. (nmon_thread \<lparr>me_netdev = Some (''a'' @ [newline_char] @ ''b'' @ [newline_char] @ netdev_line ''lo'' [7, 1, 1, 1, 1, 1, 1, 1, 9]),
        me_ss = None, me_now = []\<rparr> 0 ^^ 2) (nmon_handle_input nmon_init (press K_s)) = s
      \<and> nmon_rx_speed s = int (sum_list (map (\<lambda>(i, cs). cs ! 0) [(''lo'', [7, 1, 1, 1, 1, 1, 1, 1, 9])]))
      \<and> nmon_tx_speed s = int (sum_list (map (\<lambda>(i, cs). cs ! 8) [(''lo'', [7, 1, 1, 1, 1, 1, 1, 1, 9])]))"
proof (rule netmon_first_speed)
  show "drop 2 (file_lines (''a'' @ [newline_char] @ ''b'' @ [newline_char] @ netdev_line ''lo'' [7, 1, 1, 1, 1, 1, 1, 1, 9]))
    = map (\<lambda>(i, cs). netdev_line i cs) [(''lo'', [7, 1, 1, 1, 1, 1, 1, 1, 9])]"
    by code_simp
qed (simp_all add: is_word_def py_isspace_char_def)

text \<open>
  Once the monitor has taken one sample its screen can never be drawn again: whatever keys
  are pressed and whatever the threads do afterwards, \<open>draw\<close> raises \<open>NameError\<close>.
\<close>

theorem netmon_dead_screen:
  "\<exists>s. run_events nmon_step ((nmon_thread env 0 ^^ 2) (nmon_handle_input nmon_init (press K_s))) acts = Inr s
     \<and> nmon_draw s = Inl NameError"
proof -
  have "nmon_history ((nmon_thread env 0 ^^ 2) (nmon_handle_input nmon_init (press K_s))) \<noteq> []"
    using nmon_history_sample by (simp add: nmon_first_steps numeral_2_eq_2)
  from netmon_sampled.run_ok [OF this, of acts] nmon_draw_raises show ?thesis by blast
qed

end
