(* ===== verification/Packet_Analyzer.thy ===== *)
theory Packet_Analyzer
  imports Codecs
begin

text \<open>
  The packet analyzer (\<^verbatim>\<open>src/src/apps/packetanalyzer/packetanalyzer.py\<close>). The key S starts a
  capturing thread; every thread opens a raw socket of its own, so each of them receives every
  packet. The threads are part of the state and \<open>pa_thread i\<close> is one step of thread \<open>i\<close>; what its
  socket does in that step is an argument.
\<close>

record packet =
  pk_src :: string
  pk_size :: int
  pk_proto :: string

datatype cap_pc = CapOpen | CapLoop | CapEnd

record packet_analyzer =
  pa_packets :: "packet list"
  pa_running :: bool
  pa_status :: string
  pa_threads :: "cap_pc list"

text \<open>A step of a socket: it raises, times out, or delivers data from an address.\<close>

datatype sock_step = SockRaises string | SockTimeout | SockData "byte list" string

definition pa_init :: packet_analyzer where
  "pa_init = \<lparr>pa_packets = [], pa_running = False, pa_status = ''Press S to start'', pa_threads = []\<rparr>"

definition proto_name :: "byte list \<Rightarrow> string" where
  "proto_name data =
     (let proto = (if length data > 9 then unat (data ! 9) else 0)
      in (case map_of [(6, ''TCP''), (17, ''UDP''), (1, ''ICMP'')] proto of
            Some n \<Rightarrow> n | None \<Rightarrow> ''#'' @ py_str_int (int proto)))"

definition pa_capture :: "byte list \<Rightarrow> string \<Rightarrow> packet_analyzer \<Rightarrow> packet_analyzer" where
  "pa_capture data src s =
     (let ps = pa_packets s @ [\<lparr>pk_src = src, pk_size = int (length data), pk_proto = proto_name data\<rparr>]
      in s\<lparr>pa_packets := (if length ps > 50 then tl ps else ps)\<rparr>)"

definition pa_error :: "nat \<Rightarrow> string \<Rightarrow> packet_analyzer \<Rightarrow> packet_analyzer" where
  "pa_error i e s = s\<lparr>pa_status := ''Error: '' @ e, pa_running := False, pa_threads := (pa_threads s)[i := CapEnd]\<rparr>"

definition pa_thread :: "sock_step \<Rightarrow> nat \<Rightarrow> packet_analyzer \<Rightarrow> packet_analyzer" where
  "pa_thread sock i s =
     (if i < length (pa_threads s) then
        (case pa_threads s ! i of
           CapOpen \<Rightarrow>
             (case sock of SockRaises e \<Rightarrow> pa_error i e s | _ \<Rightarrow> s\<lparr>pa_threads := (pa_threads s)[i := CapLoop]\<rparr>)
         | CapLoop \<Rightarrow>
             (if \<not> pa_running s then s\<lparr>pa_threads := (pa_threads s)[i := CapEnd]\<rparr>
              else
                (case sock of
                   SockRaises e \<Rightarrow> pa_error i e s
                 | SockTimeout \<Rightarrow> s
                 | SockData data src \<Rightarrow> pa_capture (take 1024 data) src s))
         | CapEnd \<Rightarrow> s)
      else s)"

definition pa_start :: "packet_analyzer \<Rightarrow> packet_analyzer" where
  "pa_start s =
     s\<lparr>pa_running := True, pa_status := ''Capturing on your network...'', pa_threads := pa_threads s @ [CapOpen]\<rparr>"

definition pa_stop :: "packet_analyzer \<Rightarrow> packet_analyzer" where
  "pa_stop s = s\<lparr>pa_running := False, pa_status := ''Stopped''\<rparr>"

definition pa_draw :: "packet_analyzer \<Rightarrow> draw_cmd list" where
  "pa_draw s =
     app_header ''Packet Analyzer''
     @ [DText (pa_status s) (if pa_running s then GREEN else RED) (8, 28), DLine DIM (0, 40) (240, 40),
        DText ''SRC            PROTO  SIZE'' ACCENT (8, 43), DLine DIM (0, 54) (240, 54)]
     @ concat (map (\<lambda>(i, p). let y = 57 + 16 * int i
          in [DText (take 15 (pk_src p)) TEXT (8, y), DText (take 5 (pk_proto p)) YELLOW (130, y), DText (py_str_int (pk_size p)) GREEN (190, y)])
         (enum (last_n 10 (pa_packets s))))
     @ [DText (''Total: '' @ py_str_int (int (length (pa_packets s))) @ '' packets'') DIM (8, 210)]
     @ app_footer ''S=start  X=stop  C=clear''"

definition pa_handle_input :: "packet_analyzer \<Rightarrow> event \<Rightarrow> packet_analyzer" where
  "pa_handle_input s e =
     (case e of
        KeyDown k _ _ \<Rightarrow>
          (if k = K_s then pa_start s
           else if k = K_x then pa_stop s
           else if k = K_c then s\<lparr>pa_packets := []\<rparr>
           else s)
      | _ \<Rightarrow> s)"

datatype pa_action = PaEvent event | PaThread sock_step nat

definition pa_step :: "packet_analyzer \<Rightarrow> pa_action \<Rightarrow> packet_analyzer res" where
  "pa_step s a = (case a of PaEvent e \<Rightarrow> Inr (pa_handle_input s e) | PaThread sock i \<Rightarrow> Inr (pa_thread sock i s))"

subsection \<open>Lemmas\<close>

definition pa_ok :: "packet_analyzer \<Rightarrow> bool" where
  "pa_ok s \<longleftrightarrow> length (pa_packets s) \<le> 50 \<and> list_all (\<lambda>p. 0 \<le> pk_size p \<and> pk_size p \<le> 1024) (pa_packets s)"

lemma pa_ok_capture: "pa_ok s \<Longrightarrow> length data \<le> 1024 \<Longrightarrow> pa_ok (pa_capture data src s)"
  by (cases "pa_packets s") (auto simp: pa_ok_def pa_capture_def Let_def)

lemma pa_ok_step: "pa_ok s \<Longrightarrow> \<exists>s'. pa_step s a = Inr s' \<and> pa_ok s'"
proof (cases a)
  case (PaEvent e)
  assume "pa_ok s"
  then show ?thesis
    by (auto simp: PaEvent pa_step_def pa_handle_input_def pa_start_def pa_stop_def pa_ok_def split: event.split)
next
  case (PaThread sock i)
  assume s: "pa_ok s"
  then have "pa_ok (pa_thread sock i s)"
    using pa_ok_capture [OF s, of "take 1024 _"]
    by (auto simp: pa_thread_def pa_error_def split: cap_pc.split sock_step.split) (simp_all add: pa_ok_def)
  then show ?thesis by (simp add: PaThread pa_step_def)
qed

interpretation packet_app: event_app pa_step pa_ok
  by unfold_locales (rule pa_ok_step)

lemma pa_thread_loop:
  assumes "i < length (pa_threads s)" "pa_threads s ! i = CapLoop" "pa_running s" "length (pa_packets s) < 50"
  shows "pa_packets (pa_thread (SockData data src) i s)
    = pa_packets s @ [\<lparr>pk_src = src, pk_size = int (length (take 1024 data)), pk_proto = proto_name (take 1024 data)\<rparr>]"
    "pa_threads (pa_thread (SockData data src) i s) = pa_threads s" "pa_running (pa_thread (SockData data src) i s)"
  using assms by (simp_all add: pa_thread_def pa_capture_def Let_def)

lemma proto_name_take: "proto_name (take 1024 data) = proto_name data"
  by (simp add: proto_name_def)

subsection \<open>Properties\<close>

text \<open>
  Starting the capture again lists every packet twice: neither the key S while capturing nor
  the sequence stop and start ends the first thread, unless it happens to look at the flag while
  it is off, so one packet received by both sockets becomes two equal rows.
\<close>

theorem capture_doubles:
  assumes "keys = [press K_s] \<or> keys = [press K_x, press K_s]" "pa_threads s = [CapLoop]" "pa_running s" "length (pa_packets s) < 49"
  shows "\<exists>s'. fold (pa_thread (SockData data src)) [0, 1] (pa_thread SockTimeout 1 (fold (\<lambda>e s. pa_handle_input s e) keys s)) = s'
      \<and> pa_packets s' = pa_packets s @ replicate 2 \<lparr>pk_src = src, pk_size = int (length (take 1024 data)), pk_proto = proto_name data\<rparr>"
proof -
  let ?s1 = "pa_thread SockTimeout 1 (fold (\<lambda>e s. pa_handle_input s e) keys s)"
  have s1: "pa_threads ?s1 = [CapLoop, CapLoop]" "pa_running ?s1" "pa_packets ?s1 = pa_packets s"
    using assms(1-3) by (auto simp: pa_handle_input_def press_def pa_start_def pa_stop_def pa_thread_def)
  let ?s2 = "pa_thread (SockData data src) 0 ?s1"
  have s2: "pa_packets ?s2 = pa_packets s @ [\<lparr>pk_src = src, pk_size = int (length (take 1024 data)), pk_proto = proto_name data\<rparr>]"
    "pa_threads ?s2 = [CapLoop, CapLoop]" "pa_running ?s2"
    using pa_thread_loop [of 0 ?s1] s1 assms(4) by (simp_all add: proto_name_take)
  from pa_thread_loop(1) [of 1 ?s2] s2 assms(4) show ?thesis by (simp add: proto_name_take numeral_2_eq_2 del: length_take)
qed

theorem capture_doubles_witness:
  "\<exists>s'. fold (pa_thread (SockData [69] ''10.0.0.2'')) [0, 1]
        (pa_thread SockTimeout 1 (fold (\<lambda>e s. pa_handle_input s e) [press K_s]
          (pa_init\<lparr>pa_running := True, pa_threads := [CapLoop]\<rparr>))) = s'
      \<and> pa_packets s' = pa_packets (pa_init\<lparr>pa_running := True, pa_threads := [CapLoop]\<rparr>)
          @ replicate 2 \<lparr>pk_src = ''10.0.0.2'', pk_size = int (length (take 1024 [69 :: byte])), pk_proto = proto_name [69]\<rparr>"
  by (rule capture_doubles) (simp_all add: pa_init_def)

text \<open>
  In every interleaving of keys and capturing threads at most the last fifty packets are
  kept, each with the size of what was read of it, at most 1024 bytes.
\<close>

theorem capture_bounded:
  "\<exists>s. run_events pa_step pa_init acts = Inr s \<and> length (pa_packets s) \<le> 50 \<and> (\<forall>p\<in>set (pa_packets s). 0 \<le> pk_size p \<and> pk_size p \<le> 1024)"
proof -
  have "pa_ok pa_init" by (simp add: pa_ok_def pa_init_def)
  from packet_app.run_ok [OF this, of acts] show ?thesis by (auto simp: pa_ok_def list_all_iff)
qed

end
