(* ===== verification/Speed_Test.thy ===== *)
theory Speed_Test
  imports Py_Numbers
begin

text \<open>
  The speed test (\<^verbatim>\<open>src/src/apps/speedtest/speedtest.py\<close>). A test is a thread with three parts:
  it announces itself, it measures the ping, it measures the download. The threads are part of
  the state and \<open>st_thread i\<close> runs the next part of thread \<open>i\<close>. Durations in seconds are exact
  fractions \<open>(n, d)\<close>; the numbers shown are hundredths or tenths.
\<close>

datatype test_pc = TestStart | TestPing | TestDownload | TestEnd

record speed_test =
  sp_status :: string
  sp_download :: int
  sp_ping :: string
  sp_running :: bool
  sp_log :: "string list"
  sp_threads :: "test_pc list"

definition speed_init :: speed_test where
  "speed_init =
     \<lparr>sp_status = ''Press S to start test'', sp_download = 0, sp_ping = ''0'', sp_running = False,
      sp_log = [''Julius Speed Test v0.4''], sp_threads = []\<rparr>"

text \<open>\<open>round(elapsed * 1000, 1)\<close>, or \<open>-1\<close> when connecting raises.\<close>

definition measure_ping :: "(int \<times> int) option \<Rightarrow> string" where
  "measure_ping elapsed =
     (case elapsed of Some (n, d) \<Rightarrow> tenths_text (round_div (n * 10000) d) | None \<Rightarrow> ''-1'')"

text \<open>
  \<open>round(8 / elapsed, 2)\<close> in hundredths, with the lines logged; an exception, which includes the
  division by a duration of zero, is logged and gives \<open>0.0\<close>.
\<close>

definition measure_download :: "string + int \<times> int \<Rightarrow> int \<times> string list" where
  "measure_download outcome =
     (case outcome of
        Inl e \<Rightarrow> (0, [''DL Error: '' @ e])
      | Inr (n, d) \<Rightarrow> (if n = 0 then (0, [''DL Error: float division by zero'']) else (round_div (800 * d) n, [])))"

text \<open>\<open>str\<close> of a number of hundredths: two decimals, a trailing zero dropped.\<close>

definition hundredths_text :: "int \<Rightarrow> string" where
  "hundredths_text k =
     (if k mod 10 = 0 then tenths_text (k div 10)
      else py_str_int (k div 100) @ ''.'' @ py_str_int (k div 10 mod 10) @ py_str_int (k mod 10))"

record speed_env =
  spe_ping :: "(int \<times> int) option"
  spe_download :: "string + int \<times> int"

definition speed_thread :: "speed_env \<Rightarrow> nat \<Rightarrow> speed_test \<Rightarrow> speed_test" where
  "speed_thread env i s =
     (if i < length (sp_threads s) then
        (case sp_threads s ! i of
           TestStart \<Rightarrow>
             s\<lparr>sp_running := True, sp_status := ''Testing ping...'', sp_log := sp_log s @ [''Starting test...''],
               sp_threads := (sp_threads s)[i := TestPing]\<rparr>
         | TestPing \<Rightarrow>
             (let p = measure_ping (spe_ping env)
              in s\<lparr>sp_ping := p, sp_log := sp_log s @ [''Ping: '' @ p @ ''ms''], sp_status := ''Testing download...'',
                   sp_threads := (sp_threads s)[i := TestDownload]\<rparr>)
         | TestDownload \<Rightarrow>
             (let (mbps, ls) = measure_download (spe_download env)
              in s\<lparr>sp_download := mbps, sp_log := sp_log s @ ls @ [''Download: '' @ hundredths_text mbps @ '' Mbps''],
                   sp_status := ''Test complete'', sp_running := False, sp_threads := (sp_threads s)[i := TestEnd]\<rparr>)
         | TestEnd \<Rightarrow> s)
      else s)"

definition speed_start :: "speed_test \<Rightarrow> speed_test" where
  "speed_start s = (if \<not> sp_running s then s\<lparr>sp_threads := sp_threads s @ [TestStart]\<rparr> else s)"

definition speed_draw :: "speed_test \<Rightarrow> draw_cmd list" where
  "speed_draw s =
     app_header ''Speed Test''
     @ [DText (sp_status s) (if sp_running s then YELLOW else GREEN) (8, 28), DLine DIM (0, 40) (240, 40),
        DText (''Ping     : '' @ sp_ping s @ '' ms'') TEXT (8, 50),
        DText (''Download : '' @ hundredths_text (sp_download s) @ '' Mbps'') TEXT (8, 68), DLine DIM (0, 84) (240, 84)]
     @ concat (map (\<lambda>(i, l). [DText (take 30 l) DIM (8, 90 + 17 * int i)]) (enum (last_n 8 (sp_log s))))
     @ app_footer ''S=start test''"

definition speed_handle_input :: "speed_test \<Rightarrow> event \<Rightarrow> speed_test" where
  "speed_handle_input s e = (case e of KeyDown k _ _ \<Rightarrow> (if k = K_s then speed_start s else s) | _ \<Rightarrow> s)"

subsection \<open>Lemmas\<close>

text \<open>One test left to itself ends, and reports what it measured.\<close>

lemma speed_test_completes:
  assumes "\<not> sp_running s" "n = length (sp_threads s)"
  shows "\<exists>s'. (speed_thread env n ^^ 3) (speed_handle_input s (press K_s)) = s'
      \<and> sp_status s' = ''Test complete'' \<and> \<not> sp_running s' \<and> sp_ping s' = measure_ping (spe_ping env)
      \<and> sp_download s' = fst (measure_download (spe_download env)) \<and> sp_threads s' = sp_threads s @ [TestEnd]"
  using assms by (simp add: speed_handle_input_def press_def speed_start_def speed_thread_def numeral_3_eq_3 Let_def split: prod.split)

text \<open>The guard of \<open>start\<close> is the flag the thread sets: two quick presses start two tests, and the
  first to end says that the test is complete while the other still runs.\<close>

lemma speed_two_tests:
  "\<exists>s'. fold (speed_thread env) [0, 1, 0, 0] (speed_handle_input (speed_handle_input speed_init (press K_s)) (press K_s)) = s'
     \<and> sp_threads s' = [TestEnd, TestPing] \<and> sp_status s' = ''Test complete'' \<and> \<not> sp_running s'"
  by (simp add: speed_handle_input_def press_def speed_start_def speed_init_def speed_thread_def Let_def split: prod.split)

text \<open>The speed shown is within half a hundredth of the exact quotient.\<close>

lemma speed_exact: "0 < n \<Longrightarrow> \<bar>2 * (fst (measure_download (Inr (n, d))) * n - 800 * d)\<bar> \<le> n"
  using round_div_near [of n "800 * d"] by (simp add: measure_download_def)

end
