(* ===== verification/Usb_Tools.thy ===== *)
theory Usb_Tools
  imports Julius_Prelude
begin

text \<open>
  The USB tools (\<^verbatim>\<open>src/src/apps/usbtools/usbtools.py\<close>): the list of devices from \<^verbatim>\<open>lsusb\<close>, the
  details of one, and the mounts. What the programs answer during an event is an argument
  (output, or the text of the exception), as is the text of the exception of a device identifier
  without exactly one colon.
\<close>

record usb_device =
  ud_id :: string
  ud_name :: string
  ud_raw :: string

datatype usb_mode = UsbList | UsbDetail

record usb_tools =
  us_devices :: "usb_device list"
  us_selected :: int
  us_scroll :: int
  us_status :: string
  us_mode :: usb_mode
  us_details :: "string list"

record usb_env =
  ue_lsusb :: "string + string"
  ue_detail :: "string \<Rightarrow> string + string"
  ue_lsblk :: "string + string"
  ue_unpack :: "string \<Rightarrow> string"

definition usb_init :: usb_tools where
  "usb_init =
     \<lparr>us_devices = [], us_selected = 0, us_scroll = 0, us_status = ''Press S to scan USB'', us_mode = UsbList, us_details = []\<rparr>"

text \<open>\<open>split(" ", 1)\<close>: the text up to the first blank, and the rest when there is one.\<close>

definition usb_parse_line :: "string \<Rightarrow> usb_device option" where
  "usb_parse_line line =
     (let parts = py_split_on ''ID '' line
      in if length parts \<ge> 2 then
           (let t = parts ! 1
            in Some \<lparr>ud_id = takeWhile (\<lambda>c. c \<noteq> CHR '' '') t,
                 ud_name = (if CHR '' '' \<in> set t then take 24 (tl (dropWhile (\<lambda>c. c \<noteq> CHR '' '') t)) else ''Unknown''),
                 ud_raw = line\<rparr>)
         else None)"

definition usb_scan :: "usb_env \<Rightarrow> usb_tools \<Rightarrow> usb_tools" where
  "usb_scan env s =
     (case ue_lsusb env of
        Inr result \<Rightarrow>
          (let ds = List.map_filter usb_parse_line (py_split newline_char (py_strip result))
           in s\<lparr>us_devices := ds, us_status := py_str_int (int (length ds)) @ '' USB devices''\<rparr>)
      | Inl e \<Rightarrow> s\<lparr>us_status := ''Error: '' @ e, us_devices := []\<rparr>)"

definition detail_lines :: "string \<Rightarrow> string list" where
  "detail_lines result =
     map (\<lambda>l. take 30 (py_strip l)) (filter (\<lambda>l. py_strip l \<noteq> []) (py_split newline_char result))"

definition get_details :: "usb_env \<Rightarrow> usb_device \<Rightarrow> usb_tools \<Rightarrow> usb_tools" where
  "get_details env d s =
     (if length (py_split (CHR '':'') (ud_id d)) \<noteq> 2 then s\<lparr>us_details := [''Error: '' @ ue_unpack env (ud_id d)], us_mode := UsbDetail\<rparr>
      else
        (case ue_detail env (ud_id d) of
           Inr result \<Rightarrow> s\<lparr>us_details := take 20 (detail_lines result), us_mode := UsbDetail\<rparr>
         | Inl e \<Rightarrow> s\<lparr>us_details := [''Error: '' @ e], us_mode := UsbDetail\<rparr>))"

definition get_mounted :: "usb_env \<Rightarrow> usb_tools \<Rightarrow> usb_tools" where
  "get_mounted env s =
     (case ue_lsblk env of
        Inr result \<Rightarrow> s\<lparr>us_details := detail_lines result, us_mode := UsbDetail\<rparr>
      | Inl e \<Rightarrow> s\<lparr>us_details := [''Error: '' @ e], us_mode := UsbDetail\<rparr>)"

definition usb_draw_list :: "usb_tools \<Rightarrow> draw_cmd list" where
  "usb_draw_list s =
     app_header ''USB Tools''
     @ [DText (take 30 (us_status s)) (if py_in ''devices'' (us_status s) then GREEN else RED) (8, 27), DLine DIM (0, 38) (240, 38)]
     @ (if us_devices s = [] then [DText ''Press S to scan'' DIM (8, 100)]
        else draw_rows (us_scroll s) 8 42 30
          (\<lambda>idx y d. (if idx = us_selected s then [highlight y 26] else [])
             @ [DText (ud_id d) DIM (8, y), DText (ud_name d) (if idx = us_selected s then ACCENT else TEXT) (8, y + 13)])
          (us_devices s))
     @ app_footer ''S=scan  ENTER=detail  M=mounts''"

definition usb_draw_detail :: "usb_tools \<Rightarrow> draw_cmd list" where
  "usb_draw_detail s =
     app_header ''USB Detail''
     @ concat (map (\<lambda>(i, l). [DText (take 30 l) TEXT (8, 30 + 16 * int i)]) (enum (take 12 (us_details s))))
     @ app_footer ''ESC=back''"

definition usb_draw :: "usb_tools \<Rightarrow> draw_cmd list" where
  "usb_draw s = (case us_mode s of UsbList \<Rightarrow> usb_draw_list s | UsbDetail \<Rightarrow> usb_draw_detail s)"

definition usb_key_list :: "usb_env \<Rightarrow> usb_tools \<Rightarrow> key \<Rightarrow> usb_tools res" where
  "usb_key_list env s k =
     (if k = K_DOWN then
        (let (sel, scr) = nav_down 8 (int (length (us_devices s))) (us_selected s, us_scroll s)
         in Inr (s\<lparr>us_selected := sel, us_scroll := scr\<rparr>))
      else if k = K_UP then
        (let (sel, scr) = nav_up (us_selected s, us_scroll s) in Inr (s\<lparr>us_selected := sel, us_scroll := scr\<rparr>))
      else if k = K_s then Inr (usb_scan env s)
      else if k = K_RETURN then
        (if us_devices s \<noteq> [] then res_bind (py_get (us_devices s) (us_selected s)) (\<lambda>d. Inr (get_details env d s)) else Inr s)
      else if k = K_m then Inr (get_mounted env s)
      else Inr s)"

definition usb_handle_input :: "usb_env \<Rightarrow> usb_tools \<Rightarrow> event \<Rightarrow> usb_tools res" where
  "usb_handle_input env s e =
     (case e of
        KeyDown k _ _ \<Rightarrow>
          (case us_mode s of
             UsbList \<Rightarrow> usb_key_list env s k
           | UsbDetail \<Rightarrow> (if k = K_ESCAPE then Inr (s\<lparr>us_mode := UsbList\<rparr>) else Inr s))
      | _ \<Rightarrow> Inr s)"

subsection \<open>Lemmas\<close>

definition usb_ok :: "usb_tools \<Rightarrow> bool" where
  "usb_ok s \<longleftrightarrow> 0 \<le> us_selected s"

lemma usb_keep [simp]:
  "us_selected (usb_scan env s) = us_selected s" "us_selected (get_details env d s) = us_selected s"
  "us_selected (get_mounted env s) = us_selected s"
  by (simp_all add: usb_scan_def get_details_def get_mounted_def Let_def split: sum.split)

lemma usb_ok_step: "usb_ok s \<Longrightarrow> usb_handle_input env s e = Inr s' \<Longrightarrow> usb_ok s'"
  by (auto simp: usb_ok_def usb_handle_input_def usb_key_list_def nav_down_def nav_up_def Let_def res_bind_Inr_iff
      split: event.splits usb_mode.splits if_splits)

interpretation usb_app: stepping_app "\<lambda>s (env, e). usb_handle_input env s e" usb_ok
  by unfold_locales (auto dest: usb_ok_step)

lemma usb_raises_iff:
  assumes "usb_ok s"
  shows "usb_handle_input env s e = Inl x \<longleftrightarrow>
     x = IndexError \<and> us_mode s = UsbList \<and> (\<exists>u c. e = KeyDown K_RETURN u c) \<and> us_devices s \<noteq> [] \<and> int (length (us_devices s)) \<le> us_selected s"
  using assms
  by (cases "us_selected s < int (length (us_devices s))")
    (auto simp: usb_ok_def usb_handle_input_def usb_key_list_def py_simps Let_def split: event.split usb_mode.split prod.split)

subsection \<open>Properties\<close>

text \<open>
  Over all event sequences and answers of the programs, the USB tools raise only
  \<open>IndexError\<close>, on ENTER in the list with the selection past the end; a new scan that finds fewer
  devices keeps the selection and so leads there.
\<close>

theorem usb_raises_only_stale:
  assumes "run_events (\<lambda>s (env, e). usb_handle_input env s e) usb_init evs = Inl x"
  shows "x = IndexError \<and> (\<exists>t env u c. usb_handle_input env t (KeyDown K_RETURN u c) = Inl x \<and> us_mode t = UsbList
     \<and> us_devices t \<noteq> [] \<and> int (length (us_devices t)) \<le> us_selected t)"
proof -
  have "usb_ok usb_init" by (simp add: usb_ok_def usb_init_def)
  from usb_app.run_raises [OF this assms] obtain t p where t: "usb_ok t" "(\<lambda>(env, e). usb_handle_input env t e) p = Inl x" by blast
  obtain env e where "p = (env, e)" by fastforce
  with t(2) have r: "usb_handle_input env t e = Inl x" by simp
  from r [unfolded usb_raises_iff [OF t(1)]] show ?thesis using r by blast
qed

definition usb_answer :: "string \<Rightarrow> usb_env" where
  "usb_answer out = \<lparr>ue_lsusb = Inr out, ue_detail = (\<lambda>_. Inl []), ue_lsblk = Inl [], ue_unpack = (\<lambda>_. [])\<rparr>"

theorem usb_raises_only_stale_witness:
  "IndexError = IndexError \<and> (\<exists>t env u c. usb_handle_input env t (KeyDown K_RETURN u c) = Inl IndexError \<and> us_mode t = UsbList
     \<and> us_devices t \<noteq> [] \<and> int (length (us_devices t)) \<le> us_selected t)"
proof (rule usb_raises_only_stale)
  show "run_events (\<lambda>s (env, e). usb_handle_input env s e) usb_init
      [(usb_answer (''ID a'' @ [newline_char] @ ''ID b''), press K_s), (usb_answer [], press K_DOWN), (usb_answer ''ID a'', press K_s),
       (usb_answer [], press K_RETURN)] = Inl IndexError"
    by code_simp
qed

end
