(* ===== verification/Weather.thy ===== *)
theory Weather
  imports Json
begin

text \<open>
  The weather application (\<^verbatim>\<open>src/src/apps/weather/weather.py\<close>). A request is a thread; the requests
  pending are part of the state and \<open>wx_answer i\<close> is the end of request \<open>i\<close>. Arguments stand for
  what the server returns for a path and for the texts of exceptions. The answer is a JSON value
  (\<open>Json\<close>).
\<close>

datatype wx_mode = WxInput | WxView

record weather =
  wx_city :: string
  wx_data :: "json option"
  wx_mode :: wx_mode
  wx_input :: string
  wx_status :: string
  wx_loading :: bool
  wx_pending :: "string list"

definition wx_init :: weather where
  "wx_init = \<lparr>wx_city = [], wx_data = None, wx_mode = WxInput, wx_input = [], wx_status = ''Enter city name'', wx_loading = False, wx_pending = []\<rparr>"

definition wx_fetch :: "string \<Rightarrow> weather \<Rightarrow> weather" where
  "wx_fetch city s = s\<lparr>wx_loading := True, wx_status := ''Fetching '' @ city @ ''...'', wx_pending := wx_pending s @ [city]\<rparr>"

text \<open>
  \<open>urlopen\<close> of \<open>https://wttr.in/{city}?format=j1\<close>: a request with a blank or a control character
  in it is refused by \<open>http.client\<close>, and a request line must be ASCII; both raise. A fragment is
  not sent.
\<close>

definition wx_url_path :: "string \<Rightarrow> string" where
  "wx_url_path city = takeWhile (\<lambda>c. c \<noteq> CHR ''#'') (city @ ''?format=j1'')"

definition url_char :: "char \<Rightarrow> bool" where
  "url_char c \<longleftrightarrow> (let n = (of_char c :: nat) in 32 < n \<and> n < 127)"

definition wx_urlopen :: "(string \<Rightarrow> string + string) \<Rightarrow> string \<Rightarrow> string \<Rightarrow> string + string" where
  "wx_urlopen server exc city = (if list_all url_char (wx_url_path city) then server (wx_url_path city) else Inl exc)"

text \<open>The end of a request: the answer is parsed and shown, or the exception is.\<close>

definition wx_answer :: "(string \<Rightarrow> string + string) \<Rightarrow> string \<Rightarrow> nat \<Rightarrow> weather \<Rightarrow> weather" where
  "wx_answer server exc i s =
     (if i < length (wx_pending s) then
        (let s1 = s\<lparr>wx_pending := del_nth (wx_pending s) i\<rparr>
         in (case wx_urlopen server exc (wx_pending s ! i) of
               Inl e \<Rightarrow> s1\<lparr>wx_status := ''Error: '' @ e, wx_mode := WxInput, wx_loading := False\<rparr>
             | Inr raw \<Rightarrow>
                 (case json_loads raw of
                    None \<Rightarrow> s1\<lparr>wx_status := ''Error: '' @ exc, wx_mode := WxInput, wx_loading := False\<rparr>
                  | Some j \<Rightarrow> s1\<lparr>wx_data := Some j, wx_mode := WxView, wx_status := ''Done'', wx_loading := False\<rparr>)))
      else s)"

subsection \<open>Looking into the answer\<close>

text \<open>\<open>j[key]\<close> with a text and \<open>j[0]\<close>; \<open>None\<close> raises.\<close>

definition j_key :: "string \<Rightarrow> json option \<Rightarrow> json option" where
  "j_key k j = (case j of Some (JObj d) \<Rightarrow> map_of d k | _ \<Rightarrow> None)"

definition j_first :: "json option \<Rightarrow> json option" where
  "j_first j =
     (case j of
        Some (JList (x # xs)) \<Rightarrow> Some x
      | Some (JStr (c # cs)) \<Rightarrow> Some (JStr [c])
      | _ \<Rightarrow> None)"

text \<open>
  \<open>f"{j}"\<close>: a text as it is; other values as Python prints them, which is an argument
  \<open>py_str\<close>.
\<close>

definition j_text :: "(json \<Rightarrow> string) \<Rightarrow> json \<Rightarrow> string" where
  "j_text py_str j = (case j of JStr t \<Rightarrow> t | _ \<Rightarrow> py_str j)"

text \<open>The fields of the current weather, in the order they are looked up.\<close>

definition wx_current :: "json option \<Rightarrow> json list option" where
  "wx_current data =
     (let cc = j_first (j_key ''current_condition'' data); area = j_first (j_key ''nearest_area'' data)
      in those [j_key ''value'' (j_first (j_key ''areaName'' area)), j_key ''value'' (j_first (j_key ''country'' area)),
           j_key ''temp_C'' cc, j_key ''temp_F'' cc, j_key ''FeelsLikeC'' cc, j_key ''humidity'' cc, j_key ''windspeedKmph'' cc,
           j_key ''value'' (j_first (j_key ''weatherDesc'' cc))])"

text \<open>\<open>self.data["weather"][:3]\<close>, iterated; each day has its date and two temperatures.\<close>

definition wx_days :: "json option \<Rightarrow> json list option" where
  "wx_days data =
     (case j_key ''weather'' data of
        Some (JList js) \<Rightarrow> Some (take 3 js)
      | Some (JStr t) \<Rightarrow> Some (map (\<lambda>c. JStr [c]) (take 3 t))
      | _ \<Rightarrow> None)"

text \<open>The rows of the days up to the first that raises, and whether one does.\<close>

fun wx_day_rows :: "(json \<Rightarrow> string) \<Rightarrow> int \<Rightarrow> json list \<Rightarrow> draw_cmd list \<times> bool" where
  "wx_day_rows py_str y [] = ([], False)"
| "wx_day_rows py_str y (d # ds) =
     (case (j_key ''date'' (Some d), j_key ''maxtempC'' (Some d), j_key ''mintempC'' (Some d)) of
        (Some date, Some maxc, Some minc) \<Rightarrow>
          (let (rs, bad) = wx_day_rows py_str (y + 16) ds
           in (DText (j_text py_str date @ ''  '' @ j_text py_str minc @ ''-'' @ j_text py_str maxc @ ''C'') TEXT (8, y) # rs, bad))
      | _ \<Rightarrow> ([], True))"

text \<open>
  The body of the \<open>try\<close>: what it draws, and whether it raises. \<open>desc[:26]\<close> is rendered, so the
  description has to be a text.
\<close>

definition wx_body :: "(json \<Rightarrow> string) \<Rightarrow> json option \<Rightarrow> draw_cmd list \<times> bool" where
  "wx_body py_str data =
     (case wx_current data of
        Some [city, country, temp_c, temp_f, feels, humid, wind, JStr desc] \<Rightarrow>
          (let t = j_text py_str;
               current =
                 [DText (t city @ '', '' @ t country) ACCENT (8, 30), DLine DIM (0, 44) (240, 44),
                  DText (t temp_c @ ''C  /  '' @ t temp_f @ ''F'') GREEN (8, 50), DText (''Feels like: '' @ t feels @ ''C'') TEXT (8, 68),
                  DText (take 26 desc) YELLOW (8, 86), DLine DIM (0, 102) (240, 102),
                  DText (''Humidity : '' @ t humid @ ''%'') TEXT (8, 108), DText (''Wind     : '' @ t wind @ '' km/h'') TEXT (8, 126),
                  DLine DIM (0, 144) (240, 144), DText ''Forecast:'' ACCENT (8, 148)]
           in (case wx_days data of
                 None \<Rightarrow> (current, True)
               | Some days \<Rightarrow> (let (rs, bad) = wx_day_rows py_str 164 days in (current @ rs, bad))))
      | _ \<Rightarrow> ([], True))"

definition wx_draw_input :: "weather \<Rightarrow> draw_cmd list" where
  "wx_draw_input s =
     app_header ''Weather'' @ [DText (wx_status s) GREEN (8, 40), DText (''City: '' @ wx_input s @ ''_'') TEXT (8, 60)]
     @ app_footer ''ENTER=search  ESC=clear''"

definition wx_draw_view :: "(json \<Rightarrow> string) \<Rightarrow> string \<Rightarrow> weather \<Rightarrow> draw_cmd list" where
  "wx_draw_view py_str exc s =
     (let (body, bad) = wx_body py_str (wx_data s)
      in app_header ''Weather'' @ body @ (if bad then [DText (''Parse error: '' @ exc) RED (8, 40)] else [])
         @ app_footer ''ESC=back  R=refresh'')"

definition wx_draw :: "(json \<Rightarrow> string) \<Rightarrow> string \<Rightarrow> weather \<Rightarrow> draw_cmd list" where
  "wx_draw py_str exc s = (case wx_mode s of WxInput \<Rightarrow> wx_draw_input s | WxView \<Rightarrow> wx_draw_view py_str exc s)"

definition wx_key_input :: "weather \<Rightarrow> key \<Rightarrow> string \<Rightarrow> weather" where
  "wx_key_input s k u =
     (if k = K_RETURN \<and> wx_input s \<noteq> [] then wx_fetch (wx_input s) (s\<lparr>wx_city := wx_input s\<rparr>)
      else if k = K_BACKSPACE then s\<lparr>wx_input := butlast (wx_input s)\<rparr>
      else if k = K_ESCAPE then s\<lparr>wx_input := []\<rparr>
      else s\<lparr>wx_input := wx_input s @ u\<rparr>)"

definition wx_key_view :: "weather \<Rightarrow> key \<Rightarrow> weather" where
  "wx_key_view s k =
     (if k = K_ESCAPE then s\<lparr>wx_mode := WxInput, wx_input := []\<rparr>
      else if k = K_r then wx_fetch (wx_city s) s
      else s)"

definition wx_handle_input :: "weather \<Rightarrow> event \<Rightarrow> weather" where
  "wx_handle_input s e =
     (case e of
        KeyDown k u _ \<Rightarrow> (case wx_mode s of WxInput \<Rightarrow> wx_key_input s k u | WxView \<Rightarrow> wx_key_view s k)
      | _ \<Rightarrow> s)"

subsection \<open>Lemmas\<close>

lemma wx_type_text:
  "wx_mode s = WxInput \<Longrightarrow>
     fold (\<lambda>e s. wx_handle_input s e) (type_text t) s = s\<lparr>wx_input := wx_input s @ t\<rparr>"
proof (induction t arbitrary: s)
  case Nil
  then show ?case by (simp add: type_text_def)
next
  case (Cons c t)
  from Cons.IH [of "s\<lparr>wx_input := wx_input s @ [c]\<rparr>"] Cons.prems show ?case
    by (simp add: type_text_def wx_handle_input_def wx_key_input_def)
qed

lemma wx_refused: "c \<in> set city \<Longrightarrow> CHR ''#'' \<notin> set city \<Longrightarrow> \<not> url_char c \<Longrightarrow> wx_urlopen server exc city = Inl exc"
proof -
  assume c: "c \<in> set city" "CHR ''#'' \<notin> set city" "\<not> url_char c"
  have "wx_url_path city = city @ ''?format=j1''" unfolding wx_url_path_def by (rule takeWhile_eq_all_conv [THEN iffD2]) (use c(2) in auto)
  with c show ?thesis by (auto simp: wx_urlopen_def list_all_iff)
qed

subsection \<open>Properties\<close>

text \<open>
  A city whose name has a blank or an accented letter cannot be looked up: typing it and
  pressing ENTER ends in the error message whatever the server would answer, since the name goes
  into the address unquoted.
\<close>

theorem weather_city_needs_quoting:
  assumes "wx_mode s = WxInput" "wx_input s = []" "wx_pending s = []" "c \<in> set city" "\<not> url_char c" "CHR ''#'' \<notin> set city"
  shows "\<exists>s'. wx_answer server exc 0 (fold (\<lambda>e s. wx_handle_input s e) (type_text city @ [press K_RETURN]) s) = s'
      \<and> wx_mode s' = WxInput \<and> wx_status s' = ''Error: '' @ exc \<and> wx_data s' = wx_data s \<and> \<not> wx_loading s'"
proof -
  have "city \<noteq> []" using assms(4) by auto
  with assms(1-3) wx_type_text [OF assms(1), of city]
  have "fold (\<lambda>e s. wx_handle_input s e) (type_text city @ [press K_RETURN]) s
      = wx_fetch city (s\<lparr>wx_input := city, wx_city := city\<rparr>)"
    by (simp add: press_def wx_handle_input_def wx_key_input_def)
  with wx_refused [OF assms(4,6,5)] assms(3) show ?thesis by (simp add: wx_answer_def wx_fetch_def del_nth_def)
qed

theorem weather_city_needs_quoting_witness:
  "\<exists>s'. wx_answer (\<lambda>_. Inr ''{}'') ''e'' 0 (fold (\<lambda>e s. wx_handle_input s e) (type_text ''New York'' @ [press K_RETURN]) wx_init) = s'
      \<and> wx_mode s' = WxInput \<and> wx_status s' = ''Error: '' @ ''e'' \<and> wx_data s' = wx_data wx_init \<and> \<not> wx_loading s'"
  by (rule weather_city_needs_quoting [where c = "CHR '' ''"]) (simp_all add: wx_init_def url_char_def)

text \<open>An answer that arrives after ESC brings the view back over the city being typed.\<close>

lemma weather_late_answer:
  assumes "wx_mode s = WxView" "wx_pending s = []" "list_all url_char (wx_url_path (wx_city s))"
    "server (wx_url_path (wx_city s)) = Inr raw" "json_loads raw = Some j"
  shows "wx_mode (wx_answer server exc 0 (fold (\<lambda>e s. wx_handle_input s e) ([press K_r, press K_ESCAPE] @ type_text t) s)) = WxView"
proof -
  let ?s1 = "wx_handle_input (wx_handle_input s (press K_r)) (press K_ESCAPE)"
  have "wx_mode ?s1 = WxInput" "wx_pending ?s1 = [wx_city s]"
    using assms(1,2) by (simp_all add: wx_handle_input_def press_def wx_key_view_def wx_fetch_def)
  with wx_type_text [of ?s1 t] assms(3-5) show ?thesis by (simp add: wx_answer_def wx_urlopen_def)
qed

end
