(* ===== verification/System_Apps.thy ===== *)
theory System_Apps
  imports Py_Numbers
begin

text \<open>
  The system monitor (\<^verbatim>\<open>src/src/apps/sysmon/sysmon.py\<close>), the system information
  (\<^verbatim>\<open>src/src/apps/sysinfo/sysinfo.py\<close>) and the status bar of the launchers
  (\<^verbatim>\<open>src/src/launcher/statusbar.py\<close>). Arguments stand for the files of \<^verbatim>\<open>/proc\<close> and \<^verbatim>\<open>/sys\<close>, the
  output of \<^verbatim>\<open>top\<close>, \<^verbatim>\<open>df\<close> and \<^verbatim>\<open>ps\<close>, and what the modules \<open>platform\<close> and \<open>socket\<close> answer;
  \<open>None\<close> is an exception. The thread of the monitor calls the same \<open>update\<close> as the key R.
\<close>

subsection \<open>Readings of the system monitor\<close>

text \<open>A percentage: the integer 0, or a number rounded to tenths.\<close>

datatype reading = RZero | RTenths int

definition reading_tenths :: "reading \<Rightarrow> int" where
  "reading_tenths r = (case r of RZero \<Rightarrow> 0 | RTenths k \<Rightarrow> k)"

definition reading_text :: "reading \<Rightarrow> string" where
  "reading_text r = (case r of RZero \<Rightarrow> ''0'' | RTenths k \<Rightarrow> tenths_text k)"

record mem_info =
  mi_total :: int
  mi_used :: int
  mi_percent :: reading

record disk_info =
  di_total :: string
  di_used :: string
  di_percent :: string

record proc_line =
  pl_pid :: string
  pl_name :: string
  pl_cpu :: string

record sys_mon =
  sm_cpu :: reading
  sm_mem :: mem_info
  sm_disk :: disk_info
  sm_procs :: "proc_line list"

record mon_source =
  mo_top :: "string option"
  mo_meminfo :: "string option"
  mo_df :: "string option"
  mo_ps :: "string option"

definition cpu_line :: "string \<Rightarrow> decimal option" where
  "cpu_line line =
     (let ws = py_words (py_strip (py_split_on ''id,'' line ! 0)) in if ws = [] then None else py_decimal (last ws))"

definition get_cpu :: "string option \<Rightarrow> reading" where
  "get_cpu answer =
     (case answer of
        None \<Rightarrow> RZero
      | Some result \<Rightarrow>
          (case find (\<lambda>l. py_in ''Cpu'' l \<or> py_in ''cpu'' l) (py_split newline_char result) of
             None \<Rightarrow> RZero
           | Some line \<Rightarrow>
               (case cpu_line line of
                  None \<Rightarrow> RZero
                | Some (n, k) \<Rightarrow> RTenths (round_div (10 * (100 * 10 ^ k - n)) (10 ^ k)))))"

text \<open>\<open>rstrip(":")\<close>.\<close>

definition rstrip_colon :: "string \<Rightarrow> string" where
  "rstrip_colon s = rev (dropWhile (\<lambda>c. c = CHR '':'') (rev s))"

fun mem_fields :: "(string \<rightharpoonup> int) \<Rightarrow> string list \<Rightarrow> (string \<rightharpoonup> int) option" where
  "mem_fields info [] = Some info"
| "mem_fields info (l # ls) =
     (case py_words l of
        name # val # _ \<Rightarrow> (case py_int val of Some n \<Rightarrow> mem_fields (info(rstrip_colon name \<mapsto> n)) ls | None \<Rightarrow> None)
      | _ \<Rightarrow> None)"

definition get_mem :: "string option \<Rightarrow> mem_info" where
  "get_mem meminfo =
     (case Option.bind meminfo (\<lambda>c. mem_fields Map.empty (file_lines c)) of
        None \<Rightarrow> \<lparr>mi_total = 0, mi_used = 0, mi_percent = RZero\<rparr>
      | Some info \<Rightarrow>
          (let total = (case info ''MemTotal'' of Some t \<Rightarrow> t | None \<Rightarrow> 1);
               free = (case info ''MemAvailable'' of Some f \<Rightarrow> f | None \<Rightarrow> 0); used = total - free
           in if total = 0 then \<lparr>mi_total = 0, mi_used = 0, mi_percent = RZero\<rparr>
              else \<lparr>mi_total = round_div total 1024, mi_used = round_div used 1024, mi_percent = RTenths (round_div (1000 * used) total)\<rparr>))"

text \<open>The second line of \<^verbatim>\<open>df -h /\<close>, in words.\<close>

definition df_words :: "string option \<Rightarrow> string list option" where
  "df_words df =
     (case df of
        None \<Rightarrow> None
      | Some out \<Rightarrow> (let ls = py_split newline_char out in if length ls > 1 then Some (py_words (ls ! 1)) else None))"

definition get_disk :: "string option \<Rightarrow> disk_info" where
  "get_disk df =
     (case df_words df of
        Some ws \<Rightarrow>
          (if length ws > 4 then \<lparr>di_total = ws ! 1, di_used = ws ! 2, di_percent = ws ! 4\<rparr>
           else \<lparr>di_total = ''?'', di_used = ''?'', di_percent = ''?''\<rparr>)
      | None \<Rightarrow> \<lparr>di_total = ''?'', di_used = ''?'', di_percent = ''?''\<rparr>)"

definition ps_line :: "string \<Rightarrow> proc_line option" where
  "ps_line line =
     (let parts = py_words (py_strip line)
      in if length parts \<ge> 3 then Some \<lparr>pl_pid = parts ! 0, pl_name = take 14 (parts ! 1), pl_cpu = parts ! 2\<rparr> else None)"

definition get_procs :: "string option \<Rightarrow> proc_line list" where
  "get_procs ps =
     (case ps of
        None \<Rightarrow> []
      | Some out \<Rightarrow> List.map_filter ps_line (take 5 (tl (py_split newline_char (py_strip out)))))"

definition sm_update :: "mon_source \<Rightarrow> sys_mon" where
  "sm_update src =
     \<lparr>sm_cpu = get_cpu (mo_top src), sm_mem = get_mem (mo_meminfo src), sm_disk = get_disk (mo_df src), sm_procs = get_procs (mo_ps src)\<rparr>"

definition sm_handle_input :: "mon_source \<Rightarrow> sys_mon \<Rightarrow> event \<Rightarrow> sys_mon" where
  "sm_handle_input src s e = (case e of KeyDown k _ _ \<Rightarrow> (if k = K_r then sm_update src else s) | _ \<Rightarrow> s)"

subsection \<open>The screen of the system monitor\<close>

definition level_colour :: "reading \<Rightarrow> colour" where
  "level_colour r = (if reading_tenths r < 700 then GREEN else if reading_tenths r < 900 then YELLOW else RED)"

text \<open>\<open>int(w * percent / 100)\<close> cuts towards zero.\<close>

definition bar_fill :: "int \<Rightarrow> reading \<Rightarrow> int" where
  "bar_fill w r = (let x = w * reading_tenths r in if 0 \<le> x then x div 1000 else - ((- x) div 1000))"

definition draw_bar :: "int \<Rightarrow> int \<Rightarrow> int \<Rightarrow> int \<Rightarrow> reading \<Rightarrow> colour \<Rightarrow> draw_cmd list" where
  "draw_bar x y w h r col = [DRect DIM (x, y, w, h), DRect col (x, y, bar_fill w r, h)]"

definition sm_draw :: "sys_mon \<Rightarrow> draw_cmd list" where
  "sm_draw s =
     app_header ''System Monitor''
     @ [DText (''CPU  '' @ reading_text (sm_cpu s) @ ''%'') (level_colour (sm_cpu s)) (8, 30)]
     @ draw_bar 8 42 224 8 (sm_cpu s) (level_colour (sm_cpu s))
     @ [DText (''MEM  '' @ py_str_int (mi_used (sm_mem s)) @ ''MB / '' @ py_str_int (mi_total (sm_mem s)) @ ''MB'')
          (level_colour (mi_percent (sm_mem s))) (8, 56)]
     @ draw_bar 8 68 224 8 (mi_percent (sm_mem s)) (level_colour (mi_percent (sm_mem s)))
     @ [DText (''DISK '' @ di_used (sm_disk s) @ '' / '' @ di_total (sm_disk s) @ ''  '' @ di_percent (sm_disk s)) TEXT (8, 82),
        DLine DIM (0, 96) (240, 96), DText ''PID   NAME           CPU'' ACCENT (8, 100), DLine DIM (0, 112) (240, 112)]
     @ concat (map (\<lambda>(i, p). let y = 116 + 15 * int i
          in [DText (take 5 (pl_pid p)) DIM (8, y), DText (pl_name p) TEXT (45, y), DText (pl_cpu p @ ''%'') GREEN (200, y)])
         (enum (sm_procs s)))
     @ app_footer ''Auto refresh every 2s''"

subsection \<open>System information\<close>

type_synonym info_rows = "(string \<times> string) list"

record sys_info =
  si_scroll :: int
  si_lines :: info_rows

text \<open>
  The five plain rows are labelled values of \<open>platform\<close> and \<open>socket\<close>; the first that raises ends
  the collection with an error row.
\<close>

record info_source =
  is_plain :: "(string + string) list"
  is_addr :: "string option"
  is_cpuinfo :: "string option"
  is_processor :: string
  is_meminfo :: "string option"
  is_df :: "string option"
  is_uptime :: "string option"
  is_temp :: "string option"

definition PLAIN_LABELS :: "string list" where
  "PLAIN_LABELS = [''OS'', ''Release'', ''Machine'', ''Python'', ''Hostname'']"

fun plain_rows :: "string list \<Rightarrow> (string + string) list \<Rightarrow> info_rows \<times> string option" where
  "plain_rows (l # ls) (Inr v # vs) = (let (rs, e) = plain_rows ls vs in ((l, v) # rs, e))"
| "plain_rows (l # ls) (Inl e # vs) = ([], Some e)"
| "plain_rows _ _ = ([], None)"

definition addr_row :: "string option \<Rightarrow> info_rows" where
  "addr_row a = (case a of Some ip \<Rightarrow> [(''IP'', ip)] | None \<Rightarrow> [(''IP'', ''N/A'')])"

definition cpu_row :: "info_source \<Rightarrow> info_rows" where
  "cpu_row src =
     (case is_cpuinfo src of
        None \<Rightarrow> [(''CPU'', take 20 (is_processor src))]
      | Some c \<Rightarrow>
          (case find (\<lambda>l. py_in ''model name'' l) (file_lines c) of
             None \<Rightarrow> []
           | Some line \<Rightarrow>
               (let ps = py_split (CHR '':'') line
                in if length ps > 1 then [(''CPU'', take 20 (py_strip (ps ! 1)))] else [(''CPU'', take 20 (is_processor src))])))"

definition kb_field :: "string list \<Rightarrow> nat \<Rightarrow> int option" where
  "kb_field ls i =
     (if i < length ls then (let ws = py_words (ls ! i) in if length ws > 1 then py_int (ws ! 1) else None) else None)"

definition ram_rows :: "string option \<Rightarrow> info_rows" where
  "ram_rows meminfo =
     (case meminfo of
        None \<Rightarrow> []
      | Some c \<Rightarrow>
          (case (kb_field (file_lines c) 0, kb_field (file_lines c) 1) of
             (Some t, Some f) \<Rightarrow> [(''RAM Total'', py_str_int (t div 1024) @ '' MB''), (''RAM Free'', py_str_int (f div 1024) @ '' MB'')]
           | _ \<Rightarrow> []))"

text \<open>The three rows are appended one after the other, so a short line gives some of them.\<close>

definition disk_rows :: "string option \<Rightarrow> info_rows" where
  "disk_rows df =
     (case df_words df of None \<Rightarrow> [] | Some ws \<Rightarrow> zip [''Disk Total'', ''Disk Used'', ''Disk Free''] (tl ws))"

definition uptime_row :: "string option \<Rightarrow> info_rows" where
  "uptime_row uptime =
     (case uptime of
        None \<Rightarrow> []
      | Some c \<Rightarrow>
          (case py_words c of
             [] \<Rightarrow> []
           | w # _ \<Rightarrow>
               (case py_decimal w of
                  None \<Rightarrow> []
                | Some (n, k) \<Rightarrow>
                    (let hours = n div (3600 * 10 ^ k); mins = n mod (3600 * 10 ^ k) div (60 * 10 ^ k)
                     in [(''Uptime'', py_str_int hours @ ''h '' @ py_str_int mins @ ''m'')]))))"

definition temp_row :: "string option \<Rightarrow> info_rows" where
  "temp_row temp =
     (case Option.bind temp py_int of None \<Rightarrow> [] | Some t \<Rightarrow> [(''CPU Temp'', tenths_text (round_div t 100) @ ''C'')])"

definition gather :: "info_source \<Rightarrow> info_rows" where
  "gather src =
     (case plain_rows PLAIN_LABELS (is_plain src) of
        (rs, Some e) \<Rightarrow> rs @ [(''Error'', e)]
      | (rs, None) \<Rightarrow>
          rs @ addr_row (is_addr src) @ cpu_row src @ ram_rows (is_meminfo src) @ disk_rows (is_df src)
            @ uptime_row (is_uptime src) @ temp_row (is_temp src))"

definition si_init :: "info_source \<Rightarrow> sys_info" where
  "si_init src = \<lparr>si_scroll = 0, si_lines = gather src\<rparr>"

definition pad12 :: "string \<Rightarrow> string" where
  "pad12 s = s @ replicate (12 - length s) (CHR '' '')"

definition si_draw :: "sys_info \<Rightarrow> draw_cmd list" where
  "si_draw s =
     (let total = int (length (si_lines s))
      in app_header ''System Info''
         @ draw_rows (si_scroll s) 13 28 15 (\<lambda>idx y (key, val). [DText (pad12 key) DIM (8, y), DText (take 16 val) GREEN (100, y)]) (si_lines s)
         @ [DText (py_str_int (si_scroll s + 1) @ ''-'' @ py_str_int (min (si_scroll s + 13) total) @ ''/'' @ py_str_int total) DIM (8, 210)]
         @ app_footer ''UP DOWN=scroll  R=refresh'')"

definition si_handle_input :: "info_source \<Rightarrow> sys_info \<Rightarrow> event \<Rightarrow> sys_info" where
  "si_handle_input src s e =
     (case e of
        KeyDown k _ _ \<Rightarrow>
          (if k = K_DOWN then (if si_scroll s < int (length (si_lines s)) - 13 then s\<lparr>si_scroll := si_scroll s + 1\<rparr> else s)
           else if k = K_UP then (if si_scroll s > 0 then s\<lparr>si_scroll := si_scroll s - 1\<rparr> else s)
           else if k = K_r then s\<lparr>si_lines := gather src, si_scroll := 0\<rparr>
           else s)
      | _ \<Rightarrow> s)"

subsection \<open>The status bar of the launchers\<close>

record status_bar =
  sb_wifi :: bool
  sb_bt :: bool
  sb_battery :: int
  sb_ip :: string

definition sb_init :: "string option \<Rightarrow> status_bar" where
  "sb_init sockname =
     \<lparr>sb_wifi = True, sb_bt = True, sb_battery = 85, sb_ip = (case sockname of Some ip \<Rightarrow> ip | None \<Rightarrow> ''No IP'')\<rparr>"

definition get_battery_color :: "status_bar \<Rightarrow> colour" where
  "get_battery_color s = (if sb_battery s > 50 then GREEN else if sb_battery s > 20 then YELLOW else RED)"

definition draw_battery :: "int \<Rightarrow> int \<Rightarrow> status_bar \<Rightarrow> draw_cmd list" where
  "draw_battery x y s =
     [DRect TEXT (x, y, 20, 10), DRect TEXT (x + 20, y + 3, 2, 4),
      DRect (get_battery_color s) (x + 1, y + 1, sb_battery s * 18 div 100, 8)]"

definition draw_wifi :: "int \<Rightarrow> int \<Rightarrow> status_bar \<Rightarrow> draw_cmd list" where
  "draw_wifi x y s =
     (let col = (if sb_wifi s then ACCENT else RED)
      in [DRect col (x, y + 6, 3, 4), DRect col (x + 4, y + 3, 3, 7), DRect col (x + 8, y, 3, 10)])"

definition draw_bt :: "int \<Rightarrow> int \<Rightarrow> status_bar \<Rightarrow> draw_cmd list" where
  "draw_bt x y s = [DText ''B'' (if sb_bt s then ACCENT else RED) (x, y)]"

definition sb_draw :: "string \<Rightarrow> status_bar \<Rightarrow> draw_cmd list" where
  "sb_draw now s =
     [DRect (RGB 20 30 50) (0, 0, 240, 28), DLine ACCENT (0, 27) (240, 27), DText ''Julius OS'' ACCENT (8, 8), DText now TEXT (92, 8)]
     @ draw_wifi 168 9 s @ draw_bt 184 8 s @ draw_battery 196 9 s
     @ [DText (py_str_int (sb_battery s) @ ''%'') (get_battery_color s) (220, 8)]"

subsection \<open>Lemmas\<close>

text \<open>The scroll position of the system information stays within its rows.\<close>

definition si_ok :: "sys_info \<Rightarrow> bool" where
  "si_ok s \<longleftrightarrow> 0 \<le> si_scroll s \<and> si_scroll s \<le> max 0 (int (length (si_lines s)) - 13)"

interpretation sysinfo_app: event_app "\<lambda>s (src, e). Inr (si_handle_input src s e)" si_ok
  by unfold_locales (auto simp: si_ok_def si_handle_input_def split: event.split)

lemma bar_fill_bounds: "0 \<le> reading_tenths r \<Longrightarrow> reading_tenths r \<le> 1000 \<Longrightarrow> 0 \<le> w \<Longrightarrow> 0 \<le> bar_fill w r \<and> bar_fill w r \<le> w"
proof -
  assume r: "0 \<le> reading_tenths r" "reading_tenths r \<le> 1000" and w: "0 \<le> w"
  have "w * reading_tenths r \<le> w * 1000" using r(2) w by (rule mult_left_mono)
  then have "w * reading_tenths r div 1000 \<le> w" using zdiv_mono1 [of "w * reading_tenths r" "w * 1000" 1000] by simp
  moreover have "0 \<le> w * reading_tenths r" using r w by simp
  ultimately show ?thesis by (simp add: bar_fill_def pos_imp_zdiv_nonneg_iff)
qed

lemma file_lines_concat:
  "\<forall>w\<in>set ws. newline_char \<notin> set w \<and> cr_char \<notin> set w \<Longrightarrow>
     file_lines (concat (map (\<lambda>w. w @ [newline_char]) ws)) = map (\<lambda>w. w @ [newline_char]) ws"
proof -
  assume ws: "\<forall>w\<in>set ws. newline_char \<notin> set w \<and> cr_char \<notin> set w"
  have "py_lines_acc [] (concat (map (\<lambda>w. w @ [newline_char]) ws)) = map (\<lambda>w. w @ [newline_char]) ws"
    using ws by (induction ws) (simp_all add: py_lines_acc_line)
  moreover have "cr_char \<notin> set (concat (map (\<lambda>w. w @ [newline_char]) ws))" using ws by auto
  ultimately show ?thesis by (simp add: file_lines_def universal_newlines_id)
qed

text \<open>\<^verbatim>\<open>/proc/meminfo\<close> as the kernel writes it.\<close>

definition mem_line :: "string \<times> nat \<Rightarrow> string" where
  "mem_line kv = py_join (CHR '' '') [fst kv @ '':'', py_digits (snd kv), ''kB'']"

definition meminfo_of :: "(string \<times> nat) list \<Rightarrow> string" where
  "meminfo_of kvs = concat (map (\<lambda>w. w @ [newline_char]) (map mem_line kvs))"

definition mem_key :: "string \<Rightarrow> bool" where
  "mem_key k \<longleftrightarrow> is_word k \<and> last k \<noteq> CHR '':''"

lemma rstrip_colon_key: "mem_key k \<Longrightarrow> rstrip_colon (k @ '':'') = k"
  by (cases k rule: rev_cases) (auto simp: rstrip_colon_def mem_key_def is_word_def)

lemma mem_line_words: "mem_key (fst kv) \<Longrightarrow> py_words (mem_line kv @ [newline_char]) = [fst kv @ '':'', py_digits (snd kv), ''kB'']"
proof -
  assume "mem_key (fst kv)"
  then have "\<forall>w\<in>set [fst kv @ '':'', py_digits (snd kv), ''kB'']. is_word w"
    using is_word_digits by (auto simp: mem_key_def is_word_def py_isspace_char_def Let_def)
  then show ?thesis unfolding py_words_newline mem_line_def by (rule py_words_join)
qed

lemma mem_fields_lines:
  "\<forall>kv\<in>set kvs. mem_key (fst kv) \<Longrightarrow>
     mem_fields info (map (\<lambda>w. w @ [newline_char]) (map mem_line kvs)) = Some (foldl (\<lambda>m kv. m(fst kv \<mapsto> int (snd kv))) info kvs)"
  by (induction kvs arbitrary: info) (simp_all add: mem_line_words rstrip_colon_key py_int_digits)

lemma foldl_upd_map_of:
  "distinct (map fst kvs) \<Longrightarrow> foldl (\<lambda>m kv. m(fst kv \<mapsto> int (snd kv))) info kvs k
     = (case map_of kvs k of Some v \<Rightarrow> Some (int v) | None \<Rightarrow> info k)"
proof (induction kvs arbitrary: info)
  case (Cons kv kvs)
  then show ?case by (cases kv) (auto split: option.split simp: map_of_eq_None_iff dest!: map_of_SomeD, force)
qed simp

lemma mem_line_no_newline: "mem_key (fst kv) \<Longrightarrow> newline_char \<notin> set (mem_line kv) \<and> cr_char \<notin> set (mem_line kv)"
proof -
  assume "mem_key (fst kv)"
  then have "\<forall>w\<in>{fst kv, py_digits (snd kv)}. \<forall>c\<in>set w. \<not> py_isspace_char c"
    using is_word_digits by (auto simp: mem_key_def is_word_def)
  moreover have "py_isspace_char newline_char" "py_isspace_char cr_char" by (simp_all add: py_isspace_char_def)
  ultimately show ?thesis by (auto simp: mem_line_def)
qed

subsection \<open>Properties\<close>

text \<open>
  From the kernel's table the monitor computes the memory in use to the nearest tenth of a
  per cent and the nearest megabyte, and its bar stays inside its frame.
\<close>

theorem sysmon_memory:
  assumes "\<forall>kv\<in>set kvs. mem_key (fst kv)" "distinct (map fst kvs)"
    and "map_of kvs ''MemTotal'' = Some tot" "map_of kvs ''MemAvailable'' = Some avail" "avail \<le> tot" "0 < tot"
  shows "\<exists>p u. get_mem (Some (meminfo_of kvs)) = \<lparr>mi_total = round_div (int tot) 1024, mi_used = u, mi_percent = RTenths p\<rparr>
      \<and> \<bar>2 * (u * 1024 - int (tot - avail))\<bar> \<le> 1024 \<and> \<bar>2 * (p * int tot - 1000 * int (tot - avail))\<bar> \<le> int tot
      \<and> 0 \<le> bar_fill 224 (RTenths p) \<and> bar_fill 224 (RTenths p) \<le> 224"
proof -
  define used where "used = int (tot - avail)"
  have used: "int tot - int avail = used" "0 \<le> used" "used \<le> int tot" using assms(5) by (simp_all add: used_def)
  have "file_lines (meminfo_of kvs) = map (\<lambda>w. w @ [newline_char]) (map mem_line kvs)"
    unfolding meminfo_of_def using assms(1) mem_line_no_newline by (intro file_lines_concat) auto
  then have "mem_fields Map.empty (file_lines (meminfo_of kvs)) = Some (foldl (\<lambda>m kv. m(fst kv \<mapsto> int (snd kv))) Map.empty kvs)"
    using mem_fields_lines [OF assms(1)] by simp
  then have m: "get_mem (Some (meminfo_of kvs)) = \<lparr>mi_total = round_div (int tot) 1024, mi_used = round_div used 1024,
      mi_percent = RTenths (round_div (1000 * used) (int tot))\<rparr>"
    using assms(3,4,6) foldl_upd_map_of [OF assms(2), of Map.empty] used(1) by (simp add: get_mem_def Let_def)
  have "0 \<le> round_div (1000 * used) (int tot)" "round_div (1000 * used) (int tot) \<le> 1000"
    using assms(6) used(2,3) round_div_mono_zero [of "int tot" "1000 * used"] round_div_le [of "int tot" "1000 * used" 1000] by simp_all
  then have "0 \<le> bar_fill 224 (RTenths (round_div (1000 * used) (int tot))) \<and> bar_fill 224 (RTenths (round_div (1000 * used) (int tot))) \<le> 224"
    by (intro bar_fill_bounds) (simp_all add: reading_tenths_def)
  with m round_div_near [of 1024 used] round_div_near [of "int tot" "1000 * used"] assms(6) show ?thesis unfolding used_def [symmetric] by auto
qed

theorem sysmon_memory_witness:
  "\<exists>p u. get_mem (Some (meminfo_of [(''MemTotal'', 4096), (''MemFree'', 7), (''MemAvailable'', 1024)]))
        = \<lparr>mi_total = round_div (int 4096) 1024, mi_used = u, mi_percent = RTenths p\<rparr>
      \<and> \<bar>2 * (u * 1024 - int (4096 - 1024))\<bar> \<le> 1024 \<and> \<bar>2 * (p * int 4096 - 1000 * int (4096 - 1024))\<bar> \<le> int 4096
      \<and> 0 \<le> bar_fill 224 (RTenths p) \<and> bar_fill 224 (RTenths p) \<le> 224"
  by (rule sysmon_memory) (auto simp: mem_key_def is_word_def py_isspace_char_def)

end
