(* ===== verification/Spec2Isabelle.thy ===== *)
theory Spec2Isabelle
  imports Ui_Apps Ui_Crash Home_Screen App_Suite Julius_Status Lock_Animation Haptic
    Backend Ui_Screens Panel_Screens AI_Screen Boot_Screens Ui_Boot Launcher_Screens
    Cloud_Sync Clipboard File_Transfer
    Encoder Wake_On_Lan Timer Firewall Log_Viewer Process_Killer File_Manager Terminal Wireless_Apps
    Net_Tools Device_Connect Settings_App SSH_Client Port_Scanner Hasher Calculator
    Net_Mapper Net_Monitor Packet_Analyzer Speed_Test Usb_Tools Weather System_Apps
begin

text \<open>
  \<^bold>\<open>Julius OS\<close>, the user space of a hand-held device in Python with pygame: a main interface, system
  panels, a bridge to C services, two older launchers and about forty applications. This library
  models that Python code and proves what its parts do, and where they do not do what they mean to.

  \<^bold>\<open>The program and its parts.\<close> \<^verbatim>\<open>src/src/julius_ui.py\<close> holds the state of the main interface and its
  event loop: a lock screen, a home screen of icons, a settings screen, the application shown, and
  overlays (control centre, notifications, spotlight, assistant, Drop, Cloud, switcher, folders)
  that take the touches while they are open. Each overlay is a class of \<^verbatim>\<open>src/src/system\<close>; some of
  them start threads that speak to the network or, through \<^verbatim>\<open>julius_bridge.py\<close>, to the services.
  Applications are classes of \<^verbatim>\<open>src/src/apps\<close> with the two methods \<open>draw\<close> and \<open>handle_input\<close>, which
  the interface and the launchers (\<^verbatim>\<open>src/src/run.py\<close>, \<^verbatim>\<open>src/src/launcher/launcher.py\<close>) call by name.

  \<^bold>\<open>How it is modelled.\<close> A class is a record of its attributes and every method a function of the
  same or a prefixed name. An exception is a value of \<open>py_error\<close> (result type \<open>'a res\<close>), so that each
  raise, each \<open>except\<close> and each unguarded index is a branch. A handler is a function from state and
  event to state; a run is \<open>run_events\<close>. What a method draws is a list of drawing calls, in the
  applications of texts and shapes (\<open>draw_cmd\<close>), in the interface, the panels and the launchers with
  places, sizes, widths and colours (\<open>gfx\<close>). Threads are steps: either a function for the next part of thread \<open>i\<close> kept in the state
  (port scanner, packet analyzer, network monitor, speed test, weather, mapper) or an \<open>inductive\<close>
  relation (the network map, the assistant). What comes from outside Python's language and library
  is an argument: the output of programs, the bytes of sockets, files and clocks, the sizes of
  rendered texts, the messages of exceptions, hash functions, the sine and, in the calculator,
  floating-point arithmetic.

  \<^bold>\<open>Libraries.\<close>
  \<^item> \<open>Julius_Prelude\<close>: exceptions, Python's lists, strings and slices, events, drawing calls, the list
    cursor, and the two contracts of an application as locales: \<open>stepping_app\<close> (steps keep an
    invariant; a run that raises does so in one step from a good state) and \<open>event_app\<close> (no step
    raises), the second a sublocale of the first. Every application is an interpretation of one.
  \<^item> \<open>Py_Numbers\<close>: \<open>int\<close>, \<open>float\<close> of decimals, rounding to even. \<open>Codecs\<close>: UTF-8, hexadecimal,
    Base64 and percent encoding with their round trips. \<open>Json\<close>: \<open>json.dumps\<close> and \<open>json.loads\<close>.
    \<open>Sockets\<close>: the reading loops over a segmented stream. \<open>Json_Lines\<close>: JSON lines over such a stream.
    \<open>Posix_Path\<close>: \<open>os.path\<close>. \<open>Graphics\<close>: pygame's drawing calls, which of them are valid (\<open>gfx_ok\<close>:
    pygame raises on a colour component outside 0 to 255) and which stay inside a rectangle.

  \<^bold>\<open>The main interface.\<close> \<open>Ui_Config\<close> (settings store and screen), \<open>Control_Center\<close>,
  \<open>Notification_Center\<close>, \<open>Spotlight\<close>, \<open>App_Switcher\<close>, \<open>Folders\<close>, \<open>Haptic\<close>, \<open>Lock_Animation\<close>,
  \<open>Julius_AI\<close>, \<open>Julius_Drop\<close>, \<open>Julius_Cloud\<close> with \<open>Cloud_Sync\<close>, and \<open>Julius_UI\<close>, which composes them into one
  step per event (\<open>ui_step\<close>), a frame (\<open>ui_frame\<close>) and the loop (\<open>ui_loop\<close>). \<open>Ui_Invariant\<close> proves the
  invariant of every run; \<open>Ui_Safety\<close> what locking, unlocking, escape and spotlight guarantee or fail
  to; \<open>Ui_Crash\<close> which exceptions can end the loop, the beacon of a stranger among them;
  \<open>Home_Screen\<close> which icons can be touched; \<open>Ui_Apps\<close> what follows for the applications from the
  events handed to them.

  \<^bold>\<open>The screens.\<close> \<open>Icons\<close> has \<open>draw_icon\<close>, one definition per application, each proved to draw valid
  calls inside its tile. \<open>Ui_Screens\<close> has the status bar and the lock, home, application and settings
  screens: what is drawn on the home screen is what a touch opens, except under the dock; the
  settings screen raises exactly when the state model says so; a device locked again says that it
  is unlocked. \<open>Panel_Screens\<close> does the same for the control centre, the notifications, spotlight, Drop
  and Cloud, \<open>AI_Screen\<close> for the assistant with the wrapping of its messages, \<open>Launcher_Screens\<close> for
  the launchers. \<open>Boot_Screens\<close> has both boot animations frame by frame and \<open>Ui_Boot\<close> the start of the
  interface after the first.

  \<^bold>\<open>System services.\<close> \<open>Julius_Bridge\<close> (the IPC message format and the listener, byte by byte, the
  state files, requests and answers of the services), \<open>Julius_Status\<close> (the values of the status bar,
  JSON values where the source stores what a message holds) and \<open>Backend\<close>, which puts them together:
  the listener thread with reconnection and the end it meets when the service closes, the
  subscriptions, the module instances, and a message followed from the service to the status. A
  frame of the interface takes what \<open>get_wifi_bars\<close> gives or raises as an argument; \<open>Ui_Screens\<close> computes
  it from the status and shows the message that stops the interface.

  \<^bold>\<open>Transfers.\<close> \<open>Julius_Drop\<close>: a file sent is received byte for byte for every segmentation, the
  sender chooses path and size, and a stream without a line end stops the receiver. \<open>Cloud_Sync\<close>: the
  whole synchronisation against a server that keeps the protocol, and what one that does not can
  do. \<open>Clipboard\<close> and \<open>File_Transfer\<close>: relaying a text, and a protocol without framing.

  \<^bold>\<open>Launchers.\<close> \<open>Launchers\<close> models \<^verbatim>\<open>run.py\<close> and \<^verbatim>\<open>launcher.py\<close>; \<open>App_Suite\<close> puts applications behind
  them.

  \<^bold>\<open>Applications.\<close> \<open>Notes\<close>, \<open>Todo\<close>, \<open>Passwords\<close>, \<open>Text_Editor\<close>, \<open>Encoder\<close>, \<open>Hasher\<close>, \<open>Timer\<close>,
  \<open>Calculator\<close>, \<open>Settings_App\<close>, \<open>File_Manager\<close> (over a tree of files), \<open>Terminal\<close>, \<open>Log_Viewer\<close>,
  \<open>Process_Killer\<close>, \<open>Firewall\<close>, \<open>Wake_On_Lan\<close>, \<open>Wireless_Apps\<close> (WiFi, Bluetooth, hotspot), \<open>Net_Tools\<close>,
  \<open>Device_Connect\<close>, \<open>SSH_Client\<close>, \<open>Port_Scanner\<close>, \<open>Net_Mapper\<close>, \<open>Net_Monitor\<close>, \<open>Packet_Analyzer\<close>,
  \<open>Speed_Test\<close>, \<open>Usb_Tools\<close>, \<open>Weather\<close>, \<open>System_Apps\<close> (system monitor, system information, status bar),
  \<open>Pin_Panels\<close> (infrared, pins), \<open>FM_Radio\<close>, and \<open>Network_Map\<close> with \<open>Network_Scan\<close>. Each has its state,
  all its operations, its screens and every branch of its input, the invariant its handler keeps,
  and theorems on what the operations achieve (files deleted and copied exactly, texts converted
  and back, times measured, hosts and ports listed) or on how they fail.

  \<^bold>\<open>Bounds and termination.\<close> Recursion is structural or has a measure. The JSON parser takes fuel,
  one more than the length of the text, which is enough since every call hands on a shorter text;
  the round trip is proved with it. The header loop of the transfers may run for ever and is a
  \<open>partial_function\<close> whose value \<open>None\<close> is exactly that; the theorems say when it ends. The threads of
  the network map end within 1525 steps, those of the mapper and the port scanner within one step
  per address or port.

  \<^bold>\<open>Simplifications.\<close> Typed texts are strings of Latin-1 characters (received ones may have any code
  points in the clipboard and the file transfer); JSON texts have no floating-point numbers. Times
  and percentages are exact rational numbers or decimals, except in the radio, whose frequencies are
  the doubles of the source as exact dyadic numbers. A thread step is atomic. A connection delivers
  its segments and is then closed by the peer; sending and writing succeed unless an argument says
  otherwise. In the applications colours are symbolic where only their identity matters. The sizes
  of rendered texts, the sine and the cosine, the positions of turning dots and the random sparks
  are arguments, with bounds where a theorem needs them; signs outside Latin-1 in fixed labels are
  written in ASCII.

  \<^bold>\<open>Not modelled.\<close> The C services, drivers, kernel and build files, which are not Python. The
  colours of the screens of the applications, which no state depends on.
\<close>

end
